(* ===== verification/Quipu_Prelude.thy ===== *)
theory Quipu_Prelude
  imports Complex_Main "HOL-Library.Char_ord" "HOL-Library.List_Lexorder"
begin

text \<open>
  Shared ground of the development: the theorem collections, Python's exceptions as values of a
  sum type with the sequencing operators the component models use, Python strings, and the list
  operations of the standard library that the components call.

  A Python string is an Isabelle \<open>string\<close> read as a list of code points, one character per code
  point. A character of HOL holds the code points from 0 to 255 (Latin-1, which covers the Spanish
  text of the program); the string methods below are Python's on that range.
\<close>

named_theorems parser_ok \<comment> \<open>parsers keep the parser invariant\<close>
named_theorems bind_simps \<comment> \<open>inversion of sequenced computations\<close>
named_theorems schema_simps \<comment> \<open>unfolding of schema well-formedness\<close>

section \<open>Sequencing of computations that may raise\<close>

fun ebind :: "'err + 'a \<Rightarrow> ('a \<Rightarrow> 'err + 'b) \<Rightarrow> 'err + 'b" where
  "ebind (Inl problem) f = Inl problem"
| "ebind (Inr v) f = f v"

definition ensure :: "bool \<Rightarrow> 'e \<Rightarrow> 'e + unit" where
  "ensure ok e = (if ok then Inr () else Inl e)"

text \<open>Left to right over a list, stopping at the first exception.\<close>

fun emap :: "('a \<Rightarrow> 'e + 'b) \<Rightarrow> 'a list \<Rightarrow> 'e + 'b list" where
  "emap f [] = Inr []"
| "emap f (x # xs) = ebind (f x) (\<lambda>y. ebind (emap f xs) (\<lambda>ys. Inr (y # ys)))"

lemma ebind_Inr_iff [bind_simps]:
  "ebind m f = Inr y \<longleftrightarrow> (\<exists>x. m = Inr x \<and> f x = Inr y)"
  by (cases m) auto

lemma ebind_Inl_iff [bind_simps]:
  "ebind m f = Inl e \<longleftrightarrow> m = Inl e \<or> (\<exists>x. m = Inr x \<and> f x = Inl e)"
  by (cases m) auto

lemma ensure_Inr_iff [bind_simps]: "ensure ok e = Inr u \<longleftrightarrow> ok"
  by (simp add: ensure_def)

lemma ensure_Inl_iff [bind_simps]: "ensure ok e = Inl e' \<longleftrightarrow> \<not> ok \<and> e' = e"
  by (auto simp: ensure_def)

lemma ensure_True [simp]: "ensure True e = Inr ()"
  by (simp add: ensure_def)

lemma ensure_False [simp]: "ensure False e = Inl e"
  by (simp add: ensure_def)

lemma ebind_cong [fundef_cong]:
  "m = m' \<Longrightarrow> (\<And>x. m' = Inr x \<Longrightarrow> f x = g x) \<Longrightarrow> ebind m f = ebind m' g"
  by (cases m') auto

lemma emap_Inr_iff: "emap f xs = Inr ys \<longleftrightarrow> list_all2 (\<lambda>x y. f x = Inr y) xs ys"
proof (induction xs arbitrary: ys)
  case Nil
  then show ?case by auto
next
  case (Cons x xs)
  then show ?case by (cases ys) (auto simp: bind_simps)
qed

lemma emap_length: "emap f xs = Inr ys \<Longrightarrow> length ys = length xs"
  by (auto simp: emap_Inr_iff dest: list_all2_lengthD)

lemma emap_InlD: "emap f xs = Inl e \<Longrightarrow> \<exists>x \<in> set xs. f x = Inl e"
  by (induction xs) (auto simp: bind_simps)

lemma emap_cong [fundef_cong]:
  "xs = ys \<Longrightarrow> (\<And>x. x \<in> set ys \<Longrightarrow> f x = g x) \<Longrightarrow> emap f xs = emap g ys"
proof (induction ys arbitrary: xs)
  case (Cons y ys)
  then show ?case by (auto intro!: ebind_cong)
qed simp

lemma emap_map: "(\<And>x. x \<in> set xs \<Longrightarrow> f (g x) = Inr (h x)) \<Longrightarrow> emap f (map g xs) = Inr (map h xs)"
  by (induction xs) auto

section \<open>Python strings\<close>

definition char_between :: "char \<Rightarrow> char \<Rightarrow> char \<Rightarrow> bool" where
  "char_between lo hi c \<longleftrightarrow> lo \<le> c \<and> c \<le> hi"

text \<open>\<open>str.isascii\<close>, \<open>str.isdigit\<close> together with \<open>isascii\<close>, \<open>str.isalpha\<close> of one character.\<close>

definition is_ascii :: "char \<Rightarrow> bool" where
  "is_ascii c \<longleftrightarrow> c \<le> CHR 0x7F"

definition is_digit :: "char \<Rightarrow> bool" where
  "is_digit c \<longleftrightarrow> char_between CHR ''0'' CHR ''9'' c"

definition is_alpha :: "char \<Rightarrow> bool" where
  "is_alpha c \<longleftrightarrow>
     char_between CHR ''a'' CHR ''z'' c \<or> char_between CHR ''A'' CHR ''Z'' c
     \<or> c = CHR 0xAA \<or> c = CHR 0xB5 \<or> c = CHR 0xBA
     \<or> (CHR 0xC0 \<le> c \<and> c \<noteq> CHR 0xD7 \<and> c \<noteq> CHR 0xF7)"

definition all_ascii :: "string \<Rightarrow> bool" where
  "all_ascii s \<longleftrightarrow> list_all is_ascii s"

definition all_alpha :: "string \<Rightarrow> bool" where
  "all_alpha s \<longleftrightarrow> s \<noteq> [] \<and> list_all is_alpha s"

text \<open>
  Case differs in bit 5 of the code. \<open>upper\<close> is only applied to ASCII text by the program;
  \<open>lower\<close> also to other words, where the Latin-1 capitals are changed too.
\<close>

fun set_bit5 :: "bool \<Rightarrow> char \<Rightarrow> char" where
  "set_bit5 b (Char b0 b1 b2 b3 b4 b5 b6 b7) = Char b0 b1 b2 b3 b4 b b6 b7"

definition upper_char :: "char \<Rightarrow> char" where
  "upper_char c = (if char_between CHR ''a'' CHR ''z'' c then set_bit5 False c else c)"

definition lower_char :: "char \<Rightarrow> char" where
  "lower_char c =
     (if char_between CHR ''A'' CHR ''Z'' c
         \<or> (char_between CHR 0xC0 CHR 0xDE c \<and> c \<noteq> CHR 0xD7)
      then set_bit5 True c else c)"

definition upper :: "string \<Rightarrow> string" where
  "upper s = map upper_char s"

definition lower :: "string \<Rightarrow> string" where
  "lower s = map lower_char s"

text \<open>Length of \<open>s.encode('utf-8')\<close>: one byte per ASCII code point, two for the rest.\<close>

definition utf8_length :: "string \<Rightarrow> nat" where
  "utf8_length s = sum_list (map (\<lambda>c. if is_ascii c then 1 else 2) s)"

definition slice :: "'a list \<Rightarrow> nat \<Rightarrow> nat \<Rightarrow> 'a list" where
  "slice xs i j = drop i (take j xs)"

text \<open>Decimal numerals: \<open>str(n)\<close> of an integer and \<open>int(text)\<close> of a numeral.\<close>

definition digit_value :: "char \<Rightarrow> int" where
  "digit_value c = of_char c - 48"

definition digits_value :: "string \<Rightarrow> int" where
  "digits_value ds = foldl (\<lambda>n c. 10 * n + digit_value c) 0 ds"

definition digit_char :: "nat \<Rightarrow> char" where
  "digit_char d = ''0123456789'' ! d"

fun show_nat :: "nat \<Rightarrow> string" where
  "show_nat n = (if n < 10 then [digit_char n] else show_nat (n div 10) @ [digit_char (n mod 10)])"

declare show_nat.simps [simp del]

definition show_int :: "int \<Rightarrow> string" where
  "show_int n = (if n < 0 then CHR ''-'' # show_nat (nat (- n)) else show_nat (nat n))"

text \<open>
  \<open>repr(text)\<close>: the quotes (double ones when the text has a single quote and no double quote),
  backslash escapes, and hexadecimal escapes of the characters that are not printable.
\<close>

definition hex_char :: "nat \<Rightarrow> char" where
  "hex_char d = ''0123456789abcdef'' ! d"

definition repr_char :: "char \<Rightarrow> char \<Rightarrow> string" where
  "repr_char q c =
     (if c = q \<or> c = CHR 0x5C then [CHR 0x5C, c]
      else if c = CHR 0x09 then [CHR 0x5C, CHR ''t'']
      else if c = CHR 0x0A then [CHR 0x5C, CHR ''n'']
      else if c = CHR 0x0D then [CHR 0x5C, CHR ''r'']
      else if c < CHR 0x20 \<or> char_between CHR 0x7F CHR 0xA0 c \<or> c = CHR 0xAD
      then [CHR 0x5C, CHR ''x'', hex_char (of_char c div 16), hex_char (of_char c mod 16)]
      else [c])"

definition repr_str :: "string \<Rightarrow> string" where
  "repr_str s =
     (let q = (if CHR 0x27 \<in> set s \<and> CHR 0x22 \<notin> set s then CHR 0x22 else CHR 0x27)
      in [q] @ concat (map (repr_char q) s) @ [q])"

fun join_str :: "string \<Rightarrow> string list \<Rightarrow> string" where
  "join_str sep [] = []"
| "join_str sep [s] = s"
| "join_str sep (s # t # ss) = s @ sep @ join_str sep (t # ss)"

lemma utf8_length_Nil [simp]: "utf8_length [] = 0"
  by (simp add: utf8_length_def)

lemma length_le_utf8_length: "length s \<le> utf8_length s"
  by (induction s) (auto simp: utf8_length_def)

lemma utf8_length_ascii: "all_ascii s \<Longrightarrow> utf8_length s = length s"
  by (induction s) (auto simp: utf8_length_def all_ascii_def)

section \<open>Lists\<close>

lemma length_slice [simp]: "j \<le> length xs \<Longrightarrow> length (slice xs i j) = j - i"
  by (simp add: slice_def)

lemma slice_same [simp]: "slice xs i i = []"
  by (simp add: slice_def)

lemma slice_append:
  assumes "i \<le> j" "j \<le> k"
  shows "slice xs i j @ slice xs j k = slice xs i k"
proof -
  have "slice xs i k = drop i (take j xs @ drop j (take k xs))"
  proof -
    have "take k xs = take j (take k xs) @ drop j (take k xs)"
      by (metis append_take_drop_id)
    moreover have "take j (take k xs) = take j xs"
      using assms by (simp add: min_def)
    ultimately show ?thesis by (simp add: slice_def)
  qed
  then show ?thesis
    using assms by (auto simp: slice_def drop_append min_def not_le)
qed

lemma slice_full: "slice xs 0 (length xs) = xs"
  by (simp add: slice_def)

lemma slice_Suc: "i < j \<Longrightarrow> j \<le> length xs \<Longrightarrow> slice xs i j = xs ! i # slice xs (Suc i) j"
  by (simp add: slice_def Cons_nth_drop_Suc [symmetric])

lemma drop_ConsD:
  assumes "drop i xs = c # r"
  shows "i < length xs" "xs ! i = c" "drop (Suc i) xs = r"
proof -
  show "i < length xs" using assms by (metis drop_all list.distinct(1) not_less)
  then show "xs ! i = c" "drop (Suc i) xs = r"
    using assms by (simp_all add: Cons_nth_drop_Suc [symmetric])
qed

text \<open>\<open>min(candidates, key=...)\<close>: the first of the least elements.\<close>

fun min_key :: "('a \<Rightarrow> 'k::linorder) \<Rightarrow> 'a list \<Rightarrow> 'a option" where
  "min_key key [] = None"
| "min_key key (x # xs) =
     (case min_key key xs of None \<Rightarrow> Some x | Some y \<Rightarrow> if key x \<le> key y then Some x else Some y)"

lemma min_key_None_iff [simp]: "min_key key xs = None \<longleftrightarrow> xs = []"
  by (cases xs) (auto split: option.splits)

lemma min_key_Some:
  "min_key key xs = Some m \<Longrightarrow> m \<in> set xs \<and> (\<forall>x \<in> set xs. key m \<le> key x)"
proof (induction xs arbitrary: m)
  case (Cons x xs)
  then show ?case by (fastforce split: option.splits if_splits)
qed simp

lemma min_key_unique:
  assumes "min_key key xs = Some m" "x \<in> set xs" "inj_on key (set xs)"
    "\<forall>y \<in> set xs. key x \<le> key y"
  shows "x = m"
  using assms min_key_Some [OF assms(1)] by (auto dest: inj_onD intro: order.antisym)

text \<open>\<open>next((x for x in xs if p(x)), None)\<close> is the library's \<open>find\<close>.\<close>

lemma find_SomeD: "List.find p xs = Some x \<Longrightarrow> x \<in> set xs \<and> p x"
  by (auto simp: find_Some_iff in_set_conv_nth)

lemma find_NoneD: "List.find p xs = None \<Longrightarrow> x \<in> set xs \<Longrightarrow> \<not> p x"
  by (auto simp: find_None_iff)

end
