(* ===== verification/Sql_Span.thy ===== *)
theory Sql_Span
  imports Quipu_Prelude
begin

text \<open>
  Positions in the SQL text (\<open>engine/parser/span.py\<close>), the located errors
  (\<open>engine/parser/errors.py\<close>) and the exceptions of the whole development. The specification of
  positions is independent of the lexer: the line and column of an offset are read off the lines
  of the text before it (\<open>position\<close>), and a span is \<open>located\<close> in a text when its offsets are
  inside the text and its lines and columns are the positions of its offsets.
\<close>

section \<open>Spans\<close>

record span =
  sp_start :: int
  sp_end :: int
  sp_line :: int
  sp_column :: int
  sp_end_line :: int
  sp_end_column :: int

datatype sql_error_class = SQLLexError | SQLParseError | SQLSemanticError | SQLUnsupportedError

text \<open>
  Exceptions. \<open>SQLError\<close> carries the subclass, the message, the span and the source text;
  \<open>OutOfFuel\<close> is not an exception of the program but the value of a loop that runs out of the fuel
  the model gives it. \<open>NativeError\<close> is an exception of the core (\<open>core/include/quipudb/error.hpp\<close>),
  with its class.
\<close>

datatype native_error = NE_SCHEMA | NE_INVALID_RECORD | NE_DUPLICATE_KEY | NE_IO | NE_UNSUPPORTED

datatype exn =
    SQLError (err_class: sql_error_class) (err_message: string) (err_span: span)
      (err_source: "string option")
  | ValueError string
  | TypeError string
  | KeyError string
  | AttributeError string
  | IndexError
  | OverflowError
  | ZeroDivisionError
  | AssertionError string
  | RuntimeError string
  | TransactionError string
  | LockTimeoutError string
  | NativeError native_error string
  | CsvLoadError string "int option"
  | MediaLoadError string
  | CsvError string
  | UnicodeDecodeError string
  | OSError string
  | ImportError string
  | DomainError string
  | OutOfFuel

text \<open>Indexing of a Python tuple, negative positions counted from the end.\<close>

definition py_index :: "'a list \<Rightarrow> int \<Rightarrow> exn + 'a" where
  "py_index xs i =
     (let position = (if i < 0 then int (length xs) + i else i)
      in if position < 0 \<or> int (length xs) \<le> position then Inl IndexError
         else Inr (xs ! nat position))"

text \<open>The constructor call \<open>Span(start, end, line, column, end_line, end_column)\<close>.\<close>

definition make_span :: "int \<Rightarrow> int \<Rightarrow> int \<Rightarrow> int \<Rightarrow> int \<Rightarrow> int \<Rightarrow> exn + span" where
  "make_span st en lin co elin eco =
     (if st < 0 then Inl (ValueError ''start no puede ser negativo'')
      else if en < st then Inl (ValueError ''end no puede ser menor que start'')
      else if lin < 1 \<or> co < 1
        then Inl (ValueError ''la linea y la columna iniciales deben empezar en 1'')
      else if elin < 1 \<or> eco < 1
        then Inl (ValueError ''la linea y la columna finales deben empezar en 1'')
      else if elin < lin then Inl (ValueError ''end_line no puede ser anterior a line'')
      else if elin = lin \<and> eco < co
        then Inl (ValueError ''end_column no puede ser anterior a column en la misma linea'')
      else Inr \<lparr>sp_start = st, sp_end = en, sp_line = lin, sp_column = co,
                sp_end_line = elin, sp_end_column = eco\<rparr>)"

text \<open>\<open>combine_spans(*spans)\<close>; \<open>max\<close> with a key is \<open>min_key\<close> with the negated key.\<close>

definition combine_spans :: "span list \<Rightarrow> exn + span" where
  "combine_spans spans =
     (case (min_key sp_start spans, min_key (\<lambda>s. - sp_end s) spans) of
        (Some lo, Some hi) \<Rightarrow>
          make_span (sp_start lo) (sp_end hi) (sp_line lo) (sp_column lo)
            (sp_end_line hi) (sp_end_column hi)
      | _ \<Rightarrow> Inl (ValueError ''se necesita al menos un span''))"

definition through :: "span \<Rightarrow> span \<Rightarrow> exn + span" where
  "through a b = combine_spans [a, b]"

section \<open>Located errors\<close>

text \<open>\<open>re.compile(r'\r\n|\r|\n').split(text)\<close>.\<close>

fun split_lines :: "string \<Rightarrow> string list" where
  "split_lines [] = [[]]"
| "split_lines (c # cs) =
     (if c = CHR 0x0D \<and> cs \<noteq> [] \<and> hd cs = CHR 0x0A then [] # split_lines (tl cs)
      else if c = CHR 0x0D \<or> c = CHR 0x0A then [] # split_lines cs
      else (let rest = split_lines cs in (c # hd rest) # tl rest))"

definition err_line :: "exn \<Rightarrow> int" where
  "err_line e = sp_line (err_span e)"

definition err_column :: "exn \<Rightarrow> int" where
  "err_column e = sp_column (err_span e)"

definition err_offset :: "exn \<Rightarrow> int" where
  "err_offset e = sp_start (err_span e)"

text \<open>\<open>SQLError._source_fragment\<close>: the source line of the error and the marker below it.\<close>

definition source_fragment :: "exn \<Rightarrow> (string \<times> string) option" where
  "source_fragment e =
     (case err_source e of
        None \<Rightarrow> None
      | Some src \<Rightarrow>
          let lines = split_lines src in
          if err_line e > int (length lines) then None
          else let source_line = lines ! nat (err_line e - 1);
                   marker_width = (if sp_end_line (err_span e) = err_line e
                                   then max 1 (sp_end_column (err_span e) - err_column e) else 1);
                   prefix = take (nat (err_column e - 1)) source_line;
                   marker_prefix = map (\<lambda>c. if c = CHR 0x09 then CHR 0x09 else CHR '' '') prefix
               in Some (source_line, marker_prefix @ replicate (nat marker_width) CHR ''^''))"

definition err_text :: "exn \<Rightarrow> string" where
  "err_text e =
     (let location = ''linea '' @ show_int (err_line e) @ '', columna '' @ show_int (err_column e)
                       @ '', offset '' @ show_int (err_offset e);
          summary = err_message e @ '' ('' @ location @ '')''
      in case source_fragment e of
           None \<Rightarrow> summary
         | Some (line, marker) \<Rightarrow> summary @ [CHR 0x0A] @ line @ [CHR 0x0A] @ marker)"

section \<open>Positions of a text\<close>

definition position :: "string \<Rightarrow> nat \<Rightarrow> int \<times> int" where
  "position src i =
     (let ls = split_lines (take i src) in (int (length ls), int (length (last ls)) + 1))"

definition located :: "string \<Rightarrow> span \<Rightarrow> bool" where
  "located src s \<longleftrightarrow>
     0 \<le> sp_start s \<and> sp_start s \<le> sp_end s \<and> sp_end s \<le> int (length src)
     \<and> (sp_line s, sp_column s) = position src (nat (sp_start s))
     \<and> (sp_end_line s, sp_end_column s) = position src (nat (sp_end s))"

lemma split_lines_not_Nil [simp]: "split_lines cs \<noteq> []"
  by (cases cs) (auto simp: Let_def)

lemma split_lines_snoc:
  "split_lines (cs @ [c]) =
     (if c = CHR 0x0D then split_lines cs @ [[]]
      else if c = CHR 0x0A
        then (if cs \<noteq> [] \<and> last cs = CHR 0x0D then split_lines cs else split_lines cs @ [[]])
      else butlast (split_lines cs) @ [last (split_lines cs) @ [c]])"
proof (induction cs rule: split_lines.induct)
  case (2 d ds)
  consider "d = CHR 0x0D" "ds \<noteq> []" "hd ds = CHR 0x0A" | "d = CHR 0x0D" "ds = []"
    | "d = CHR 0x0D" "ds \<noteq> []" "hd ds \<noteq> CHR 0x0A" | "d = CHR 0x0A" 
    | "d \<noteq> CHR 0x0D" "d \<noteq> CHR 0x0A" by blast
  then show ?case
  proof cases
    case 1
    then obtain es where ds: "ds = CHR 0x0A # es" by (cases ds) auto
    have "split_lines (es @ [c]) =
     (if c = CHR 0x0D then split_lines es @ [[]]
      else if c = CHR 0x0A
        then (if es \<noteq> [] \<and> last es = CHR 0x0D then split_lines es else split_lines es @ [[]])
      else butlast (split_lines es) @ [last (split_lines es) @ [c]])"
      using "2.IH"(1) 1 ds by simp
    then show ?thesis using 1 ds by simp
  next
    case 2
    then show ?thesis by simp
  next
    case 3
    then show ?thesis using "2.IH"(2) by simp
  next
    case 4
    then show ?thesis using "2.IH"(2) by simp
  next
    case 5
    obtain l ls where "split_lines ds = l # ls"
      by (meson split_lines_not_Nil list.exhaust)
    then show ?thesis using 5 "2.IH"(3) by (cases "ls = []") (auto simp: Let_def)
  qed
qed simp

lemma position_0 [simp]: "position src 0 = (1, 1)"
  by (simp add: position_def)

lemma position_Suc:
  assumes "i < length src"
  shows "position src (Suc i) =
    (let c = src ! i; (l, k) = position src i in
     if c = CHR 0x0D then (l + 1, 1)
     else if c = CHR 0x0A then (if 0 < i \<and> src ! (i - 1) = CHR 0x0D then (l, k) else (l + 1, 1))
     else (l, k + 1))"
proof -
  have "take (Suc i) src = take i src @ [src ! i]"
    using assms by (simp add: take_Suc_conv_app_nth)
  moreover have "0 < i \<Longrightarrow> last (take i src) = src ! (i - 1)"
    using assms by (subst last_conv_nth) auto
  moreover have "take i src \<noteq> [] \<longleftrightarrow> 0 < i"
    using assms by auto
  ultimately show ?thesis
    by (auto simp: position_def Let_def split_lines_snoc)
qed

text \<open>After the first half of a two-character line break the column is 1 already.\<close>

lemma position_after_CR:
  "0 < i \<Longrightarrow> i \<le> length src \<Longrightarrow> src ! (i - 1) = CHR 0x0D \<Longrightarrow> snd (position src i) = 1"
  using position_Suc [of "i - 1" src] by (auto simp: Let_def split: prod.splits)

definition pos_le :: "int \<times> int \<Rightarrow> int \<times> int \<Rightarrow> bool" where
  "pos_le p q \<longleftrightarrow> fst p < fst q \<or> (fst p = fst q \<and> snd p \<le> snd q)"

lemma pos_le_refl [simp]: "pos_le p p"
  by (simp add: pos_le_def)

lemma pos_le_trans: "pos_le p q \<Longrightarrow> pos_le q r \<Longrightarrow> pos_le p r"
  by (auto simp: pos_le_def)

lemma position_mono: "i \<le> j \<Longrightarrow> j \<le> length src \<Longrightarrow> pos_le (position src i) (position src j)"
proof (induction j)
  case (Suc j)
  have "pos_le (position src j) (position src (Suc j))"
    using Suc.prems by (auto simp: position_Suc pos_le_def Let_def split: prod.splits)
  with Suc show ?case by (auto simp: le_Suc_eq intro: pos_le_trans)
qed simp

lemma position_ge_1: "i \<le> length src \<Longrightarrow> 1 \<le> fst (position src i) \<and> 1 \<le> snd (position src i)"
  by (auto simp: position_def Let_def Suc_le_eq)

lemma make_span_located:
  assumes "i \<le> j" "j \<le> length src" "(l, c) = position src i" "(el, ec) = position src j"
  shows "make_span (int i) (int j) l c el ec =
    Inr \<lparr>sp_start = int i, sp_end = int j, sp_line = l, sp_column = c,
         sp_end_line = el, sp_end_column = ec\<rparr>"
proof -
  have "pos_le (l, c) (el, ec)"
    using position_mono [of i j src] assms(1,2) by (simp flip: assms(3,4))
  moreover have "1 \<le> l" "1 \<le> c"
    using position_ge_1 [of i src] assms(1,2) by (simp_all flip: assms(3))
  moreover have "1 \<le> el" "1 \<le> ec"
    using position_ge_1 [of j src] assms(2) by (simp_all flip: assms(4))
  ultimately show ?thesis
    using assms(1) by (auto simp: make_span_def pos_le_def)
qed

lemma located_intro:
  assumes "make_span (int i) (int j) l c el ec = Inr s" "i \<le> j" "j \<le> length src"
    "(l, c) = position src i" "(el, ec) = position src j"
  shows "located src s"
  using assms make_span_located [OF assms(2-5)] by (auto simp: located_def)

lemma located_make:
  assumes "located src a" "located src b" "sp_start a \<le> sp_end b"
  shows "\<exists>s. make_span (sp_start a) (sp_end b) (sp_line a) (sp_column a)
           (sp_end_line b) (sp_end_column b) = Inr s
         \<and> located src s \<and> sp_start s = sp_start a \<and> sp_end s = sp_end b"
proof -
  have *: "make_span (int (nat (sp_start a))) (int (nat (sp_end b))) (sp_line a) (sp_column a)
      (sp_end_line b) (sp_end_column b) =
    Inr \<lparr>sp_start = int (nat (sp_start a)), sp_end = int (nat (sp_end b)), sp_line = sp_line a,
      sp_column = sp_column a, sp_end_line = sp_end_line b, sp_end_column = sp_end_column b\<rparr>"
    using assms by (intro make_span_located [where src = src]) (auto simp: located_def)
  moreover have "0 \<le> sp_start a" "0 \<le> sp_end b"
    using assms by (auto simp: located_def)
  ultimately show ?thesis
    using assms by (auto simp: located_def)
qed

text \<open>Spans of one text always combine, and the result covers them all.\<close>

lemma combine_spans_located:
  assumes "spans \<noteq> []" "\<forall>s \<in> set spans. located src s"
  shows "\<exists>s. combine_spans spans = Inr s \<and> located src s
     \<and> (\<forall>t \<in> set spans. sp_start s \<le> sp_start t \<and> sp_end t \<le> sp_end s)
     \<and> (\<exists>t \<in> set spans. sp_start s = sp_start t) \<and> (\<exists>t \<in> set spans. sp_end s = sp_end t)"
proof -
  obtain f where f: "min_key sp_start spans = Some f"
    using assms(1) by (metis min_key_None_iff not_None_eq)
  obtain l where l: "min_key (\<lambda>s. - sp_end s) spans = Some l"
    using assms(1) by (metis min_key_None_iff not_None_eq)
  note F = min_key_Some [OF f] and L = min_key_Some [OF l]
  have "located src f" "located src l" using F L assms(2) by auto
  moreover have "sp_start f \<le> sp_end l"
    using F L \<open>located src l\<close> by (force simp: located_def)
  ultimately obtain s where "make_span (sp_start f) (sp_end l) (sp_line f) (sp_column f)
      (sp_end_line l) (sp_end_column l) = Inr s"
    "located src s" "sp_start s = sp_start f" "sp_end s = sp_end l"
    using located_make by blast
  then show ?thesis
    using f l F L by (auto simp: combine_spans_def)
qed


section \<open>The line of an error\<close>

text \<open>What a text has of its last line stays the start of that line when the text goes on.\<close>

definition extends :: "string list \<Rightarrow> string list \<Rightarrow> bool" where
  "extends a b \<longleftrightarrow>
     a \<noteq> [] \<and> length a \<le> length b \<and> (\<exists>r. b ! (length a - 1) = last a @ r)"

lemma extends_refl: "a \<noteq> [] \<Longrightarrow> extends a a"
  by (auto simp: extends_def last_conv_nth)

lemma extends_snoc:
  assumes "extends a b"
  shows "extends a (b @ [l])"
proof -
  have "length a - 1 < length b" using assms by (cases a) (auto simp: extends_def)
  then show ?thesis using assms by (auto simp: extends_def nth_append)
qed

lemma extends_last:
  assumes "extends a b"
  shows "extends a (butlast b @ [last b @ [c]])"
proof (cases "length a = length b")
  case True
  with assms have "b \<noteq> []" by (auto simp: extends_def)
  with assms True show ?thesis by (auto simp: extends_def nth_append last_conv_nth)
next
  case False
  with assms have "length a - 1 < length b - 1" by (cases a) (auto simp: extends_def)
  with assms show ?thesis by (auto simp: extends_def nth_append nth_butlast)
qed

lemma split_lines_extends:
  assumes "i \<le> j" "j \<le> length src"
  shows "extends (split_lines (take i src)) (split_lines (take j src))"
  using assms
proof (induction j)
  case (Suc j)
  have "take (Suc j) src = take j src @ [src ! j]"
    using Suc.prems by (simp add: take_Suc_conv_app_nth)
  then show ?case
    using Suc by (cases "i = Suc j") (auto simp: split_lines_snoc extends_refl extends_snoc extends_last)
qed (simp add: extends_refl)

text \<open>
  The text of a located error always has its source line, and the marker starts below the column
  of the error.
\<close>

lemma source_fragment_located:
  assumes "located src sp"
  shows "\<exists>pre w. source_fragment (SQLError cls msg sp (Some src)) =
       Some (split_lines src ! nat (sp_line sp - 1), pre @ replicate w CHR ''^'')
     \<and> nat (sp_line sp - 1) < length (split_lines src)
     \<and> int (length pre) = sp_column sp - 1 \<and> set pre \<subseteq> {CHR 0x09, CHR '' ''} \<and> 1 \<le> w"
proof -
  let ?i = "nat (sp_start sp)" and ?b = "split_lines src"
  let ?a = "split_lines (take ?i src)"
  have "?i \<le> length src" using assms by (auto simp: located_def)
  then have "extends ?a ?b"
    using split_lines_extends [of ?i "length src" src] by simp
  then obtain r where r: "length ?a \<le> length ?b" "?b ! (length ?a - 1) = last ?a @ r"
    by (auto simp: extends_def)
  have pos: "sp_line sp = int (length ?a)" "sp_column sp = int (length (last ?a)) + 1"
    using assms by (auto simp: located_def position_def Let_def)
  have k: "nat (sp_line sp - 1) = length ?a - 1" "0 < length ?a"
    using pos(1) by (auto simp: nat_diff_distrib)
  let ?pre = "map (\<lambda>c. if c = CHR 0x09 then CHR 0x09 else CHR '' '') (last ?a)"
  define w where "w = nat (if sp_end_line sp = sp_line sp then max 1 (sp_end_column sp - sp_column sp) else 1)"
  have "take (nat (sp_column sp - 1)) (?b ! nat (sp_line sp - 1)) = last ?a"
    using r(2) pos(2) k(1) by simp
  then have "source_fragment (SQLError cls msg sp (Some src)) =
      Some (?b ! nat (sp_line sp - 1), ?pre @ replicate w CHR ''^'')"
    using r(1) pos(1) by (simp add: source_fragment_def Let_def err_line_def err_column_def w_def)
  moreover have "1 \<le> w" by (auto simp: w_def)
  moreover have "length ?a - 1 < length ?b" using r(1) k(2) by linarith
  ultimately show ?thesis
    using k(1) pos(2) by (intro exI [of _ ?pre] exI [of _ w]) auto
qed

end
