(* ===== verification/Py_Float.thy ===== *)
theory Py_Float
  imports Quipu_Prelude "HOL-Library.Log_Nat"
begin

text \<open>
  Python's \<open>float\<close>: IEEE 754 binary64 values. A finite value is kept as the rational it denotes
  (the two zeros, which compare equal, are one value). \<open>round_binary64\<close> is the rounding to the
  nearest value, ties to even, with 53 significant bits and least exponent \<open>-1074\<close>; a result of
  magnitude \<open>2^1024\<close> or more is an infinity, which \<open>float(text)\<close> returns and \<open>float(int)\<close>
  turns into \<open>OverflowError\<close>.
\<close>

datatype pyfloat = Fin rat | PosInf | NegInf | NaN

definition is_finite :: "pyfloat \<Rightarrow> bool" where
  "is_finite x = (case x of Fin _ \<Rightarrow> True | _ \<Rightarrow> False)"

lemma is_finite_simps [simp]:
  "is_finite (Fin q)" "\<not> is_finite PosInf" "\<not> is_finite NegInf" "\<not> is_finite NaN"
  by (simp_all add: is_finite_def)

text \<open>The comparisons of Python: every one with a NaN is false.\<close>

fun float_le :: "pyfloat \<Rightarrow> pyfloat \<Rightarrow> bool" where
  "float_le NaN _ = False"
| "float_le _ NaN = False"
| "float_le NegInf _ = True"
| "float_le _ PosInf = True"
| "float_le (Fin a) (Fin b) = (a \<le> b)"
| "float_le _ _ = False"

fun float_less :: "pyfloat \<Rightarrow> pyfloat \<Rightarrow> bool" where
  "float_less NaN _ = False"
| "float_less _ NaN = False"
| "float_less NegInf NegInf = False"
| "float_less NegInf _ = True"
| "float_less PosInf _ = False"
| "float_less _ PosInf = True"
| "float_less (Fin a) (Fin b) = (a < b)"
| "float_less (Fin _) NegInf = False"

definition round_half_even :: "rat \<Rightarrow> int" where
  "round_half_even q =
     (let f = \<lfloor>q\<rfloor>; r = q - of_int f
      in if r < 1 / 2 then f else if 1 / 2 < r then f + 1 else if even f then f else f + 1)"

definition pow2 :: "int \<Rightarrow> rat" where
  "pow2 e = (if 0 \<le> e then 2 ^ nat e else 1 / 2 ^ nat (- e))"

text \<open>The exponent \<open>k\<close> with \<open>2^k \<le> q < 2^(k+1)\<close>, from the bit lengths of the fraction.\<close>

definition binary_exponent :: "rat \<Rightarrow> int" where
  "binary_exponent q =
     (let (a, b) = quotient_of q; k = bitlen a - bitlen b
      in if pow2 k \<le> q then k else k - 1)"

definition quantum :: "rat \<Rightarrow> rat" where
  "quantum q = pow2 (max (binary_exponent q - 52) (- 1074))"

definition round_binary64 :: "rat \<Rightarrow> pyfloat" where
  "round_binary64 q =
     (if q = 0 then Fin 0
      else let u = quantum \<bar>q\<bar>; v = of_int (round_half_even (\<bar>q\<bar> / u)) * u
           in if v \<ge> of_int (2 ^ 1024) then (if q < 0 then NegInf else PosInf) else Fin (sgn q * v))"

text \<open>\<open>float(n)\<close> of an integer; \<open>None\<close> stands for \<open>OverflowError\<close>.\<close>

definition float_of_int :: "int \<Rightarrow> pyfloat option" where
  "float_of_int n = (let x = round_binary64 (of_int n) in if is_finite x then Some x else None)"

text \<open>\<open>float(text)\<close> of a decimal numeral with the given sign, integer and fraction digits.\<close>

definition decimal_value :: "bool \<Rightarrow> string \<Rightarrow> string \<Rightarrow> rat" where
  "decimal_value neg ip fp =
     (let m = of_int (digits_value (ip @ fp)) / 10 ^ length fp in if neg then - m else m)"

definition float_of_decimal :: "bool \<Rightarrow> string \<Rightarrow> string \<Rightarrow> pyfloat" where
  "float_of_decimal neg ip fp = round_binary64 (decimal_value neg ip fp)"

section \<open>Arithmetic\<close>

text \<open>
  The operations of Python on doubles: the exact result, rounded. Only a division by zero raises
  (\<open>None\<close> stands for \<open>ZeroDivisionError\<close>); \<open>py_max\<close> and \<open>py_min\<close> are the built-in functions, which
  keep the first of equal arguments.
\<close>

fun float_eq :: "pyfloat \<Rightarrow> pyfloat \<Rightarrow> bool" where
  "float_eq (Fin a) (Fin b) = (a = b)"
| "float_eq PosInf PosInf = True"
| "float_eq NegInf NegInf = True"
| "float_eq _ _ = False"

fun float_neg :: "pyfloat \<Rightarrow> pyfloat" where
  "float_neg (Fin a) = Fin (- a)"
| "float_neg PosInf = NegInf"
| "float_neg NegInf = PosInf"
| "float_neg NaN = NaN"

fun float_add :: "pyfloat \<Rightarrow> pyfloat \<Rightarrow> pyfloat" where
  "float_add (Fin a) (Fin b) = round_binary64 (a + b)"
| "float_add NaN _ = NaN"
| "float_add _ NaN = NaN"
| "float_add PosInf NegInf = NaN"
| "float_add NegInf PosInf = NaN"
| "float_add PosInf _ = PosInf"
| "float_add _ PosInf = PosInf"
| "float_add NegInf _ = NegInf"
| "float_add _ NegInf = NegInf"

definition float_sub :: "pyfloat \<Rightarrow> pyfloat \<Rightarrow> pyfloat" where
  "float_sub x y = float_add x (float_neg y)"

definition signed_inf :: "bool \<Rightarrow> pyfloat" where
  "signed_inf neg = (if neg then NegInf else PosInf)"

fun float_sign :: "pyfloat \<Rightarrow> rat" where
  "float_sign (Fin a) = sgn a"
| "float_sign PosInf = 1"
| "float_sign NegInf = - 1"
| "float_sign NaN = 0"

fun float_mul :: "pyfloat \<Rightarrow> pyfloat \<Rightarrow> pyfloat" where
  "float_mul (Fin a) (Fin b) = round_binary64 (a * b)"
| "float_mul x y =
     (let s = float_sign x * float_sign y in if s = 0 then NaN else signed_inf (s < 0))"

fun float_div :: "pyfloat \<Rightarrow> pyfloat \<Rightarrow> pyfloat option" where
  "float_div x (Fin b) =
     (if b = 0 then None
      else Some (case x of Fin a \<Rightarrow> round_binary64 (a / b) | NaN \<Rightarrow> NaN
                 | _ \<Rightarrow> signed_inf (float_sign x * sgn b < 0)))"
| "float_div (Fin a) NaN = Some NaN"
| "float_div (Fin a) _ = Some (Fin 0)"
| "float_div _ _ = Some NaN"

fun float_abs :: "pyfloat \<Rightarrow> pyfloat" where
  "float_abs (Fin a) = Fin \<bar>a\<bar>"
| "float_abs NegInf = PosInf"
| "float_abs x = x"

definition py_max :: "pyfloat \<Rightarrow> pyfloat \<Rightarrow> pyfloat" where
  "py_max x y = (if float_less x y then y else x)"

definition py_min :: "pyfloat \<Rightarrow> pyfloat \<Rightarrow> pyfloat" where
  "py_min x y = (if float_less y x then y else x)"

section \<open>Facts about rounding\<close>

lemma pow2_pos [simp]: "0 < pow2 e"
  by (simp add: pow2_def)

lemma pow2_add: "pow2 (a + b) = pow2 a * pow2 b"
proof -
  have pi: "pow2 e = 2 powi e" for e
    by (simp add: pow2_def power_int_def inverse_eq_divide power_divide)
  show ?thesis by (simp add: pi power_int_add)
qed

lemma round_half_even_of_int [simp]: "round_half_even (of_int n) = n"
  by (simp add: round_half_even_def)

lemma round_half_even_near: "\<bar>of_int (round_half_even q) - q\<bar> \<le> 1 / 2"
proof -
  have "of_int \<lfloor>q\<rfloor> \<le> q" "q < of_int \<lfloor>q\<rfloor> + 1"
    by linarith+
  then show ?thesis
    by (auto simp: round_half_even_def Let_def abs_le_iff)
qed

lemma round_half_even_mono_int: "of_int n \<le> q \<Longrightarrow> n \<le> round_half_even q"
proof -
  assume "of_int n \<le> q"
  then have "n \<le> \<lfloor>q\<rfloor>" by (simp add: le_floor_iff)
  then show ?thesis by (auto simp: round_half_even_def Let_def)
qed

text \<open>The rounding error of a result in range is at most half a unit in the last place.\<close>

lemma round_binary64_error:
  assumes "round_binary64 q = Fin v" "q \<noteq> 0"
  shows "\<bar>v - q\<bar> \<le> quantum \<bar>q\<bar> / 2"
proof -
  let ?u = "quantum \<bar>q\<bar>"
  let ?m = "of_int (round_half_even (\<bar>q\<bar> / ?u)) :: rat"
  have u: "0 < ?u" by (simp add: quantum_def)
  from assms have v: "v = sgn q * (?m * ?u)"
    by (auto simp: round_binary64_def Let_def split: if_splits)
  have "q = sgn q * \<bar>q\<bar>" by (simp add: mult_sgn_abs)
  then have "v - q = sgn q * (?m * ?u - \<bar>q\<bar>)"
    using v by (metis right_diff_distrib)
  then have "\<bar>v - q\<bar> = \<bar>?m * ?u - \<bar>q\<bar>\<bar>"
    using assms(2) by (simp add: abs_mult abs_sgn_eq)
  also have "?m * ?u - \<bar>q\<bar> = (?m - \<bar>q\<bar> / ?u) * ?u"
    using u by (simp add: left_diff_distrib)
  also have "\<bar>(?m - \<bar>q\<bar> / ?u) * ?u\<bar> = \<bar>?m - \<bar>q\<bar> / ?u\<bar> * ?u"
    using u by (simp add: abs_mult)
  also have "\<dots> \<le> 1 / 2 * ?u"
    using round_half_even_near [of "\<bar>q\<bar> / ?u"] u by (intro mult_right_mono) auto
  finally show ?thesis by simp
qed

lemma round_binary64_not_NaN [simp]: "round_binary64 q \<noteq> NaN"
  by (simp add: round_binary64_def Let_def)

lemma round_binary64_0 [simp]: "round_binary64 0 = Fin 0"
  by (simp add: round_binary64_def)

lemma float_of_int_0 [simp]: "float_of_int 0 = Some (Fin 0)"
  by (simp add: float_of_int_def)

lemma float_of_int_finite: "float_of_int n = Some x \<Longrightarrow> is_finite x"
  by (auto simp: float_of_int_def Let_def split: if_splits)

end
