(* ===== verification/Sql_Tokens.thy ===== *)
theory Sql_Tokens
  imports Sql_Span Py_Float
begin

text \<open>
  The tokens of the lexer (\<open>engine/parser/tokens.py\<close>). \<open>TokenKind\<close> is a \<open>StrEnum\<close>: a member is
  its string, so a kind is the wrapper \<open>TokenKind\<close> around it, and the members are abbreviations
  in the order of the class. \<open>token_kinds\<close> lists them all.
\<close>

datatype token_kind = TokenKind (kind_value: string)

abbreviation K_IDENTIFIER :: token_kind where "K_IDENTIFIER \<equiv> TokenKind ''IDENTIFIER''"
abbreviation K_INTEGER :: token_kind where "K_INTEGER \<equiv> TokenKind ''INTEGER''"
abbreviation K_DOUBLE_LITERAL :: token_kind where "K_DOUBLE_LITERAL \<equiv> TokenKind ''DOUBLE_LITERAL''"
abbreviation K_STRING :: token_kind where "K_STRING \<equiv> TokenKind ''STRING''"
abbreviation K_CREATE :: token_kind where "K_CREATE \<equiv> TokenKind ''CREATE''"
abbreviation K_TABLE :: token_kind where "K_TABLE \<equiv> TokenKind ''TABLE''"
abbreviation K_INDEX :: token_kind where "K_INDEX \<equiv> TokenKind ''INDEX''"
abbreviation K_ON :: token_kind where "K_ON \<equiv> TokenKind ''ON''"
abbreviation K_PRIMARY :: token_kind where "K_PRIMARY \<equiv> TokenKind ''PRIMARY''"
abbreviation K_KEY :: token_kind where "K_KEY \<equiv> TokenKind ''KEY''"
abbreviation K_USING :: token_kind where "K_USING \<equiv> TokenKind ''USING''"
abbreviation K_HEAP :: token_kind where "K_HEAP \<equiv> TokenKind ''HEAP''"
abbreviation K_SEQUENTIAL :: token_kind where "K_SEQUENTIAL \<equiv> TokenKind ''SEQUENTIAL''"
abbreviation K_BPLUS :: token_kind where "K_BPLUS \<equiv> TokenKind ''BPLUS''"
abbreviation K_BPLUS_UNCLUSTERED :: token_kind where "K_BPLUS_UNCLUSTERED \<equiv> TokenKind ''BPLUS_UNCLUSTERED''"
abbreviation K_HASH :: token_kind where "K_HASH \<equiv> TokenKind ''HASH''"
abbreviation K_EXTENDIBLE_HASH :: token_kind where "K_EXTENDIBLE_HASH \<equiv> TokenKind ''EXTENDIBLE_HASH''"
abbreviation K_RTREE :: token_kind where "K_RTREE \<equiv> TokenKind ''RTREE''"
abbreviation K_FULLTEXT :: token_kind where "K_FULLTEXT \<equiv> TokenKind ''FULLTEXT''"
abbreviation K_INVERTED_INDEX :: token_kind where "K_INVERTED_INDEX \<equiv> TokenKind ''INVERTED_INDEX''"
abbreviation K_IVF :: token_kind where "K_IVF \<equiv> TokenKind ''IVF''"
abbreviation K_HNSW :: token_kind where "K_HNSW \<equiv> TokenKind ''HNSW''"
abbreviation K_WITH :: token_kind where "K_WITH \<equiv> TokenKind ''WITH''"
abbreviation K_METRIC :: token_kind where "K_METRIC \<equiv> TokenKind ''METRIC''"
abbreviation K_SIMILAR_TO :: token_kind where "K_SIMILAR_TO \<equiv> TokenKind ''SIMILAR_TO''"
abbreviation K_INSERT :: token_kind where "K_INSERT \<equiv> TokenKind ''INSERT''"
abbreviation K_INTO :: token_kind where "K_INTO \<equiv> TokenKind ''INTO''"
abbreviation K_VALUES :: token_kind where "K_VALUES \<equiv> TokenKind ''VALUES''"
abbreviation K_SELECT :: token_kind where "K_SELECT \<equiv> TokenKind ''SELECT''"
abbreviation K_EXPLAIN :: token_kind where "K_EXPLAIN \<equiv> TokenKind ''EXPLAIN''"
abbreviation K_ANALYZE :: token_kind where "K_ANALYZE \<equiv> TokenKind ''ANALYZE''"
abbreviation K_FROM :: token_kind where "K_FROM \<equiv> TokenKind ''FROM''"
abbreviation K_JOIN :: token_kind where "K_JOIN \<equiv> TokenKind ''JOIN''"
abbreviation K_WHERE :: token_kind where "K_WHERE \<equiv> TokenKind ''WHERE''"
abbreviation K_DELETE :: token_kind where "K_DELETE \<equiv> TokenKind ''DELETE''"
abbreviation K_DROP :: token_kind where "K_DROP \<equiv> TokenKind ''DROP''"
abbreviation K_ORDER :: token_kind where "K_ORDER \<equiv> TokenKind ''ORDER''"
abbreviation K_BY :: token_kind where "K_BY \<equiv> TokenKind ''BY''"
abbreviation K_ASC :: token_kind where "K_ASC \<equiv> TokenKind ''ASC''"
abbreviation K_DESC :: token_kind where "K_DESC \<equiv> TokenKind ''DESC''"
abbreviation K_LIMIT :: token_kind where "K_LIMIT \<equiv> TokenKind ''LIMIT''"
abbreviation K_GROUP :: token_kind where "K_GROUP \<equiv> TokenKind ''GROUP''"
abbreviation K_COUNT :: token_kind where "K_COUNT \<equiv> TokenKind ''COUNT''"
abbreviation K_SUM :: token_kind where "K_SUM \<equiv> TokenKind ''SUM''"
abbreviation K_MIN :: token_kind where "K_MIN \<equiv> TokenKind ''MIN''"
abbreviation K_MAX :: token_kind where "K_MAX \<equiv> TokenKind ''MAX''"
abbreviation K_AVG :: token_kind where "K_AVG \<equiv> TokenKind ''AVG''"
abbreviation K_BETWEEN :: token_kind where "K_BETWEEN \<equiv> TokenKind ''BETWEEN''"
abbreviation K_AND :: token_kind where "K_AND \<equiv> TokenKind ''AND''"
abbreviation K_DISTANCIA :: token_kind where "K_DISTANCIA \<equiv> TokenKind ''DISTANCIA''"
abbreviation K_DENTRO :: token_kind where "K_DENTRO \<equiv> TokenKind ''DENTRO''"
abbreviation K_POLYGON :: token_kind where "K_POLYGON \<equiv> TokenKind ''POLYGON''"
abbreviation K_MATCH :: token_kind where "K_MATCH \<equiv> TokenKind ''MATCH''"
abbreviation K_TF_IDF :: token_kind where "K_TF_IDF \<equiv> TokenKind ''TF_IDF''"
abbreviation K_BM25 :: token_kind where "K_BM25 \<equiv> TokenKind ''BM25''"
abbreviation K_SCORE :: token_kind where "K_SCORE \<equiv> TokenKind ''SCORE''"
abbreviation K_SIMILARITY_SCORE :: token_kind where "K_SIMILARITY_SCORE \<equiv> TokenKind ''SIMILARITY_SCORE''"
abbreviation K_AS :: token_kind where "K_AS \<equiv> TokenKind ''AS''"
abbreviation K_HAVERSINE :: token_kind where "K_HAVERSINE \<equiv> TokenKind ''HAVERSINE''"
abbreviation K_EUCLIDEAN :: token_kind where "K_EUCLIDEAN \<equiv> TokenKind ''EUCLIDEAN''"
abbreviation K_INT :: token_kind where "K_INT \<equiv> TokenKind ''INT''"
abbreviation K_DOUBLE :: token_kind where "K_DOUBLE \<equiv> TokenKind ''DOUBLE''"
abbreviation K_VARCHAR :: token_kind where "K_VARCHAR \<equiv> TokenKind ''VARCHAR''"
abbreviation K_BOOL :: token_kind where "K_BOOL \<equiv> TokenKind ''BOOL''"
abbreviation K_DATE :: token_kind where "K_DATE \<equiv> TokenKind ''DATE''"
abbreviation K_POINT :: token_kind where "K_POINT \<equiv> TokenKind ''POINT''"
abbreviation K_VECTOR :: token_kind where "K_VECTOR \<equiv> TokenKind ''VECTOR''"
abbreviation K_TRUE :: token_kind where "K_TRUE \<equiv> TokenKind ''TRUE''"
abbreviation K_FALSE :: token_kind where "K_FALSE \<equiv> TokenKind ''FALSE''"
abbreviation K_BEGIN :: token_kind where "K_BEGIN \<equiv> TokenKind ''BEGIN''"
abbreviation K_TRANSACTION :: token_kind where "K_TRANSACTION \<equiv> TokenKind ''TRANSACTION''"
abbreviation K_END :: token_kind where "K_END \<equiv> TokenKind ''END''"
abbreviation K_LPAREN :: token_kind where "K_LPAREN \<equiv> TokenKind ''LPAREN''"
abbreviation K_RPAREN :: token_kind where "K_RPAREN \<equiv> TokenKind ''RPAREN''"
abbreviation K_COMMA :: token_kind where "K_COMMA \<equiv> TokenKind ''COMMA''"
abbreviation K_SEMICOLON :: token_kind where "K_SEMICOLON \<equiv> TokenKind ''SEMICOLON''"
abbreviation K_STAR :: token_kind where "K_STAR \<equiv> TokenKind ''STAR''"
abbreviation K_DOT :: token_kind where "K_DOT \<equiv> TokenKind ''DOT''"
abbreviation K_EQUAL :: token_kind where "K_EQUAL \<equiv> TokenKind ''EQUAL''"
abbreviation K_LESS_THAN :: token_kind where "K_LESS_THAN \<equiv> TokenKind ''LESS_THAN''"
abbreviation K_LESS_THAN_OR_EQUAL :: token_kind where "K_LESS_THAN_OR_EQUAL \<equiv> TokenKind ''LESS_THAN_OR_EQUAL''"
abbreviation K_GREATER_THAN :: token_kind where "K_GREATER_THAN \<equiv> TokenKind ''GREATER_THAN''"
abbreviation K_GREATER_THAN_OR_EQUAL :: token_kind where "K_GREATER_THAN_OR_EQUAL \<equiv> TokenKind ''GREATER_THAN_OR_EQUAL''"
abbreviation K_EOF :: token_kind where "K_EOF \<equiv> TokenKind ''EOF''"

definition token_kinds :: "token_kind list" where
  "token_kinds =
     [K_IDENTIFIER, K_INTEGER, K_DOUBLE_LITERAL, K_STRING, K_CREATE, K_TABLE, K_INDEX, K_ON,
      K_PRIMARY, K_KEY, K_USING, K_HEAP, K_SEQUENTIAL, K_BPLUS, K_BPLUS_UNCLUSTERED, K_HASH,
      K_EXTENDIBLE_HASH, K_RTREE, K_FULLTEXT, K_INVERTED_INDEX, K_IVF, K_HNSW, K_WITH,
      K_METRIC, K_SIMILAR_TO, K_INSERT, K_INTO, K_VALUES, K_SELECT, K_EXPLAIN, K_ANALYZE,
      K_FROM, K_JOIN, K_WHERE, K_DELETE, K_DROP, K_ORDER, K_BY, K_ASC, K_DESC, K_LIMIT,
      K_GROUP, K_COUNT, K_SUM, K_MIN, K_MAX, K_AVG, K_BETWEEN, K_AND, K_DISTANCIA, K_DENTRO,
      K_POLYGON, K_MATCH, K_TF_IDF, K_BM25, K_SCORE, K_SIMILARITY_SCORE, K_AS, K_HAVERSINE,
      K_EUCLIDEAN, K_INT, K_DOUBLE, K_VARCHAR, K_BOOL, K_DATE, K_POINT, K_VECTOR, K_TRUE,
      K_FALSE, K_BEGIN, K_TRANSACTION, K_END, K_LPAREN, K_RPAREN, K_COMMA, K_SEMICOLON,
      K_STAR, K_DOT, K_EQUAL, K_LESS_THAN, K_LESS_THAN_OR_EQUAL, K_GREATER_THAN,
      K_GREATER_THAN_OR_EQUAL, K_EOF]"

datatype token_value = StrValue string | IntValue int | FloatValue pyfloat | BoolValue bool | NoValue

record token =
  tk_kind :: token_kind
  tk_lexeme :: string
  tk_value :: token_value
  tk_span :: span

end
