(* ===== verification/Sql_Ast.thy ===== *)
theory Sql_Ast
  imports Sql_Tokens
begin

text \<open>
  The abstract syntax tree (\<open>engine/parser/ast.py\<close>): every dataclass is a constructor with the
  fields in the source's order, every union of classes a datatype, every \<open>StrEnum\<close> a datatype with
  its string values beside it.
\<close>

datatype ident = Identifier (id_name: string) (id_span: span)

datatype sql_type_name = SQL_INT | SQL_DOUBLE | SQL_VARCHAR | SQL_BOOL | SQL_DATE | SQL_POINT | SQL_VECTOR

fun type_value :: "sql_type_name \<Rightarrow> string" where
  "type_value SQL_INT = ''INT''"
| "type_value SQL_DOUBLE = ''DOUBLE''"
| "type_value SQL_VARCHAR = ''VARCHAR''"
| "type_value SQL_BOOL = ''BOOL''"
| "type_value SQL_DATE = ''DATE''"
| "type_value SQL_POINT = ''POINT''"
| "type_value SQL_VECTOR = ''VECTOR''"

datatype sql_type = SqlType (ty_name: sql_type_name) (ty_length: "int option") (ty_span: span)

datatype column_definition =
  ColumnDefinition (cd_name: ident) (cd_type: sql_type) (cd_primary_key: bool) (cd_span: span)

datatype storage_kind = STORAGE_HEAP | STORAGE_SEQUENTIAL

fun storage_value :: "storage_kind \<Rightarrow> string" where
  "storage_value STORAGE_HEAP = ''HEAP''"
| "storage_value STORAGE_SEQUENTIAL = ''SEQUENTIAL''"

datatype index_kind = IDX_BPLUS_UNCLUSTERED | IDX_EXTENDIBLE_HASH | IDX_RTREE | IDX_INVERTED_INDEX
  | IDX_IVF | IDX_HNSW

fun index_value :: "index_kind \<Rightarrow> string" where
  "index_value IDX_BPLUS_UNCLUSTERED = ''BPLUS_UNCLUSTERED''"
| "index_value IDX_EXTENDIBLE_HASH = ''EXTENDIBLE_HASH''"
| "index_value IDX_RTREE = ''RTREE''"
| "index_value IDX_INVERTED_INDEX = ''INVERTED_INDEX''"
| "index_value IDX_IVF = ''IVF''"
| "index_value IDX_HNSW = ''HNSW''"

datatype vector_metric = VM_EUCLIDEAN | VM_COSINE | VM_DOT

text \<open>\<open>VectorMetric(text)\<close> and \<open>TextLanguage(text)\<close>; \<open>None\<close> is the \<open>ValueError\<close> of the lookup.\<close>

definition vector_metric_of :: "string \<Rightarrow> vector_metric option" where
  "vector_metric_of s =
     (if s = ''euclidean'' then Some VM_EUCLIDEAN
      else if s = ''cosine'' then Some VM_COSINE
      else if s = ''dot'' then Some VM_DOT else None)"

datatype text_language = LANG_SPANISH | LANG_ENGLISH

definition text_language_of :: "string \<Rightarrow> text_language option" where
  "text_language_of s =
     (if s = ''spanish'' then Some LANG_SPANISH
      else if s = ''english'' then Some LANG_ENGLISH else None)"

text \<open>\<open>datetime.date\<close>; dates compare lexicographically.\<close>

datatype py_date = PyDate (date_year: int) (date_month: int) (date_day: int)

instantiation py_date :: linorder
begin

definition less_eq_py_date :: "py_date \<Rightarrow> py_date \<Rightarrow> bool" where
  "a \<le> b \<longleftrightarrow>
     date_year a < date_year b \<or> (date_year a = date_year b \<and>
       (date_month a < date_month b \<or> (date_month a = date_month b \<and> date_day a \<le> date_day b)))"

definition less_py_date :: "py_date \<Rightarrow> py_date \<Rightarrow> bool" where
  "a < b \<longleftrightarrow> a \<le> b \<and> \<not> b \<le> (a :: py_date)"

instance
proof
  fix a b c :: py_date
  show "a \<le> a" by (simp add: less_eq_py_date_def)
  show "a \<le> b \<Longrightarrow> b \<le> c \<Longrightarrow> a \<le> c" by (auto simp: less_eq_py_date_def)
  show "a \<le> b \<Longrightarrow> b \<le> a \<Longrightarrow> a = b"
    by (cases a; cases b) (auto simp: less_eq_py_date_def)
  show "a \<le> b \<or> b \<le> a" by (auto simp: less_eq_py_date_def)
  show "(a < b) = (a \<le> b \<and> \<not> b \<le> a)" by (simp add: less_py_date_def)
qed

end

text \<open>The calendar of \<open>datetime\<close>.\<close>

definition leap_year :: "int \<Rightarrow> bool" where
  "leap_year y \<longleftrightarrow> y mod 4 = 0 \<and> (y mod 100 \<noteq> 0 \<or> y mod 400 = 0)"

definition days_in_month :: "int \<Rightarrow> int \<Rightarrow> int" where
  "days_in_month y m =
     (if m = 2 then (if leap_year y then 29 else 28)
      else if m \<in> {4, 6, 9, 11} then 30 else 31)"

definition valid_date :: "int \<Rightarrow> int \<Rightarrow> int \<Rightarrow> bool" where
  "valid_date y m d \<longleftrightarrow>
     1 \<le> y \<and> y \<le> 9999 \<and> 1 \<le> m \<and> m \<le> 12 \<and> 1 \<le> d \<and> d \<le> days_in_month y m"

datatype point_literal =
  PointLiteral (pt_latitude: pyfloat) (pt_longitude: pyfloat)
    (pt_latitude_span: span) (pt_longitude_span: span) (pt_span: span)

datatype literal =
    IntegerLiteral int span
  | DoubleLiteral pyfloat span
  | StringLiteral string span
  | BooleanLiteral bool span
  | DateLiteral py_date span
  | PointLit point_literal
  | VectorLiteral "pyfloat list" "span list" span

fun literal_span :: "literal \<Rightarrow> span" where
  "literal_span (IntegerLiteral _ s) = s"
| "literal_span (DoubleLiteral _ s) = s"
| "literal_span (StringLiteral _ s) = s"
| "literal_span (BooleanLiteral _ s) = s"
| "literal_span (DateLiteral _ s) = s"
| "literal_span (PointLit p) = pt_span p"
| "literal_span (VectorLiteral _ _ s) = s"

text \<open>The two string fields of the tree whose class is fixed: \<open>StringLiteral\<close>, \<open>IntegerLiteral\<close>.\<close>

datatype string_literal = StrLit (sl_value: string) (sl_span: span)
datatype integer_literal = IntLit (il_value: int) (il_span: span)

datatype column_reference =
  ColumnReference (cr_name: ident) (cr_span: span) (cr_qualifier: "ident option")

datatype aggregate_function = AGG_COUNT | AGG_SUM | AGG_MIN | AGG_MAX | AGG_AVG

fun aggregate_value :: "aggregate_function \<Rightarrow> string" where
  "aggregate_value AGG_COUNT = ''COUNT''"
| "aggregate_value AGG_SUM = ''SUM''"
| "aggregate_value AGG_MIN = ''MIN''"
| "aggregate_value AGG_MAX = ''MAX''"
| "aggregate_value AGG_AVG = ''AVG''"

datatype aggregate_argument = ArgColumn column_reference | ArgWildcard span

datatype aggregate_call =
  AggregateCall (ag_function: aggregate_function) (ag_argument: aggregate_argument) (ag_span: span)

datatype score_kind = SCORE_TEXT | SCORE_SIMILARITY

fun score_value :: "score_kind \<Rightarrow> string" where
  "score_value SCORE_TEXT = ''SCORE''"
| "score_value SCORE_SIMILARITY = ''SIMILARITY_SCORE''"

definition score_kind_of :: "string \<Rightarrow> score_kind option" where
  "score_kind_of s =
     (if s = ''SCORE'' then Some SCORE_TEXT
      else if s = ''SIMILARITY_SCORE'' then Some SCORE_SIMILARITY else None)"

datatype score_call =
  ScoreCall (sc_alias: "ident option") (sc_span: span) (sc_kind: score_kind)

datatype projection =
  PWildcard span | PColumn column_reference | PAggregate aggregate_call | PScore score_call

text \<open>The tests \<open>isinstance(p, Wildcard)\<close> and \<open>isinstance(p, ScoreCall)\<close>, and \<open>p.span\<close>.\<close>

fun is_wildcard :: "projection \<Rightarrow> bool" where
  "is_wildcard (PWildcard _) = True"
| "is_wildcard _ = False"

fun is_score_call :: "projection \<Rightarrow> bool" where
  "is_score_call (PScore _) = True"
| "is_score_call _ = False"

fun projection_span :: "projection \<Rightarrow> span" where
  "projection_span (PWildcard s) = s"
| "projection_span (PColumn c) = cr_span c"
| "projection_span (PAggregate a) = ag_span a"
| "projection_span (PScore c) = sc_span c"

datatype comparison_operator = OP_EQUAL | OP_LESS_THAN | OP_LESS_THAN_OR_EQUAL
  | OP_GREATER_THAN | OP_GREATER_THAN_OR_EQUAL

datatype distance_metric = DIST_HAVERSINE | DIST_EUCLIDEAN

datatype text_ranking = RANK_TF_IDF | RANK_BM25

datatype distance_condition =
  DistanceCondition (dc_column: column_reference) (dc_center: point_literal)
    (dc_operator: comparison_operator) (dc_radius: literal) (dc_metric: distance_metric)
    (dc_span: span)

datatype polygon_literal = PolygonLiteral (pg_vertices: "point_literal list") (pg_span: span)

datatype match_condition =
  MatchCondition (mc_column: column_reference) (mc_query: string_literal)
    (mc_ranking: text_ranking) (mc_ranking_explicit: bool) (mc_span: span)

datatype similar_condition =
  SimilarCondition (sm_column: "column_reference option") (sm_query: string_literal)
    (sm_k: integer_literal) (sm_kind: index_kind) (sm_metric: vector_metric)
    (sm_metric_span: span) (sm_span: span)

datatype condition =
    ComparisonCondition column_reference comparison_operator literal span
  | BetweenCondition column_reference literal literal span
  | DistanceCond distance_condition
  | PolygonCondition column_reference polygon_literal span
  | MatchCond match_condition
  | SimilarCond similar_condition

fun condition_span :: "condition \<Rightarrow> span" where
  "condition_span (ComparisonCondition _ _ _ s) = s"
| "condition_span (BetweenCondition _ _ _ s) = s"
| "condition_span (DistanceCond d) = dc_span d"
| "condition_span (PolygonCondition _ _ s) = s"
| "condition_span (MatchCond m) = mc_span m"
| "condition_span (SimilarCond m) = sm_span m"

datatype order_direction = ORDER_ASC | ORDER_DESC

datatype order_clause =
    OrderBy column_reference order_direction span
  | ScoreOrderBy order_direction span score_kind
  | DistanceOrderBy column_reference point_literal distance_metric order_direction span

fun order_span :: "order_clause \<Rightarrow> span" where
  "order_span (OrderBy _ _ s) = s"
| "order_span (ScoreOrderBy _ s _) = s"
| "order_span (DistanceOrderBy _ _ _ _ s) = s"

datatype limit_clause = Limit (lm_value: int) (lm_span: span)

datatype group_by = GroupBy (gb_column: column_reference) (gb_span: span)

datatype from_source =
    TableRef ident span
  | JoinRef from_source from_source column_reference column_reference span

fun from_span :: "from_source \<Rightarrow> span" where
  "from_span (TableRef _ s) = s"
| "from_span (JoinRef _ _ _ _ s) = s"

record create_table_statement =
  ct_table :: ident
  ct_columns :: "column_definition list"
  ct_storage :: storage_kind
  ct_span :: span

record create_index_statement =
  ci_index :: ident
  ci_table :: ident
  ci_column :: ident
  ci_kind :: index_kind
  ci_span :: span
  ci_metric :: "vector_metric option"
  ci_language :: "text_language option"

record insert_statement =
  in_table :: ident
  in_values :: "literal list"
  in_span :: span

record select_statement =
  se_projections :: "projection list"
  se_source :: from_source
  se_where :: "condition option"
  se_group_by :: "group_by option"
  se_order_by :: "order_clause option"
  se_span :: span
  se_limit :: "limit_clause option"

record delete_statement =
  de_table :: ident
  de_where :: condition
  de_span :: span

datatype statement =
    CreateTableStatement create_table_statement
  | CreateIndexStatement create_index_statement
  | InsertStatement insert_statement
  | SelectStatement select_statement
  | ExplainStatement select_statement bool span
  | DeleteStatement delete_statement
  | DropTableStatement ident span
  | BeginTransactionStatement span
  | EndTransactionStatement span

fun statement_span :: "statement \<Rightarrow> span" where
  "statement_span (CreateTableStatement s) = ct_span s"
| "statement_span (CreateIndexStatement s) = ci_span s"
| "statement_span (InsertStatement s) = in_span s"
| "statement_span (SelectStatement s) = se_span s"
| "statement_span (ExplainStatement _ _ s) = s"
| "statement_span (DeleteStatement s) = de_span s"
| "statement_span (DropTableStatement _ s) = s"
| "statement_span (BeginTransactionStatement s) = s"
| "statement_span (EndTransactionStatement s) = s"

end
