(* ===== verification/Bound_Ast.thy ===== *)
theory Bound_Ast
  imports Sql_Ast
begin

text \<open>
  The bound tree (\<open>engine/parser/bound_ast.py\<close>): what semantic analysis makes of a statement, with
  every name resolved to a position of a schema and every literal converted to the type of its
  column.
\<close>

datatype bound_column =
  BoundColumn (bc_name: string) (bc_type: sql_type_name) (bc_length: "int option")

definition vector_component_size :: int where
  "vector_component_size = 4"

text \<open>\<open>_FIXED_TYPE_SIZES\<close>: the types that are not in the table raise.\<close>

fun fixed_type_size :: "sql_type_name \<Rightarrow> exn + int" where
  "fixed_type_size SQL_INT = Inr 4"
| "fixed_type_size SQL_DOUBLE = Inr 8"
| "fixed_type_size SQL_BOOL = Inr 1"
| "fixed_type_size SQL_DATE = Inr 4"
| "fixed_type_size SQL_POINT = Inr 16"
| "fixed_type_size ty = Inl (KeyError (type_value ty))"

definition byte_size :: "bound_column \<Rightarrow> exn + int" where
  "byte_size c =
     (if bc_type c = SQL_VARCHAR then
        (case bc_length c of None \<Rightarrow> Inl (ValueError ''VARCHAR necesita una longitud'')
         | Some n \<Rightarrow> Inr n)
      else if bc_type c = SQL_VECTOR then
        (case bc_length c of None \<Rightarrow> Inl (ValueError ''VECTOR necesita una dimension'')
         | Some n \<Rightarrow> Inr (n * vector_component_size))
      else fixed_type_size (bc_type c))"

record bound_schema =
  bs_table_name :: string
  bs_columns :: "bound_column list"
  bs_key_column :: nat

definition record_size :: "bound_schema \<Rightarrow> exn + int" where
  "record_size s = ebind (emap byte_size (bs_columns s)) (\<lambda>sizes. Inr (sum_list sizes))"

record bound_create_table =
  bt_schema :: bound_schema
  bt_storage :: storage_kind
  bt_span :: span

record bound_create_index =
  bi_index_name :: string
  bi_table_name :: string
  bi_column_name :: string
  bi_kind :: index_kind
  bi_span :: span
  bi_metric :: "vector_metric option"
  bi_language :: "text_language option"

datatype point_value = PointValue (pv_latitude: pyfloat) (pv_longitude: pyfloat)

datatype bound_value =
    VInt int
  | VFloat pyfloat
  | VStr string
  | VBool bool
  | VDate py_date
  | VPoint point_value
  | VVector "pyfloat list"

record bound_insert =
  bn_table_name :: string
  bn_values :: "bound_value list"
  bn_span :: span

datatype bound_column_reference =
  BoundColumnReference (br_index: nat) (br_column: bound_column) (br_span: span)

datatype bound_aggregate_call =
  BoundAggregateCall (ba_function: aggregate_function) (ba_argument: "bound_column_reference option")
    (ba_span: span)

datatype bound_projection = BPColumn bound_column_reference | BPAggregate bound_aggregate_call

datatype bound_score_projection =
  BoundScoreProjection (bsp_name: string) (bsp_position: nat) (bsp_span: span) (bsp_kind: score_kind)

datatype bound_score_order =
  BoundScoreOrderBy (bso_direction: order_direction) (bso_span: span) (bso_kind: score_kind)

datatype bound_group_by = BoundGroupBy (bg_column: bound_column_reference) (bg_span: span)

datatype bound_order_by =
    BoundOrderBy bound_column_reference order_direction span
  | BoundDistanceOrderBy bound_column_reference point_value distance_metric order_direction span

text \<open>The fields \<open>column\<close> and \<open>direction\<close> of an order.\<close>

fun order_column :: "bound_order_by \<Rightarrow> bound_column_reference" where
  "order_column (BoundOrderBy r d sp) = r"
| "order_column (BoundDistanceOrderBy r p m d sp) = r"

fun order_direction_of :: "bound_order_by \<Rightarrow> order_direction" where
  "order_direction_of (BoundOrderBy r d sp) = d"
| "order_direction_of (BoundDistanceOrderBy r p m d sp) = d"

fun is_distance_order :: "bound_order_by \<Rightarrow> bool" where
  "is_distance_order (BoundOrderBy _ _ _) = False"
| "is_distance_order (BoundDistanceOrderBy _ _ _ _ _) = True"

record bound_similar =
  bm_column :: bound_column_reference
  bm_query :: string
  bm_k :: int
  bm_kind :: index_kind
  bm_metric :: vector_metric
  bm_query_span :: span
  bm_metric_span :: span
  bm_span :: span
  bm_vector :: "pyfloat list option"
  bm_nprobe :: int
  bm_ef_search :: int

datatype bound_condition =
    BoundComparison bound_column_reference comparison_operator bound_value span
  | BoundBetween bound_column_reference bound_value bound_value span
  | BoundDistance bound_column_reference point_value comparison_operator pyfloat distance_metric span
  | BoundPolygon bound_column_reference "point_value list" span
  | BoundMatch bound_column_reference string text_ranking bool span
  | BoundSimilar bound_similar

fun bound_condition_column :: "bound_condition \<Rightarrow> bound_column_reference" where
  "bound_condition_column (BoundComparison c _ _ _) = c"
| "bound_condition_column (BoundBetween c _ _ _) = c"
| "bound_condition_column (BoundDistance c _ _ _ _ _) = c"
| "bound_condition_column (BoundPolygon c _ _) = c"
| "bound_condition_column (BoundMatch c _ _ _ _) = c"
| "bound_condition_column (BoundSimilar m) = bm_column m"

fun bound_condition_span :: "bound_condition \<Rightarrow> span" where
  "bound_condition_span (BoundComparison _ _ _ s) = s"
| "bound_condition_span (BoundBetween _ _ _ s) = s"
| "bound_condition_span (BoundDistance _ _ _ _ _ s) = s"
| "bound_condition_span (BoundPolygon _ _ s) = s"
| "bound_condition_span (BoundMatch _ _ _ _ s) = s"
| "bound_condition_span (BoundSimilar m) = bm_span m"

datatype bound_source =
    BoundTableRef bound_schema span
  | BoundJoinRef bound_source bound_source bound_column_reference bound_column_reference
      bound_schema span

fun bsrc_schema :: "bound_source \<Rightarrow> bound_schema" where
  "bsrc_schema (BoundTableRef s _) = s"
| "bsrc_schema (BoundJoinRef _ _ _ _ s _) = s"

text \<open>\<open>join_output_schema\<close>: the names both sides have are prefixed with their table's name.\<close>

definition column_names :: "bound_schema \<Rightarrow> string list" where
  "column_names s = map bc_name (bs_columns s)"

definition prefix_columns :: "string set \<Rightarrow> bound_schema \<Rightarrow> bound_column list" where
  "prefix_columns clash s =
     map (\<lambda>c. if bc_name c \<in> clash
              then BoundColumn (bs_table_name s @ ''.'' @ bc_name c) (bc_type c) (bc_length c)
              else c) (bs_columns s)"

definition join_output_schema :: "bound_schema \<Rightarrow> bound_schema \<Rightarrow> bound_schema" where
  "join_output_schema left right =
     (let clash = set (column_names left) \<inter> set (column_names right)
      in \<lparr>bs_table_name = bs_table_name left @ ''_'' @ bs_table_name right,
          bs_columns = prefix_columns clash left @ prefix_columns clash right,
          bs_key_column = 0\<rparr>)"

record bound_select =
  bl_source :: bound_source
  bl_projections :: "bound_projection list"
  bl_wildcard :: bool
  bl_where :: "bound_condition option"
  bl_span :: span
  bl_group_by :: "bound_group_by option"
  bl_order_by :: "bound_order_by option"
  bl_limit :: "int option"
  bl_score :: "bound_score_projection option"
  bl_score_order :: "bound_score_order option"

definition bl_schema :: "bound_select \<Rightarrow> bound_schema" where
  "bl_schema st = bsrc_schema (bl_source st)"

record bound_delete =
  bd_schema :: bound_schema
  bd_where :: bound_condition
  bd_span :: span

datatype bound_drop_table = BoundDropTable (bx_table_name: string) (bx_span: span)

end
