(* ===== verification/Sql_Semantic.thy ===== *)
theory Sql_Semantic
  imports Bound_Ast
begin

text \<open>
  Semantic analysis (\<open>engine/parser/semantic.py\<close>): \<open>CREATE TABLE\<close>, \<open>CREATE INDEX\<close>, \<open>INSERT\<close>,
  \<open>SELECT\<close>, \<open>DELETE\<close> and \<open>DROP TABLE\<close> are bound to schemas. The catalogue of schemas is a
  dictionary from table names, kept as the list of its items.
\<close>

definition fail :: "string \<Rightarrow> span \<Rightarrow> string option \<Rightarrow> exn + 'a" where
  "fail msg sp src = Inl (SQLError SQLSemanticError msg sp src)"

definition unsupported :: "string \<Rightarrow> span \<Rightarrow> string option \<Rightarrow> exn + 'a" where
  "unsupported msg sp src = Inl (SQLError SQLUnsupportedError msg sp src)"

definition max_identifier_length :: nat where "max_identifier_length = 64"
definition int32_min :: int where "int32_min = - (2 ^ 31)"
definition int32_max :: int where "int32_max = 2 ^ 31 - 1"
definition default_page_size :: int where "default_page_size = 4096"
definition page_header_size :: int where "page_header_size = 8"
definition slot_state_size :: int where "slot_state_size = 1"
definition sequential_body_header_size :: int where "sequential_body_header_size = 4"

definition heap_max_record_size :: int where
  "heap_max_record_size = default_page_size - page_header_size - slot_state_size"

definition sequential_max_record_size :: int where
  "sequential_max_record_size =
     (default_page_size - page_header_size - sequential_body_header_size) div 2 - slot_state_size"

section \<open>Identifiers and types\<close>

definition identifier_head :: "char \<Rightarrow> bool" where
  "identifier_head c \<longleftrightarrow>
     char_between CHR ''A'' CHR ''Z'' c \<or> char_between CHR ''a'' CHR ''z'' c \<or> c = CHR ''_''"

definition identifier_pattern :: "string \<Rightarrow> bool" where
  "identifier_pattern name \<longleftrightarrow>
     name \<noteq> [] \<and> identifier_head (hd name)
     \<and> list_all (\<lambda>c. identifier_head c \<or> is_digit c) (tl name)"

definition validate_identifier :: "string \<Rightarrow> string \<Rightarrow> span \<Rightarrow> string option \<Rightarrow> exn + unit" where
  "validate_identifier name role sp src =
     (if max_identifier_length < length name then
        fail (''nombre de '' @ role @ '' demasiado largo: el maximo es ''
              @ show_int (int max_identifier_length)) sp src
      else if \<not> identifier_pattern name then
        fail (''nombre de '' @ role @ '' invalido: '' @ repr_str name
              @ ''; use [A-Za-z_][A-Za-z0-9_]*'') sp src
      else Inr ())"

definition validate_type ::
  "sql_type_name \<Rightarrow> int option \<Rightarrow> span \<Rightarrow> string option \<Rightarrow> exn + int option" where
  "validate_type ty len sp src =
     (if ty = SQL_VARCHAR then
        (if len = None \<or> the len \<le> 0
         then fail ''VARCHAR necesita una longitud mayor que 0'' sp src else Inr len)
      else if ty = SQL_VECTOR then
        (if len = None \<or> the len \<le> 0
         then fail ''VECTOR necesita una dimension mayor que 0'' sp src else Inr len)
      else if len \<noteq> None then
        fail (''solo VARCHAR y VECTOR admiten un numero entre parentesis; '' @ type_value ty
              @ '' no lo usa'') sp src
      else Inr None)"

section \<open>CREATE TABLE\<close>

text \<open>The loop over the columns: bound columns and the positions marked \<open>PRIMARY KEY\<close>.\<close>

fun bind_columns :: "string \<Rightarrow> string option \<Rightarrow> nat \<Rightarrow> string list \<Rightarrow> column_definition list
    \<Rightarrow> exn + bound_column list \<times> nat list" where
  "bind_columns table src i seen [] = Inr ([], [])"
| "bind_columns table src i seen (c # cs) =
     (let name = id_name (cd_name c); sp = id_span (cd_name c); ty = cd_type c in
      ebind (validate_identifier name ''columna'' sp src) (\<lambda>_.
      if name \<in> set seen then
        fail (''columna repetida en '' @ table @ '': '' @ name) sp src
      else
      ebind (validate_type (ty_name ty) (ty_length ty) (ty_span ty) src) (\<lambda>len.
      ebind (bind_columns table src (Suc i) (seen @ [name]) cs) (\<lambda>(bs, keys).
        Inr (BoundColumn name (ty_name ty) len # bs,
             if cd_primary_key c then i # keys else keys)))))"

text \<open>\<open>zip(statement.columns, columns, strict=True)\<close> raises when one side is shorter.\<close>

fun first_overflow_span :: "int \<Rightarrow> int \<Rightarrow> span \<Rightarrow> column_definition list \<Rightarrow> bound_column list
    \<Rightarrow> exn + span" where
  "first_overflow_span limit used whole [] [] = Inr whole"
| "first_overflow_span limit used whole (d # ds) (c # cs) =
     ebind (byte_size c) (\<lambda>n.
       if limit < used + n then Inr (ty_span (cd_type d))
       else first_overflow_span limit (used + n) whole ds cs)"
| "first_overflow_span limit used whole ds cs = Inl (ValueError ''zip() strict'')"

definition record_limit :: "storage_kind \<Rightarrow> int" where
  "record_limit storage =
     (if storage = STORAGE_HEAP then heap_max_record_size else sequential_max_record_size)"

definition bind_create_table ::
  "create_table_statement \<Rightarrow> string option \<Rightarrow> exn + bound_create_table" where
  "bind_create_table st src =
     ebind (validate_identifier (id_name (ct_table st)) ''tabla'' (id_span (ct_table st)) src) (\<lambda>_.
     if ct_columns st = [] then
       fail ''la tabla debe declarar al menos una columna'' (ct_span st) src
     else
     ebind (bind_columns (id_name (ct_table st)) src 0 [] (ct_columns st)) (\<lambda>(columns, keys).
     case keys of
       [] \<Rightarrow> fail ''CREATE TABLE requiere exactamente una PRIMARY KEY'' (ct_span st) src
     | _ # k1 # _ \<Rightarrow>
         ebind (py_index (ct_columns st) (int k1)) (\<lambda>dup.
           fail ''CREATE TABLE solo admite una PRIMARY KEY'' (cd_span dup) src)
     | [k0] \<Rightarrow>
         (let schema = \<lparr>bs_table_name = id_name (ct_table st), bs_columns = columns,
                        bs_key_column = k0\<rparr>;
              limit = record_limit (ct_storage st)
          in ebind (record_size schema) (\<lambda>size.
             if limit < size then
               ebind (first_overflow_span limit 0 (ct_span st) (ct_columns st) columns) (\<lambda>sp.
                 fail (''el registro de '' @ show_int size @ '' bytes supera el maximo de ''
                       @ show_int limit @ '' bytes para '' @ storage_value (ct_storage st)
                       @ '' con paginas de '' @ show_int default_page_size @ '' bytes'') sp src)
             else Inr \<lparr>bt_schema = schema, bt_storage = ct_storage st, bt_span = ct_span st\<rparr>))))"

section \<open>CREATE INDEX and DROP TABLE\<close>

definition is_vector_index :: "index_kind \<Rightarrow> bool" where
  "is_vector_index kind \<longleftrightarrow> kind = IDX_IVF \<or> kind = IDX_HNSW"

definition bind_create_index ::
  "create_index_statement \<Rightarrow> bound_schema \<Rightarrow> string option \<Rightarrow> exn + bound_create_index" where
  "bind_create_index st schema src =
     (let table = id_name (ci_table st); column = id_name (ci_column st);
          csp = id_span (ci_column st) in
      ebind (validate_identifier (id_name (ci_index st)) ''indice'' (id_span (ci_index st)) src) (\<lambda>_.
      ebind (validate_identifier table ''tabla'' (id_span (ci_table st)) src) (\<lambda>_.
      ebind (validate_identifier column ''columna'' csp src) (\<lambda>_.
      if table \<noteq> bs_table_name schema then
        fail (''CREATE INDEX apunta a '' @ table @ '', pero el esquema es de ''
              @ bs_table_name schema) (id_span (ci_table st)) src
      else
      case List.find (\<lambda>c. bc_name c = column) (bs_columns schema) of
        None \<Rightarrow> fail (''la columna '' @ repr_str column @ '' no existe en la tabla ''
                      @ repr_str (bs_table_name schema)) csp src
      | Some c \<Rightarrow>
          if ci_kind st = IDX_RTREE \<and> bc_type c \<noteq> SQL_POINT then
            fail (''la columna '' @ repr_str column
                  @ '' no es POINT; RTREE requiere coordenadas'') csp src
          else if ci_kind st = IDX_INVERTED_INDEX \<and> bc_type c \<noteq> SQL_VARCHAR then
            fail (''la columna '' @ repr_str column @ '' es '' @ type_value (bc_type c)
                  @ ''; un indice de texto (FULLTEXT) requiere una columna VARCHAR'') csp src
          else if ci_kind st \<noteq> IDX_RTREE \<and> bc_type c = SQL_POINT then
            fail (''la columna '' @ repr_str column
                  @ '' es POINT y requiere un indice R-Tree'') csp src
          else if is_vector_index (ci_kind st) \<and> bc_type c \<noteq> SQL_VECTOR then
            fail ''IVF y HNSW requieren una columna VECTOR'' csp src
          else if bc_type c = SQL_VECTOR \<and> \<not> is_vector_index (ci_kind st) then
            fail (''la columna '' @ repr_str column @ '' es VECTOR y se busca por similitud; ''
                  @ index_value (ci_kind st) @ '' indexa por igualdad u orden'') csp src
          else Inr \<lparr>bi_index_name = id_name (ci_index st), bi_table_name = table,
                    bi_column_name = column, bi_kind = ci_kind st, bi_span = ci_span st,
                    bi_metric = ci_metric st, bi_language = ci_language st\<rparr>))))"

definition bind_drop_table ::
  "ident \<Rightarrow> span \<Rightarrow> string option \<Rightarrow> exn + bound_drop_table" where
  "bind_drop_table table sp src =
     ebind (validate_identifier (id_name table) ''tabla'' (id_span table) src) (\<lambda>_.
       Inr (BoundDropTable (id_name table) sp))"


section \<open>Values\<close>

fun literal_type :: "literal \<Rightarrow> string" where
  "literal_type (IntegerLiteral _ _) = ''INT''"
| "literal_type (DoubleLiteral _ _) = ''DOUBLE''"
| "literal_type (StringLiteral _ _) = ''VARCHAR''"
| "literal_type (BooleanLiteral _ _) = ''BOOL''"
| "literal_type (DateLiteral _ _) = ''DATE''"
| "literal_type (PointLit _) = ''POINT''"
| "literal_type (VectorLiteral _ _ _) = ''VectorLiteral''"

definition wrong_type :: "literal \<Rightarrow> bound_column \<Rightarrow> string option \<Rightarrow> exn + 'a" where
  "wrong_type l c src =
     fail (''columna '' @ bc_name c @ '': se esperaba '' @ type_value (bc_type c)
           @ '' y se recibio '' @ literal_type l) (literal_span l) src"

definition bind_int :: "literal \<Rightarrow> bound_column \<Rightarrow> string option \<Rightarrow> exn + bound_value" where
  "bind_int l c src =
     (case l of
        IntegerLiteral n sp \<Rightarrow>
          if \<not> (int32_min \<le> n \<and> n \<le> int32_max) then
            fail (''columna '' @ bc_name c @ '': '' @ show_int n
                  @ '' esta fuera del rango INT de 32 bits'') sp src
          else Inr (VInt n)
      | _ \<Rightarrow> wrong_type l c src)"

text \<open>\<open>float(value)\<close> of an integer or a double, and the test for a finite result.\<close>

definition finite_double :: "string \<Rightarrow> pyfloat \<Rightarrow> span \<Rightarrow> string option \<Rightarrow> exn + bound_value" where
  "finite_double name x sp src =
     (if \<not> is_finite x then fail (''columna '' @ name @ '': DOUBLE requiere un valor finito'') sp src
      else Inr (VFloat x))"

definition bind_double :: "literal \<Rightarrow> bound_column \<Rightarrow> string option \<Rightarrow> exn + bound_value" where
  "bind_double l c src =
     (case l of
        IntegerLiteral n sp \<Rightarrow>
          (case float_of_int n of
             None \<Rightarrow> fail (''columna '' @ bc_name c @ '': el valor desborda DOUBLE'') sp src
           | Some x \<Rightarrow> finite_double (bc_name c) x sp src)
      | DoubleLiteral x sp \<Rightarrow> finite_double (bc_name c) x sp src
      | _ \<Rightarrow> wrong_type l c src)"

definition bind_varchar :: "literal \<Rightarrow> bound_column \<Rightarrow> string option \<Rightarrow> exn + bound_value" where
  "bind_varchar l c src =
     (case l of
        StringLiteral v sp \<Rightarrow>
          if CHR 0x00 \<in> set v then
            fail (''columna '' @ bc_name c @ '': VARCHAR no admite bytes nulos'') sp src
          else
          (case bc_length c of
             None \<Rightarrow> fail (''columna '' @ bc_name c @ '': el esquema VARCHAR no tiene longitud'') sp src
           | Some n \<Rightarrow>
               if n < int (utf8_length v) then
                 fail (''columna '' @ bc_name c @ '': el texto ocupa '' @ show_int (int (utf8_length v))
                       @ '' bytes y supera VARCHAR('' @ show_int n @ '')'') sp src
               else Inr (VStr v))
      | _ \<Rightarrow> wrong_type l c src)"

definition bind_point_literal ::
  "point_literal \<Rightarrow> bound_column \<Rightarrow> string option \<Rightarrow> exn + point_value" where
  "bind_point_literal p c src =
     (if \<not> is_finite (pt_latitude p)
         \<or> \<not> (float_le (Fin (- 90)) (pt_latitude p) \<and> float_le (pt_latitude p) (Fin 90)) then
        fail (''columna '' @ bc_name c @ '': la latitud de POINT debe estar entre -90 y 90'')
          (pt_latitude_span p) src
      else if \<not> is_finite (pt_longitude p)
         \<or> \<not> (float_le (Fin (- 180)) (pt_longitude p) \<and> float_le (pt_longitude p) (Fin 180)) then
        fail (''columna '' @ bc_name c @ '': la longitud de POINT debe estar entre -180 y 180'')
          (pt_longitude_span p) src
      else Inr (PointValue (pt_latitude p) (pt_longitude p)))"

definition bind_point :: "literal \<Rightarrow> bound_column \<Rightarrow> string option \<Rightarrow> exn + bound_value" where
  "bind_point l c src =
     (case l of
        PointLit p \<Rightarrow> ebind (bind_point_literal p c src) (\<lambda>v. Inr (VPoint v))
      | _ \<Rightarrow> wrong_type l c src)"

text \<open>The loop over the components, from position \<open>i\<close>.\<close>

fun check_components :: "nat \<Rightarrow> string \<Rightarrow> pyfloat list \<Rightarrow> span list \<Rightarrow> string option \<Rightarrow> exn + unit" where
  "check_components i name [] spans src = Inr ()"
| "check_components i name (x # xs) spans src =
     (if \<not> is_finite x then
        ebind (py_index spans (int i)) (\<lambda>sp.
          fail (''columna '' @ name @ '': la componente '' @ show_int (int i + 1)
                @ '' del vector no es finita'') sp src)
      else check_components (Suc i) name xs spans src)"

definition bind_vector :: "literal \<Rightarrow> bound_column \<Rightarrow> string option \<Rightarrow> exn + bound_value" where
  "bind_vector l c src =
     (case l of
        VectorLiteral xs spans sp \<Rightarrow>
          (case bc_length c of
             None \<Rightarrow> Inl (AssertionError (''columna '' @ bc_name c
                                        @ '': VECTOR sin dimension en el esquema''))
           | Some n \<Rightarrow>
               if int (length xs) \<noteq> n then
                 ebind (if n < int (length xs) then py_index spans n else Inr sp) (\<lambda>esp.
                   fail (''columna '' @ bc_name c @ '': el vector tiene '' @ show_int (int (length xs))
                         @ '' componentes y la columna declara VECTOR('' @ show_int n @ '')'') esp src)
               else ebind (check_components 0 (bc_name c) xs spans src) (\<lambda>_. Inr (VVector xs)))
      | _ \<Rightarrow> wrong_type l c src)"

definition bind_value :: "literal \<Rightarrow> bound_column \<Rightarrow> string option \<Rightarrow> exn + bound_value" where
  "bind_value l c src =
     (case bc_type c of
        SQL_INT \<Rightarrow> bind_int l c src
      | SQL_DOUBLE \<Rightarrow> bind_double l c src
      | SQL_VARCHAR \<Rightarrow> bind_varchar l c src
      | SQL_BOOL \<Rightarrow> (case l of BooleanLiteral b _ \<Rightarrow> Inr (VBool b) | _ \<Rightarrow> wrong_type l c src)
      | SQL_DATE \<Rightarrow> (case l of DateLiteral d _ \<Rightarrow> Inr (VDate d) | _ \<Rightarrow> wrong_type l c src)
      | SQL_POINT \<Rightarrow> bind_point l c src
      | SQL_VECTOR \<Rightarrow> bind_vector l c src)"

text \<open>In a predicate a text may be longer than the column; every Latin-1 text encodes as UTF-8.\<close>

definition bind_predicate_value ::
  "literal \<Rightarrow> bound_column \<Rightarrow> string option \<Rightarrow> exn + bound_value" where
  "bind_predicate_value l c src =
     (if bc_type c \<noteq> SQL_VARCHAR then bind_value l c src
      else case l of StringLiteral v _ \<Rightarrow> Inr (VStr v) | _ \<Rightarrow> wrong_type l c src)"

definition bind_insert ::
  "insert_statement \<Rightarrow> bound_schema \<Rightarrow> string option \<Rightarrow> exn + bound_insert" where
  "bind_insert st schema src =
     (if id_name (in_table st) \<noteq> bs_table_name schema then
        fail (''el INSERT apunta a '' @ id_name (in_table st) @ '', pero el esquema es de ''
              @ bs_table_name schema) (id_span (in_table st)) src
      else if length (in_values st) \<noteq> length (bs_columns schema) then
        fail (''INSERT tiene '' @ show_int (int (length (in_values st)))
              @ '' valores y la tabla '' @ bs_table_name schema @ '' requiere ''
              @ show_int (int (length (bs_columns schema)))) (in_span st) src
      else
        ebind (emap (\<lambda>(l, c). bind_value l c src) (zip (in_values st) (bs_columns schema))) (\<lambda>vs.
          Inr \<lparr>bn_table_name = id_name (in_table st), bn_values = vs, bn_span = in_span st\<rparr>))"


section \<open>Scopes and columns\<close>

text \<open>The names a query sees: table, original name and position in the output schema.\<close>

record scope =
  sc_schema :: bound_schema
  sc_visible :: "(string \<times> string \<times> nat) list"

fun visible_columns :: "bound_source \<Rightarrow> nat \<Rightarrow> (string \<times> string \<times> nat) list" where
  "visible_columns (BoundTableRef s _) off =
     map (\<lambda>(i, c). (bs_table_name s, bc_name c, off + i)) (enumerate 0 (bs_columns s))"
| "visible_columns (BoundJoinRef l r _ _ _ _) off =
     visible_columns l off @ visible_columns r (off + length (bs_columns (bsrc_schema l)))"

definition scope_of :: "bound_source \<Rightarrow> scope" where
  "scope_of s = \<lparr>sc_schema = bsrc_schema s, sc_visible = visible_columns s 0\<rparr>"

definition positions_of :: "column_reference \<Rightarrow> scope \<Rightarrow> nat list" where
  "positions_of ref sc =
     (case cr_qualifier ref of
        Some q \<Rightarrow> map (\<lambda>(t, c, i). i)
          (filter (\<lambda>(t, c, i). t = id_name q \<and> c = id_name (cr_name ref)) (sc_visible sc))
      | None \<Rightarrow> map (\<lambda>(t, c, i). i)
          (filter (\<lambda>(t, c, i). c = id_name (cr_name ref)) (sc_visible sc)))"

definition column_at :: "nat \<Rightarrow> scope \<Rightarrow> span \<Rightarrow> exn + bound_column_reference" where
  "column_at i sc sp =
     ebind (py_index (bs_columns (sc_schema sc)) (int i)) (\<lambda>c. Inr (BoundColumnReference i c sp))"

definition lookup_column :: "column_reference \<Rightarrow> scope \<Rightarrow> exn + bound_column_reference option" where
  "lookup_column ref sc =
     (case positions_of ref sc of
        [i] \<Rightarrow> ebind (column_at i sc (cr_span ref)) (\<lambda>b. Inr (Some b))
      | _ \<Rightarrow> Inr None)"

definition resolve_column ::
  "column_reference \<Rightarrow> scope \<Rightarrow> string option \<Rightarrow> exn + bound_column_reference" where
  "resolve_column ref sc src =
     (let name = id_name (cr_name ref); tables = map fst (sc_visible sc) in
      ebind (case cr_qualifier ref of
               None \<Rightarrow> Inr ()
             | Some q \<Rightarrow>
                 if id_name q \<notin> set tables then
                   fail (''el calificador '' @ repr_str (id_name q)
                         @ '' no corresponde a ninguna tabla de la consulta; hay: ''
                         @ join_str '', '' (sort (remdups tables))) (id_span q) src
                 else Inr ()) (\<lambda>_.
      case positions_of ref sc of
        _ # _ # _ \<Rightarrow>
          fail (''la columna '' @ repr_str name @ '' es ambigua: esta en ''
                @ join_str '', '' (sort (map fst (filter (\<lambda>(t, c, i). c = name) (sc_visible sc))))
                @ ''; califica cual quieres'') (id_span (cr_name ref)) src
      | [i] \<Rightarrow> column_at i sc (cr_span ref)
      | [] \<Rightarrow>
          fail (''la columna '' @ repr_str name @ '' no existe en ''
                @ (case cr_qualifier ref of
                     Some q \<Rightarrow> ''la tabla '' @ repr_str (id_name q)
                   | None \<Rightarrow> ''la consulta sobre '' @ repr_str (bs_table_name (sc_schema sc))))
            (id_span (cr_name ref)) src))"

section \<open>The FROM clause\<close>

text \<open>A dictionary of schemas by table name, as its items in order.\<close>

type_synonym catalog = "(string \<times> bound_schema) list"

definition bind_table :: "ident \<Rightarrow> span \<Rightarrow> catalog \<Rightarrow> string option \<Rightarrow> exn + bound_source" where
  "bind_table table sp cat src =
     (case map_of cat (id_name table) of
        None \<Rightarrow>
          (let known = join_str '', '' (sort (map fst cat)) in
           fail (''la consulta apunta a '' @ id_name table @ '', pero los esquemas disponibles son: ''
                 @ (if known \<noteq> [] then known else ''ninguna'')) (id_span table) src)
      | Some schema \<Rightarrow> Inr (BoundTableRef schema sp))"

text \<open>The columns of \<open>ON\<close>: the direct pairing, else the crossed one, else the error.\<close>

definition join_columns ::
  "column_reference \<Rightarrow> column_reference \<Rightarrow> scope \<Rightarrow> scope \<Rightarrow> string option
   \<Rightarrow> exn + bound_column_reference \<times> bound_column_reference" where
  "join_columns a b left right src =
     ebind (lookup_column a left) (\<lambda>al.
     ebind (lookup_column b right) (\<lambda>br.
     ebind (lookup_column b left) (\<lambda>bl.
     ebind (lookup_column a right) (\<lambda>ar.
       case (al, br) of
         (Some x, Some y) \<Rightarrow> Inr (x, y)
       | _ \<Rightarrow>
         (case (bl, ar) of
            (Some x, Some y) \<Rightarrow> Inr (x, y)
          | _ \<Rightarrow> ebind (resolve_column a left src) (\<lambda>x.
                 ebind (resolve_column b right src) (\<lambda>y. Inr (x, y))))))))"

fun bind_source :: "from_source \<Rightarrow> catalog \<Rightarrow> string option \<Rightarrow> exn + bound_source" where
  "bind_source (TableRef table sp) cat src = bind_table table sp cat src"
| "bind_source (JoinRef l r a b sp) cat src =
     ebind (bind_source l cat src) (\<lambda>left.
     ebind (bind_source r cat src) (\<lambda>right.
     ebind (join_columns a b (scope_of left) (scope_of right) src) (\<lambda>(lc, rc).
       if bc_type (br_column lc) \<noteq> bc_type (br_column rc) then
         fail (''no se puede juntar '' @ bc_name (br_column lc) @ '' (''
               @ type_value (bc_type (br_column lc)) @ '') con '' @ bc_name (br_column rc) @ '' (''
               @ type_value (bc_type (br_column rc)) @ '')'') sp src
       else Inr (BoundJoinRef left right lc rc
                   (join_output_schema (bsrc_schema left) (bsrc_schema right)) sp))))"


section \<open>Projections and conditions\<close>

definition bind_aggregate :: "aggregate_call \<Rightarrow> scope \<Rightarrow> string option \<Rightarrow> exn + bound_projection" where
  "bind_aggregate a sc src =
     (if ag_function a = AGG_COUNT then
        (case ag_argument a of
           ArgColumn c \<Rightarrow> fail ''COUNT requiere '*' como argumento'' (cr_span c) src
         | ArgWildcard _ \<Rightarrow> Inr (BPAggregate (BoundAggregateCall AGG_COUNT None (ag_span a))))
      else
        (case ag_argument a of
           ArgWildcard sp \<Rightarrow> fail ''solo COUNT admite '*' como argumento'' sp src
         | ArgColumn c \<Rightarrow>
             ebind (resolve_column c sc src) (\<lambda>arg.
             if ag_function a \<in> {AGG_SUM, AGG_AVG}
                \<and> bc_type (br_column arg) \<notin> {SQL_INT, SQL_DOUBLE} then
               fail (aggregate_value (ag_function a) @ '' requiere una columna INT o DOUBLE; ''
                     @ bc_name (br_column arg) @ '' es '' @ type_value (bc_type (br_column arg)))
                 (cr_span c) src
             else Inr (BPAggregate (BoundAggregateCall (ag_function a) (Some arg) (ag_span a))))))"

text \<open>The other classes do not reach \<open>_bind_projection\<close>; they have no \<open>function\<close> attribute.\<close>

definition bind_projection :: "projection \<Rightarrow> scope \<Rightarrow> string option \<Rightarrow> exn + bound_projection" where
  "bind_projection p sc src =
     (case p of
        PColumn c \<Rightarrow> ebind (resolve_column c sc src) (\<lambda>b. Inr (BPColumn b))
      | PAggregate a \<Rightarrow> bind_aggregate a sc src
      | _ \<Rightarrow> Inl (TypeError ''projection''))"

definition require_type ::
  "sql_type_name \<Rightarrow> string \<Rightarrow> bound_column_reference \<Rightarrow> span \<Rightarrow> string option \<Rightarrow> exn + unit" where
  "require_type ty clause c sp src =
     (if bc_type (br_column c) \<noteq> ty then
        fail (clause @ '' requiere una columna '' @ type_value ty @ ''; '' @ bc_name (br_column c)
              @ '' es '' @ type_value (bc_type (br_column c))) sp src
      else Inr ())"

definition bind_similar :: "similar_condition \<Rightarrow> scope \<Rightarrow> string option \<Rightarrow> exn + bound_condition" where
  "bind_similar m sc src =
     ebind (case sm_column m of
              None \<Rightarrow>
                (case filter (\<lambda>(i, c). bc_type c = SQL_VECTOR)
                        (enumerate 0 (bs_columns (sc_schema sc))) of
                   [(i, c)] \<Rightarrow> Inr (BoundColumnReference i c (sm_span m))
                 | _ \<Rightarrow> fail ''SIMILAR_TO necesita una unica columna VECTOR o una columna explicita''
                          (sm_span m) src)
            | Some c \<Rightarrow> resolve_column c sc src) (\<lambda>column.
     if bc_type (br_column column) \<noteq> SQL_VECTOR then
       fail ''SIMILAR_TO requiere una columna VECTOR'' (br_span column) src
     else if sl_value (sm_query m) = [] \<or> CHR 0x00 \<in> set (sl_value (sm_query m)) then
       fail ''SIMILAR_TO requiere una ruta de archivo valida'' (sl_span (sm_query m)) src
     else if il_value (sm_k m) < 0 then
       fail ''k requiere un entero no negativo'' (il_span (sm_k m)) src
     else Inr (BoundSimilar
       \<lparr>bm_column = column, bm_query = sl_value (sm_query m), bm_k = il_value (sm_k m),
        bm_kind = sm_kind m, bm_metric = sm_metric m, bm_query_span = sl_span (sm_query m),
        bm_metric_span = sm_metric_span m, bm_span = sm_span m, bm_vector = None,
        bm_nprobe = 1, bm_ef_search = 64\<rparr>))"

text \<open>\<open>float(condition.radius.value)\<close> where the radius is an integer or a double literal.\<close>

definition bind_radius :: "literal \<Rightarrow> string option \<Rightarrow> exn + pyfloat" where
  "bind_radius l src =
     ebind (case l of
              IntegerLiteral n sp \<Rightarrow>
                (case float_of_int n of
                   None \<Rightarrow> fail ''el radio de DISTANCIA desborda DOUBLE'' sp src
                 | Some x \<Rightarrow> Inr x)
            | DoubleLiteral x sp \<Rightarrow> Inr x
            | _ \<Rightarrow> Inl (TypeError ''float'')) (\<lambda>radius.
     if \<not> is_finite radius \<or> float_less radius (Fin 0) then
       fail ''el radio de DISTANCIA debe ser finito y no negativo'' (literal_span l) src
     else Inr radius)"

definition point_column :: "string \<Rightarrow> bound_column" where
  "point_column name = BoundColumn name SQL_POINT None"

fun bind_condition :: "condition \<Rightarrow> scope \<Rightarrow> string option \<Rightarrow> exn + bound_condition" where
  "bind_condition (SimilarCond m) sc src = bind_similar m sc src"
| "bind_condition (MatchCond m) sc src =
     ebind (resolve_column (mc_column m) sc src) (\<lambda>column.
     ebind (require_type SQL_VARCHAR ''MATCH'' column (cr_span (mc_column m)) src) (\<lambda>_.
       Inr (BoundMatch column (sl_value (mc_query m)) (mc_ranking m) (mc_ranking_explicit m)
              (mc_span m))))"
| "bind_condition (PolygonCondition c (PolygonLiteral vs psp) sp) sc src =
     ebind (resolve_column c sc src) (\<lambda>column.
     ebind (require_type SQL_POINT ''DENTRO'' column (cr_span c) src) (\<lambda>_.
     ebind (emap (\<lambda>v. bind_point_literal v (point_column ''vertice'') src) vs) (\<lambda>vertices.
       if length (remdups vertices) < 3 then
         fail ''POLYGON necesita al menos 3 vertices distintos'' psp src
       else Inr (BoundPolygon column vertices sp))))"
| "bind_condition (DistanceCond d) sc src =
     ebind (resolve_column (dc_column d) sc src) (\<lambda>column.
     ebind (require_type SQL_POINT ''DISTANCIA'' column (cr_span (dc_column d)) src) (\<lambda>_.
     ebind (bind_point_literal (dc_center d) (point_column ''centro'') src) (\<lambda>center.
     ebind (bind_radius (dc_radius d) src) (\<lambda>radius.
       Inr (BoundDistance column center (dc_operator d) radius (dc_metric d) (dc_span d))))))"
| "bind_condition (ComparisonCondition c op v sp) sc src =
     ebind (resolve_column c sc src) (\<lambda>column.
     ebind (bind_predicate_value v (br_column column) src) (\<lambda>x.
       Inr (BoundComparison column op x sp)))"
| "bind_condition (BetweenCondition c lo hi sp) sc src =
     ebind (resolve_column c sc src) (\<lambda>column.
     ebind (bind_predicate_value lo (br_column column) src) (\<lambda>x.
     ebind (bind_predicate_value hi (br_column column) src) (\<lambda>y.
       Inr (BoundBetween column x y sp))))"

definition bind_where :: "condition option \<Rightarrow> scope \<Rightarrow> string option \<Rightarrow> exn + bound_condition option" where
  "bind_where wh sc src =
     (case wh of None \<Rightarrow> Inr None
      | Some c \<Rightarrow> ebind (bind_condition c sc src) (\<lambda>b. Inr (Some b)))"

definition bind_delete ::
  "delete_statement \<Rightarrow> bound_schema \<Rightarrow> string option \<Rightarrow> exn + bound_delete" where
  "bind_delete st schema src =
     (if id_name (de_table st) \<noteq> bs_table_name schema then
        fail (''el DELETE apunta a '' @ id_name (de_table st) @ '', pero el esquema es de ''
              @ bs_table_name schema) (id_span (de_table st)) src
      else
        ebind (bind_condition (de_where st) (scope_of (BoundTableRef schema (de_span st))) src) (\<lambda>wh.
        case wh of
          BoundSimilar m \<Rightarrow> unsupported ''SIMILAR_TO solo se admite en SELECT'' (bm_span m) src
        | BoundMatch _ _ _ _ sp \<Rightarrow>
            unsupported ''MATCH solo se admite en SELECT: un DELETE no borra por relevancia'' sp src
        | _ \<Rightarrow> Inr \<lparr>bd_schema = schema, bd_where = wh, bd_span = de_span st\<rparr>))"


section \<open>SELECT\<close>

fun score_calls :: "projection list \<Rightarrow> score_call list" where
  "score_calls [] = []"
| "score_calls (PScore c # ps) = c # score_calls ps"
| "score_calls (p # ps) = score_calls ps"

definition score_name :: "score_call \<Rightarrow> string" where
  "score_name c =
     (case sc_alias c of Some a \<Rightarrow> id_name a | None \<Rightarrow> lower (score_value (sc_kind c)))"

fun is_aggregate :: "projection \<Rightarrow> bool" where
  "is_aggregate (PAggregate _) = True"
| "is_aggregate _ = False"

fun is_bound_aggregate :: "bound_projection \<Rightarrow> bool" where
  "is_bound_aggregate (BPAggregate _) = True"
| "is_bound_aggregate _ = False"

definition wildcard_columns :: "bound_schema \<Rightarrow> span \<Rightarrow> bound_projection list" where
  "wildcard_columns schema sp =
     map (\<lambda>(i, c). BPColumn (BoundColumnReference i c sp)) (enumerate 0 (bs_columns schema))"

text \<open>The projections of the table (all but the score), and whether they are \<open>*\<close>.\<close>

definition bind_projections ::
  "projection list \<Rightarrow> bool \<Rightarrow> scope \<Rightarrow> string option \<Rightarrow> exn + bool \<times> bound_projection list" where
  "bind_projections ps grouped sc src =
     (case List.find is_wildcard ps of
        Some w \<Rightarrow>
          if length ps \<noteq> 1 then
            fail (CHR 0x27 # ''*' no se puede combinar con otras proyecciones'') (projection_span w) src
          else if grouped then
            fail (CHR 0x27 # ''*' no se admite en una consulta con GROUP BY'')
              (projection_span (hd ps)) src
          else Inr (True, wildcard_columns (sc_schema sc) (projection_span (hd ps)))
      | None \<Rightarrow>
          ebind (emap (\<lambda>p. bind_projection p sc src) ps) (\<lambda>bs. Inr (False, bs)))"

fun check_grouped :: "nat \<Rightarrow> bound_projection list \<Rightarrow> string option \<Rightarrow> exn + unit" where
  "check_grouped key [] src = Inr ()"
| "check_grouped key (BPColumn c # ps) src =
     (if br_index c \<noteq> key then
        fail ''toda columna proyectada sin agregar debe ser la columna de GROUP BY'' (br_span c) src
      else check_grouped key ps src)"
| "check_grouped key (BPAggregate a # ps) src = check_grouped key ps src"

definition check_group_by ::
  "bound_group_by option \<Rightarrow> bound_projection list \<Rightarrow> string option \<Rightarrow> exn + unit" where
  "check_group_by gb ps src =
     (case gb of
        None \<Rightarrow> Inr ()
      | Some g \<Rightarrow>
          if \<not> list_ex is_bound_aggregate ps then
            fail ''GROUP BY requiere al menos una funcion de agregado'' (bg_span g) src
          else check_grouped (br_index (bg_column g)) ps src)"

text \<open>The column of an external order, and the group rule it obeys.\<close>

definition bind_order_column ::
  "column_reference \<Rightarrow> bound_group_by option \<Rightarrow> scope \<Rightarrow> string option
   \<Rightarrow> exn + bound_column_reference" where
  "bind_order_column c gb sc src =
     ebind (resolve_column c sc src) (\<lambda>column.
     case gb of
       None \<Rightarrow> Inr column
     | Some g \<Rightarrow>
         if br_index column \<noteq> br_index (bg_column g) then
           fail ''ORDER BY solo puede usar la columna de GROUP BY en una consulta agrupada''
             (cr_span c) src
         else Inr column)"

definition bind_order_by ::
  "order_clause option \<Rightarrow> score_call option \<Rightarrow> bound_group_by option \<Rightarrow> scope \<Rightarrow> string option
   \<Rightarrow> exn + bound_order_by option \<times> bound_score_order option" where
  "bind_order_by ob score gb sc src =
     (case ob of
        None \<Rightarrow> Inr (None, None)
      | Some (ScoreOrderBy d sp k) \<Rightarrow> Inr (None, Some (BoundScoreOrderBy d sp k))
      | Some (OrderBy c d sp) \<Rightarrow>
          (case score of
             Some call \<Rightarrow>
               if cr_qualifier c = None \<and> id_name (cr_name c) = score_name call then
                 Inr (None, Some (BoundScoreOrderBy d sp (sc_kind call)))
               else ebind (bind_order_column c gb sc src) (\<lambda>b. Inr (Some (BoundOrderBy b d sp), None))
           | None \<Rightarrow>
               ebind (bind_order_column c gb sc src) (\<lambda>b. Inr (Some (BoundOrderBy b d sp), None)))
      | Some (DistanceOrderBy c p m d sp) \<Rightarrow>
          ebind (bind_order_column c gb sc src) (\<lambda>b.
          if bc_type (br_column b) \<noteq> SQL_POINT then
            fail ''ORDER BY DISTANCIA requiere una columna POINT'' (cr_span c) src
          else ebind (bind_point_literal p (point_column ''centro'') src) (\<lambda>center.
            Inr (Some (BoundDistanceOrderBy b center m d sp), None))))"

text \<open>Called when the query has a score or an order by score; without them there is no check.\<close>

definition validate_score ::
  "score_call option \<Rightarrow> bound_score_order option \<Rightarrow> order_clause option \<Rightarrow> bound_condition option
   \<Rightarrow> bound_group_by option \<Rightarrow> bound_order_by option \<Rightarrow> string option \<Rightarrow> exn + unit" where
  "validate_score call order clause wh gb ob src =
     (case (case call of
              Some c \<Rightarrow> Some (sc_span c, sc_kind c)
            | None \<Rightarrow> (case order of Some s \<Rightarrow> Some (bso_span s, bso_kind s) | None \<Rightarrow> None)) of
        None \<Rightarrow> Inr ()
      | Some (sp, kind) \<Rightarrow>
          (let label = score_value kind @ ''()'';
               predicate = (if kind = SCORE_TEXT then ''MATCH'' else ''SIMILAR_TO'');
               found = (case wh of
                          Some (BoundMatch _ _ _ _ _) \<Rightarrow> kind = SCORE_TEXT
                        | Some (BoundSimilar _) \<Rightarrow> kind = SCORE_SIMILARITY
                        | _ \<Rightarrow> False)
           in if (case order of Some s \<Rightarrow> bso_kind s \<noteq> kind | None \<Rightarrow> False) then
                fail ''no se puede mezclar SCORE() con SIMILARITY_SCORE()'' (bso_span (the order)) src
              else if \<not> found then
                fail (label @ '' es el puntaje de '' @ predicate @ '': la consulta necesita ''
                      @ predicate @ '' en el WHERE'') sp src
              else if gb \<noteq> None then
                unsupported (label @ '' con GROUP BY no esta soportado: el puntaje es de cada objeto, ''
                             @ ''no de un grupo'') sp src
              else if ob \<noteq> None then
                (case clause of None \<Rightarrow> Inl (AssertionError []) | Some oc \<Rightarrow>
                unsupported (label @ '' con ORDER BY sobre otra columna no esta soportado: el External ''
                  @ ''Sorting ordena registros de la tabla y el puntaje no viaja con ellos. ''
                  @ ''Ordena por el puntaje, o quita '' @ label) (order_span oc) src)
              else Inr ()))"


text \<open>The place of the score among the output columns: \<open>*\<close> counts as all of them.\<close>

definition score_position :: "projection list \<Rightarrow> bound_schema \<Rightarrow> nat" where
  "score_position ps schema =
     sum_list (map (\<lambda>p. if is_wildcard p then length (bs_columns schema) else 1)
       (takeWhile (\<lambda>p. \<not> is_score_call p) ps))"

definition bind_score :: "select_statement \<Rightarrow> score_call option \<Rightarrow> bound_schema
    \<Rightarrow> bound_score_projection option" where
  "bind_score st call schema =
     (case call of None \<Rightarrow> None
      | Some c \<Rightarrow> Some (BoundScoreProjection (score_name c)
                        (score_position (se_projections st) schema) (sc_span c) (sc_kind c)))"

text \<open>\<open>schemas\<close> is one schema or a dictionary of them.\<close>

datatype schemas = OneSchema bound_schema | Schemas catalog

fun catalog_of :: "schemas \<Rightarrow> catalog" where
  "catalog_of (OneSchema s) = [(bs_table_name s, s)]"
| "catalog_of (Schemas c) = c"

fun is_table_ref :: "bound_source \<Rightarrow> bool" where
  "is_table_ref (BoundTableRef _ _) = True"
| "is_table_ref _ = False"

definition check_similar :: "select_statement \<Rightarrow> bound_source \<Rightarrow> string option \<Rightarrow> exn + unit" where
  "check_similar st bsrc src =
     (case se_where st of
        Some (SimilarCond m) \<Rightarrow>
          if \<not> is_table_ref bsrc \<or> se_group_by st \<noteq> None then
            unsupported ''SIMILAR_TO requiere una sola tabla sin JOIN ni GROUP BY'' (sm_span m) src
          else Inr ()
      | _ \<Rightarrow> Inr ())"

definition bind_group_by ::
  "group_by option \<Rightarrow> scope \<Rightarrow> string option \<Rightarrow> exn + bound_group_by option" where
  "bind_group_by gb sc src =
     (case gb of None \<Rightarrow> Inr None
      | Some g \<Rightarrow> ebind (resolve_column (gb_column g) sc src) (\<lambda>c. Inr (Some (BoundGroupBy c (gb_span g)))))"

definition bind_limit :: "limit_clause option \<Rightarrow> string option \<Rightarrow> exn + int option" where
  "bind_limit lm src =
     (case lm of None \<Rightarrow> Inr None
      | Some l \<Rightarrow> if lm_value l < 0 then fail ''LIMIT requiere un entero no negativo'' (lm_span l) src
                  else Inr (Some (lm_value l)))"

definition check_match_join :: "bound_condition option \<Rightarrow> bound_source \<Rightarrow> string option \<Rightarrow> exn + unit" where
  "check_match_join wh bsrc src =
     (case wh of
        Some (BoundMatch _ _ _ _ sp) \<Rightarrow>
          if \<not> is_table_ref bsrc then
            unsupported (''MATCH sobre una consulta con JOIN no esta soportado: el indice de texto ''
                         @ ''rankea los documentos de una sola tabla'') sp src
          else Inr ()
      | _ \<Rightarrow> Inr ())"

definition one_score :: "select_statement \<Rightarrow> string option \<Rightarrow> exn + score_call option" where
  "one_score st src =
     (case score_calls (se_projections st) of
        [] \<Rightarrow> Inr None
      | [c] \<Rightarrow> Inr (Some c)
      | _ # c # _ \<Rightarrow> fail ''SCORE()/SIMILARITY_SCORE() solo puede aparecer una vez'' (sc_span c) src)"

definition check_aggregates :: "projection list \<Rightarrow> bool \<Rightarrow> string option \<Rightarrow> exn + unit" where
  "check_aggregates ps grouped src =
     (case List.find is_aggregate ps of
        Some a \<Rightarrow>
          if \<not> grouped then
            fail ''las funciones de agregado requieren una clausula GROUP BY'' (projection_span a) src
          else Inr ()
      | None \<Rightarrow> Inr ())"

definition bind_select :: "select_statement \<Rightarrow> schemas \<Rightarrow> string option \<Rightarrow> exn + bound_select" where
  "bind_select st schemas src =
     ebind (bind_source (se_source st) (catalog_of schemas) src) (\<lambda>bsrc.
     ebind (check_similar st bsrc src) (\<lambda>_.
     let sc = scope_of bsrc; schema = sc_schema sc; grouped = (se_group_by st \<noteq> None) in
     if se_projections st = [] then
       fail ''SELECT requiere al menos una proyeccion'' (se_span st) src
     else
     ebind (one_score st src) (\<lambda>call.
     let tps = filter (\<lambda>p. \<not> is_score_call p) (se_projections st) in
     ebind (check_aggregates tps grouped src) (\<lambda>_.
     ebind (bind_group_by (se_group_by st) sc src) (\<lambda>gb.
     ebind (bind_projections tps grouped sc src) (\<lambda>(wildcard, ps).
     ebind (check_group_by gb ps src) (\<lambda>_.
     ebind (bind_order_by (se_order_by st) call gb sc src) (\<lambda>(ob, order).
     ebind (bind_where (se_where st) sc src) (\<lambda>wh.
     ebind (check_match_join wh bsrc src) (\<lambda>_.
     ebind (bind_limit (se_limit st) src) (\<lambda>limit.
     ebind (validate_score call order (se_order_by st) wh gb ob src) (\<lambda>_.
       Inr \<lparr>bl_source = bsrc, bl_projections = ps, bl_wildcard = wildcard, bl_where = wh,
            bl_span = se_span st, bl_group_by = gb, bl_order_by = ob, bl_limit = limit,
            bl_score = bind_score st call schema, bl_score_order = order\<rparr>))))))))))))"

end
