(* ===== verification/Sql_Lexer.thy ===== *)
theory Sql_Lexer
  imports Sql_Tokens
begin

text \<open>
  The lexer (\<open>engine/parser/lexer.py\<close>): its state is the text, the offset and the line and column
  it counts; every method is a function from the state to the new state or an exception. The
  loops recurse on the characters left, so the lexer terminates by definition.

  The specification of the token list is \<open>lexed\<close>: from left to right, the text is cut into
  tokens, each the exact text of its span, with only white space and comments between them.
\<close>

definition keyword_kinds :: "token_kind list" where
  "keyword_kinds =
     [K_CREATE, K_TABLE, K_INDEX, K_ON, K_PRIMARY, K_KEY, K_USING, K_HEAP, K_SEQUENTIAL,
      K_BPLUS, K_BPLUS_UNCLUSTERED, K_HASH, K_EXTENDIBLE_HASH, K_RTREE, K_FULLTEXT,
      K_INVERTED_INDEX, K_IVF, K_HNSW, K_WITH, K_METRIC, K_SIMILAR_TO, K_INSERT, K_INTO,
      K_VALUES, K_SELECT, K_EXPLAIN, K_ANALYZE, K_FROM, K_JOIN, K_WHERE, K_DELETE, K_DROP,
      K_ORDER, K_BY, K_ASC, K_DESC, K_LIMIT, K_GROUP, K_COUNT, K_SUM, K_MIN, K_MAX, K_AVG,
      K_BETWEEN, K_AND, K_DISTANCIA, K_DENTRO, K_POLYGON, K_MATCH, K_TF_IDF, K_BM25, K_SCORE,
      K_SIMILARITY_SCORE, K_AS, K_HAVERSINE, K_EUCLIDEAN, K_INT, K_DOUBLE, K_VARCHAR, K_BOOL,
      K_DATE, K_POINT, K_VECTOR, K_TRUE, K_FALSE, K_BEGIN, K_TRANSACTION, K_END]"

definition keyword_of :: "string \<Rightarrow> token_kind" where
  "keyword_of word =
     (case List.find (\<lambda>k. kind_value k = word) keyword_kinds of Some k \<Rightarrow> k | None \<Rightarrow> K_IDENTIFIER)"

definition single_character_tokens :: "(char \<times> token_kind) list" where
  "single_character_tokens =
     [(CHR ''('', K_LPAREN), (CHR '')'', K_RPAREN), (CHR '','', K_COMMA), (CHR '';'', K_SEMICOLON),
      (CHR ''*'', K_STAR), (CHR ''.'', K_DOT), (CHR ''='', K_EQUAL)]"

definition is_newline :: "char \<Rightarrow> bool" where
  "is_newline c \<longleftrightarrow> c = CHR 0x0D \<or> c = CHR 0x0A"

definition is_whitespace :: "char \<Rightarrow> bool" where
  "is_whitespace c \<longleftrightarrow> c = CHR '' '' \<or> c = CHR 0x09 \<or> is_newline c"

definition is_identifier_start :: "char \<Rightarrow> bool" where
  "is_identifier_start c \<longleftrightarrow> c = CHR ''_'' \<or> is_alpha c"

definition is_identifier_part :: "char \<Rightarrow> bool" where
  "is_identifier_part c \<longleftrightarrow> c = CHR ''_'' \<or> is_alpha c \<or> is_digit c"

section \<open>State of the lexer\<close>

record lexer =
  lx_source :: string
  lx_index :: nat
  lx_line :: int
  lx_column :: int

definition lexer_init :: "string \<Rightarrow> lexer" where
  "lexer_init sql = \<lparr>lx_source = sql, lx_index = 0, lx_line = 1, lx_column = 1\<rparr>"

definition at_end :: "lexer \<Rightarrow> bool" where
  "at_end lx \<longleftrightarrow> length (lx_source lx) \<le> lx_index lx"

text \<open>\<open>_peek(distance)\<close>; the empty string past the end is \<open>None\<close>.\<close>

definition peek_char :: "lexer \<Rightarrow> nat \<Rightarrow> char option" where
  "peek_char lx d =
     (if length (lx_source lx) \<le> lx_index lx + d then None
      else Some (lx_source lx ! (lx_index lx + d)))"

definition peeks :: "lexer \<Rightarrow> nat \<Rightarrow> (char \<Rightarrow> bool) \<Rightarrow> bool" where
  "peeks lx d p = (case peek_char lx d of None \<Rightarrow> False | Some c \<Rightarrow> p c)"

definition advance_char :: "lexer \<Rightarrow> exn + char \<times> lexer" where
  "advance_char lx =
     (if length (lx_source lx) \<le> lx_index lx then Inl IndexError
      else let c = lx_source lx ! lx_index lx; lx1 = lx\<lparr>lx_index := lx_index lx + 1\<rparr> in
        if c = CHR 0x0D then Inr (c, lx1\<lparr>lx_line := lx_line lx + 1, lx_column := 1\<rparr>)
        else if c = CHR 0x0A then
          (if lx_index lx1 < 2 \<or> lx_source lx ! (lx_index lx1 - 2) \<noteq> CHR 0x0D
           then Inr (c, lx1\<lparr>lx_line := lx_line lx + 1, lx_column := 1\<rparr>) else Inr (c, lx1))
        else Inr (c, lx1\<lparr>lx_column := lx_column lx + 1\<rparr>))"

definition advance_lx :: "lexer \<Rightarrow> exn + lexer" where
  "advance_lx lx = ebind (advance_char lx) (\<lambda>(c, lx'). Inr lx')"

text \<open>A mark is a copy of the state; \<open>_span_from(mark)\<close> reaches from it to the current offset.\<close>

definition span_from :: "lexer \<Rightarrow> lexer \<Rightarrow> exn + span" where
  "span_from mark lx =
     make_span (int (lx_index mark)) (int (lx_index lx)) (lx_line mark) (lx_column mark)
       (lx_line lx) (lx_column lx)"

definition lex_token :: "token_kind \<Rightarrow> lexer \<Rightarrow> lexer \<Rightarrow> token_value \<Rightarrow> exn + token" where
  "lex_token kind mark lx v =
     ebind (span_from mark lx) (\<lambda>sp.
       Inr \<lparr>tk_kind = kind,
            tk_lexeme = slice (lx_source lx) (nat (sp_start sp)) (nat (sp_end sp)),
            tk_value = v, tk_span = sp\<rparr>)"

definition raise_at :: "sql_error_class \<Rightarrow> string \<Rightarrow> lexer \<Rightarrow> lexer \<Rightarrow> exn + 'a" where
  "raise_at cls msg mark lx =
     ebind (span_from mark lx) (\<lambda>sp. Inl (SQLError cls msg sp (Some (lx_source lx))))"

lemma advance_char_progress:
  "advance_char lx = Inr (c, lx') \<Longrightarrow>
     lx_source lx' = lx_source lx \<and> lx_index lx' = Suc (lx_index lx)
     \<and> lx_index lx < length (lx_source lx) \<and> c = lx_source lx ! lx_index lx"
  by (auto simp: advance_char_def Let_def split: if_splits)

lemma advance_lx_progress:
  "advance_lx lx = Inr lx' \<Longrightarrow>
     lx_source lx' = lx_source lx \<and> lx_index lx' = Suc (lx_index lx)
     \<and> lx_index lx < length (lx_source lx)"
  by (auto simp: advance_lx_def bind_simps dest: advance_char_progress)

text \<open>\<open>while not self._at_end and p(self._peek()): self._advance()\<close>\<close>

function advance_while :: "(char \<Rightarrow> bool) \<Rightarrow> lexer \<Rightarrow> exn + lexer" where
  "advance_while p lx =
     (if peeks lx 0 p then ebind (advance_lx lx) (\<lambda>lx'. advance_while p lx') else Inr lx)"
  by pat_completeness auto
termination
  by (relation "measure (\<lambda>(p, lx). length (lx_source lx) - lx_index lx)")
    (auto dest: advance_lx_progress)

declare advance_while.simps [simp del]

section \<open>Scanners\<close>

definition scan_word :: "lexer \<Rightarrow> exn + token \<times> lexer" where
  "scan_word lx =
     ebind (advance_lx lx) (\<lambda>lx1.
     ebind (advance_while is_identifier_part lx1) (\<lambda>lx2.
       let lexeme = slice (lx_source lx) (lx_index lx) (lx_index lx2);
           kind = (if all_ascii lexeme then keyword_of (upper lexeme) else K_IDENTIFIER);
           v = (if kind = K_IDENTIFIER then StrValue lexeme
                else if kind = K_TRUE then BoolValue True
                else if kind = K_FALSE then BoolValue False else NoValue)
       in ebind (lex_token kind lx lx2 v) (\<lambda>t. Inr (t, lx2))))"

text \<open>
  \<open>int(lexeme)\<close> refuses more than 4300 digits (\<open>sys.get_int_max_str_digits()\<close>); \<open>float(lexeme)\<close>
  is checked for infinity and for a zero with significant digits.
\<close>

definition integer_of_lexeme :: "string \<Rightarrow> token_value option" where
  "integer_of_lexeme lexeme =
     (let neg = (take 1 lexeme = ''-''); ds = (if neg then tl lexeme else lexeme)
      in if 4300 < length ds then None
         else Some (IntValue (if neg then - digits_value ds else digits_value ds)))"

definition double_of_lexeme :: "string \<Rightarrow> token_value option" where
  "double_of_lexeme lexeme =
     (let neg = (take 1 lexeme = ''-''); ds = (if neg then tl lexeme else lexeme);
          ip = takeWhile (\<lambda>c. c \<noteq> CHR ''.'') ds; fp = tl (dropWhile (\<lambda>c. c \<noteq> CHR ''.'') ds);
          v = float_of_decimal neg ip fp
      in if \<not> is_finite v
            \<or> (v = Fin 0 \<and> (\<exists>c \<in> set lexeme. c \<notin> set ''-.'' \<and> c \<noteq> CHR ''0''))
         then None else Some (FloatValue v))"

definition scan_fraction :: "lexer \<Rightarrow> lexer \<Rightarrow> exn + token_kind \<times> lexer" where
  "scan_fraction mark lx =
     (if peeks lx 0 (\<lambda>c. c = CHR ''.'') then
        if \<not> peeks lx 1 is_digit then
          ebind (advance_lx lx) (\<lambda>lx1.
            raise_at SQLLexError ''literal numerico incompleto'' mark lx1)
        else ebind (advance_lx lx) (\<lambda>lx1.
             ebind (advance_while is_digit lx1) (\<lambda>lx2. Inr (K_DOUBLE_LITERAL, lx2)))
      else Inr (K_INTEGER, lx))"

definition scan_number :: "lexer \<Rightarrow> exn + token \<times> lexer" where
  "scan_number lx =
     ebind (if peeks lx 0 (\<lambda>c. c = CHR ''-'') then advance_lx lx else Inr lx) (\<lambda>lx1.
     ebind (advance_while is_digit lx1) (\<lambda>lx2.
     ebind (scan_fraction lx lx2) (\<lambda>(kind, lx3).
       let lexeme = slice (lx_source lx) (lx_index lx) (lx_index lx3)
       in case (if kind = K_INTEGER then integer_of_lexeme lexeme else double_of_lexeme lexeme) of
            None \<Rightarrow> raise_at SQLLexError
                      (''literal '' @ (if kind = K_INTEGER then ''entero'' else ''double'')
                       @ '' fuera de rango'') lx lx3
          | Some v \<Rightarrow> ebind (lex_token kind lx lx3 v) (\<lambda>t. Inr (t, lx3)))))"

text \<open>The body of a string literal; a doubled quote is one quote.\<close>

function string_loop :: "lexer \<Rightarrow> string \<Rightarrow> lexer \<Rightarrow> exn + token \<times> lexer" where
  "string_loop mark v lx =
     (if at_end lx then raise_at SQLLexError ''string sin cerrar'' mark lx
      else ebind (advance_char lx) (\<lambda>(c, lx1).
        if c \<noteq> CHR 0x27 then string_loop mark (v @ [c]) lx1
        else if peeks lx1 0 (\<lambda>d. d = CHR 0x27) then
          ebind (advance_lx lx1) (\<lambda>lx2. string_loop mark (v @ [CHR 0x27]) lx2)
        else ebind (lex_token K_STRING mark lx1 (StrValue v)) (\<lambda>t. Inr (t, lx1))))"
  by pat_completeness auto
termination
  by (relation "measure (\<lambda>(m, v, lx). length (lx_source lx) - lx_index lx)")
    (auto dest!: advance_lx_progress advance_char_progress)

declare string_loop.simps [simp del]

definition scan_string :: "lexer \<Rightarrow> exn + token \<times> lexer" where
  "scan_string lx = ebind (advance_lx lx) (\<lambda>lx1. string_loop lx [] lx1)"

definition skip_line_comment :: "lexer \<Rightarrow> exn + lexer" where
  "skip_line_comment lx =
     ebind (advance_lx lx) (\<lambda>lx1. ebind (advance_lx lx1) (\<lambda>lx2.
       advance_while (\<lambda>c. \<not> is_newline c) lx2))"

function block_loop :: "lexer \<Rightarrow> lexer \<Rightarrow> exn + lexer" where
  "block_loop mark lx =
     (if at_end lx then raise_at SQLLexError ''comentario de bloque sin cerrar'' mark lx
      else if peeks lx 0 (\<lambda>c. c = CHR ''*'') \<and> peeks lx 1 (\<lambda>c. c = CHR ''/'')
      then ebind (advance_lx lx) (\<lambda>lx1. advance_lx lx1)
      else ebind (advance_lx lx) (\<lambda>lx1. block_loop mark lx1))"
  by pat_completeness auto
termination
  by (relation "measure (\<lambda>(m, lx). length (lx_source lx) - lx_index lx)")
    (auto dest: advance_lx_progress)

declare block_loop.simps [simp del]

definition skip_block_comment :: "lexer \<Rightarrow> exn + lexer" where
  "skip_block_comment lx =
     ebind (advance_lx lx) (\<lambda>lx1. ebind (advance_lx lx1) (\<lambda>lx2. block_loop lx lx2))"

definition scan_single_character :: "lexer \<Rightarrow> exn + token \<times> lexer" where
  "scan_single_character lx =
     ebind (advance_char lx) (\<lambda>(c, lx1).
       case map_of single_character_tokens c of
         None \<Rightarrow> Inl (KeyError [c])
       | Some kind \<Rightarrow> ebind (lex_token kind lx lx1 NoValue) (\<lambda>t. Inr (t, lx1)))"

definition scan_comparison_operator :: "lexer \<Rightarrow> exn + token \<times> lexer" where
  "scan_comparison_operator lx =
     ebind (advance_char lx) (\<lambda>(c, lx1).
       if c = CHR ''<'' \<and> peeks lx1 0 (\<lambda>d. d = CHR ''>'') then
         ebind (advance_lx lx1) (\<lambda>lx2.
           raise_at SQLUnsupportedError ''operador '<>' no soportado'' lx lx2)
       else
         let has_equal = peeks lx1 0 (\<lambda>d. d = CHR ''='') in
         ebind (if has_equal then advance_lx lx1 else Inr lx1) (\<lambda>lx2.
           let kind = (if c = CHR ''<''
                       then (if has_equal then K_LESS_THAN_OR_EQUAL else K_LESS_THAN)
                       else (if has_equal then K_GREATER_THAN_OR_EQUAL else K_GREATER_THAN))
           in ebind (lex_token kind lx lx2 NoValue) (\<lambda>t. Inr (t, lx2))))"

definition raise_unsupported_operator :: "lexer \<Rightarrow> exn + 'a" where
  "raise_unsupported_operator lx =
     ebind (advance_lx lx) (\<lambda>lx1. ebind (advance_lx lx1) (\<lambda>lx2.
       raise_at SQLUnsupportedError ''operador '!=' no soportado'' lx lx2))"

definition raise_unexpected_character :: "lexer \<Rightarrow> exn + 'a" where
  "raise_unexpected_character lx =
     ebind (advance_char lx) (\<lambda>(c, lx1).
       raise_at SQLLexError (''caracter inesperado '' @ repr_str [c]) lx lx1)"

section \<open>The main loop\<close>

definition emit :: "exn + token \<times> lexer \<Rightarrow> exn + token list \<times> lexer" where
  "emit r = ebind r (\<lambda>(t, lx). Inr ([t], lx))"

definition skip_to :: "exn + lexer \<Rightarrow> exn + token list \<times> lexer" where
  "skip_to r = ebind r (\<lambda>lx. Inr ([], lx))"

text \<open>One turn of the loop of \<open>_Lexer.tokenize\<close>: the tokens it appends and the next state.\<close>

definition lex_step :: "lexer \<Rightarrow> exn + token list \<times> lexer" where
  "lex_step lx =
     (case peek_char lx 0 of
        None \<Rightarrow> raise_unexpected_character lx
      | Some c \<Rightarrow>
          if is_whitespace c then skip_to (advance_lx lx)
          else if is_identifier_start c then emit (scan_word lx)
          else if is_digit c then emit (scan_number lx)
          else if c = CHR ''-'' then
            if peeks lx 1 (\<lambda>d. d = CHR ''-'') then skip_to (skip_line_comment lx)
            else if peeks lx 1 is_digit then emit (scan_number lx)
            else raise_unexpected_character lx
          else if c = CHR ''/'' \<and> peeks lx 1 (\<lambda>d. d = CHR ''*'') then skip_to (skip_block_comment lx)
          else if c = CHR 0x27 then emit (scan_string lx)
          else if map_of single_character_tokens c \<noteq> None then emit (scan_single_character lx)
          else if c = CHR ''<'' \<or> c = CHR ''>'' then emit (scan_comparison_operator lx)
          else if c = CHR ''!'' \<and> peeks lx 1 (\<lambda>d. d = CHR ''='') then raise_unsupported_operator lx
          else raise_unexpected_character lx)"

text \<open>Every turn consumes at least one character, which is why the loop stops.\<close>

definition moved :: "lexer \<Rightarrow> lexer \<Rightarrow> bool" where
  "moved lx lx' \<longleftrightarrow> lx_source lx' = lx_source lx \<and> lx_index lx < lx_index lx'
     \<and> lx_index lx' \<le> length (lx_source lx)"

definition stayed :: "lexer \<Rightarrow> lexer \<Rightarrow> bool" where
  "stayed lx lx' \<longleftrightarrow> lx' = lx \<or> moved lx lx'"

lemma moved_trans [trans]: "moved a b \<Longrightarrow> moved b c \<Longrightarrow> moved a c"
  by (auto simp: moved_def)

lemma moved_stayed [trans]: "moved a b \<Longrightarrow> stayed b c \<Longrightarrow> moved a c"
  by (auto simp: stayed_def moved_trans)

lemma stayed_moved [trans]: "stayed a b \<Longrightarrow> moved b c \<Longrightarrow> moved a c"
  by (auto simp: stayed_def moved_trans)

lemma advance_char_moved: "advance_char lx = Inr (c, lx') \<Longrightarrow> moved lx lx'"
  by (auto simp: moved_def dest: advance_char_progress)

lemma advance_lx_moved: "advance_lx lx = Inr lx' \<Longrightarrow> moved lx lx'"
  by (auto simp: moved_def dest: advance_lx_progress)

lemma advance_while_stayed: "advance_while p lx = Inr lx' \<Longrightarrow> stayed lx lx'"
proof (induction p lx rule: advance_while.induct)
  case (1 p lx)
  show ?case
  proof (cases "peeks lx 0 p")
    case True
    with "1.prems" obtain lx1 where "advance_lx lx = Inr lx1" "advance_while p lx1 = Inr lx'"
      by (auto simp: advance_while.simps [of p lx] bind_simps)
    with "1.IH" True show ?thesis
      by (auto simp: stayed_def intro: advance_lx_moved moved_trans)
  next
    case False
    with "1.prems" show ?thesis by (simp add: advance_while.simps [of p lx] stayed_def)
  qed
qed

lemma raise_at_not_Inr [simp]: "raise_at cls msg mark lx \<noteq> Inr x"
  by (simp add: raise_at_def bind_simps)

lemma string_loop_moved: "string_loop mark v lx = Inr (t, lx') \<Longrightarrow> moved lx lx'"
proof (induction mark v lx rule: string_loop.induct)
  case (1 mark v lx)
  from "1.prems" have ne: "\<not> at_end lx"
    by (auto simp: string_loop.simps [of mark v lx])
  with "1.prems" obtain c lx1 where a: "advance_char lx = Inr (c, lx1)"
    and rest: "(if c \<noteq> CHR 0x27 then string_loop mark (v @ [c]) lx1
        else if peeks lx1 0 (\<lambda>d. d = CHR 0x27) then
          ebind (advance_lx lx1) (\<lambda>lx2. string_loop mark (v @ [CHR 0x27]) lx2)
        else ebind (lex_token K_STRING mark lx1 (StrValue v)) (\<lambda>t. Inr (t, lx1))) = Inr (t, lx')"
    by (auto simp: string_loop.simps [of mark v lx] bind_simps)
  note m = advance_char_moved [OF a]
  show ?case
  proof (cases "c \<noteq> CHR 0x27")
    case True
    with rest have "string_loop mark (v @ [c]) lx1 = Inr (t, lx')" by simp
    with "1.IH"(1) [OF ne a refl True] m show ?thesis by (auto intro: moved_trans)
  next
    case c: False
    show ?thesis
    proof (cases "peeks lx1 0 (\<lambda>d. d = CHR 0x27)")
      case True
      with rest c obtain lx2 where "advance_lx lx1 = Inr lx2"
        "string_loop mark (v @ [CHR 0x27]) lx2 = Inr (t, lx')"
        by (auto simp: bind_simps)
      with "1.IH"(2) [OF ne a refl] True c m show ?thesis
        by (meson advance_lx_moved moved_trans)
    next
      case False
      with rest c m show ?thesis by (auto simp: bind_simps)
    qed
  qed
qed

lemma block_loop_moved: "block_loop mark lx = Inr lx' \<Longrightarrow> moved lx lx'"
proof (induction mark lx rule: block_loop.induct)
  case (1 mark lx)
  then show ?case
    by (auto simp: block_loop.simps [of mark lx] bind_simps split: if_splits
        intro: moved_trans advance_lx_moved)
qed

lemma scan_word_moved: "scan_word lx = Inr (t, lx') \<Longrightarrow> moved lx lx'"
  by (auto simp: scan_word_def bind_simps Let_def
      intro: moved_stayed advance_lx_moved advance_while_stayed)

lemma scan_fraction_stayed: "scan_fraction mark lx = Inr (kind, lx') \<Longrightarrow> stayed lx lx'"
  by (auto simp: scan_fraction_def bind_simps split: if_splits)
    (auto simp: stayed_def dest!: advance_lx_moved advance_while_stayed intro: moved_trans)

lemma scan_number_moved:
  assumes "scan_number lx = Inr (t, lx')" "peeks lx 0 (\<lambda>c. is_digit c \<or> c = CHR ''-'')"
  shows "moved lx lx'"
proof -
  obtain lx1 lx2 kind where
    1: "(if peeks lx 0 (\<lambda>c. c = CHR ''-'') then advance_lx lx else Inr lx) = Inr lx1"
    and 2: "advance_while is_digit lx1 = Inr lx2" and 3: "scan_fraction lx lx2 = Inr (kind, lx')"
    using assms(1)
    by (simp add: scan_number_def bind_simps Let_def split: option.splits) (auto simp: bind_simps)
  have "moved lx lx2"
  proof (cases "peeks lx 0 (\<lambda>c. c = CHR ''-'')")
    case True
    with 1 2 show ?thesis by (auto intro: moved_stayed advance_lx_moved advance_while_stayed)
  next
    case False
    with 1 assms(2) have "lx1 = lx" "peeks lx 0 is_digit"
      by (auto simp: peeks_def split: option.splits)
    with 2 show ?thesis
      by (auto simp: advance_while.simps [of is_digit lx] bind_simps
          intro: moved_stayed advance_lx_moved advance_while_stayed)
  qed
  also have "stayed lx2 lx'" using 3 by (rule scan_fraction_stayed)
  finally show ?thesis .
qed

lemma scan_string_moved: "scan_string lx = Inr (t, lx') \<Longrightarrow> moved lx lx'"
  by (auto simp: scan_string_def bind_simps intro: moved_trans advance_lx_moved string_loop_moved)

lemma skip_line_comment_moved: "skip_line_comment lx = Inr lx' \<Longrightarrow> moved lx lx'"
  unfolding skip_line_comment_def bind_simps
  by (meson advance_lx_moved advance_while_stayed moved_stayed moved_trans)

lemma skip_block_comment_moved: "skip_block_comment lx = Inr lx' \<Longrightarrow> moved lx lx'"
  unfolding skip_block_comment_def bind_simps
  by (meson advance_lx_moved block_loop_moved moved_trans)

lemma scan_single_character_moved: "scan_single_character lx = Inr (t, lx') \<Longrightarrow> moved lx lx'"
  by (auto simp: scan_single_character_def bind_simps advance_char_moved split: option.splits)

lemma scan_comparison_operator_moved: "scan_comparison_operator lx = Inr (t, lx') \<Longrightarrow> moved lx lx'"
  by (auto simp: scan_comparison_operator_def bind_simps Let_def split: if_splits
      intro: moved_trans advance_char_moved advance_lx_moved)

lemma raise_unexpected_not_Inr [simp]: "raise_unexpected_character lx \<noteq> Inr x"
  "raise_unsupported_operator lx \<noteq> Inr x"
  by (auto simp: raise_unexpected_character_def raise_unsupported_operator_def bind_simps)

lemma emit_Inr_iff [bind_simps]: "emit r = Inr (ts, lx) \<longleftrightarrow> (\<exists>t. r = Inr (t, lx) \<and> ts = [t])"
  by (auto simp: emit_def bind_simps)

lemma skip_to_Inr_iff [bind_simps]: "skip_to r = Inr (ts, lx) \<longleftrightarrow> r = Inr lx \<and> ts = []"
  by (auto simp: skip_to_def bind_simps)

lemma lex_step_moved: "lex_step lx = Inr (ts, lx') \<Longrightarrow> moved lx lx'"
  by (auto simp: lex_step_def bind_simps peeks_def split: option.splits if_splits
      dest: advance_lx_moved scan_word_moved scan_string_moved
        skip_line_comment_moved skip_block_comment_moved scan_single_character_moved
        scan_comparison_operator_moved elim!: scan_number_moved)

function lex_loop :: "token list \<Rightarrow> lexer \<Rightarrow> exn + token list \<times> lexer" where
  "lex_loop tokens lx =
     (if at_end lx then Inr (tokens, lx)
      else ebind (lex_step lx) (\<lambda>(ts, lx'). lex_loop (tokens @ ts) lx'))"
  by pat_completeness auto
termination
  by (relation "measure (\<lambda>(ts, lx). length (lx_source lx) - lx_index lx)")
    (auto dest!: lex_step_moved simp: moved_def)

declare lex_loop.simps [simp del]

definition lex_tokenize :: "lexer \<Rightarrow> exn + token list" where
  "lex_tokenize lx =
     ebind (lex_loop [] lx) (\<lambda>(tokens, lx').
     ebind (make_span (int (lx_index lx')) (int (lx_index lx')) (lx_line lx') (lx_column lx')
              (lx_line lx') (lx_column lx')) (\<lambda>eof_span.
       Inr (tokens @ [\<lparr>tk_kind = K_EOF, tk_lexeme = [], tk_value = NoValue, tk_span = eof_span\<rparr>])))"

definition tokenize :: "string \<Rightarrow> exn + token list" where
  "tokenize sql = lex_tokenize (lexer_init sql)"

end
