(* ===== verification/Sql_Parser.thy ===== *)
theory Sql_Parser
  imports Sql_Ast Sql_Lexer
begin

text \<open>
  The recursive descent parser (\<open>engine/parser/parser.py\<close>). Its state is the token tuple, the text
  and the current position; a method is a function from the state to a result and the next state,
  or an exception. \<open>p_bind\<close> is sequencing, \<open>p_opt\<close> the optional clause, and a loop over commas or
  statements carries a fuel of one more than the number of tokens, which always suffices because
  every turn consumes a token (\<open>Sql_Parser_Spec\<close>).
\<close>

record parser_state =
  ps_tokens :: "token list"
  ps_source :: string
  ps_current :: nat

type_synonym 'a parser = "parser_state \<Rightarrow> exn + 'a \<times> parser_state"

definition p_return :: "'a \<Rightarrow> 'a parser" where
  "p_return x s = Inr (x, s)"

definition p_raise :: "exn \<Rightarrow> 'a parser" where
  "p_raise e s = Inl e"

definition p_bind :: "'a parser \<Rightarrow> ('a \<Rightarrow> 'b parser) \<Rightarrow> 'b parser" where
  "p_bind p f s = ebind (p s) (\<lambda>(x, s'). f x s')"

definition p_lift :: "exn + 'a \<Rightarrow> 'a parser" where
  "p_lift r s = ebind r (\<lambda>x. Inr (x, s))"

section \<open>Access to the tokens\<close>

definition p_token :: "int \<Rightarrow> token parser" where
  "p_token d s = ebind (py_index (ps_tokens s) (int (ps_current s) + d)) (\<lambda>t. Inr (t, s))"

definition p_peek :: "token parser" where
  "p_peek = p_token 0"

definition p_previous :: "token parser" where
  "p_previous = p_token (- 1)"

definition p_advance :: "token parser" where
  "p_advance =
     p_bind p_peek (\<lambda>t s.
       Inr (t, if tk_kind t \<noteq> K_EOF then s\<lparr>ps_current := ps_current s + 1\<rparr> else s))"

definition p_check :: "token_kind \<Rightarrow> bool parser" where
  "p_check kind = p_bind p_peek (\<lambda>t. p_return (tk_kind t = kind))"

text \<open>\<open>_match(*kinds)\<close>: \<open>any\<close> looks at the same token for each kind.\<close>

definition p_match :: "token_kind list \<Rightarrow> bool parser" where
  "p_match kinds =
     p_bind p_peek (\<lambda>t. if tk_kind t \<in> set kinds then p_bind p_advance (\<lambda>_. p_return True)
                        else p_return False)"

definition p_error :: "token \<Rightarrow> string \<Rightarrow> 'a parser" where
  "p_error t msg s = Inl (SQLError SQLParseError msg (tk_span t) (Some (ps_source s)))"

definition p_error_here :: "string \<Rightarrow> 'a parser" where
  "p_error_here msg = p_bind p_peek (\<lambda>t. p_error t msg)"

text \<open>
  \<open>str(token.value)\<close>, \<open>int(token.value)\<close> and \<open>float(token.value)\<close>, on the kinds of value the
  parser applies them to; the lexer pairs kinds and values (\<open>value_fits\<close>).
\<close>

definition value_str :: "token \<Rightarrow> exn + string" where
  "value_str t = (case tk_value t of StrValue v \<Rightarrow> Inr v | _ \<Rightarrow> Inl (TypeError ''str''))"

definition value_int :: "token \<Rightarrow> exn + int" where
  "value_int t = (case tk_value t of IntValue n \<Rightarrow> Inr n | _ \<Rightarrow> Inl (TypeError ''int''))"

definition value_float :: "token \<Rightarrow> exn + pyfloat" where
  "value_float t =
     (case tk_value t of
        IntValue n \<Rightarrow> (case float_of_int n of None \<Rightarrow> Inl OverflowError | Some x \<Rightarrow> Inr x)
      | FloatValue x \<Rightarrow> Inr x
      | _ \<Rightarrow> Inl (TypeError ''float''))"

definition token_word :: "token \<Rightarrow> string" where
  "token_word t =
     (if tk_kind t = K_IDENTIFIER then
        (case tk_value t of StrValue v \<Rightarrow> if all_ascii v then upper v else [] | _ \<Rightarrow> [])
      else if all_alpha (tk_lexeme t) then upper (tk_lexeme t) else [])"

definition unsupported_words :: "string list" where
  "unsupported_words =
     [''ALTER'', ''AS'', ''COMMIT'', ''DISTINCT'', ''EXCEPT'', ''HAVING'', ''IN'', ''INTERSECT'',
      ''IS'', ''LIKE'', ''NOT'', ''NULL'', ''OFFSET'', ''OR'', ''ROLLBACK'', ''UNION'', ''UPDATE'',
      ''VIEW'']"

definition p_raise_unsupported :: "token \<Rightarrow> 'a parser" where
  "p_raise_unsupported t s =
     (let w = token_word t; feature = (if w \<noteq> [] then w else tk_lexeme t)
      in Inl (SQLError SQLUnsupportedError
                (feature @ '' no esta soportado por el subconjunto SQL de QuipuDB'')
                (tk_span t) (Some (ps_source s))))"

definition p_expect :: "token_kind \<Rightarrow> string \<Rightarrow> token parser" where
  "p_expect kind msg =
     p_bind (p_check kind) (\<lambda>b. if b then p_advance else
     p_bind p_peek (\<lambda>t.
       if token_word t \<in> set unsupported_words then p_raise_unsupported t else p_error t msg))"

definition p_raise_trailing_input :: "'a parser" where
  "p_raise_trailing_input =
     p_bind p_peek (\<lambda>t s.
       if tk_kind t = K_AND then
         Inl (SQLError SQLUnsupportedError ''AND solo se admite como separador dentro de BETWEEN''
                (tk_span t) (Some (ps_source s)))
       else if token_word t \<in> set unsupported_words then p_raise_unsupported t s
       else p_error t (''entrada inesperada '' @ repr_str (tk_lexeme t)
                       @ '' al final de la sentencia'') s)"

section \<open>Combinators of the control flow\<close>

definition p_if :: "token_kind list \<Rightarrow> 'a parser \<Rightarrow> 'a parser \<Rightarrow> 'a parser" where
  "p_if kinds p q = p_bind (p_match kinds) (\<lambda>b. if b then p else q)"

definition p_opt :: "token_kind list \<Rightarrow> 'a parser \<Rightarrow> 'a option parser" where
  "p_opt kinds p = p_if kinds (p_bind p (\<lambda>x. p_return (Some x))) (p_return None)"

definition p_span :: "span \<Rightarrow> span \<Rightarrow> span parser" where
  "p_span a b = p_lift (combine_spans [a, b])"

text \<open>\<open>while self._match(COMMA): items.append(item())\<close>\<close>

fun p_comma_loop :: "nat \<Rightarrow> 'a parser \<Rightarrow> 'a list \<Rightarrow> 'a list parser" where
  "p_comma_loop 0 item acc = p_raise OutOfFuel"
| "p_comma_loop (Suc n) item acc =
     p_if [K_COMMA] (p_bind item (\<lambda>x. p_comma_loop n item (acc @ [x]))) (p_return acc)"

definition p_commas :: "'a parser \<Rightarrow> 'a list \<Rightarrow> 'a list parser" where
  "p_commas item acc s = p_comma_loop (Suc (length (ps_tokens s))) item acc s"

definition p_comma_list :: "'a parser \<Rightarrow> 'a list parser" where
  "p_comma_list item = p_bind item (\<lambda>x. p_commas item [x])"

section \<open>Names, columns and literals\<close>

definition p_identifier :: "string \<Rightarrow> ident parser" where
  "p_identifier msg =
     p_bind p_peek (\<lambda>t0.
       if token_word t0 \<in> set unsupported_words then p_raise_unsupported t0
       else p_bind (p_expect K_IDENTIFIER msg) (\<lambda>t.
            p_bind (p_lift (value_str t)) (\<lambda>v. p_return (Identifier v (tk_span t)))))"

definition p_column_reference :: "string \<Rightarrow> column_reference parser" where
  "p_column_reference msg =
     p_bind (p_identifier msg) (\<lambda>i.
     p_if [K_DOT]
       (p_bind (p_identifier (''se esperaba el nombre de la columna despues de '.'' @ [CHR 0x27])) (\<lambda>name.
        p_bind (p_span (id_span i) (id_span name)) (\<lambda>sp.
          p_return (ColumnReference name sp (Some i)))))
       (p_return (ColumnReference i (id_span i) None)))"

definition is_number :: "token \<Rightarrow> bool" where
  "is_number t \<longleftrightarrow> tk_kind t = K_INTEGER \<or> tk_kind t = K_DOUBLE_LITERAL"

definition p_coordinate :: "string \<Rightarrow> int \<Rightarrow> int \<Rightarrow> (pyfloat \<times> span) parser" where
  "p_coordinate role lo hi =
     p_bind p_peek (\<lambda>t.
       if \<not> is_number t then p_error t (''se esperaba una '' @ role @ '' numerica en POINT'')
       else p_bind p_advance (\<lambda>_.
            p_bind (p_lift (value_float t)) (\<lambda>v.
              if \<not> (float_le (Fin (of_int lo)) v \<and> float_le v (Fin (of_int hi))) then
                p_error t (''la '' @ role @ '' de POINT debe estar entre '' @ show_int lo
                           @ '' y '' @ show_int hi)
              else p_return (v, tk_span t))))"

definition p_point_literal :: "token \<Rightarrow> point_literal parser" where
  "p_point_literal start =
     p_bind (p_expect K_LPAREN ''se esperaba '(' despues de POINT'') (\<lambda>_.
     p_bind (p_coordinate ''latitud'' (- 90) 90) (\<lambda>(lat, lat_span).
     p_bind (p_expect K_COMMA ''se esperaba ',' entre latitud y longitud'') (\<lambda>_.
     p_bind (p_coordinate ''longitud'' (- 180) 180) (\<lambda>(lon, lon_span).
     p_bind (p_expect K_RPAREN ''se esperaba ')' despues de la longitud'') (\<lambda>end_tk.
     p_bind (p_span (tk_span start) (tk_span end_tk)) (\<lambda>sp.
       p_return (PointLiteral lat lon lat_span lon_span sp)))))))"

text \<open>One turn of the loop over the components of a vector, then the loop.\<close>

definition p_component :: "nat \<Rightarrow> (pyfloat \<times> span) parser" where
  "p_component seen =
     p_bind p_peek (\<lambda>t.
       if \<not> is_number t then
         p_error t (''se esperaba un numero en la componente '' @ show_int (int seen + 1)
                    @ '' de VECTOR'')
       else p_bind p_advance (\<lambda>_.
            p_bind (p_lift (value_float t)) (\<lambda>v. p_return (v, tk_span t))))"

fun p_component_loop :: "nat \<Rightarrow> (pyfloat \<times> span) list \<Rightarrow> (pyfloat \<times> span) list parser" where
  "p_component_loop 0 acc = p_raise OutOfFuel"
| "p_component_loop (Suc n) acc =
     p_bind (p_component (length acc)) (\<lambda>c.
       p_if [K_COMMA] (p_component_loop n (acc @ [c])) (p_return (acc @ [c])))"

definition p_components :: "(pyfloat \<times> span) list parser" where
  "p_components s = p_component_loop (Suc (length (ps_tokens s))) [] s"

definition p_vector_literal :: "token \<Rightarrow> literal parser" where
  "p_vector_literal start =
     p_bind (p_expect K_LPAREN ''se esperaba '(' despues de VECTOR'') (\<lambda>_.
     p_bind p_components (\<lambda>cs.
     p_bind (p_expect K_RPAREN ''se esperaba ',' o ')' despues de una componente de VECTOR'') (\<lambda>end_tk.
     p_bind (p_span (tk_span start) (tk_span end_tk)) (\<lambda>sp.
       p_return (VectorLiteral (map fst cs) (map snd cs) sp)))))"

text \<open>The pattern of a date and \<open>date.fromisoformat\<close> on a text that matches it.\<close>

definition date_pattern :: "string \<Rightarrow> bool" where
  "date_pattern v \<longleftrightarrow>
     length v = 10 \<and> v ! 4 = CHR ''-'' \<and> v ! 7 = CHR ''-''
     \<and> list_all is_digit (slice v 0 4 @ slice v 5 7 @ slice v 8 10)"

definition date_from_iso :: "string \<Rightarrow> py_date option" where
  "date_from_iso v =
     (let y = digits_value (slice v 0 4); m = digits_value (slice v 5 7);
          d = digits_value (slice v 8 10)
      in if valid_date y m d then Some (PyDate y m d) else None)"

definition p_date_literal :: "token \<Rightarrow> literal parser" where
  "p_date_literal start =
     p_bind (p_expect K_STRING ''se esperaba un string 'YYYY-MM-DD' despues de DATE'') (\<lambda>t.
     p_bind (p_lift (value_str t)) (\<lambda>v.
       if \<not> date_pattern v then
         p_error t (''el literal DATE debe usar el formato 'YYYY-MM-DD'' @ [CHR 0x27])
       else case date_from_iso v of
              None \<Rightarrow> p_error t (''fecha DATE invalida: '' @ v)
            | Some d \<Rightarrow> p_bind (p_span (tk_span start) (tk_span t)) (\<lambda>sp.
                          p_return (DateLiteral d sp))))"

definition p_literal :: "literal parser" where
  "p_literal =
     p_if [K_INTEGER] (p_bind p_previous (\<lambda>t. p_bind (p_lift (value_int t)) (\<lambda>n.
       p_return (IntegerLiteral n (tk_span t)))))
    (p_if [K_DOUBLE_LITERAL] (p_bind p_previous (\<lambda>t. p_bind (p_lift (value_float t)) (\<lambda>x.
       p_return (DoubleLiteral x (tk_span t)))))
    (p_if [K_STRING] (p_bind p_previous (\<lambda>t. p_bind (p_lift (value_str t)) (\<lambda>v.
       p_return (StringLiteral v (tk_span t)))))
    (p_if [K_TRUE] (p_bind p_previous (\<lambda>t. p_return (BooleanLiteral True (tk_span t))))
    (p_if [K_FALSE] (p_bind p_previous (\<lambda>t. p_return (BooleanLiteral False (tk_span t))))
    (p_if [K_DATE] (p_bind p_previous p_date_literal)
    (p_if [K_POINT] (p_bind p_previous (\<lambda>t. p_bind (p_point_literal t) (\<lambda>p. p_return (PointLit p))))
    (p_if [K_VECTOR] (p_bind p_previous p_vector_literal)
    (p_bind p_peek (\<lambda>t.
       if token_word t = ''NULL'' then p_raise_unsupported t
       else p_error t ''se esperaba un literal entero, double, string, booleano, DATE, POINT o VECTOR''
    )))))))))"

section \<open>Conditions\<close>

definition comparisons :: "(token_kind \<times> comparison_operator) list" where
  "comparisons =
     [(K_EQUAL, OP_EQUAL), (K_LESS_THAN, OP_LESS_THAN),
      (K_LESS_THAN_OR_EQUAL, OP_LESS_THAN_OR_EQUAL), (K_GREATER_THAN, OP_GREATER_THAN),
      (K_GREATER_THAN_OR_EQUAL, OP_GREATER_THAN_OR_EQUAL)]"

definition p_distance_arguments :: "(column_reference \<times> point_literal \<times> distance_metric) parser" where
  "p_distance_arguments =
     p_bind (p_expect K_LPAREN ''se esperaba '(' despues de DISTANCIA'') (\<lambda>_.
     p_bind (p_column_reference ''se esperaba una columna en DISTANCIA'') (\<lambda>column.
     p_bind (p_expect K_COMMA ''se esperaba ',' despues de la columna de DISTANCIA'') (\<lambda>_.
     p_bind (p_expect K_POINT ''se esperaba POINT como centro de DISTANCIA'') (\<lambda>pt.
     p_bind (p_point_literal pt) (\<lambda>center.
     p_bind (p_if [K_COMMA]
              (p_if [K_HAVERSINE] (p_return DIST_HAVERSINE)
              (p_if [K_EUCLIDEAN] (p_return DIST_EUCLIDEAN)
              (p_error_here ''se esperaba HAVERSINE o EUCLIDEAN como metrica de DISTANCIA'')))
              (p_return DIST_HAVERSINE)) (\<lambda>metric.
     p_bind (p_expect K_RPAREN ''se esperaba ')' despues de DISTANCIA'') (\<lambda>_.
       p_return (column, center, metric))))))))"

definition p_distance_condition :: "token \<Rightarrow> condition parser" where
  "p_distance_condition start =
     p_bind p_distance_arguments (\<lambda>(column, center, metric).
     p_bind p_peek (\<lambda>op_tk.
       if tk_kind op_tk \<noteq> K_LESS_THAN \<and> tk_kind op_tk \<noteq> K_LESS_THAN_OR_EQUAL then
         p_error op_tk ''DISTANCIA solo admite < o <= para una busqueda por radio''
       else
         p_bind p_advance (\<lambda>_.
         p_bind (p_lift (case map_of comparisons (tk_kind op_tk) of
                           None \<Rightarrow> Inl (KeyError ''comparison'') | Some op \<Rightarrow> Inr op)) (\<lambda>op.
         p_bind p_peek (\<lambda>radius_tk.
           if \<not> is_number radius_tk then
             p_error radius_tk ''el radio de DISTANCIA debe ser numerico''
           else
             p_bind p_literal (\<lambda>radius.
             p_bind (p_span (tk_span start) (literal_span radius)) (\<lambda>sp.
               p_return (DistanceCond (DistanceCondition column center op radius metric sp)))))))))"

definition p_vector_metric :: "(vector_metric \<times> span) parser" where
  "p_vector_metric =
     p_bind (p_expect K_METRIC ''se esperaba METRIC despues de WITH'') (\<lambda>_.
     p_bind (p_expect K_EQUAL ''se esperaba '=' despues de METRIC'') (\<lambda>_.
     p_bind p_peek (\<lambda>t.
       case vector_metric_of (lower (tk_lexeme t)) of
         None \<Rightarrow> p_error t ''la metrica debe ser euclidean, cosine o dot''
       | Some m \<Rightarrow> p_bind p_advance (\<lambda>_. p_return (m, tk_span t)))))"

definition p_similar_k_name :: "unit parser" where
  "p_similar_k_name =
     p_bind p_peek (\<lambda>t.
       if tk_kind t = K_IDENTIFIER then
         p_bind p_advance (\<lambda>name.
           if lower (tk_lexeme name) \<noteq> ''k'' then
             p_error name ''se esperaba k como parametro de SIMILAR_TO''
           else p_bind (p_expect K_EQUAL ''se esperaba '=' despues de k'') (\<lambda>_. p_return ()))
       else p_return ())"

definition p_similar_condition :: "token \<Rightarrow> condition parser" where
  "p_similar_condition start =
     p_bind (p_expect K_LPAREN ''se esperaba '(' despues de SIMILAR_TO'') (\<lambda>_.
     p_bind p_peek (\<lambda>t0.
     p_bind (if tk_kind t0 \<noteq> K_STRING then
               p_bind (p_column_reference ''se esperaba la columna VECTOR o el archivo'') (\<lambda>c.
               p_bind (p_expect K_COMMA ''se esperaba ',' despues de la columna'') (\<lambda>_.
                 p_return (Some c)))
             else p_return None) (\<lambda>column.
     p_bind (p_expect K_STRING ''SIMILAR_TO requiere un archivo entre comillas'') (\<lambda>q.
     p_bind (p_lift (value_str q)) (\<lambda>file.
     p_bind (p_expect K_COMMA ''se esperaba ',' antes de k'') (\<lambda>_.
     p_bind p_similar_k_name (\<lambda>_.
     p_bind (p_expect K_INTEGER ''k requiere un entero no negativo'') (\<lambda>kt.
     p_bind (p_lift (value_int kt)) (\<lambda>k.
       if k < 0 then p_error kt ''k requiere un entero no negativo'' else
     p_bind (p_expect K_RPAREN ''se esperaba ')' despues de k'') (\<lambda>_.
     p_bind (p_expect K_USING ''SIMILAR_TO requiere USING HNSW o IVF'') (\<lambda>_.
     p_bind (p_if [K_HNSW] (p_return IDX_HNSW)
            (p_if [K_IVF] (p_return IDX_IVF)
            (p_error_here ''SIMILAR_TO requiere un indice HNSW o IVF''))) (\<lambda>kind.
     p_bind p_previous (\<lambda>prev.
     p_bind (p_if [K_WITH] p_vector_metric (p_return (VM_COSINE, tk_span prev))) (\<lambda>(metric, metric_span).
     p_bind p_previous (\<lambda>end_tk.
     p_bind (p_span (tk_span start) (tk_span end_tk)) (\<lambda>sp.
       p_return (SimilarCond (SimilarCondition column (StrLit file (tk_span q))
         (IntLit k (tk_span kt)) kind metric metric_span sp))))))))))))))))))"

definition p_match_condition :: "token \<Rightarrow> condition parser" where
  "p_match_condition start =
     p_bind (p_expect K_LPAREN ''se esperaba '(' despues de MATCH'') (\<lambda>_.
     p_bind (p_column_reference ''se esperaba una columna en MATCH'') (\<lambda>column.
     p_bind (p_expect K_COMMA ''se esperaba ',' despues de la columna de MATCH'') (\<lambda>_.
     p_bind p_peek (\<lambda>q.
       if tk_kind q \<noteq> K_STRING then
         p_error q ''MATCH necesita la consulta como texto entre comillas''
       else
     p_bind p_advance (\<lambda>_.
     p_bind (p_lift (value_str q)) (\<lambda>text.
     p_bind (p_expect K_RPAREN ''se esperaba ')' despues de la consulta de MATCH'') (\<lambda>close.
     p_bind (p_if [K_USING]
              (p_bind (p_if [K_TF_IDF] (p_return RANK_TF_IDF)
                      (p_if [K_BM25] (p_return RANK_BM25)
                      (p_error_here ''se esperaba TF_IDF o BM25 como ranking de MATCH''))) (\<lambda>ranking.
               p_bind p_previous (\<lambda>prev. p_return (ranking, True, prev))))
              (p_return (RANK_BM25, False, close))) (\<lambda>(ranking, explicit, end_tk).
     p_bind (p_span (tk_span start) (tk_span end_tk)) (\<lambda>sp.
       p_return (MatchCond (MatchCondition column (StrLit text (tk_span q)) ranking explicit sp)))))))))))"

definition p_polygon_vertex :: "point_literal parser" where
  "p_polygon_vertex =
     p_bind (p_expect K_POINT ''cada vertice de POLYGON debe ser un POINT'') p_point_literal"

definition p_polygon_condition :: "token \<Rightarrow> condition parser" where
  "p_polygon_condition start =
     p_bind (p_expect K_LPAREN ''se esperaba '(' despues de DENTRO'') (\<lambda>_.
     p_bind (p_column_reference ''se esperaba una columna en DENTRO'') (\<lambda>column.
     p_bind (p_expect K_COMMA ''se esperaba ',' despues de la columna de DENTRO'') (\<lambda>_.
     p_bind (p_expect K_POLYGON ''se esperaba POLYGON como region de DENTRO'') (\<lambda>pg_start.
     p_bind (p_expect K_LPAREN ''se esperaba '(' despues de POLYGON'') (\<lambda>_.
     p_bind (p_comma_list p_polygon_vertex) (\<lambda>vertices.
     p_bind (p_expect K_RPAREN ''se esperaba ')' despues de los vertices'') (\<lambda>pg_end.
     p_bind (p_span (tk_span pg_start) (tk_span pg_end)) (\<lambda>pg_sp.
       if length vertices < 3 then
         p_error pg_end (''POLYGON necesita al menos 3 vertices y tiene ''
                         @ show_int (int (length vertices)))
       else
     p_bind (p_expect K_RPAREN ''se esperaba ')' despues de DENTRO'') (\<lambda>end_tk.
     p_bind (p_span (tk_span start) (tk_span end_tk)) (\<lambda>sp.
       p_return (PolygonCondition column (PolygonLiteral vertices pg_sp) sp)))))))))))"

definition p_between :: "column_reference \<Rightarrow> condition parser" where
  "p_between column =
     p_bind p_literal (\<lambda>lo.
     p_bind (p_expect K_AND ''se esperaba AND en la condicion BETWEEN'') (\<lambda>_.
     p_bind p_literal (\<lambda>hi.
     p_bind (p_span (cr_span column) (literal_span hi)) (\<lambda>sp.
       p_return (BetweenCondition column lo hi sp)))))"

definition p_comparison :: "column_reference \<Rightarrow> condition parser" where
  "p_comparison column =
     p_bind p_peek (\<lambda>op_tk.
       case map_of comparisons (tk_kind op_tk) of
         None \<Rightarrow> p_error op_tk ''se esperaba =, <, <=, >, >= o BETWEEN en WHERE''
       | Some op \<Rightarrow>
           p_bind p_advance (\<lambda>_.
           p_bind p_literal (\<lambda>v.
           p_bind (p_span (cr_span column) (literal_span v)) (\<lambda>sp.
             p_return (ComparisonCondition column op v sp)))))"

definition p_condition :: "condition parser" where
  "p_condition =
     p_if [K_DISTANCIA] (p_bind p_previous p_distance_condition)
    (p_if [K_DENTRO] (p_bind p_previous p_polygon_condition)
    (p_if [K_MATCH] (p_bind p_previous p_match_condition)
    (p_if [K_SIMILAR_TO] (p_bind p_previous p_similar_condition)
    (p_bind (p_column_reference ''se esperaba una columna en WHERE'') (\<lambda>column.
       p_if [K_BETWEEN] (p_between column) (p_comparison column))))))"

section \<open>SELECT\<close>

definition aggregates :: "(token_kind \<times> aggregate_function) list" where
  "aggregates =
     [(K_COUNT, AGG_COUNT), (K_SUM, AGG_SUM), (K_MIN, AGG_MIN), (K_MAX, AGG_MAX), (K_AVG, AGG_AVG)]"

text \<open>\<open>ScoreKind(start.lexeme.upper())\<close>\<close>

definition p_score_kind :: "token \<Rightarrow> score_kind parser" where
  "p_score_kind t =
     (case score_kind_of (upper (tk_lexeme t)) of
        None \<Rightarrow> p_raise (ValueError (repr_str (upper (tk_lexeme t)) @ '' is not a valid ScoreKind''))
      | Some k \<Rightarrow> p_return k)"

definition p_score_call :: "token \<Rightarrow> score_call parser" where
  "p_score_call start =
     p_bind (p_score_kind start) (\<lambda>kind.
     p_bind (p_expect K_LPAREN (''se esperaba '(' despues de '' @ score_value kind)) (\<lambda>_.
     p_bind (p_expect K_RPAREN (score_value kind @ ''() no recibe argumentos'')) (\<lambda>end_tk.
     p_bind (p_opt [K_AS]
              (p_if [K_SCORE, K_SIMILARITY_SCORE]
                 (p_bind p_previous (\<lambda>t. p_return (Identifier (tk_lexeme t) (tk_span t))))
                 (p_identifier ''se esperaba un nombre despues de AS''))) (\<lambda>alias.
     p_bind (p_span (tk_span start)
              (case alias of None \<Rightarrow> tk_span end_tk | Some a \<Rightarrow> id_span a)) (\<lambda>sp.
       p_return (ScoreCall alias sp kind))))))"

definition p_count_argument :: "aggregate_argument parser" where
  "p_count_argument =
     p_bind (p_match [K_STAR]) (\<lambda>b.
       if \<not> b then p_error_here ''COUNT requiere '*' como argumento''
       else p_bind p_previous (\<lambda>t. p_return (ArgWildcard (tk_span t))))"

definition p_column_argument :: "aggregate_argument parser" where
  "p_column_argument =
     p_if [K_STAR]
       (p_bind p_previous (\<lambda>t. p_error t ''solo COUNT admite '*' como argumento''))
       (p_bind (p_column_reference ''se esperaba una columna como argumento del agregado'')
          (\<lambda>c. p_return (ArgColumn c)))"

definition p_aggregate :: "aggregate_call parser" where
  "p_aggregate =
     p_bind p_advance (\<lambda>fn_tk.
     p_bind (p_lift (case map_of aggregates (tk_kind fn_tk) of
                       None \<Rightarrow> Inl (KeyError ''aggregate'') | Some f \<Rightarrow> Inr f)) (\<lambda>function.
     p_bind (p_expect K_LPAREN ''se esperaba '(' despues de la funcion de agregado'') (\<lambda>_.
     p_bind (if function = AGG_COUNT then p_count_argument else p_column_argument) (\<lambda>argument.
     p_bind (p_expect K_RPAREN ''se esperaba ')' despues del argumento del agregado'') (\<lambda>end_tk.
     p_bind (p_span (tk_span fn_tk) (tk_span end_tk)) (\<lambda>sp.
       p_return (AggregateCall function argument sp)))))))"

definition p_projection :: "projection parser" where
  "p_projection =
     p_if [K_SCORE, K_SIMILARITY_SCORE]
       (p_bind p_previous (\<lambda>t. p_bind (p_score_call t) (\<lambda>c. p_return (PScore c))))
       (p_bind p_peek (\<lambda>t.
          if tk_kind t \<in> set (map fst aggregates)
          then p_bind p_aggregate (\<lambda>a. p_return (PAggregate a))
          else p_bind (p_column_reference ''se esperaba una columna o funcion de agregado'')
                 (\<lambda>c. p_return (PColumn c))))"

text \<open>After \<open>'*'\<close> only the score functions may follow a comma.\<close>

definition p_score_only :: "projection parser" where
  "p_score_only =
     p_bind (p_match [K_SCORE, K_SIMILARITY_SCORE]) (\<lambda>b.
       if \<not> b then
         p_error_here (CHR 0x27 # ''*' no se puede combinar con otras proyecciones, ''
                       @ ''salvo SCORE() o SIMILARITY_SCORE()'')
       else p_bind p_previous (\<lambda>t. p_bind (p_score_call t) (\<lambda>c. p_return (PScore c))))"

definition p_projection_list :: "projection list parser" where
  "p_projection_list =
     p_if [K_STAR]
       (p_bind p_previous (\<lambda>t. p_commas p_score_only [PWildcard (tk_span t)]))
       (p_comma_list p_projection)"

definition p_table_ref :: "from_source parser" where
  "p_table_ref =
     p_bind (p_identifier ''se esperaba el nombre de la tabla'') (\<lambda>table.
       p_return (TableRef table (id_span table)))"

definition p_join :: "from_source \<Rightarrow> from_source parser" where
  "p_join left =
     p_bind p_table_ref (\<lambda>right.
     p_bind (p_expect K_ON ''se esperaba ON despues de la tabla del JOIN'') (\<lambda>_.
     p_bind (p_column_reference ''se esperaba una columna despues de ON'') (\<lambda>left_column.
     p_bind (p_expect K_EQUAL ''el ON de un JOIN solo admite una igualdad entre dos columnas'') (\<lambda>_.
     p_bind (p_column_reference ''se esperaba una columna despues de '=' en la condicion ON'') (\<lambda>right_column.
     p_bind (p_span (from_span left) (cr_span right_column)) (\<lambda>sp.
       p_return (JoinRef left right left_column right_column sp)))))))"

definition p_from_source :: "from_source parser" where
  "p_from_source =
     p_bind p_table_ref (\<lambda>table.
     p_bind (p_if [K_JOIN] (p_join table) (p_return table)) (\<lambda>src.
     p_bind (p_check K_JOIN) (\<lambda>again.
       if again then p_error_here ''esta version admite un solo JOIN por consulta''
       else p_return src)))"

definition p_group_by :: "token \<Rightarrow> group_by parser" where
  "p_group_by start =
     p_bind (p_expect K_BY ''se esperaba BY despues de GROUP'') (\<lambda>_.
     p_bind (p_column_reference ''se esperaba una columna despues de GROUP BY'') (\<lambda>column.
     p_bind (p_span (tk_span start) (cr_span column)) (\<lambda>sp. p_return (GroupBy column sp))))"

text \<open>The optional direction with the end of the clause it moves.\<close>

definition p_direction :: "span \<Rightarrow> (order_direction \<times> span) parser" where
  "p_direction end_span =
     p_if [K_ASC] (p_bind p_previous (\<lambda>t. p_return (ORDER_ASC, tk_span t)))
    (p_if [K_DESC] (p_bind p_previous (\<lambda>t. p_return (ORDER_DESC, tk_span t)))
    (p_return (ORDER_ASC, end_span)))"

definition p_score_order :: "token \<Rightarrow> order_clause parser" where
  "p_score_order start =
     p_bind p_advance (\<lambda>_.
     p_bind p_previous (\<lambda>t.
     p_bind (p_score_kind t) (\<lambda>kind.
     p_bind (p_expect K_LPAREN (''se esperaba '(' despues de '' @ score_value kind)) (\<lambda>_.
     p_bind (p_expect K_RPAREN (score_value kind @ ''() no recibe argumentos'')) (\<lambda>end_tk.
     p_bind (p_direction (tk_span end_tk)) (\<lambda>(direction, end_span).
     p_bind (p_span (tk_span start) end_span) (\<lambda>sp.
       p_return (ScoreOrderBy direction sp kind))))))))"

definition p_distance_order :: "token \<Rightarrow> order_clause parser" where
  "p_distance_order start =
     p_bind p_distance_arguments (\<lambda>(column, center, metric).
     p_bind p_previous (\<lambda>prev.
     p_bind (p_direction (tk_span prev)) (\<lambda>(direction, end_span).
     p_bind (p_span (tk_span start) end_span) (\<lambda>sp.
       p_return (DistanceOrderBy column center metric direction sp)))))"

definition p_column_order :: "token \<Rightarrow> order_clause parser" where
  "p_column_order start =
     p_bind (p_if [K_SCORE, K_SIMILARITY_SCORE]
               (p_bind p_previous (\<lambda>t.
                  p_return (ColumnReference (Identifier (tk_lexeme t) (tk_span t)) (tk_span t) None)))
               (p_column_reference ''se esperaba una columna despues de ORDER BY'')) (\<lambda>column.
     p_bind (p_direction (cr_span column)) (\<lambda>(direction, end_span).
     p_bind (p_span (tk_span start) end_span) (\<lambda>sp.
       p_return (OrderBy column direction sp))))"

definition is_score :: "token \<Rightarrow> bool" where
  "is_score t \<longleftrightarrow> tk_kind t = K_SCORE \<or> tk_kind t = K_SIMILARITY_SCORE"

definition p_order_by :: "token \<Rightarrow> order_clause parser" where
  "p_order_by start =
     p_bind (p_expect K_BY ''se esperaba BY despues de ORDER'') (\<lambda>_.
     p_bind p_peek (\<lambda>t.
     p_bind (if is_score t
             then p_bind (p_token 1) (\<lambda>t1. p_return (tk_kind t1 = K_LPAREN))
             else p_return False) (\<lambda>score_function.
       if score_function then p_score_order start
       else p_if [K_DISTANCIA] (p_distance_order start) (p_column_order start))))"

definition p_limit :: "token \<Rightarrow> limit_clause parser" where
  "p_limit start =
     p_bind p_peek (\<lambda>t.
       if tk_kind t \<noteq> K_INTEGER then p_error t ''LIMIT requiere un entero no negativo''
       else p_bind p_advance (\<lambda>_.
            p_bind (p_lift (value_int t)) (\<lambda>n.
              if n < 0 then p_error t ''LIMIT no admite valores negativos''
              else p_bind (p_span (tk_span start) (tk_span t)) (\<lambda>sp. p_return (Limit n sp)))))"

definition select_end_span ::
  "from_source \<Rightarrow> condition option \<Rightarrow> group_by option \<Rightarrow> order_clause option
   \<Rightarrow> limit_clause option \<Rightarrow> span" where
  "select_end_span src wh gb ob lm =
     (case lm of Some l \<Rightarrow> lm_span l | None \<Rightarrow>
      (case ob of Some c \<Rightarrow> order_span c | None \<Rightarrow>
       (case gb of Some g \<Rightarrow> gb_span g | None \<Rightarrow>
        (case wh of Some c \<Rightarrow> condition_span c | None \<Rightarrow> from_span src))))"

definition p_select :: "token \<Rightarrow> select_statement parser" where
  "p_select start =
     p_bind p_projection_list (\<lambda>projections.
     p_bind (p_expect K_FROM ''se esperaba FROM despues de la proyeccion'') (\<lambda>_.
     p_bind p_from_source (\<lambda>src.
     p_bind (p_opt [K_WHERE] p_condition) (\<lambda>wh.
     p_bind (p_opt [K_GROUP] (p_bind p_previous p_group_by)) (\<lambda>gb.
     p_bind (p_opt [K_ORDER] (p_bind p_previous p_order_by)) (\<lambda>ob.
     p_bind (p_opt [K_LIMIT] (p_bind p_previous p_limit)) (\<lambda>lm.
     p_bind (p_span (tk_span start) (select_end_span src wh gb ob lm)) (\<lambda>sp.
       p_return \<lparr>se_projections = projections, se_source = src, se_where = wh, se_group_by = gb,
                 se_order_by = ob, se_span = sp, se_limit = lm\<rparr>))))))))"

definition p_explain :: "token \<Rightarrow> statement parser" where
  "p_explain start =
     p_bind (p_match [K_ANALYZE]) (\<lambda>analyze.
     p_bind (p_expect K_SELECT ''EXPLAIN solo admite una sentencia SELECT'') (\<lambda>sel.
     p_bind (p_select sel) (\<lambda>st.
     p_bind (p_span (tk_span start) (se_span st)) (\<lambda>sp.
       p_return (ExplainStatement st analyze sp)))))"

section \<open>The other statements\<close>

definition p_number_in_parens :: "string \<Rightarrow> string \<Rightarrow> string \<Rightarrow> string \<Rightarrow> (int \<times> token) parser" where
  "p_number_in_parens m_open m_number m_sign m_close =
     p_bind (p_expect K_LPAREN m_open) (\<lambda>_.
     p_bind (p_expect K_INTEGER m_number) (\<lambda>t.
     p_bind (p_lift (value_int t)) (\<lambda>n.
       if take 1 (tk_lexeme t) = ''-'' then p_error t m_sign
       else p_bind (p_expect K_RPAREN m_close) (\<lambda>end_tk. p_return (n, end_tk)))))"

definition p_simple_type :: "sql_type_name \<Rightarrow> sql_type parser" where
  "p_simple_type ty = p_bind p_previous (\<lambda>t. p_return (SqlType ty None (tk_span t)))"

definition p_sql_type :: "sql_type parser" where
  "p_sql_type =
     p_if [K_INT] (p_simple_type SQL_INT)
    (p_if [K_DOUBLE] (p_simple_type SQL_DOUBLE)
    (p_if [K_BOOL] (p_simple_type SQL_BOOL)
    (p_if [K_DATE] (p_simple_type SQL_DATE)
    (p_if [K_POINT] (p_simple_type SQL_POINT)
    (p_if [K_VARCHAR] (p_bind p_previous (\<lambda>start.
       p_bind (p_number_in_parens
                 ''se esperaba '(' despues de VARCHAR''
                 ''se esperaba una longitud entera para VARCHAR''
                 ''la longitud de VARCHAR debe ser un entero sin signo''
                 ''se esperaba ')' despues de la longitud de VARCHAR'') (\<lambda>(n, end_tk).
       p_bind (p_span (tk_span start) (tk_span end_tk)) (\<lambda>sp.
         p_return (SqlType SQL_VARCHAR (Some n) sp)))))
    (p_if [K_VECTOR] (p_bind p_previous (\<lambda>start.
       p_bind (p_number_in_parens
                 ''se esperaba '(' despues de VECTOR''
                 ''se esperaba una dimension entera para VECTOR''
                 ''la dimension de VECTOR debe ser un entero sin signo''
                 ''se esperaba ')' despues de la dimension de VECTOR'') (\<lambda>(n, end_tk).
       p_bind (p_span (tk_span start) (tk_span end_tk)) (\<lambda>sp.
         p_return (SqlType SQL_VECTOR (Some n) sp)))))
    (p_error_here
       ''se esperaba un tipo INT, DOUBLE, VARCHAR(n), BOOL, DATE, POINT o VECTOR(d)'')))))))"

definition p_column_definition :: "column_definition parser" where
  "p_column_definition =
     p_bind (p_identifier ''se esperaba el nombre de una columna'') (\<lambda>name.
     p_bind p_sql_type (\<lambda>ty.
     p_bind (p_opt [K_PRIMARY] (p_expect K_KEY ''se esperaba KEY despues de PRIMARY'')) (\<lambda>pk.
     p_bind (p_span (id_span name)
              (case pk of None \<Rightarrow> ty_span ty | Some end_tk \<Rightarrow> tk_span end_tk)) (\<lambda>sp.
       p_return (ColumnDefinition name ty (pk \<noteq> None) sp)))))"

definition p_storage :: "token \<Rightarrow> (storage_kind \<times> token) parser" where
  "p_storage close =
     p_if [K_USING]
       (p_bind (p_if [K_HEAP] (p_return STORAGE_HEAP)
               (p_if [K_SEQUENTIAL] (p_return STORAGE_SEQUENTIAL)
               (p_error_here ''se esperaba HEAP o SEQUENTIAL despues de USING''))) (\<lambda>storage.
        p_bind p_previous (\<lambda>end_tk. p_return (storage, end_tk))))
       (p_return (STORAGE_HEAP, close))"

definition p_create_table :: "token \<Rightarrow> statement parser" where
  "p_create_table start =
     p_bind (p_identifier ''se esperaba el nombre de la tabla'') (\<lambda>table.
     p_bind (p_expect K_LPAREN ''se esperaba '(' despues del nombre de la tabla'') (\<lambda>_.
     p_bind (p_comma_list p_column_definition) (\<lambda>columns.
     p_bind (p_expect K_RPAREN ''se esperaba ')' despues de las columnas'') (\<lambda>close.
     p_bind (p_storage close) (\<lambda>(storage, end_tk).
     p_bind (p_span (tk_span start) (tk_span end_tk)) (\<lambda>sp.
       p_return (CreateTableStatement
         \<lparr>ct_table = table, ct_columns = columns, ct_storage = storage, ct_span = sp\<rparr>)))))))"

definition p_index_kind :: "index_kind parser" where
  "p_index_kind =
     p_if [K_BPLUS, K_BPLUS_UNCLUSTERED] (p_return IDX_BPLUS_UNCLUSTERED)
    (p_if [K_HASH, K_EXTENDIBLE_HASH] (p_return IDX_EXTENDIBLE_HASH)
    (p_if [K_RTREE] (p_return IDX_RTREE)
    (p_if [K_HNSW] (p_return IDX_HNSW)
    (p_if [K_IVF] (p_return IDX_IVF)
    (p_if [K_FULLTEXT, K_INVERTED_INDEX] (p_return IDX_INVERTED_INDEX)
    (p_error_here (''se esperaba BPLUS, BPLUS_UNCLUSTERED, HASH, EXTENDIBLE_HASH, RTREE, ''
                   @ ''FULLTEXT, INVERTED_INDEX, HNSW o IVF despues de USING'')))))))"

definition p_text_language :: "text_language parser" where
  "p_text_language =
     p_bind p_peek (\<lambda>name.
       if tk_kind name \<noteq> K_IDENTIFIER \<or> lower (tk_lexeme name) \<noteq> ''language'' then
         p_error name ''se esperaba LANGUAGE despues de WITH''
       else
     p_bind p_advance (\<lambda>_.
     p_bind (p_expect K_EQUAL ''se esperaba '=' despues de LANGUAGE'') (\<lambda>_.
     p_bind p_peek (\<lambda>t.
       case text_language_of (lower (tk_lexeme t)) of
         None \<Rightarrow> p_error t ''el idioma debe ser spanish o english''
       | Some language \<Rightarrow>
           if tk_kind t \<noteq> K_IDENTIFIER then p_error t ''el idioma debe ser spanish o english''
           else p_bind p_advance (\<lambda>_. p_return language)))))"

definition p_create_index :: "token \<Rightarrow> statement parser" where
  "p_create_index start =
     p_bind (p_identifier ''se esperaba el nombre del indice'') (\<lambda>index.
     p_bind (p_expect K_ON ''se esperaba ON despues del nombre del indice'') (\<lambda>_.
     p_bind (p_identifier ''se esperaba el nombre de la tabla'') (\<lambda>table.
     p_bind (p_expect K_LPAREN ''se esperaba '(' despues del nombre de la tabla'') (\<lambda>_.
     p_bind (p_identifier ''se esperaba el nombre de la columna indexada'') (\<lambda>column.
     p_bind (p_expect K_RPAREN ''se esperaba ')' despues de la columna indexada'') (\<lambda>_.
     p_bind (p_expect K_USING ''se esperaba USING despues de la columna indexada'') (\<lambda>_.
     p_bind p_index_kind (\<lambda>kind.
     p_bind (if kind = IDX_HNSW then
               p_bind (p_if [K_WITH] (p_bind p_vector_metric (\<lambda>(m, _). p_return m))
                        (p_return VM_COSINE)) (\<lambda>m. p_return (Some m))
             else p_return None) (\<lambda>metric.
     p_bind (if kind = IDX_INVERTED_INDEX then p_opt [K_WITH] p_text_language
             else p_return None) (\<lambda>language.
     p_bind p_previous (\<lambda>end_tk.
     p_bind (p_span (tk_span start) (tk_span end_tk)) (\<lambda>sp.
       p_return (CreateIndexStatement
         \<lparr>ci_index = index, ci_table = table, ci_column = column, ci_kind = kind, ci_span = sp,
          ci_metric = metric, ci_language = language\<rparr>)))))))))))))"

definition p_create :: "token \<Rightarrow> statement parser" where
  "p_create start =
     p_if [K_TABLE] (p_create_table start)
    (p_if [K_INDEX] (p_create_index start)
    (p_error_here ''se esperaba TABLE o INDEX despues de CREATE''))"

definition p_insert :: "token \<Rightarrow> statement parser" where
  "p_insert start =
     p_bind (p_expect K_INTO ''se esperaba INTO despues de INSERT'') (\<lambda>_.
     p_bind (p_identifier ''se esperaba el nombre de la tabla'') (\<lambda>table.
     p_bind (p_expect K_VALUES ''se esperaba VALUES despues del nombre de la tabla'') (\<lambda>_.
     p_bind (p_expect K_LPAREN ''se esperaba '(' despues de VALUES'') (\<lambda>_.
     p_bind (p_comma_list p_literal) (\<lambda>vs.
     p_bind (p_expect K_RPAREN ''se esperaba ')' despues de los valores'') (\<lambda>end_tk.
     p_bind (p_span (tk_span start) (tk_span end_tk)) (\<lambda>sp.
       p_return (InsertStatement \<lparr>in_table = table, in_values = vs, in_span = sp\<rparr>))))))))"

definition p_delete :: "token \<Rightarrow> statement parser" where
  "p_delete start =
     p_bind (p_expect K_FROM ''se esperaba FROM despues de DELETE'') (\<lambda>_.
     p_bind (p_identifier ''se esperaba el nombre de la tabla'') (\<lambda>table.
     p_bind (p_expect K_WHERE ''DELETE requiere una clausula WHERE'') (\<lambda>_.
     p_bind p_condition (\<lambda>wh.
     p_bind (p_span (tk_span start) (condition_span wh)) (\<lambda>sp.
       p_return (DeleteStatement \<lparr>de_table = table, de_where = wh, de_span = sp\<rparr>))))))"

definition p_drop_table :: "token \<Rightarrow> statement parser" where
  "p_drop_table start =
     p_bind (p_expect K_TABLE ''se esperaba TABLE despues de DROP'') (\<lambda>_.
     p_bind (p_identifier ''se esperaba el nombre de la tabla'') (\<lambda>table.
     p_bind (p_span (tk_span start) (id_span table)) (\<lambda>sp.
       p_return (DropTableStatement table sp))))"

definition p_begin_transaction :: "token \<Rightarrow> statement parser" where
  "p_begin_transaction start =
     p_bind (p_expect K_TRANSACTION ''se esperaba TRANSACTION despues de BEGIN'') (\<lambda>end_tk.
     p_bind (p_span (tk_span start) (tk_span end_tk)) (\<lambda>sp.
       p_return (BeginTransactionStatement sp)))"

definition p_end_transaction :: "token \<Rightarrow> statement parser" where
  "p_end_transaction start =
     p_bind (p_expect K_TRANSACTION ''se esperaba TRANSACTION despues de END'') (\<lambda>end_tk.
     p_bind (p_span (tk_span start) (tk_span end_tk)) (\<lambda>sp.
       p_return (EndTransactionStatement sp)))"

definition p_statement :: "statement parser" where
  "p_statement =
     p_if [K_CREATE] (p_bind p_previous p_create)
    (p_if [K_INSERT] (p_bind p_previous p_insert)
    (p_if [K_SELECT] (p_bind p_previous (\<lambda>t. p_bind (p_select t) (\<lambda>s. p_return (SelectStatement s))))
    (p_if [K_EXPLAIN] (p_bind p_previous p_explain)
    (p_if [K_DELETE] (p_bind p_previous p_delete)
    (p_if [K_DROP] (p_bind p_previous p_drop_table)
    (p_if [K_BEGIN] (p_bind p_previous p_begin_transaction)
    (p_if [K_END] (p_bind p_previous p_end_transaction)
    (p_bind p_peek (\<lambda>t.
       if token_word t \<in> set unsupported_words then p_raise_unsupported t
       else p_error t
         (''se esperaba CREATE TABLE, CREATE INDEX, DROP TABLE, INSERT INTO, SELECT, ''
          @ ''EXPLAIN, DELETE FROM, BEGIN TRANSACTION o END TRANSACTION''))))))))))"

definition p_parse :: "statement parser" where
  "p_parse =
     p_bind p_statement (\<lambda>st.
     p_bind (p_if [K_SEMICOLON]
               (p_bind (p_check K_EOF) (\<lambda>eof.
                  if \<not> eof then p_error_here ''solo se permite una sentencia SQL por llamada''
                  else p_return ()))
               (p_bind (p_check K_EOF) (\<lambda>eof.
                  if \<not> eof then p_raise_trailing_input else p_return ()))) (\<lambda>_.
     p_bind (p_expect K_EOF ''se esperaba el final de la sentencia'') (\<lambda>_.
       p_return st)))"

fun p_script_loop :: "nat \<Rightarrow> statement list \<Rightarrow> statement list parser" where
  "p_script_loop 0 acc = p_raise OutOfFuel"
| "p_script_loop (Suc n) acc =
     p_bind (p_check K_EOF) (\<lambda>eof.
       if eof then p_return acc else
     p_bind p_statement (\<lambda>st.
     p_if [K_SEMICOLON] (p_script_loop n (acc @ [st]))
       (p_bind (p_check K_EOF) (\<lambda>eof.
          if \<not> eof then p_error_here (''se esperaba ';' entre sentencias SQL'')
          else p_script_loop n (acc @ [st])))))"

definition p_statements :: "statement list parser" where
  "p_statements s = p_script_loop (Suc (length (ps_tokens s))) [] s"

definition p_parse_script :: "statement list parser" where
  "p_parse_script =
     p_bind p_statements (\<lambda>sts.
     p_bind (if sts = [] then p_error_here ''se esperaba al menos una sentencia SQL''
             else p_return ()) (\<lambda>_.
     p_bind (p_expect K_EOF ''se esperaba el final del script SQL'') (\<lambda>_. p_return sts)))"

definition run_parser :: "'a parser \<Rightarrow> string \<Rightarrow> exn + 'a" where
  "run_parser p sql =
     ebind (tokenize sql) (\<lambda>tokens.
     ebind (p \<lparr>ps_tokens = tokens, ps_source = sql, ps_current = 0\<rparr>) (\<lambda>(x, _). Inr x))"

definition parse_sql :: "string \<Rightarrow> exn + statement" where
  "parse_sql sql = run_parser p_parse sql"

definition parse_sql_script :: "string \<Rightarrow> exn + statement list" where
  "parse_sql_script sql = run_parser p_parse_script sql"

end
