(* ===== verification/Sql_Lexer_Spec.thy ===== *)
theory Sql_Lexer_Spec
  imports Sql_Lexer
begin

text \<open>
  Correctness of the lexer. The invariant of its state (\<open>lex_ok\<close>) says that the counted line and
  column are those of the offset (\<open>position\<close>); every scanner keeps it and returns a token that is
  the exact text of a located span (\<open>scanned\<close>); the main loop then cuts the text into tokens and
  trivia (\<open>lexed\<close>), or raises a located lexical error.
\<close>

definition lex_ok :: "string \<Rightarrow> lexer \<Rightarrow> bool" where
  "lex_ok src lx \<longleftrightarrow>
     lx_source lx = src \<and> lx_index lx \<le> length src
     \<and> (lx_line lx, lx_column lx) = position src (lx_index lx)"

definition lexical_error :: "string \<Rightarrow> exn \<Rightarrow> bool" where
  "lexical_error src e \<longleftrightarrow>
     (\<exists>cls msg sp. e = SQLError cls msg sp (Some src) \<and> located src sp
        \<and> (cls = SQLLexError \<or> cls = SQLUnsupportedError))"

text \<open>
  A token and its text: literals carry the value of their lexeme (a string literal is its value
  with the quotes doubled), identifiers their lexeme, and a keyword is spelled by its lexeme up to
  the case of the letters.
\<close>

definition escape_quotes :: "string \<Rightarrow> string" where
  "escape_quotes v = concat (map (\<lambda>c. if c = CHR 0x27 then [CHR 0x27, CHR 0x27] else [c]) v)"

definition quote_sql :: "string \<Rightarrow> string" where
  "quote_sql v = CHR 0x27 # escape_quotes v @ [CHR 0x27]"

definition value_fits :: "token \<Rightarrow> bool" where
  "value_fits t \<longleftrightarrow>
     (tk_kind t = K_INTEGER \<longrightarrow> integer_of_lexeme (tk_lexeme t) = Some (tk_value t))
     \<and> (tk_kind t = K_DOUBLE_LITERAL \<longrightarrow> double_of_lexeme (tk_lexeme t) = Some (tk_value t))
     \<and> (tk_kind t = K_STRING \<longrightarrow> (\<exists>v. tk_value t = StrValue v \<and> tk_lexeme t = quote_sql v))
     \<and> (tk_kind t = K_IDENTIFIER \<longrightarrow> tk_value t = StrValue (tk_lexeme t))
     \<and> (tk_kind t \<in> set keyword_kinds \<longrightarrow> tk_kind t = TokenKind (upper (tk_lexeme t)))"

definition token_in :: "string \<Rightarrow> token \<Rightarrow> bool" where
  "token_in src t \<longleftrightarrow>
     located src (tk_span t)
     \<and> tk_lexeme t = slice src (nat (sp_start (tk_span t))) (nat (sp_end (tk_span t)))
     \<and> value_fits t"

text \<open>What may stand between two tokens: white space, line comments and block comments.\<close>

inductive trivia :: "string \<Rightarrow> nat \<Rightarrow> nat \<Rightarrow> bool" for src where
  none: "trivia src i i"
| blank: "i < length src \<Longrightarrow> is_whitespace (src ! i) \<Longrightarrow> trivia src (Suc i) j \<Longrightarrow> trivia src i j"
| line_comment: "slice src i (i + 2) = ''--'' \<Longrightarrow> i + 2 \<le> k \<Longrightarrow> k \<le> length src \<Longrightarrow>
     (\<forall>m. i + 2 \<le> m \<and> m < k \<longrightarrow> \<not> is_newline (src ! m)) \<Longrightarrow>
     k = length src \<or> is_newline (src ! k) \<Longrightarrow> trivia src k j \<Longrightarrow> trivia src i j"
| block_comment: "slice src i (i + 2) = ''/*'' \<Longrightarrow> i + 2 \<le> k \<Longrightarrow> slice src k (k + 2) = ''*/'' \<Longrightarrow>
     (\<forall>m. i + 2 \<le> m \<and> m < k \<longrightarrow> slice src m (m + 2) \<noteq> ''*/'') \<Longrightarrow>
     trivia src (k + 2) j \<Longrightarrow> trivia src i j"

inductive_cases trivia_elim: "trivia src i j"

lemma trivia_trans: "trivia src i j \<Longrightarrow> trivia src j k \<Longrightarrow> trivia src i k"
  by (induction rule: trivia.induct) (auto intro: trivia.intros)

text \<open>\<open>lexed src i ts j\<close>: the text from \<open>i\<close> to \<open>j\<close> is the tokens \<open>ts\<close> with trivia around them.\<close>

fun lexed :: "string \<Rightarrow> nat \<Rightarrow> token list \<Rightarrow> nat \<Rightarrow> bool" where
  "lexed src i [] j = trivia src i j"
| "lexed src i (t # ts) j =
     (token_in src t \<and> sp_start (tk_span t) < sp_end (tk_span t) \<and> tk_kind t \<noteq> K_EOF
      \<and> trivia src i (nat (sp_start (tk_span t)))
      \<and> lexed src (nat (sp_end (tk_span t))) ts j)"

lemma lexed_trivia: "trivia src i j \<Longrightarrow> lexed src j ts k \<Longrightarrow> lexed src i ts k"
  by (cases ts) (auto intro: trivia_trans)

lemma lexed_append: "lexed src i ts j \<Longrightarrow> lexed src j us k \<Longrightarrow> lexed src i (ts @ us) k"
  by (induction ts arbitrary: i) (auto intro: lexed_trivia)

section \<open>Steps of the lexer keep its invariant\<close>

lemma lex_ok_init: "lex_ok sql (lexer_init sql)"
  by (simp add: lex_ok_def lexer_init_def)

lemma advance_char_ok:
  assumes "lex_ok src lx" "lx_index lx < length src"
  shows "\<exists>lx'. advance_char lx = Inr (src ! lx_index lx, lx') \<and> lex_ok src lx'
     \<and> lx_index lx' = Suc (lx_index lx)"
proof -
  let ?i = "lx_index lx"
  have "position src ?i = (lx_line lx, lx_column lx)"
    using assms(1) by (simp add: lex_ok_def)
  moreover have "0 < ?i \<and> src ! (?i - 1) = CHR 0x0D \<Longrightarrow> lx_column lx = 1"
    using position_after_CR [of ?i src] assms by (auto simp: lex_ok_def dest: sym)
  ultimately show ?thesis
    using assms position_Suc [of ?i src]
    by (auto simp: advance_char_def lex_ok_def Let_def not_less)
qed

lemma advance_lx_ok:
  assumes "lex_ok src lx" "lx_index lx < length src"
  shows "\<exists>lx'. advance_lx lx = Inr lx' \<and> lex_ok src lx' \<and> lx_index lx' = Suc (lx_index lx)"
  using advance_char_ok [OF assms] by (auto simp: advance_lx_def)

lemma peeks_iff:
  "lex_ok src lx \<Longrightarrow>
     peeks lx d p \<longleftrightarrow> lx_index lx + d < length src \<and> p (src ! (lx_index lx + d))"
  by (auto simp: peeks_def peek_char_def lex_ok_def)

lemma advance_while_ok:
  assumes "lex_ok src lx"
  shows "\<exists>lx'. advance_while p lx = Inr lx' \<and> lex_ok src lx' \<and> lx_index lx \<le> lx_index lx'
     \<and> (\<forall>m. lx_index lx \<le> m \<and> m < lx_index lx' \<longrightarrow> p (src ! m))
     \<and> (lx_index lx' < length src \<longrightarrow> \<not> p (src ! lx_index lx'))"
  using assms
proof (induction "length src - lx_index lx" arbitrary: lx rule: less_induct)
  case less
  show ?case
  proof (cases "peeks lx 0 p")
    case True
    then have i: "lx_index lx < length src" "p (src ! lx_index lx)"
      using less.prems by (auto simp: peeks_iff)
    obtain lx1 where 1: "advance_lx lx = Inr lx1" "lex_ok src lx1"
      "lx_index lx1 = Suc (lx_index lx)"
      using advance_lx_ok [OF less.prems i(1)] by blast
    have "length src - lx_index lx1 < length src - lx_index lx"
      using 1(3) i(1) by simp
    from less.hyps [OF this 1(2)]
    obtain lx' where 2: "advance_while p lx1 = Inr lx'" "lex_ok src lx'"
      "lx_index lx1 \<le> lx_index lx'"
      "\<forall>m. lx_index lx1 \<le> m \<and> m < lx_index lx' \<longrightarrow> p (src ! m)"
      "lx_index lx' < length src \<longrightarrow> \<not> p (src ! lx_index lx')"
      by blast
    have "\<forall>m. lx_index lx \<le> m \<and> m < lx_index lx' \<longrightarrow> p (src ! m)"
      using 1(3) 2(4) i(2) by (metis Suc_leI le_neq_implies_less)
    with True 1 2 show ?thesis
      by (simp add: advance_while.simps [of p lx])
  next
    case False
    then show ?thesis
      using less.prems by (auto simp: advance_while.simps [of p lx] peeks_iff)
  qed
qed

lemma span_from_ok:
  assumes "lex_ok src mark" "lex_ok src lx" "lx_index mark \<le> lx_index lx"
  shows "\<exists>sp. span_from mark lx = Inr sp \<and> located src sp
     \<and> sp_start sp = int (lx_index mark) \<and> sp_end sp = int (lx_index lx)"
  using make_span_located [of "lx_index mark" "lx_index lx" src] assms
  by (auto simp: span_from_def lex_ok_def located_def)

lemma raise_at_ok:
  assumes "lex_ok src mark" "lex_ok src lx" "lx_index mark \<le> lx_index lx"
    "cls = SQLLexError \<or> cls = SQLUnsupportedError"
  shows "\<exists>e. raise_at cls msg mark lx = Inl e \<and> lexical_error src e"
  using span_from_ok [OF assms(1-3)] assms(2,4)
  by (auto simp: raise_at_def lexical_error_def lex_ok_def)

section \<open>Scanners\<close>

text \<open>A word is a keyword when its upper-case text is the kind's string.\<close>

lemma keyword_of_cases:
  "keyword_of w = K_IDENTIFIER \<or> (keyword_of w = TokenKind w \<and> TokenKind w \<in> set keyword_kinds)"
proof (cases "List.find (\<lambda>k. kind_value k = w) keyword_kinds")
  case None
  then show ?thesis by (simp add: keyword_of_def)
next
  case (Some k)
  from find_SomeD [OF this] Some show ?thesis
    by (cases k) (auto simp: keyword_of_def)
qed

lemma keyword_kinds_not:
  "K_INTEGER \<notin> set keyword_kinds" "K_DOUBLE_LITERAL \<notin> set keyword_kinds"
  "K_STRING \<notin> set keyword_kinds" "K_EOF \<notin> set keyword_kinds" "K_IDENTIFIER \<notin> set keyword_kinds"
  by (simp_all add: keyword_kinds_def)

lemma keyword_of_kind:
  "keyword_of w \<noteq> K_INTEGER" "keyword_of w \<noteq> K_DOUBLE_LITERAL" "keyword_of w \<noteq> K_STRING"
  "keyword_of w \<noteq> K_EOF" "keyword_of w \<noteq> K_IDENTIFIER \<Longrightarrow> keyword_of w = TokenKind w"
  using keyword_of_cases [of w] keyword_kinds_not by fastforce+

definition scanned :: "string \<Rightarrow> lexer \<Rightarrow> exn + token \<times> lexer \<Rightarrow> bool" where
  "scanned src lx r \<longleftrightarrow>
     (case r of
        Inl e \<Rightarrow> lexical_error src e
      | Inr (t, lx') \<Rightarrow> lex_ok src lx' \<and> token_in src t \<and> tk_kind t \<noteq> K_EOF
          \<and> sp_start (tk_span t) = int (lx_index lx) \<and> sp_end (tk_span t) = int (lx_index lx')
          \<and> lx_index lx < lx_index lx')"

lemma lex_token_scanned:
  assumes "lex_ok src lx" "lex_ok src lx'" "lx_index lx < lx_index lx'" "kind \<noteq> K_EOF"
    and fits: "\<And>t. tk_kind t = kind \<Longrightarrow> tk_value t = v \<Longrightarrow>
      tk_lexeme t = slice src (lx_index lx) (lx_index lx') \<Longrightarrow> value_fits t"
  shows "scanned src lx (ebind (lex_token kind lx lx' v) (\<lambda>t. Inr (t, lx')))"
proof -
  obtain sp where "span_from lx lx' = Inr sp" "located src sp"
    "sp_start sp = int (lx_index lx)" "sp_end sp = int (lx_index lx')"
    using span_from_ok [OF assms(1,2)] assms(3) by auto
  then show ?thesis
    using assms by (auto simp: scanned_def lex_token_def token_in_def lex_ok_def intro!: fits)
qed

lemma raise_at_scanned:
  assumes "lex_ok src lx" "lex_ok src lx'" "lx_index lx \<le> lx_index lx'"
    "cls = SQLLexError \<or> cls = SQLUnsupportedError"
  shows "scanned src lx (raise_at cls msg lx lx')"
proof -
  obtain e where "(raise_at cls msg lx lx' :: exn + token \<times> lexer) = Inl e" "lexical_error src e"
    using raise_at_ok [OF assms] by blast
  then show ?thesis by (simp add: scanned_def)
qed

lemma word_value_fits:
  assumes "kind = (if all_ascii (tk_lexeme t) then keyword_of (upper (tk_lexeme t)) else K_IDENTIFIER)"
    "tk_kind t = kind" "kind = K_IDENTIFIER \<Longrightarrow> tk_value t = StrValue (tk_lexeme t)"
  shows "value_fits t"
proof (cases "kind = K_IDENTIFIER")
  case True
  with assms show ?thesis by (simp add: value_fits_def keyword_kinds_not)
next
  case False
  with assms(1) have "kind = keyword_of (upper (tk_lexeme t))" by (simp split: if_splits)
  with False keyword_of_kind [of "upper (tk_lexeme t)"] assms(2) show ?thesis
    by (simp add: value_fits_def)
qed

lemma scan_word_scanned:
  assumes "lex_ok src lx" "lx_index lx < length src"
  shows "scanned src lx (scan_word lx)"
proof -
  obtain lx1 where 1: "advance_lx lx = Inr lx1" "lex_ok src lx1" "lx_index lx1 = Suc (lx_index lx)"
    using advance_lx_ok [OF assms] by blast
  obtain lx2 where 2: "advance_while is_identifier_part lx1 = Inr lx2" "lex_ok src lx2"
    "lx_index lx1 \<le> lx_index lx2"
    using advance_while_ok [OF 1(2)] by blast
  show ?thesis
    unfolding scan_word_def 1(1) 2(1) ebind.simps Let_def
    by (rule lex_token_scanned [OF assms(1) 2(2)])
      (use 1 2 assms in \<open>auto simp: lex_ok_def keyword_of_kind intro!: word_value_fits [OF refl]\<close>)
qed

lemma number_scanned:
  assumes "lex_ok src lx" "lex_ok src lx'" "lx_index lx < lx_index lx'"
    "kind = K_INTEGER \<or> kind = K_DOUBLE_LITERAL"
  shows "scanned src lx
    (let lexeme = slice (lx_source lx) (lx_index lx) (lx_index lx')
     in case (if kind = K_INTEGER then integer_of_lexeme lexeme else double_of_lexeme lexeme) of
          None \<Rightarrow> raise_at SQLLexError msg lx lx'
        | Some v \<Rightarrow> ebind (lex_token kind lx lx' v) (\<lambda>t. Inr (t, lx')))"
  using assms
  by (auto simp: Let_def lex_ok_def value_fits_def keyword_kinds_not split: option.splits
      intro!: raise_at_scanned lex_token_scanned)

lemma scan_fraction_ok:
  assumes "lex_ok src mark" "lex_ok src lx" "lx_index mark \<le> lx_index lx"
  shows "(\<exists>e. scan_fraction mark lx = Inl e \<and> lexical_error src e)
    \<or> (\<exists>kind lx'. scan_fraction mark lx = Inr (kind, lx') \<and> lex_ok src lx'
        \<and> lx_index lx \<le> lx_index lx' \<and> (kind = K_INTEGER \<or> kind = K_DOUBLE_LITERAL))"
proof (cases "peeks lx 0 (\<lambda>c. c = CHR ''.'')")
  case dot: True
  then have "lx_index lx < length src" using assms by (simp add: peeks_iff)
  from advance_lx_ok [OF assms(2) this] obtain lx1 where
    1: "advance_lx lx = Inr lx1" "lex_ok src lx1" "lx_index lx1 = Suc (lx_index lx)"
    by blast
  obtain lx2 where 2: "advance_while is_digit lx1 = Inr lx2" "lex_ok src lx2"
    "lx_index lx1 \<le> lx_index lx2"
    using advance_while_ok [OF 1(2)] by blast
  have "lx_index mark \<le> lx_index lx1" using 1 assms by simp
  then have "\<exists>e. (raise_at SQLLexError ''literal numerico incompleto'' mark lx1
      :: exn + token_kind \<times> lexer) = Inl e \<and> lexical_error src e"
    using 1 assms by (intro raise_at_ok) auto
  then show ?thesis
    using dot 1 2 by (simp add: scan_fraction_def)
next
  case False
  then show ?thesis using assms by (simp add: scan_fraction_def)
qed

lemma scan_number_scanned:
  assumes "lex_ok src lx" "lx_index lx < length src"
    "is_digit (src ! lx_index lx) \<or> src ! lx_index lx = CHR ''-''"
  shows "scanned src lx (scan_number lx)"
proof -
  obtain lx1 where 1: "(if peeks lx 0 (\<lambda>c. c = CHR ''-'') then advance_lx lx else Inr lx) = Inr lx1"
    "lex_ok src lx1" "lx_index lx \<le> lx_index lx1"
    "lx_index lx1 = lx_index lx \<Longrightarrow> is_digit (src ! lx_index lx)"
    using advance_lx_ok [OF assms(1,2)] assms
    by (cases "src ! lx_index lx = CHR ''-''") (auto simp: peeks_iff)
  obtain lx2 where 2: "advance_while is_digit lx1 = Inr lx2" "lex_ok src lx2"
    "lx_index lx1 \<le> lx_index lx2" "lx_index lx2 < length src \<longrightarrow> \<not> is_digit (src ! lx_index lx2)"
    using advance_while_ok [OF 1(2)] by blast
  have less: "lx_index lx < lx_index lx2"
    using 1(3,4) 2(3,4) assms(2) by (metis le_antisym le_trans nat_less_le)
  then have "lx_index lx \<le> lx_index lx2" by simp
  from scan_fraction_ok [OF assms(1) 2(2) this]
  consider (err) e where "scan_fraction lx lx2 = Inl e" "lexical_error src e"
    | (ok) kind lx3 where "scan_fraction lx lx2 = Inr (kind, lx3)" "lex_ok src lx3"
        "lx_index lx2 \<le> lx_index lx3" "kind = K_INTEGER \<or> kind = K_DOUBLE_LITERAL"
    by blast
  then show ?thesis
  proof cases
    case err
    then show ?thesis
      unfolding scan_number_def 1(1) 2(1) ebind.simps by (simp add: scanned_def)
  next
    case 3: ok
    have "lx_index lx < lx_index lx3" using less 3(3) by simp
    from number_scanned [OF assms(1) 3(2) this 3(4)] show ?thesis
      by (simp add: scan_number_def 1(1) 2(1) 3(1))
  qed
qed


lemma escape_quotes_simps [simp]:
  "escape_quotes [] = []"
  "escape_quotes (v @ w) = escape_quotes v @ escape_quotes w"
  "escape_quotes [CHR 0x27] = [CHR 0x27, CHR 0x27]"
  "c \<noteq> CHR 0x27 \<Longrightarrow> escape_quotes [c] = [c]"
  by (simp_all add: escape_quotes_def)

lemma slice_snoc: "i \<le> j \<Longrightarrow> j < length xs \<Longrightarrow> slice xs i (Suc j) = slice xs i j @ [xs ! j]"
  by (simp add: slice_def take_Suc_conv_app_nth)

lemma string_loop_scanned:
  assumes "lex_ok src mark" "lex_ok src lx" "lx_index mark < lx_index lx"
    "slice src (lx_index mark) (lx_index lx) = CHR 0x27 # escape_quotes v"
  shows "scanned src mark (string_loop mark v lx)"
  using assms
proof (induction "length src - lx_index lx" arbitrary: v lx rule: less_induct)
  case less
  note prems = less.prems
  show ?case
  proof (cases "at_end lx")
    case True
    then show ?thesis
      using prems by (auto simp: string_loop.simps [of mark v lx] intro!: raise_at_scanned)
  next
    case False
    then have i: "lx_index lx < length src"
      using prems by (simp add: at_end_def lex_ok_def)
    obtain lx1 where 1: "advance_char lx = Inr (src ! lx_index lx, lx1)" "lex_ok src lx1"
      "lx_index lx1 = Suc (lx_index lx)"
      using advance_char_ok [OF prems(2) i] by blast
    have s1: "slice src (lx_index mark) (lx_index lx1) =
      CHR 0x27 # escape_quotes v @ [src ! lx_index lx]"
      using slice_snoc [of "lx_index mark" "lx_index lx" src] i 1(3) prems(3,4) by simp
    consider (other) "src ! lx_index lx \<noteq> CHR 0x27"
      | (doubled) "src ! lx_index lx = CHR 0x27" "peeks lx1 0 (\<lambda>d. d = CHR 0x27)"
      | (close) "src ! lx_index lx = CHR 0x27" "\<not> peeks lx1 0 (\<lambda>d. d = CHR 0x27)"
      by blast
    then show ?thesis
    proof cases
      case other
      have "scanned src mark (string_loop mark (v @ [src ! lx_index lx]) lx1)"
        by (rule less.hyps) (use 1 i s1 other prems in auto)
      with False 1 other show ?thesis
        by (simp add: string_loop.simps [of mark v lx])
    next
      case doubled
      then have i1: "lx_index lx1 < length src" "src ! lx_index lx1 = CHR 0x27"
        using 1 by (simp_all add: peeks_iff)
      obtain lx2 where 2: "advance_lx lx1 = Inr lx2" "lex_ok src lx2"
        "lx_index lx2 = Suc (lx_index lx1)"
        using advance_lx_ok [OF 1(2) i1(1)] by blast
      have "slice src (lx_index mark) (lx_index lx2) =
        CHR 0x27 # escape_quotes (v @ [CHR 0x27])"
        using slice_snoc [of "lx_index mark" "lx_index lx1" src] i1 1(3) 2(3) prems(3) s1 doubled
        by simp
      then have "scanned src mark (string_loop mark (v @ [CHR 0x27]) lx2)"
        by (intro less.hyps) (use 1 2 i prems in auto)
      with False 1 2 doubled show ?thesis
        by (simp add: string_loop.simps [of mark v lx])
    next
      case close
      have "scanned src mark (ebind (lex_token K_STRING mark lx1 (StrValue v)) (\<lambda>t. Inr (t, lx1)))"
        by (rule lex_token_scanned)
          (use 1 prems s1 close in \<open>auto simp: value_fits_def quote_sql_def keyword_kinds_not\<close>)
      with False 1 close show ?thesis
        by (simp add: string_loop.simps [of mark v lx])
    qed
  qed
qed

lemma scan_string_scanned:
  assumes "lex_ok src lx" "lx_index lx < length src" "src ! lx_index lx = CHR 0x27"
  shows "scanned src lx (scan_string lx)"
proof -
  obtain lx1 where 1: "advance_lx lx = Inr lx1" "lex_ok src lx1" "lx_index lx1 = Suc (lx_index lx)"
    using advance_lx_ok [OF assms(1,2)] by blast
  then have "slice src (lx_index lx) (lx_index lx1) = [CHR 0x27]"
    using assms by (simp add: slice_Suc)
  then have "scanned src lx (string_loop lx [] lx1)"
    using 1 assms by (intro string_loop_scanned) auto
  with 1 show ?thesis by (simp add: scan_string_def)
qed

lemma scan_single_character_scanned:
  assumes "lex_ok src lx" "lx_index lx < length src"
    "map_of single_character_tokens (src ! lx_index lx) = Some kind"
  shows "scanned src lx (scan_single_character lx)"
proof -
  obtain lx1 where 1: "advance_char lx = Inr (src ! lx_index lx, lx1)" "lex_ok src lx1"
    "lx_index lx1 = Suc (lx_index lx)"
    using advance_char_ok [OF assms(1,2)] by blast
  have "kind \<in> snd ` set single_character_tokens"
    using map_of_SomeD [OF assms(3)] by force
  then have "kind \<notin> set keyword_kinds \<union> {K_INTEGER, K_DOUBLE_LITERAL, K_STRING, K_IDENTIFIER, K_EOF}"
    by (auto simp: single_character_tokens_def keyword_kinds_def)
  then have "scanned src lx (ebind (lex_token kind lx lx1 NoValue) (\<lambda>t. Inr (t, lx1)))"
    using 1 assms by (intro lex_token_scanned) (auto simp: value_fits_def)
  with 1 assms(3) show ?thesis by (simp add: scan_single_character_def)
qed

lemma scan_comparison_operator_scanned:
  assumes "lex_ok src lx" "lx_index lx < length src"
  shows "scanned src lx (scan_comparison_operator lx)"
proof -
  let ?c = "src ! lx_index lx"
  obtain lx1 where 1: "advance_char lx = Inr (?c, lx1)" "lex_ok src lx1"
    "lx_index lx1 = Suc (lx_index lx)"
    using advance_char_ok [OF assms] by blast
  have adv: "peeks lx1 0 p \<Longrightarrow> \<exists>lx2. advance_lx lx1 = Inr lx2 \<and> lex_ok src lx2
      \<and> lx_index lx2 = Suc (lx_index lx1)" for p
    using advance_lx_ok [OF 1(2)] 1(2) by (simp add: peeks_iff)
  show ?thesis
  proof (cases "?c = CHR ''<'' \<and> peeks lx1 0 (\<lambda>d. d = CHR ''>'')")
    case True
    then obtain lx2 where 2: "advance_lx lx1 = Inr lx2" "lex_ok src lx2"
      "lx_index lx2 = Suc (lx_index lx1)" using adv by blast
    have "scanned src lx (raise_at SQLUnsupportedError msg lx lx2)" for msg
      using 1 2 assms by (intro raise_at_scanned) auto
    with True 1 2 show ?thesis by (simp add: scan_comparison_operator_def)
  next
    case False
    let ?eq = "peeks lx1 0 (\<lambda>d. d = CHR ''='')"
    obtain lx2 where 2: "(if ?eq then advance_lx lx1 else Inr lx1) = Inr lx2" "lex_ok src lx2"
      "lx_index lx1 \<le> lx_index lx2"
      using adv [of "\<lambda>d. d = CHR ''=''"] 1(2) by (cases ?eq) auto
    have "scanned src lx (ebind (lex_token kind lx lx2 NoValue) (\<lambda>t. Inr (t, lx2)))"
      if "kind \<in> {K_LESS_THAN_OR_EQUAL, K_LESS_THAN, K_GREATER_THAN_OR_EQUAL, K_GREATER_THAN}" for kind
    proof (rule lex_token_scanned)
      have "kind \<notin> set keyword_kinds" using that by (auto simp: keyword_kinds_def)
      with that show "value_fits t" if "tk_kind t = kind" for t
        using that by (auto simp: value_fits_def)
    qed (use 1 2 assms that in auto)
    then show ?thesis
      unfolding scan_comparison_operator_def 1(1) ebind.simps prod.case if_not_P [OF False]
        Let_def 2(1)
      by simp
  qed
qed

lemma raise_unexpected_character_ok:
  assumes "lex_ok src lx" "lx_index lx < length src"
  shows "\<exists>e. raise_unexpected_character lx = Inl e \<and> lexical_error src e"
proof -
  obtain lx1 where 1: "advance_char lx = Inr (src ! lx_index lx, lx1)" "lex_ok src lx1"
    "lx_index lx1 = Suc (lx_index lx)"
    using advance_char_ok [OF assms] by blast
  then show ?thesis
    using assms by (auto simp: raise_unexpected_character_def intro!: raise_at_ok)
qed

lemma advance_twice_ok:
  assumes "lex_ok src lx" "lx_index lx + 1 < length src"
  shows "\<exists>lx1 lx2. advance_lx lx = Inr lx1 \<and> advance_lx lx1 = Inr lx2 \<and> lex_ok src lx2
    \<and> lx_index lx2 = lx_index lx + 2"
proof -
  obtain lx1 where 1: "advance_lx lx = Inr lx1" "lex_ok src lx1" "lx_index lx1 = Suc (lx_index lx)"
    using advance_lx_ok [OF assms(1)] assms(2) by auto
  obtain lx2 where "advance_lx lx1 = Inr lx2" "lex_ok src lx2" "lx_index lx2 = Suc (lx_index lx1)"
    using advance_lx_ok [OF 1(2)] 1(3) assms(2) by auto
  with 1 show ?thesis by auto
qed

lemma raise_unsupported_operator_ok:
  assumes "lex_ok src lx" "lx_index lx + 1 < length src"
  shows "\<exists>e. raise_unsupported_operator lx = Inl e \<and> lexical_error src e"
proof -
  obtain lx1 lx2 where "advance_lx lx = Inr lx1" "advance_lx lx1 = Inr lx2" "lex_ok src lx2"
    "lx_index lx2 = lx_index lx + 2"
    using advance_twice_ok [OF assms] by blast
  then show ?thesis
    using assms(1) by (auto simp: raise_unsupported_operator_def intro!: raise_at_ok)
qed

section \<open>Comments\<close>

lemma slice_two:
  "i + 1 < length xs \<Longrightarrow> slice xs i (i + 2) = [xs ! i, xs ! (i + 1)]"
  "Suc i < length xs \<Longrightarrow> slice xs i (Suc (Suc i)) = [xs ! i, xs ! Suc i]"
  by (simp_all add: slice_Suc numeral_2_eq_2)

lemma skip_line_comment_ok:
  assumes "lex_ok src lx" "lx_index lx + 1 < length src"
    "src ! lx_index lx = CHR ''-''" "src ! (lx_index lx + 1) = CHR ''-''"
  shows "\<exists>lx'. skip_line_comment lx = Inr lx' \<and> lex_ok src lx' \<and> trivia src (lx_index lx) (lx_index lx')"
proof -
  obtain lx1 lx2 where 2: "advance_lx lx = Inr lx1" "advance_lx lx1 = Inr lx2" "lex_ok src lx2"
    "lx_index lx2 = lx_index lx + 2"
    using advance_twice_ok [OF assms(1,2)] by blast
  obtain lx' where 3: "advance_while (\<lambda>c. \<not> is_newline c) lx2 = Inr lx'" "lex_ok src lx'"
    "lx_index lx2 \<le> lx_index lx'"
    "\<forall>m. lx_index lx2 \<le> m \<and> m < lx_index lx' \<longrightarrow> \<not> is_newline (src ! m)"
    "lx_index lx' < length src \<longrightarrow> is_newline (src ! lx_index lx')"
    using advance_while_ok [OF 2(3), of "\<lambda>c. \<not> is_newline c"] by auto
  have "trivia src (lx_index lx) (lx_index lx')"
    by (rule trivia.line_comment [where k = "lx_index lx'"])
      (use assms 2 3 in \<open>auto simp: slice_two lex_ok_def intro: trivia.none\<close>)
  with 2 3 show ?thesis by (simp add: skip_line_comment_def)
qed

lemma block_loop_ok:
  assumes "lex_ok src mark" "lex_ok src lx" "lx_index mark + 2 \<le> lx_index lx"
    "slice src (lx_index mark) (lx_index mark + 2) = ''/*''"
    "\<forall>m. lx_index mark + 2 \<le> m \<and> m < lx_index lx \<longrightarrow> slice src m (m + 2) \<noteq> ''*/''"
  shows "(\<exists>e. block_loop mark lx = Inl e \<and> lexical_error src e)
    \<or> (\<exists>lx'. block_loop mark lx = Inr lx' \<and> lex_ok src lx' \<and> trivia src (lx_index mark) (lx_index lx'))"
  using assms
proof (induction "length src - lx_index lx" arbitrary: lx rule: less_induct)
  case less
  note prems = less.prems
  let ?i = "lx_index lx"
  show ?case
  proof (cases "at_end lx")
    case True
    have "\<exists>e. (raise_at SQLLexError ''comentario de bloque sin cerrar'' mark lx :: exn + lexer)
        = Inl e \<and> lexical_error src e"
      using prems by (intro raise_at_ok) auto
    with True show ?thesis by (simp add: block_loop.simps [of mark lx])
  next
    case False
    then have i: "?i < length src" using prems by (simp add: at_end_def lex_ok_def)
    obtain lx1 where 1: "advance_lx lx = Inr lx1" "lex_ok src lx1" "lx_index lx1 = Suc ?i"
      using advance_lx_ok [OF prems(2) i] by blast
    show ?thesis
    proof (cases "peeks lx 0 (\<lambda>c. c = CHR ''*'') \<and> peeks lx 1 (\<lambda>c. c = CHR ''/'')")
      case True
      then have c: "?i + 1 < length src" "src ! ?i = CHR ''*''" "src ! (?i + 1) = CHR ''/''"
        using prems(2) by (simp_all add: peeks_iff)
      obtain lx2 where 2: "advance_lx lx1 = Inr lx2" "lex_ok src lx2" "lx_index lx2 = ?i + 2"
        using advance_lx_ok [OF 1(2)] 1(3) c(1) by auto
      have "trivia src (lx_index mark) (lx_index lx2)"
        by (rule trivia.block_comment [where k = ?i])
          (use prems c 2(3) in \<open>auto simp: slice_two intro: trivia.none\<close>)
      with False True 1 2 show ?thesis by (simp add: block_loop.simps [of mark lx])
    next
      case nc: False
      have "slice src ?i (?i + 2) \<noteq> ''*/''"
      proof
        assume eq: "slice src ?i (?i + 2) = ''*/''"
        then have "2 = length (slice src ?i (?i + 2))" by simp
        then have "?i + 1 < length src" by (simp add: slice_def)
        with eq nc prems(2) show False by (auto simp: slice_two peeks_iff)
      qed
      then have "\<forall>m. lx_index mark + 2 \<le> m \<and> m < lx_index lx1 \<longrightarrow> slice src m (m + 2) \<noteq> ''*/''"
        using prems(5) 1(3) by (auto simp: less_Suc_eq)
      then have "(\<exists>e. block_loop mark lx1 = Inl e \<and> lexical_error src e)
          \<or> (\<exists>lx'. block_loop mark lx1 = Inr lx' \<and> lex_ok src lx'
               \<and> trivia src (lx_index mark) (lx_index lx'))"
        by (intro less.hyps) (use 1 i prems in auto)
      moreover have "block_loop mark lx = block_loop mark lx1"
        using False nc 1 by (auto simp: block_loop.simps [of mark lx])
      ultimately show ?thesis by simp
    qed
  qed
qed

lemma skip_block_comment_ok:
  assumes "lex_ok src lx" "lx_index lx + 1 < length src"
    "src ! lx_index lx = CHR ''/''" "src ! (lx_index lx + 1) = CHR ''*''"
  shows "(\<exists>e. skip_block_comment lx = Inl e \<and> lexical_error src e)
    \<or> (\<exists>lx'. skip_block_comment lx = Inr lx' \<and> lex_ok src lx'
         \<and> trivia src (lx_index lx) (lx_index lx'))"
proof -
  obtain lx1 lx2 where 2: "advance_lx lx = Inr lx1" "advance_lx lx1 = Inr lx2" "lex_ok src lx2"
    "lx_index lx2 = lx_index lx + 2"
    using advance_twice_ok [OF assms(1,2)] by blast
  have "(\<exists>e. block_loop lx lx2 = Inl e \<and> lexical_error src e)
    \<or> (\<exists>lx'. block_loop lx lx2 = Inr lx' \<and> lex_ok src lx'
         \<and> trivia src (lx_index lx) (lx_index lx'))"
    by (rule block_loop_ok) (use assms 2 in \<open>auto simp: slice_two\<close>)
  with 2 show ?thesis by (simp add: skip_block_comment_def)
qed

section \<open>The token list\<close>

definition stepped :: "string \<Rightarrow> nat \<Rightarrow> exn + token list \<times> lexer \<Rightarrow> bool" where
  "stepped src i r \<longleftrightarrow>
     (case r of
        Inl e \<Rightarrow> lexical_error src e
      | Inr (ts, lx') \<Rightarrow> lex_ok src lx' \<and> lexed src i ts (lx_index lx'))"

lemma emit_stepped: "scanned src lx r \<Longrightarrow> stepped src (lx_index lx) (emit r)"
  by (auto simp: scanned_def stepped_def emit_def intro: trivia.none split: sum.splits)

lemma skip_to_stepped:
  "(\<exists>e. r = Inl e \<and> lexical_error src e)
     \<or> (\<exists>lx'. r = Inr lx' \<and> lex_ok src lx' \<and> trivia src i (lx_index lx'))
   \<Longrightarrow> stepped src i (skip_to r)"
  by (auto simp: stepped_def skip_to_def)

lemma error_stepped: "\<exists>e. r = Inl e \<and> lexical_error src e \<Longrightarrow> stepped src i r"
  by (auto simp: stepped_def)

lemma stepped_if:
  "(b \<Longrightarrow> stepped src i r) \<Longrightarrow> (\<not> b \<Longrightarrow> stepped src i r') \<Longrightarrow> stepped src i (if b then r else r')"
  by simp

lemma lex_step_stepped:
  assumes "lex_ok src lx" "lx_index lx < length src"
  shows "stepped src (lx_index lx) (lex_step lx)"
proof -
  have peek: "peek_char lx 0 = Some (src ! lx_index lx)"
    using assms by (simp add: peek_char_def lex_ok_def)
  have blank: "is_whitespace (src ! lx_index lx) \<Longrightarrow>
      \<exists>lx'. advance_lx lx = Inr lx' \<and> lex_ok src lx' \<and> trivia src (lx_index lx) (lx_index lx')"
    using advance_lx_ok [OF assms] assms(2)
    by (auto intro: trivia.blank [OF _ _ trivia.none])
  have errors: "stepped src (lx_index lx) (raise_unexpected_character lx)"
    using raise_unexpected_character_ok [OF assms] by (rule error_stepped)
  have unsupported: "stepped src (lx_index lx) (raise_unsupported_operator lx)"
    if "peeks lx 1 p" for p
    using raise_unsupported_operator_ok [OF assms(1)] that assms(1)
    by (intro error_stepped) (simp add: peeks_iff)
  have words: "stepped src (lx_index lx) (emit (scan_word lx))"
    "stepped src (lx_index lx) (emit (scan_comparison_operator lx))"
    by (intro emit_stepped scan_word_scanned scan_comparison_operator_scanned assms)+
  have numbers: "stepped src (lx_index lx) (emit (scan_number lx))"
    if "is_digit (src ! lx_index lx) \<or> src ! lx_index lx = CHR ''-''"
    by (intro emit_stepped scan_number_scanned assms that)
  have strings: "stepped src (lx_index lx) (emit (scan_string lx))"
    if "src ! lx_index lx = CHR 0x27"
    by (intro emit_stepped scan_string_scanned assms that)
  have singles: "stepped src (lx_index lx) (emit (scan_single_character lx))"
    if "\<exists>kind. map_of single_character_tokens (src ! lx_index lx) = Some kind"
    using that by (auto intro: emit_stepped scan_single_character_scanned assms)
  have blanks: "stepped src (lx_index lx) (skip_to (advance_lx lx))"
    if "is_whitespace (src ! lx_index lx)"
    using blank [OF that] by (auto intro: skip_to_stepped)
  have lines: "stepped src (lx_index lx) (skip_to (skip_line_comment lx))"
    if "src ! lx_index lx = CHR ''-''" "peeks lx 1 (\<lambda>d. d = CHR ''-'')"
    using that skip_line_comment_ok [OF assms(1)] assms(1)
    by (auto simp: peeks_iff intro: skip_to_stepped)
  have blocks: "stepped src (lx_index lx) (skip_to (skip_block_comment lx))"
    if "src ! lx_index lx = CHR ''/''" "peeks lx 1 (\<lambda>d. d = CHR ''*'')"
    using that skip_block_comment_ok [OF assms(1)] assms(1)
    by (intro skip_to_stepped) (auto simp: peeks_iff)
  show ?thesis
    unfolding lex_step_def peek option.case not_None_eq
    by (intro stepped_if)
      (blast intro: words numbers strings singles blanks lines blocks errors unsupported)+
qed

lemma lex_loop_lexed:
  assumes "lex_ok src lx"
  shows "(\<exists>e. lex_loop tokens lx = Inl e \<and> lexical_error src e)
    \<or> (\<exists>ts lx'. lex_loop tokens lx = Inr (tokens @ ts, lx') \<and> lex_ok src lx'
         \<and> lx_index lx' = length src \<and> lexed src (lx_index lx) ts (length src))"
  using assms
proof (induction tokens lx rule: lex_loop.induct)
  case (1 tokens lx)
  show ?case
  proof (cases "at_end lx")
    case True
    then have "lx_index lx = length src" using 1(2) by (simp add: at_end_def lex_ok_def)
    with True 1(2) show ?thesis
      by (simp add: lex_loop.simps [of tokens lx] trivia.none)
  next
    case False
    then have i: "lx_index lx < length src" using 1(2) by (simp add: at_end_def lex_ok_def)
    note st = lex_step_stepped [OF 1(2) i]
    show ?thesis
    proof (cases "lex_step lx")
      case (Inl e)
      with st False show ?thesis by (simp add: lex_loop.simps [of tokens lx] stepped_def)
    next
      case (Inr r)
      obtain ts lx1 where r: "r = (ts, lx1)" by fastforce
      with Inr st have ok1: "lex_ok src lx1" and l1: "lexed src (lx_index lx) ts (lx_index lx1)"
        by (simp_all add: stepped_def)
      have eq: "lex_loop tokens lx = lex_loop (tokens @ ts) lx1"
        using False Inr r by (simp add: lex_loop.simps [of tokens lx])
      from "1.IH" [OF False Inr r [symmetric] ok1]
      show ?thesis unfolding eq using l1 by (auto intro: lexed_append)
    qed
  qed
qed

text \<open>The lexer on a whole text: a located lexical error, or the tokens of the text and one EOF.\<close>

lemma tokenize_cases:
  "(\<exists>e. tokenize sql = Inl e \<and> lexical_error sql e)
   \<or> (\<exists>ts eof. tokenize sql = Inr (ts @ [eof]) \<and> lexed sql 0 ts (length sql)
        \<and> tk_kind eof = K_EOF \<and> token_in sql eof
        \<and> sp_start (tk_span eof) = int (length sql) \<and> sp_end (tk_span eof) = int (length sql))"
proof -
  from lex_loop_lexed [OF lex_ok_init, of "[]" sql]
  consider (err) e where "lex_loop [] (lexer_init sql) = Inl e" "lexical_error sql e"
    | (ok) ts lx' where "lex_loop [] (lexer_init sql) = Inr (ts, lx')" "lex_ok sql lx'"
        "lx_index lx' = length sql" "lexed sql 0 ts (length sql)"
    by (auto simp: lexer_init_def)
  then show ?thesis
  proof cases
    case err
    then show ?thesis by (simp add: tokenize_def lex_tokenize_def)
  next
    case ok
    then obtain sp where sp: "make_span (int (length sql)) (int (length sql)) (lx_line lx')
        (lx_column lx') (lx_line lx') (lx_column lx') = Inr sp" "located sql sp"
      "sp_start sp = int (length sql)" "sp_end sp = int (length sql)"
      using span_from_ok [OF ok(2) ok(2)] by (auto simp: span_from_def)
    then have "token_in sql \<lparr>tk_kind = K_EOF, tk_lexeme = [], tk_value = NoValue, tk_span = sp\<rparr>"
      by (simp add: token_in_def value_fits_def keyword_kinds_not)
    with ok sp show ?thesis
      by (simp add: tokenize_def lex_tokenize_def)
  qed
qed

lemma tokenize_Inr:
  assumes "tokenize sql = Inr toks"
  obtains ts eof where "toks = ts @ [eof]" "lexed sql 0 ts (length sql)" "tk_kind eof = K_EOF"
    "token_in sql eof" "sp_start (tk_span eof) = int (length sql)"
    "sp_end (tk_span eof) = int (length sql)"
  using tokenize_cases [of sql] assms by auto

lemma tokenize_Inl: "tokenize sql = Inl e \<Longrightarrow> lexical_error sql e"
  using tokenize_cases [of sql] by auto

lemma lexed_tokens: "lexed src i ts j \<Longrightarrow> t \<in> set ts \<Longrightarrow> token_in src t \<and> tk_kind t \<noteq> K_EOF"
  by (induction ts arbitrary: i) auto

section \<open>String literals round trip\<close>

lemma string_loop_escaped:
  assumes "lex_ok src mark" "lex_ok src lx" "lx_index mark < lx_index lx"
    "drop (lx_index lx) src = escape_quotes w @ [CHR 0x27]"
  shows "\<exists>t lx'. string_loop mark v lx = Inr (t, lx') \<and> tk_kind t = K_STRING
     \<and> tk_value t = StrValue (v @ w) \<and> lex_ok src lx' \<and> lx_index lx' = length src"
  using assms
proof (induction w arbitrary: v lx)
  case Nil
  then have i: "lx_index lx < length src" "src ! lx_index lx = CHR 0x27" "length src \<le> Suc (lx_index lx)"
    using drop_ConsD [of "lx_index lx" src "CHR 0x27" "[]"] by simp_all
  obtain lx1 where 1: "advance_char lx = Inr (CHR 0x27, lx1)" "lex_ok src lx1"
    "lx_index lx1 = length src"
    using advance_char_ok [OF Nil(2) i(1)] i by auto
  obtain sp where "span_from mark lx1 = Inr sp"
    using span_from_ok [OF Nil(1) 1(2)] 1(3) i(1) Nil(3) by auto
  then show ?case
    using 1 i Nil by (simp add: string_loop.simps [of mark v lx] at_end_def lex_ok_def
        peeks_iff [OF 1(2)] lex_token_def)
next
  case (Cons c w)
  have d: "drop (lx_index lx) src = c # tl (escape_quotes (c # w) @ [CHR 0x27])"
    using Cons.prems(4) by (simp add: escape_quotes_def)
  note i = drop_ConsD(1) [OF d] and c = drop_ConsD(2) [OF d]
  obtain lx1 where 1: "advance_char lx = Inr (c, lx1)" "lex_ok src lx1"
    "lx_index lx1 = Suc (lx_index lx)"
    using advance_char_ok [OF Cons.prems(2) i] c by auto
  have d1: "drop (lx_index lx1) src = tl (escape_quotes (c # w) @ [CHR 0x27])"
    using drop_ConsD(3) [OF d] 1(3) by simp
  show ?case
  proof (cases "c = CHR 0x27")
    case False
    then have "drop (lx_index lx1) src = escape_quotes w @ [CHR 0x27]"
      using d1 by (simp add: escape_quotes_def)
    from Cons.IH [OF Cons.prems(1) 1(2) _ this, of "v @ [c]"] 1(3) Cons.prems(3)
    obtain t lx' where "string_loop mark (v @ [c]) lx1 = Inr (t, lx')" "tk_kind t = K_STRING"
      "tk_value t = StrValue (v @ c # w)" "lex_ok src lx'" "lx_index lx' = length src"
      by auto
    then show ?thesis
      using False 1 i Cons.prems(2) by (simp add: string_loop.simps [of mark v lx] at_end_def lex_ok_def)
  next
    case True
    then have d2: "drop (lx_index lx1) src = CHR 0x27 # escape_quotes w @ [CHR 0x27]"
      using d1 by (simp add: escape_quotes_def)
    note i1 = drop_ConsD(1) [OF d2] and c1 = drop_ConsD(2) [OF d2]
    obtain lx2 where 2: "advance_lx lx1 = Inr lx2" "lex_ok src lx2"
      "lx_index lx2 = Suc (lx_index lx1)"
      using advance_lx_ok [OF 1(2) i1] by blast
    have "drop (lx_index lx2) src = escape_quotes w @ [CHR 0x27]"
      using drop_ConsD(3) [OF d2] 2(3) by simp
    from Cons.IH [OF Cons.prems(1) 2(2) _ this, of "v @ [c]"] 1(3) 2(3) Cons.prems(3) True
    obtain t lx' where "string_loop mark (v @ [CHR 0x27]) lx2 = Inr (t, lx')" "tk_kind t = K_STRING"
      "tk_value t = StrValue (v @ c # w)" "lex_ok src lx'" "lx_index lx' = length src"
      by auto
    moreover have "peeks lx1 0 (\<lambda>d. d = CHR 0x27)"
      using i1 c1 1(2) by (simp add: peeks_iff)
    ultimately show ?thesis
      using True 1 2 i Cons.prems(2)
      by (simp add: string_loop.simps [of mark v lx] at_end_def lex_ok_def)
  qed
qed


text \<open>A text that one token fills is lexed as that token and the end.\<close>

lemma tokenize_one:
  assumes "sql \<noteq> []" "lex_step (lexer_init sql) = Inr ([t], lx')" "lx_index lx' = length sql"
    "lex_ok sql lx'"
  shows "\<exists>eof. tokenize sql = Inr [t, eof] \<and> tk_kind eof = K_EOF"
proof -
  have "\<not> at_end (lexer_init sql)" "at_end lx'"
    using assms(1,3,4) by (simp_all add: at_end_def lexer_init_def lex_ok_def)
  then have "lex_loop [] (lexer_init sql) = Inr ([t], lx')"
    using assms(2)
    by (simp add: lex_loop.simps [of "[]" "lexer_init sql"] lex_loop.simps [of "[t]" lx'])
  then show ?thesis
    using span_from_ok [OF assms(4) assms(4)]
    by (auto simp: tokenize_def lex_tokenize_def span_from_def)
qed

text \<open>Decimal numerals.\<close>

lemma digit_char_cases:
  assumes "d < 10"
  shows "is_digit (digit_char d)" "digit_value (digit_char d) = int d"
proof -
  have "d \<in> {0,1,2,3,4,5,6,7,8,9}" using assms by auto
  then show "is_digit (digit_char d)" "digit_value (digit_char d) = int d"
    by (auto simp: digit_char_def is_digit_def char_between_def digit_value_def)
qed

lemma digits_value_append: "digits_value (ds @ [c]) = 10 * digits_value ds + digit_value c"
  by (simp add: digits_value_def)

lemma show_nat_digits:
  "list_all is_digit (show_nat n) \<and> digits_value (show_nat n) = int n \<and> show_nat n \<noteq> []"
proof (induction n rule: show_nat.induct)
  case (1 n)
  have "digits_value [digit_char n] = int n" if "n < 10"
    using digit_char_cases [OF that] by (simp add: digits_value_def)
  then show ?case
    using 1 digit_char_cases [of n] digit_char_cases [of "n mod 10"]
    by (simp add: show_nat.simps [of n] digits_value_append) presburger?
qed

lemma is_digit_not:
  assumes "is_digit c"
  shows "c \<noteq> CHR ''-''" "c \<noteq> CHR 0x27" "\<not> is_whitespace c" "\<not> is_identifier_start c"
  using assms
  by (auto simp: is_digit_def is_whitespace_def is_newline_def is_identifier_start_def is_alpha_def
      char_between_def less_eq_char_def)

lemma lex_step_number:
  assumes "sql \<noteq> []"
    "is_digit (sql ! 0) \<or> (sql ! 0 = CHR ''-'' \<and> 1 < length sql \<and> is_digit (sql ! 1))"
  shows "lex_step (lexer_init sql) = emit (scan_number (lexer_init sql))"
proof -
  let ?lx = "lexer_init sql"
  have p: "peek_char ?lx 0 = Some (sql ! 0)"
    using assms(1) by (simp add: peek_char_def lexer_init_def)
  show ?thesis
  proof (cases "is_digit (sql ! 0)")
    case True
    then show ?thesis using p is_digit_not [OF True] by (simp add: lex_step_def)
  next
    case False
    then have minus: "sql ! 0 = CHR ''-''" and d: "1 < length sql" "is_digit (sql ! 1)"
      using assms(2) by auto
    have "\<not> peeks ?lx 1 (\<lambda>d. d = CHR ''-'')" "peeks ?lx 1 is_digit"
      using d is_digit_not [OF d(2)] by (simp_all add: peeks_def peek_char_def lexer_init_def)
    moreover have "\<not> is_whitespace (CHR ''-'')" "\<not> is_identifier_start (CHR ''-'')"
      "\<not> is_digit (CHR ''-'')"
      by (simp_all add: is_whitespace_def is_newline_def is_identifier_start_def is_alpha_def
          is_digit_def char_between_def)
    ultimately show ?thesis using p by (simp add: lex_step_def minus)
  qed
qed

text \<open>The scanner of numbers on a text of digits with an optional sign.\<close>

lemma scan_number_digits:
  assumes "sql = sg @ ds" "sg = [] \<or> sg = ''-''" "ds \<noteq> []" "list_all is_digit ds"
    "integer_of_lexeme sql = Some v"
  shows "\<exists>t lx'. scan_number (lexer_init sql) = Inr (t, lx') \<and> tk_kind t = K_INTEGER
     \<and> tk_value t = v \<and> lex_ok sql lx' \<and> lx_index lx' = length sql"
proof -
  let ?lx = "lexer_init sql"
  note 0 = lex_ok_init [of sql]
  have init: "lx_index ?lx = 0" "lx_source ?lx = sql" by (simp_all add: lexer_init_def)
  have dig: "is_digit (sql ! m)" if "length sg \<le> m" "m < length sql" for m
    using assms(1,4) that by (auto simp: nth_append list_all_length)
  have sg: "sql ! 0 = CHR ''-'' \<longleftrightarrow> sg = ''-''"
    using assms(1-3) dig [of 0] is_digit_not by (cases ds) auto
  obtain lx1 where 1: "(if peeks ?lx 0 (\<lambda>c. c = CHR ''-'') then advance_lx ?lx else Inr ?lx) = Inr lx1"
    "lex_ok sql lx1" "lx_index lx1 = length sg"
    using advance_lx_ok [OF 0] assms(1-3) sg init peeks_iff [OF 0, of 0] 0 by fastforce
  obtain lx2 where 2: "advance_while is_digit lx1 = Inr lx2" "lex_ok sql lx2"
    "lx_index lx1 \<le> lx_index lx2" "lx_index lx2 < length sql \<longrightarrow> \<not> is_digit (sql ! lx_index lx2)"
    using advance_while_ok [OF 1(2)] by blast
  have end2: "lx_index lx2 = length sql"
    using 2 dig [of "lx_index lx2"] 1(3) by (force simp: lex_ok_def)
  have 3: "scan_fraction ?lx lx2 = Inr (K_INTEGER, lx2)"
    using end2 2(2) by (simp add: scan_fraction_def peeks_iff)
  obtain sp where "span_from ?lx lx2 = Inr sp"
    using span_from_ok [OF 0 2(2)] init by auto
  then show ?thesis
    using 2(2) end2 assms(5) init
    by (simp add: scan_number_def 1(1) 2(1) 3 slice_full lex_token_def)
qed

section \<open>Properties\<close>

text \<open>
  Claim C5. The lexer cuts every text into its tokens: either it raises a lexical or unsupported
  error located in the text, or it returns tokens that, in order and without overlap, are the exact
  text of their spans with their values, with only white space and comments between them, followed
  by one \<open>EOF\<close> at the end of the text.
\<close>

theorem tokenize_partition:
  "(\<exists>e. tokenize sql = Inl e \<and> lexical_error sql e)
   \<or> (\<exists>ts eof. tokenize sql = Inr (ts @ [eof]) \<and> lexed sql 0 ts (length sql)
        \<and> tk_kind eof = K_EOF \<and> token_in sql eof
        \<and> sp_start (tk_span eof) = int (length sql) \<and> sp_end (tk_span eof) = int (length sql))"
  by (rule tokenize_cases)

text \<open>
  Claim C23. String literals round trip: the text of any value, quoted with its quotes doubled, is
  one string token with that value.
\<close>

theorem quote_sql_roundtrip:
  "\<exists>t eof. tokenize (quote_sql v) = Inr [t, eof] \<and> tk_kind t = K_STRING
     \<and> tk_value t = StrValue v \<and> tk_kind eof = K_EOF"
proof -
  let ?q = "quote_sql v" and ?lx = "lexer_init (quote_sql v)"
  have 0: "lex_ok ?q ?lx" "lx_index ?lx = 0" "length ?q > 0" "?q ! 0 = CHR 0x27"
    by (simp_all add: lex_ok_init) (simp_all add: lexer_init_def quote_sql_def)
  then obtain lx1 where 1: "advance_lx ?lx = Inr lx1" "lex_ok ?q lx1" "lx_index lx1 = 1"
    using advance_lx_ok [of ?q ?lx] by auto
  have "drop (lx_index lx1) ?q = escape_quotes v @ [CHR 0x27]"
    using 1(3) by (simp add: quote_sql_def)
  from string_loop_escaped [OF 0(1) 1(2) _ this, of "[]"] 0(2) 1(3)
  obtain t lx2 where 2: "string_loop ?lx [] lx1 = Inr (t, lx2)" "tk_kind t = K_STRING"
    "tk_value t = StrValue v" "lex_ok ?q lx2" "lx_index lx2 = length ?q"
    by auto
  have "peek_char ?lx 0 = Some (CHR 0x27)"
    using 0 by (simp add: peek_char_def lexer_init_def)
  then have "lex_step ?lx = Inr ([t], lx2)"
    using 1 2 by (simp add: lex_step_def scan_string_def emit_def is_whitespace_def
        is_newline_def is_identifier_start_def is_digit_def is_alpha_def char_between_def)
  with tokenize_one [of ?q t lx2] 0 2 show ?thesis by auto
qed

text \<open>
  Claim C32. Integers round trip: the decimal numeral of any integer of at most 4300 digits (the
  limit of Python's \<open>int\<close>) is one integer token with that value.
\<close>

theorem show_int_roundtrip:
  assumes "length (show_nat (nat \<bar>n\<bar>)) \<le> 4300"
  shows "\<exists>t eof. tokenize (show_int n) = Inr [t, eof] \<and> tk_kind t = K_INTEGER
     \<and> tk_value t = IntValue n \<and> tk_kind eof = K_EOF"
proof -
  let ?q = "show_int n" and ?sg = "if n < 0 then ''-'' else []" and ?ds = "show_nat (nat \<bar>n\<bar>)"
  note ds = show_nat_digits [of "nat \<bar>n\<bar>"]
  have q: "?q = ?sg @ ?ds" by (simp add: show_int_def)
  have hd: "is_digit (hd ?ds)" using ds by (cases ?ds) auto
  have v: "integer_of_lexeme ?q = Some (IntValue n)"
    using assms ds hd is_digit_not(1) [OF hd]
    by (cases ?ds) (auto simp: integer_of_lexeme_def show_int_def)
  have "?sg = [] \<or> ?sg = ''-''" by simp
  from scan_number_digits [OF q this _ _ v] ds obtain t lx' where
    t: "scan_number (lexer_init ?q) = Inr (t, lx')" "tk_kind t = K_INTEGER" "tk_value t = IntValue n"
      "lex_ok ?q lx'" "lx_index lx' = length ?q"
    by auto
  have "is_digit (?q ! 0) \<or> (?q ! 0 = CHR ''-'' \<and> 1 < length ?q \<and> is_digit (?q ! 1))"
    using hd ds by (cases ?ds) (auto simp: show_int_def)
  then have "lex_step (lexer_init ?q) = Inr ([t], lx')"
    using lex_step_number [of ?q] q ds t(1) by (simp add: emit_def)
  with tokenize_one [of ?q t lx'] t q ds show ?thesis by auto
qed

lemma show_int_roundtrip_witness:
  "\<exists>t eof. tokenize (show_int (- 42)) = Inr [t, eof] \<and> tk_kind t = K_INTEGER
     \<and> tk_value t = IntValue (- 42) \<and> tk_kind eof = K_EOF"
  by (rule show_int_roundtrip) (simp add: show_nat.simps)

end
