(* ===== verification/Sql_Parser_Spec.thy ===== *)
theory Sql_Parser_Spec
  imports Sql_Parser Sql_Lexer_Spec
begin

text \<open>
  Correctness of the parser: what a token sequence of the lexer is (\<open>token_seq\<close>), what a parse
  tree promises (\<open>statement_ok\<close>: every span located in the text, every literal in its range, the
  shapes the grammar allows), and a weakest precondition (\<open>pwp\<close>) by which each method of the
  parser is shown to raise located SQL errors only, to keep its state inside the token tuple, to
  move forward and to return such a tree. The loops over commas share one contract, the locale
  \<open>item_parser\<close>.
\<close>

section \<open>Trees\<close>

definition ident_ok :: "string \<Rightarrow> ident \<Rightarrow> bool" where
  "ident_ok src i \<longleftrightarrow> located src (id_span i)"

definition type_ok :: "string \<Rightarrow> sql_type \<Rightarrow> bool" where
  "type_ok src ty \<longleftrightarrow>
     located src (ty_span ty)
     \<and> (ty_length ty = None \<longleftrightarrow> ty_name ty \<noteq> SQL_VARCHAR \<and> ty_name ty \<noteq> SQL_VECTOR)"

definition column_definition_ok :: "string \<Rightarrow> column_definition \<Rightarrow> bool" where
  "column_definition_ok src c \<longleftrightarrow>
     ident_ok src (cd_name c) \<and> type_ok src (cd_type c) \<and> located src (cd_span c)"

definition in_range :: "int \<Rightarrow> pyfloat \<Rightarrow> int \<Rightarrow> bool" where
  "in_range lo v hi \<longleftrightarrow> float_le (Fin (of_int lo)) v \<and> float_le v (Fin (of_int hi))"

definition point_ok :: "string \<Rightarrow> point_literal \<Rightarrow> bool" where
  "point_ok src p \<longleftrightarrow>
     in_range (- 90) (pt_latitude p) 90 \<and> in_range (- 180) (pt_longitude p) 180
     \<and> located src (pt_latitude_span p) \<and> located src (pt_longitude_span p)
     \<and> located src (pt_span p)"

fun literal_ok :: "string \<Rightarrow> literal \<Rightarrow> bool" where
  "literal_ok src (IntegerLiteral n s) = located src s"
| "literal_ok src (DoubleLiteral x s) = located src s"
| "literal_ok src (StringLiteral v s) = located src s"
| "literal_ok src (BooleanLiteral b s) = located src s"
| "literal_ok src (DateLiteral d s) =
     (located src s \<and> valid_date (date_year d) (date_month d) (date_day d))"
| "literal_ok src (PointLit p) = point_ok src p"
| "literal_ok src (VectorLiteral vs ss s) =
     (located src s \<and> vs \<noteq> [] \<and> length ss = length vs \<and> (\<forall>t \<in> set ss. located src t))"

definition column_ok :: "string \<Rightarrow> column_reference \<Rightarrow> bool" where
  "column_ok src c \<longleftrightarrow>
     ident_ok src (cr_name c) \<and> located src (cr_span c)
     \<and> (\<forall>q. cr_qualifier c = Some q \<longrightarrow> ident_ok src q)"

text \<open>\<open>COUNT\<close> takes \<open>*\<close>, the other functions a column.\<close>

fun aggregate_ok :: "string \<Rightarrow> aggregate_call \<Rightarrow> bool" where
  "aggregate_ok src (AggregateCall f (ArgColumn c) s) =
     (f \<noteq> AGG_COUNT \<and> column_ok src c \<and> located src s)"
| "aggregate_ok src (AggregateCall f (ArgWildcard t) s) =
     (f = AGG_COUNT \<and> located src t \<and> located src s)"

definition score_ok :: "string \<Rightarrow> score_call \<Rightarrow> bool" where
  "score_ok src c \<longleftrightarrow>
     located src (sc_span c) \<and> (\<forall>a. sc_alias c = Some a \<longrightarrow> ident_ok src a)"

fun projection_ok :: "string \<Rightarrow> projection \<Rightarrow> bool" where
  "projection_ok src (PWildcard s) = located src s"
| "projection_ok src (PColumn c) = column_ok src c"
| "projection_ok src (PAggregate a) = aggregate_ok src a"
| "projection_ok src (PScore c) = score_ok src c"

text \<open>A list with \<open>*\<close> starts with it and goes on with score functions only.\<close>

definition projections_ok :: "string \<Rightarrow> projection list \<Rightarrow> bool" where
  "projections_ok src ps \<longleftrightarrow>
     ps \<noteq> [] \<and> (\<forall>p \<in> set ps. projection_ok src p)
     \<and> ((is_wildcard (hd ps) \<and> list_all is_score_call (tl ps)) \<or> \<not> list_ex is_wildcard ps)"

definition distance_ok :: "string \<Rightarrow> distance_condition \<Rightarrow> bool" where
  "distance_ok src d \<longleftrightarrow>
     column_ok src (dc_column d) \<and> point_ok src (dc_center d) \<and> literal_ok src (dc_radius d)
     \<and> dc_operator d \<in> {OP_LESS_THAN, OP_LESS_THAN_OR_EQUAL} \<and> located src (dc_span d)
     \<and> (case dc_radius d of IntegerLiteral _ _ \<Rightarrow> True | DoubleLiteral _ _ \<Rightarrow> True | _ \<Rightarrow> False)"

definition match_ok :: "string \<Rightarrow> match_condition \<Rightarrow> bool" where
  "match_ok src m \<longleftrightarrow>
     column_ok src (mc_column m) \<and> located src (sl_span (mc_query m)) \<and> located src (mc_span m)"

definition similar_ok :: "string \<Rightarrow> similar_condition \<Rightarrow> bool" where
  "similar_ok src m \<longleftrightarrow>
     (\<forall>c. sm_column m = Some c \<longrightarrow> column_ok src c) \<and> located src (sl_span (sm_query m))
     \<and> 0 \<le> il_value (sm_k m) \<and> located src (il_span (sm_k m))
     \<and> sm_kind m \<in> {IDX_HNSW, IDX_IVF} \<and> located src (sm_metric_span m) \<and> located src (sm_span m)"

fun condition_ok :: "string \<Rightarrow> condition \<Rightarrow> bool" where
  "condition_ok src (ComparisonCondition c op v s) =
     (column_ok src c \<and> literal_ok src v \<and> located src s)"
| "condition_ok src (BetweenCondition c lo hi s) =
     (column_ok src c \<and> literal_ok src lo \<and> literal_ok src hi \<and> located src s)"
| "condition_ok src (DistanceCond d) = distance_ok src d"
| "condition_ok src (PolygonCondition c (PolygonLiteral vs t) s) =
     (column_ok src c \<and> 3 \<le> length vs \<and> (\<forall>v \<in> set vs. point_ok src v) \<and> located src t
      \<and> located src s)"
| "condition_ok src (MatchCond m) = match_ok src m"
| "condition_ok src (SimilarCond m) = similar_ok src m"

fun order_ok :: "string \<Rightarrow> order_clause \<Rightarrow> bool" where
  "order_ok src (OrderBy c d s) = (column_ok src c \<and> located src s)"
| "order_ok src (ScoreOrderBy d s k) = located src s"
| "order_ok src (DistanceOrderBy c p m d s) = (column_ok src c \<and> point_ok src p \<and> located src s)"

definition limit_ok :: "string \<Rightarrow> limit_clause \<Rightarrow> bool" where
  "limit_ok src l \<longleftrightarrow> 0 \<le> lm_value l \<and> located src (lm_span l)"

definition group_ok :: "string \<Rightarrow> group_by \<Rightarrow> bool" where
  "group_ok src g \<longleftrightarrow> column_ok src (gb_column g) \<and> located src (gb_span g)"

text \<open>One join at most: the operands of a join are tables.\<close>

fun table_ok :: "string \<Rightarrow> from_source \<Rightarrow> bool" where
  "table_ok src (TableRef t s) = (ident_ok src t \<and> s = id_span t)"
| "table_ok src _ = False"

fun source_ok :: "string \<Rightarrow> from_source \<Rightarrow> bool" where
  "source_ok src (JoinRef l r a b s) =
     (table_ok src l \<and> table_ok src r \<and> column_ok src a \<and> column_ok src b \<and> located src s)"
| "source_ok src t = table_ok src t"

definition select_ok :: "string \<Rightarrow> select_statement \<Rightarrow> bool" where
  "select_ok src s \<longleftrightarrow>
     projections_ok src (se_projections s) \<and> source_ok src (se_source s)
     \<and> (\<forall>c. se_where s = Some c \<longrightarrow> condition_ok src c)
     \<and> (\<forall>g. se_group_by s = Some g \<longrightarrow> group_ok src g)
     \<and> (\<forall>ob. se_order_by s = Some ob \<longrightarrow> order_ok src ob)
     \<and> (\<forall>l. se_limit s = Some l \<longrightarrow> limit_ok src l) \<and> located src (se_span s)"

text \<open>A metric belongs to \<open>HNSW\<close>, a language to \<open>INVERTED_INDEX\<close>.\<close>

definition create_index_ok :: "string \<Rightarrow> create_index_statement \<Rightarrow> bool" where
  "create_index_ok src c \<longleftrightarrow>
     ident_ok src (ci_index c) \<and> ident_ok src (ci_table c) \<and> ident_ok src (ci_column c)
     \<and> (ci_metric c \<noteq> None \<longleftrightarrow> ci_kind c = IDX_HNSW)
     \<and> (ci_language c \<noteq> None \<longrightarrow> ci_kind c = IDX_INVERTED_INDEX) \<and> located src (ci_span c)"

definition create_table_ok :: "string \<Rightarrow> create_table_statement \<Rightarrow> bool" where
  "create_table_ok src c \<longleftrightarrow>
     ident_ok src (ct_table c) \<and> ct_columns c \<noteq> []
     \<and> (\<forall>d \<in> set (ct_columns c). column_definition_ok src d) \<and> located src (ct_span c)"

definition insert_ok :: "string \<Rightarrow> insert_statement \<Rightarrow> bool" where
  "insert_ok src s \<longleftrightarrow>
     ident_ok src (in_table s) \<and> in_values s \<noteq> [] \<and> (\<forall>v \<in> set (in_values s). literal_ok src v)
     \<and> located src (in_span s)"

definition delete_ok :: "string \<Rightarrow> delete_statement \<Rightarrow> bool" where
  "delete_ok src s \<longleftrightarrow>
     ident_ok src (de_table s) \<and> condition_ok src (de_where s) \<and> located src (de_span s)"

fun statement_ok :: "string \<Rightarrow> statement \<Rightarrow> bool" where
  "statement_ok src (CreateTableStatement c) = create_table_ok src c"
| "statement_ok src (CreateIndexStatement c) = create_index_ok src c"
| "statement_ok src (InsertStatement s) = insert_ok src s"
| "statement_ok src (SelectStatement s) = select_ok src s"
| "statement_ok src (ExplainStatement s a t) = (select_ok src s \<and> located src t)"
| "statement_ok src (DeleteStatement s) = delete_ok src s"
| "statement_ok src (DropTableStatement t s) = (ident_ok src t \<and> located src s)"
| "statement_ok src (BeginTransactionStatement s) = located src s"
| "statement_ok src (EndTransactionStatement s) = located src s"

text \<open>The outermost span of each tree.\<close>

lemma ok_spans [simp]:
  "ident_ok src i \<Longrightarrow> located src (id_span i)"
  "type_ok src ty \<Longrightarrow> located src (ty_span ty)"
  "column_ok src c \<Longrightarrow> located src (cr_span c)"
  "literal_ok src v \<Longrightarrow> located src (literal_span v)"
  "group_ok src g \<Longrightarrow> located src (gb_span g)"
  "limit_ok src l \<Longrightarrow> located src (lm_span l)"
  "select_ok src st \<Longrightarrow> located src (se_span st)"
  by (simp_all add: ident_ok_def type_ok_def column_ok_def group_ok_def limit_ok_def select_ok_def)
    (cases v; simp add: point_ok_def)

lemma table_ok_span [simp]: "table_ok src f \<Longrightarrow> located src (from_span f)"
  by (cases f) simp_all

lemma ok_clause_spans [simp]:
  "source_ok src f \<Longrightarrow> located src (from_span f)"
  "order_ok src ob \<Longrightarrow> located src (order_span ob)"
  by (cases f; simp) (cases ob; simp)

lemma ok_condition_span [simp]: "condition_ok src c \<Longrightarrow> located src (condition_span c)"
  by (cases "(src, c)" rule: condition_ok.cases)
    (auto simp: distance_ok_def match_ok_def similar_ok_def)

section \<open>Tokens of a text and the failures of a parser\<close>

definition token_seq :: "string \<Rightarrow> token list \<Rightarrow> bool" where
  "token_seq src toks \<longleftrightarrow>
     toks \<noteq> [] \<and> tk_kind (last toks) = K_EOF \<and> (\<forall>t \<in> set toks. token_in src t)
     \<and> (\<forall>t \<in> set (butlast toks). tk_kind t \<noteq> K_EOF)"

text \<open>
  A failure of the parser is an SQL error located in the text, or the \<open>OverflowError\<close> of
  \<open>float(n)\<close> on an integer of the text that no double represents.
\<close>

definition sql_failure :: "string \<Rightarrow> exn \<Rightarrow> bool" where
  "sql_failure src e \<longleftrightarrow>
     (\<exists>cls msg sp. e = SQLError cls msg sp (Some src) \<and> located src sp
        \<and> (cls = SQLParseError \<or> cls = SQLUnsupportedError))"

definition overflows :: "token list \<Rightarrow> bool" where
  "overflows toks \<longleftrightarrow> (\<exists>t \<in> set toks. \<exists>n. tk_value t = IntValue n \<and> float_of_int n = None)"

definition failure :: "string \<Rightarrow> token list \<Rightarrow> exn \<Rightarrow> bool" where
  "failure src toks e \<longleftrightarrow> sql_failure src e \<or> (e = OverflowError \<and> overflows toks)"

lemma tokenize_token_seq: "tokenize sql = Inr toks \<Longrightarrow> token_seq sql toks"
  by (erule tokenize_Inr) (auto simp: token_seq_def dest: lexed_tokens)

definition good :: "string \<Rightarrow> token list \<Rightarrow> parser_state \<Rightarrow> bool" where
  "good src toks s \<longleftrightarrow>
     token_seq src toks \<and> ps_tokens s = toks \<and> ps_source s = src \<and> ps_current s < length toks"

definition cur :: "parser_state \<Rightarrow> token" where
  "cur s = ps_tokens s ! ps_current s"

definition prv :: "parser_state \<Rightarrow> token" where
  "prv s = ps_tokens s ! (ps_current s - 1)"

definition nxt :: "parser_state \<Rightarrow> parser_state" where
  "nxt s = s\<lparr>ps_current := ps_current s + 1\<rparr>"

definition pwp :: "string \<Rightarrow> token list \<Rightarrow> 'a parser \<Rightarrow> ('a \<Rightarrow> parser_state \<Rightarrow> bool) \<Rightarrow>
    parser_state \<Rightarrow> bool" where
  "pwp src toks p Q s \<longleftrightarrow> (case p s of Inl e \<Rightarrow> failure src toks e | Inr (x, s') \<Rightarrow> Q x s')"

section \<open>Weakest preconditions\<close>

named_theorems wp \<comment> \<open>weakest preconditions of the basic parsers\<close>

lemma good_cur:
  assumes "good src toks s"
  shows "token_in src (cur s)" "cur s \<in> set toks" "located src (tk_span (cur s))"
proof -
  show "cur s \<in> set toks" using assms by (auto simp: good_def cur_def)
  then show "token_in src (cur s)" "located src (tk_span (cur s))"
    using assms by (auto simp: good_def token_seq_def token_in_def)
qed

lemma good_prv:
  assumes "good src toks s" "0 < ps_current s"
  shows "token_in src (prv s)" "prv s \<in> set toks" "located src (tk_span (prv s))"
proof -
  show "prv s \<in> set toks" using assms by (auto simp: good_def prv_def)
  then show "token_in src (prv s)" "located src (tk_span (prv s))"
    using assms by (auto simp: good_def token_seq_def token_in_def)
qed

lemma good_nxt [simp]:
  assumes "good src toks s" "tk_kind (cur s) \<noteq> K_EOF"
  shows "good src toks (nxt s)"
proof -
  have "ps_current s \<noteq> length toks - 1"
    using assms by (auto simp: good_def cur_def token_seq_def last_conv_nth)
  then show ?thesis using assms(1) by (auto simp: good_def nxt_def)
qed

text \<open>\<open>ready\<close> is \<open>good\<close> on the tokens the state holds.\<close>

definition ready :: "string \<Rightarrow> parser_state \<Rightarrow> bool" where
  "ready src s \<longleftrightarrow> good src (ps_tokens s) s"

lemma good_ready [simp]: "good src toks s \<Longrightarrow> ready src s"
  by (simp add: ready_def good_def)

lemma nxt_simps [simp]:
  "ps_current (nxt s) = Suc (ps_current s)" "ps_tokens (nxt s) = ps_tokens s" "prv (nxt s) = cur s"
  by (simp_all add: nxt_def prv_def cur_def)

lemma ready_nxt [simp]: "ready src s \<Longrightarrow> tk_kind (cur s) \<noteq> K_EOF \<Longrightarrow> ready src (nxt s)"
  by (simp add: ready_def)

lemma ready_cur [simp]:
  assumes "ready src s"
  shows "token_in src (cur s)" "located src (tk_span (cur s))"
  using good_cur [OF assms [unfolded ready_def]] by simp_all

lemma ready_prv [simp]:
  assumes "ready src s" "0 < ps_current s"
  shows "token_in src (prv s)" "located src (tk_span (prv s))"
  using good_prv [OF assms(1) [unfolded ready_def] assms(2)] by simp_all

lemma pwp_return [wp]: "pwp src toks (p_return x) Q = Q x"
  by (rule ext) (simp add: pwp_def p_return_def)

lemma pwp_bind [wp]:
  "pwp src toks (p_bind p f) Q s = pwp src toks p (\<lambda>x. pwp src toks (f x) Q) s"
  by (auto simp: pwp_def p_bind_def split: sum.splits)

lemma p_token_eq:
  "good src toks s \<Longrightarrow> ps_current s + d < length toks \<Longrightarrow>
     p_token (int d) s = Inr (toks ! (ps_current s + d), s)"
  by (auto simp: p_token_def py_index_def Let_def good_def nat_add_distrib)

lemma p_peek_eq: "good src toks s \<Longrightarrow> p_peek s = Inr (cur s, s)"
  using p_token_eq [of src toks s 0] by (auto simp: p_peek_def good_def cur_def)

lemma p_previous_eq: "good src toks s \<Longrightarrow> 0 < ps_current s \<Longrightarrow> p_previous s = Inr (prv s, s)"
  by (auto simp: p_previous_def p_token_def py_index_def good_def prv_def Let_def nat_diff_distrib)

lemma p_advance_eq:
  "good src toks s \<Longrightarrow> p_advance s = Inr (cur s, if tk_kind (cur s) \<noteq> K_EOF then nxt s else s)"
  by (simp add: p_advance_def p_bind_def p_peek_eq nxt_def)

lemma p_check_eq: "good src toks s \<Longrightarrow> p_check k s = Inr (tk_kind (cur s) = k, s)"
  by (simp add: p_check_def p_bind_def p_peek_eq p_return_def)

lemma p_match_eq:
  "good src toks s \<Longrightarrow> K_EOF \<notin> set ks \<Longrightarrow> p_match ks s =
     (if tk_kind (cur s) \<in> set ks then Inr (True, nxt s) else Inr (False, s))"
  by (auto simp: p_match_def p_bind_def p_peek_eq p_advance_eq p_return_def)

lemma pwp_peek [wp]: "good src toks s \<Longrightarrow> pwp src toks p_peek Q s = Q (cur s) s"
  by (simp add: pwp_def p_peek_eq)

lemma pwp_previous [wp]:
  "good src toks s \<Longrightarrow> 0 < ps_current s \<Longrightarrow> pwp src toks p_previous Q s = Q (prv s) s"
  by (simp add: pwp_def p_previous_eq)

lemma pwp_advance [wp]:
  "good src toks s \<Longrightarrow> pwp src toks p_advance Q s =
     (if tk_kind (cur s) = K_EOF then Q (cur s) s else Q (cur s) (nxt s))"
  by (simp add: pwp_def p_advance_eq)

lemma pwp_check [wp]: "good src toks s \<Longrightarrow> pwp src toks (p_check k) Q s = Q (tk_kind (cur s) = k) s"
  by (simp add: pwp_def p_check_eq)

lemma pwp_match [wp]:
  "good src toks s \<Longrightarrow> K_EOF \<notin> set ks \<Longrightarrow> pwp src toks (p_match ks) Q s =
     (if tk_kind (cur s) \<in> set ks then Q True (nxt s) else Q False s)"
  by (simp add: pwp_def p_match_eq)

lemma pwp_if [wp]:
  "good src toks s \<Longrightarrow> K_EOF \<notin> set ks \<Longrightarrow> pwp src toks (p_if ks p q) Q s =
     (if tk_kind (cur s) \<in> set ks then pwp src toks p Q (nxt s) else pwp src toks q Q s)"
  by (simp add: p_if_def wp)

lemma pwp_opt [wp]:
  "good src toks s \<Longrightarrow> K_EOF \<notin> set ks \<Longrightarrow> pwp src toks (p_opt ks p) Q s =
     (if tk_kind (cur s) \<in> set ks then pwp src toks p (\<lambda>x. Q (Some x)) (nxt s) else Q None s)"
  by (simp add: p_opt_def wp)

lemma sql_failure_intro:
  "good src toks s \<Longrightarrow> located src (tk_span t) \<Longrightarrow> c = SQLParseError \<or> c = SQLUnsupportedError \<Longrightarrow>
     failure src toks (SQLError c msg (tk_span t) (Some (ps_source s)))"
  by (auto simp: failure_def sql_failure_def good_def)

lemma pwp_error [wp]:
  "good src toks s \<Longrightarrow> located src (tk_span t) \<Longrightarrow> pwp src toks (p_error t msg) Q s"
  by (simp add: pwp_def p_error_def sql_failure_intro)

lemma pwp_raise_unsupported [wp]:
  "good src toks s \<Longrightarrow> located src (tk_span t) \<Longrightarrow> pwp src toks (p_raise_unsupported t) Q s"
  by (simp add: pwp_def p_raise_unsupported_def Let_def sql_failure_intro)

lemma pwp_error_here [wp]: "good src toks s \<Longrightarrow> pwp src toks (p_error_here msg) Q s"
  by (simp add: p_error_here_def wp)

lemma pwp_raise_trailing_input [wp]: "good src toks s \<Longrightarrow> pwp src toks p_raise_trailing_input Q s"
  by (simp add: p_raise_trailing_input_def pwp_def p_bind_def p_peek_eq p_error_def
      p_raise_unsupported_def Let_def sql_failure_intro good_cur)

lemma pwp_expect [wp]:
  "good src toks s \<Longrightarrow> k \<noteq> K_EOF \<Longrightarrow> pwp src toks (p_expect k msg) Q s =
     (tk_kind (cur s) = k \<longrightarrow> Q (cur s) (nxt s))"
  by (simp add: p_expect_def wp)

lemma pwp_expect_EOF [wp]:
  "good src toks s \<Longrightarrow> pwp src toks (p_expect K_EOF msg) Q s =
     (tk_kind (cur s) = K_EOF \<longrightarrow> Q (cur s) s)"
  by (simp add: p_expect_def wp)

lemma pwp_lift:
  "pwp src toks (p_lift r) Q s =
     (case r of Inl e \<Rightarrow> failure src toks e | Inr x \<Rightarrow> Q x s)"
  by (auto simp: pwp_def p_lift_def split: sum.splits)

lemma pwp_mono:
  "pwp src toks p Q s \<Longrightarrow> (\<And>x s'. Q x s' \<Longrightarrow> R x s') \<Longrightarrow> pwp src toks p R s"
  by (auto simp: pwp_def split: sum.splits)


text \<open>Spans of the text always combine; \<open>joined\<close> names the result.\<close>

definition joined :: "span \<Rightarrow> span \<Rightarrow> span" where
  "joined a b = (case combine_spans [a, b] of Inr s \<Rightarrow> s | Inl _ \<Rightarrow> a)"

lemma joined_located:
  assumes "located src a" "located src b"
  shows "combine_spans [a, b] = Inr (joined a b)" "located src (joined a b)"
  using combine_spans_located [of "[a, b]" src] assms by (auto simp: joined_def)

lemma pwp_span [wp]:
  "located src a \<Longrightarrow> located src b \<Longrightarrow> pwp src toks (p_span a b) Q s = Q (joined a b) s"
  by (simp add: p_span_def pwp_lift joined_located)

text \<open>The values of the tokens the parser converts.\<close>

definition tok_str :: "token \<Rightarrow> string" where
  "tok_str t = (case tk_value t of StrValue v \<Rightarrow> v | _ \<Rightarrow> [])"

definition tok_int :: "token \<Rightarrow> int" where
  "tok_int t = (case tk_value t of IntValue n \<Rightarrow> n | _ \<Rightarrow> 0)"

definition tok_float :: "token \<Rightarrow> pyfloat" where
  "tok_float t = (case tk_value t of FloatValue x \<Rightarrow> x | _ \<Rightarrow> NaN)"

lemma value_str_ok:
  "token_in src t \<Longrightarrow> tk_kind t = K_STRING \<or> tk_kind t = K_IDENTIFIER \<Longrightarrow>
     value_str t = Inr (tok_str t)"
  by (auto simp: value_str_def tok_str_def token_in_def value_fits_def)

lemma integer_of_lexeme_IntValue: "integer_of_lexeme l = Some v \<Longrightarrow> \<exists>n. v = IntValue n"
  by (auto simp: integer_of_lexeme_def Let_def split: if_splits)

lemma double_of_lexeme_FloatValue: "double_of_lexeme l = Some v \<Longrightarrow> \<exists>x. v = FloatValue x"
  by (auto simp: double_of_lexeme_def Let_def split: if_splits)

lemma value_int_ok:
  assumes "token_in src t" "tk_kind t = K_INTEGER"
  shows "value_int t = Inr (tok_int t)" "tk_value t = IntValue (tok_int t)"
proof -
  obtain n where "tk_value t = IntValue n"
    using assms integer_of_lexeme_IntValue by (auto simp: token_in_def value_fits_def)
  then show "value_int t = Inr (tok_int t)" "tk_value t = IntValue (tok_int t)"
    by (simp_all add: value_int_def tok_int_def)
qed

lemma value_double_ok:
  assumes "token_in src t" "tk_kind t = K_DOUBLE_LITERAL"
  shows "value_float t = Inr (tok_float t)"
proof -
  obtain x where "tk_value t = FloatValue x"
    using assms double_of_lexeme_FloatValue by (auto simp: token_in_def value_fits_def)
  then show ?thesis by (simp add: value_float_def tok_float_def)
qed

lemma pwp_value_str [wp]:
  "token_in src t \<Longrightarrow> tk_kind t = K_STRING \<or> tk_kind t = K_IDENTIFIER \<Longrightarrow>
     pwp src toks (p_lift (value_str t)) Q s = Q (tok_str t) s"
  by (simp add: pwp_lift value_str_ok)

lemma pwp_value_int [wp]:
  "token_in src t \<Longrightarrow> tk_kind t = K_INTEGER \<Longrightarrow>
     pwp src toks (p_lift (value_int t)) Q s = Q (tok_int t) s"
  by (simp add: pwp_lift value_int_ok)

lemma pwp_value_double [wp]:
  "token_in src t \<Longrightarrow> tk_kind t = K_DOUBLE_LITERAL \<Longrightarrow>
     pwp src toks (p_lift (value_float t)) Q s = Q (tok_float t) s"
  by (simp add: pwp_lift value_double_ok)

lemma pwp_lift_Inr [wp]: "pwp src toks (p_lift (Inr x)) Q = Q x"
  by (rule ext) (simp add: pwp_lift)

lemma pwp_lift_option [wp]:
  "pwp src toks (p_lift (case m of None \<Rightarrow> Inl e | Some x \<Rightarrow> Inr x)) Q s =
     (case m of None \<Rightarrow> failure src toks e | Some x \<Rightarrow> Q x s)"
  by (simp add: pwp_lift split: option.splits)

text \<open>\<open>float(value)\<close> of a number fails only on an integer beyond the range of the doubles.\<close>

lemma pwp_value_float:
  assumes "token_in src t" "t \<in> set toks" "is_number t" "\<And>x. Q x s"
  shows "pwp src toks (p_lift (value_float t)) Q s"
proof (cases "tk_kind t = K_INTEGER")
  case True
  then have "tk_value t = IntValue (tok_int t)"
    by (rule value_int_ok [OF assms(1)])
  then show ?thesis
    using assms by (auto simp: pwp_lift value_float_def failure_def overflows_def split: option.splits)
next
  case False
  then show ?thesis
    using assms value_double_ok by (auto simp: pwp_lift is_number_def)
qed

section \<open>Names, columns and literals\<close>

text \<open>
  \<open>pok src toks p k R\<close>: from a good state \<open>p\<close> fails as the parser may, or ends in a good state
  at least \<open>k\<close> tokens further on with a result in \<open>R\<close>.
\<close>

definition pok :: "string \<Rightarrow> token list \<Rightarrow> 'a parser \<Rightarrow> nat \<Rightarrow> ('a \<Rightarrow> bool) \<Rightarrow> bool" where
  "pok src toks p k R \<longleftrightarrow>
     (\<forall>s. good src toks s \<longrightarrow>
        pwp src toks p (\<lambda>x s'. good src toks s' \<and> ps_current s + k \<le> ps_current s' \<and> R x) s)"

lemma pokI:
  "(\<And>s. good src toks s \<Longrightarrow>
     pwp src toks p (\<lambda>x s'. good src toks s' \<and> ps_current s + k \<le> ps_current s' \<and> R x) s)
   \<Longrightarrow> pok src toks p k R"
  by (simp add: pok_def)

lemma pok_wp:
  assumes "pok src toks p k R" "good src toks s"
    "\<And>x s'. good src toks s' \<Longrightarrow> ps_current s + k \<le> ps_current s' \<Longrightarrow> R x \<Longrightarrow> Q x s'"
  shows "pwp src toks p Q s"
  using assms unfolding pok_def by (blast intro: pwp_mono)

lemma p_identifier_ok: "pok src toks (p_identifier msg) 1 (ident_ok src)"
  by (rule pokI) (auto simp: p_identifier_def wp ident_ok_def)

lemmas [parser_ok] = pok_wp [OF p_identifier_ok]

lemma p_column_reference_ok: "pok src toks (p_column_reference msg) 1 (column_ok src)"
  by (rule pokI) (auto simp: p_column_reference_def wp column_ok_def ident_ok_def joined_located
      intro!: parser_ok)

lemmas [parser_ok] = pok_wp [OF p_column_reference_ok]

lemma p_coordinate_ok:
  "pok src toks (p_coordinate role lo hi) 1 (\<lambda>(v, sp). in_range lo v hi \<and> located src sp)"
  by (rule pokI)
    (auto simp: p_coordinate_def wp in_range_def is_number_def good_cur intro!: pwp_value_float)

lemmas [parser_ok] = pok_wp [OF p_coordinate_ok]

lemma p_point_literal_ok:
  "located src (tk_span start) \<Longrightarrow> pok src toks (p_point_literal start) 1 (point_ok src)"
  by (rule pokI)
    (auto simp: p_point_literal_def wp joined_located point_ok_def intro!: parser_ok)

lemmas [parser_ok] = pok_wp [OF p_point_literal_ok]


lemma p_component_ok: "pok src toks (p_component n) 1 (\<lambda>(v, sp). located src sp)"
  by (rule pokI)
    (auto simp: p_component_def wp is_number_def good_cur intro!: pwp_value_float)

lemmas [parser_ok] = pok_wp [OF p_component_ok]

text \<open>Every turn of a loop consumes a token, so the fuel never runs out.\<close>

lemma p_component_loop_wp:
  assumes "good src toks s" "length toks < n + ps_current s" "list_all (\<lambda>c. located src (snd c)) acc"
    "\<And>cs s'. good src toks s' \<Longrightarrow> Suc (ps_current s) \<le> ps_current s' \<Longrightarrow> cs \<noteq> [] \<Longrightarrow>
       list_all (\<lambda>c. located src (snd c)) cs \<Longrightarrow> Q cs s'"
  shows "pwp src toks (p_component_loop n acc) Q s"
  using assms
proof (induction n arbitrary: acc s)
  case 0
  then show ?case by (simp add: good_def)
next
  case (Suc n)
  show ?case
    using Suc.prems by (auto simp: wp intro!: parser_ok Suc.IH)
qed

lemma p_components_ok:
  "pok src toks p_components 1 (\<lambda>cs. cs \<noteq> [] \<and> list_all (\<lambda>c. located src (snd c)) cs)"
proof (rule pokI)
  fix s
  assume "good src toks s"
  then show "pwp src toks p_components (\<lambda>cs s'. good src toks s' \<and> ps_current s + 1 \<le> ps_current s'
      \<and> cs \<noteq> [] \<and> list_all (\<lambda>c. located src (snd c)) cs) s"
    using p_component_loop_wp [of src toks s "Suc (length toks)" "[]"]
    by (simp add: pwp_def p_components_def good_def)
qed

lemmas [parser_ok] = pok_wp [OF p_components_ok]

lemma p_vector_literal_ok:
  "located src (tk_span start) \<Longrightarrow> pok src toks (p_vector_literal start) 1 (literal_ok src)"
  by (rule pokI)
    (auto simp: p_vector_literal_def wp joined_located list_all_iff intro!: parser_ok)

lemmas [parser_ok] = pok_wp [OF p_vector_literal_ok]

lemma p_date_literal_ok:
  "located src (tk_span start) \<Longrightarrow> pok src toks (p_date_literal start) 1 (literal_ok src)"
  by (rule pokI) (auto simp: p_date_literal_def wp joined_located date_from_iso_def Let_def
      split: option.splits if_splits)

lemmas [parser_ok] = pok_wp [OF p_date_literal_ok]

lemma p_literal_ok: "pok src toks p_literal 1 (literal_ok src)"
  by (rule pokI) (auto simp: p_literal_def wp intro!: parser_ok)

lemmas [parser_ok] = pok_wp [OF p_literal_ok]


section \<open>Lists separated by commas\<close>

text \<open>
  The contract of an item of such a list: it consumes a token and returns a value in \<open>R\<close>. Every
  list of items is then a list of values in \<open>R\<close>, and its loop ends.
\<close>

locale item_parser =
  fixes src :: string and toks :: "token list" and item :: "'a parser" and R :: "'a \<Rightarrow> bool"
  assumes item_ok: "pok src toks item 1 R"
begin

lemma comma_loop_wp:
  assumes "good src toks s" "length toks < n + ps_current s" "list_all R ys"
    "\<And>ys s'. good src toks s' \<Longrightarrow> ps_current s \<le> ps_current s' \<Longrightarrow> list_all R ys \<Longrightarrow>
       Q (acc @ ys) s'"
  shows "pwp src toks (p_comma_loop n item (acc @ ys)) Q s"
  using assms
proof (induction n arbitrary: ys s)
  case 0
  then show ?case by (simp add: good_def)
next
  case (Suc n)
  have "pwp src toks item (\<lambda>x. pwp src toks (p_comma_loop n item (acc @ (ys @ [x]))) Q) (nxt s)"
    if "tk_kind (cur s) = K_COMMA"
  proof (rule pok_wp [OF item_ok])
    show "good src toks (nxt s)" using Suc.prems(1) that by simp
    fix x s'
    assume "good src toks s'" "ps_current (nxt s) + 1 \<le> ps_current s'" "R x"
    then show "pwp src toks (p_comma_loop n item (acc @ (ys @ [x]))) Q s'"
      using Suc.prems by (intro Suc.IH) auto
  qed
  then show ?case using Suc.prems by (simp add: wp)
qed

lemma commas_wp:
  assumes "good src toks s"
    "\<And>ys s'. good src toks s' \<Longrightarrow> ps_current s \<le> ps_current s' \<Longrightarrow> list_all R ys \<Longrightarrow>
       Q (acc @ ys) s'"
  shows "pwp src toks (p_commas item acc) Q s"
  using comma_loop_wp [of s "Suc (length toks)" "[]" Q acc] assms
  by (simp add: pwp_def p_commas_def good_def)

lemma comma_list_ok: "pok src toks (p_comma_list item) 1 (\<lambda>xs. xs \<noteq> [] \<and> list_all R xs)"
  by (rule pokI) (auto simp: p_comma_list_def wp intro!: pok_wp [OF item_ok] commas_wp)

end

section \<open>Conditions\<close>

lemma p_polygon_vertex_ok: "pok src toks p_polygon_vertex 1 (point_ok src)"
  by (rule pokI) (auto simp: p_polygon_vertex_def wp intro!: parser_ok)

interpretation vertices: item_parser src toks p_polygon_vertex "point_ok src" for src toks
  by unfold_locales (rule p_polygon_vertex_ok)

lemmas [parser_ok] = pok_wp [OF vertices.comma_list_ok]

lemma p_distance_arguments_ok:
  "pok src toks p_distance_arguments 1 (\<lambda>(c, p, m). column_ok src c \<and> point_ok src p)"
  by (rule pokI) (auto simp: p_distance_arguments_def wp intro!: parser_ok)

lemmas [parser_ok] = pok_wp [OF p_distance_arguments_ok]

lemma p_vector_metric_ok: "pok src toks p_vector_metric 1 (\<lambda>(m, sp). located src sp)"
  by (rule pokI) (auto simp: p_vector_metric_def wp split: option.splits)

lemmas [parser_ok] = pok_wp [OF p_vector_metric_ok]

lemma p_similar_k_name_ok: "pok src toks p_similar_k_name 0 (\<lambda>_. True)"
  by (rule pokI) (auto simp: p_similar_k_name_def wp)

lemmas [parser_ok] = pok_wp [OF p_similar_k_name_ok]

lemma p_similar_condition_ok:
  "located src (tk_span start) \<Longrightarrow> pok src toks (p_similar_condition start) 1 (condition_ok src)"
  by (rule pokI) (auto simp: p_similar_condition_def wp joined_located similar_ok_def
      intro!: parser_ok)

lemmas [parser_ok] = pok_wp [OF p_similar_condition_ok]

lemma p_match_condition_ok:
  "located src (tk_span start) \<Longrightarrow> pok src toks (p_match_condition start) 1 (condition_ok src)"
  by (rule pokI) (auto simp: p_match_condition_def wp joined_located match_ok_def
      intro!: parser_ok)

lemmas [parser_ok] = pok_wp [OF p_match_condition_ok]


lemma p_polygon_condition_ok:
  "located src (tk_span start) \<Longrightarrow> pok src toks (p_polygon_condition start) 1 (condition_ok src)"
  by (rule pokI) (auto simp: p_polygon_condition_def wp joined_located list_all_iff intro!: parser_ok)

lemmas [parser_ok] = pok_wp [OF p_polygon_condition_ok]

lemma comparisons_simps:
  "map_of comparisons K_LESS_THAN = Some OP_LESS_THAN"
  "map_of comparisons K_LESS_THAN_OR_EQUAL = Some OP_LESS_THAN_OR_EQUAL"
  "map_of comparisons K_EOF = None"
  by (simp_all add: comparisons_def)

text \<open>A literal that starts with a number is one.\<close>

lemma is_number_not_EOF [simp]: "is_number t \<Longrightarrow> tk_kind t \<noteq> K_EOF"
  by (auto simp: is_number_def)

lemma p_number_literal_wp:
  assumes "good src toks s" "is_number (cur s)"
    "\<And>v sp. located src sp \<Longrightarrow> Q (IntegerLiteral v sp) (nxt s)"
    "\<And>v sp. located src sp \<Longrightarrow> Q (DoubleLiteral v sp) (nxt s)"
  shows "pwp src toks p_literal Q s"
  using assms by (auto simp: p_literal_def wp is_number_def)

lemma p_distance_condition_ok:
  "located src (tk_span start) \<Longrightarrow> pok src toks (p_distance_condition start) 1 (condition_ok src)"
  by (rule pokI) (auto simp: p_distance_condition_def wp joined_located distance_ok_def comparisons_simps
      intro!: pok_wp [OF p_distance_arguments_ok] p_number_literal_wp)

lemmas [parser_ok] = pok_wp [OF p_distance_condition_ok]

lemma p_between_ok: "column_ok src c \<Longrightarrow> pok src toks (p_between c) 1 (condition_ok src)"
  by (rule pokI) (auto simp: p_between_def wp joined_located column_ok_def intro!: parser_ok)

lemmas [parser_ok] = pok_wp [OF p_between_ok]


lemma p_comparison_ok: "column_ok src c \<Longrightarrow> pok src toks (p_comparison c) 1 (condition_ok src)"
  by (rule pokI) (auto simp: p_comparison_def wp joined_located comparisons_simps
      split: option.splits intro!: parser_ok)

lemmas [parser_ok] = pok_wp [OF p_comparison_ok]

lemma p_condition_ok: "pok src toks p_condition 1 (condition_ok src)"
  by (rule pokI) (auto simp: p_condition_def wp intro!: parser_ok)

lemmas [parser_ok] = pok_wp [OF p_condition_ok]

section \<open>SELECT\<close>

lemma score_token:
  assumes "token_in src t" "tk_kind t = K_SCORE \<or> tk_kind t = K_SIMILARITY_SCORE"
  shows "upper (tk_lexeme t) = ''SCORE'' \<or> upper (tk_lexeme t) = ''SIMILARITY_SCORE''"
proof -
  have "K_SCORE \<in> set keyword_kinds" "K_SIMILARITY_SCORE \<in> set keyword_kinds"
    by (simp_all add: keyword_kinds_def)
  then have "tk_kind t = TokenKind (upper (tk_lexeme t))"
    using assms unfolding token_in_def value_fits_def by metis
  with assms(2) show ?thesis by auto
qed

lemma pwp_score_kind:
  "is_score t \<Longrightarrow> token_in src t \<Longrightarrow> (\<And>k. Q k s) \<Longrightarrow> pwp src toks (p_score_kind t) Q s"
  using score_token [of src t] by (auto simp: p_score_kind_def is_score_def score_kind_of_def wp)

lemma token_in_span: "token_in src t \<Longrightarrow> located src (tk_span t)"
  by (simp add: token_in_def)

lemma p_score_call_ok:
  "token_in src t \<Longrightarrow> is_score t \<Longrightarrow> pok src toks (p_score_call t) 1 (score_ok src)"
  by (rule pokI) (auto simp: p_score_call_def wp joined_located score_ok_def token_in_span
      ident_ok_def intro!: pwp_score_kind parser_ok split: option.splits)

lemmas [parser_ok] = pok_wp [OF p_score_call_ok]

lemma p_aggregate_wp:
  assumes "good src toks s" "tk_kind (cur s) \<in> fst ` set aggregates"
    "\<And>a s'. good src toks s' \<Longrightarrow> Suc (ps_current s) \<le> ps_current s' \<Longrightarrow> aggregate_ok src a \<Longrightarrow> Q a s'"
  shows "pwp src toks p_aggregate Q s"
  using assms
  by (auto simp: p_aggregate_def wp aggregates_def p_count_argument_def p_column_argument_def
      joined_located intro!: parser_ok)

lemma p_projection_ok:
  "pok src toks p_projection 1 (\<lambda>p. projection_ok src p \<and> \<not> is_wildcard p)"
  by (rule pokI) (auto simp: p_projection_def wp is_score_def intro!: parser_ok p_aggregate_wp imageI)

interpretation projections: item_parser src toks p_projection
  "\<lambda>p. projection_ok src p \<and> \<not> is_wildcard p" for src toks
  by unfold_locales (rule p_projection_ok)

lemma p_score_only_ok:
  "pok src toks p_score_only 1 (\<lambda>p. projection_ok src p \<and> is_score_call p)"
  by (rule pokI) (auto simp: p_score_only_def wp is_score_def intro!: parser_ok)

interpretation scores: item_parser src toks p_score_only
  "\<lambda>p. projection_ok src p \<and> is_score_call p" for src toks
  by unfold_locales (rule p_score_only_ok)

lemma p_projection_list_ok: "pok src toks p_projection_list 1 (projections_ok src)"
  by (rule pokI)
    (auto simp: p_projection_list_def wp projections_ok_def list_all_iff list_ex_iff
      intro!: scores.commas_wp pok_wp [OF projections.comma_list_ok])

lemmas [parser_ok] = pok_wp [OF p_projection_list_ok]


lemma p_table_ref_ok: "pok src toks p_table_ref 1 (table_ok src)"
  by (rule pokI) (auto simp: p_table_ref_def wp intro!: parser_ok)

lemmas [parser_ok] = pok_wp [OF p_table_ref_ok]

lemma p_join_ok: "table_ok src t \<Longrightarrow> pok src toks (p_join t) 1 (source_ok src)"
  by (rule pokI) (auto simp: p_join_def wp joined_located intro!: parser_ok)

lemmas [parser_ok] = pok_wp [OF p_join_ok]

lemma table_source_ok: "table_ok src f \<Longrightarrow> source_ok src f"
  by (cases f) auto

lemma p_from_source_ok: "pok src toks p_from_source 1 (source_ok src)"
  by (rule pokI) (auto simp: p_from_source_def wp table_source_ok intro!: parser_ok)

lemmas [parser_ok] = pok_wp [OF p_from_source_ok]

lemma p_group_by_ok:
  "located src (tk_span start) \<Longrightarrow> pok src toks (p_group_by start) 1 (group_ok src)"
  by (rule pokI) (auto simp: p_group_by_def wp joined_located group_ok_def intro!: parser_ok)

lemmas [parser_ok] = pok_wp [OF p_group_by_ok]

lemma p_direction_ok:
  "located src sp \<Longrightarrow> pok src toks (p_direction sp) 0 (\<lambda>(d, t). located src t)"
  by (rule pokI) (auto simp: p_direction_def wp)

lemmas [parser_ok] = pok_wp [OF p_direction_ok]

lemma p_score_order_wp:
  assumes "good src toks s" "is_score (cur s)" "located src (tk_span start)"
    "\<And>x s'. good src toks s' \<Longrightarrow> Suc (ps_current s) \<le> ps_current s' \<Longrightarrow> order_ok src x \<Longrightarrow> Q x s'"
  shows "pwp src toks (p_score_order start) Q s"
proof -
  have "tk_kind (cur s) \<noteq> K_EOF" using assms(2) by (auto simp: is_score_def)
  then show ?thesis
    using assms
    by (auto simp: p_score_order_def wp joined_located intro!: pwp_score_kind parser_ok)
qed

lemma p_distance_order_ok:
  "located src (tk_span start) \<Longrightarrow> pok src toks (p_distance_order start) 1 (order_ok src)"
  by (rule pokI) (auto simp: p_distance_order_def wp joined_located intro!: parser_ok)

lemmas [parser_ok] = pok_wp [OF p_distance_order_ok]

lemma p_column_order_ok:
  "located src (tk_span start) \<Longrightarrow> pok src toks (p_column_order start) 1 (order_ok src)"
  by (rule pokI)
    (auto simp: p_column_order_def wp joined_located column_ok_def ident_ok_def intro!: parser_ok)

lemmas [parser_ok] = pok_wp [OF p_column_order_ok]

lemma pwp_next_token [wp]:
  assumes "good src toks s" "tk_kind (cur s) \<noteq> K_EOF"
  shows "pwp src toks (p_token 1) Q s = Q (cur (nxt s)) s"
proof -
  have "ps_current s + 1 < length toks"
    using good_nxt [OF assms] by (simp add: good_def nxt_def)
  then have "p_token (int 1) s = Inr (toks ! (ps_current s + 1), s)"
    by (rule p_token_eq [OF assms(1)])
  then show ?thesis using assms(1) by (simp add: pwp_def cur_def good_def)
qed

lemma is_score_not_EOF [simp]: "is_score t \<Longrightarrow> tk_kind t \<noteq> K_EOF"
  by (auto simp: is_score_def)

lemma p_order_by_ok:
  "located src (tk_span start) \<Longrightarrow> pok src toks (p_order_by start) 1 (order_ok src)"
  by (rule pokI) (auto simp: p_order_by_def wp intro!: parser_ok p_score_order_wp)

lemmas [parser_ok] = pok_wp [OF p_order_by_ok]

lemma p_limit_ok:
  "located src (tk_span start) \<Longrightarrow> pok src toks (p_limit start) 1 (limit_ok src)"
  by (rule pokI) (auto simp: p_limit_def wp joined_located limit_ok_def)

lemmas [parser_ok] = pok_wp [OF p_limit_ok]

lemma select_end_span_located:
  assumes "source_ok src f" "\<forall>c. wh = Some c \<longrightarrow> condition_ok src c" "\<forall>g. gb = Some g \<longrightarrow> group_ok src g"
    "\<forall>c. ob = Some c \<longrightarrow> order_ok src c" "\<forall>l. lm = Some l \<longrightarrow> limit_ok src l"
  shows "located src (select_end_span f wh gb ob lm)"
  using assms by (auto simp: select_end_span_def split: option.splits)

lemma p_select_ok:
  "located src (tk_span start) \<Longrightarrow> pok src toks (p_select start) 1 (select_ok src)"
  by (rule pokI) (auto simp: p_select_def wp joined_located select_ok_def select_end_span_located
      intro!: parser_ok)

lemmas [parser_ok] = pok_wp [OF p_select_ok]


lemma p_explain_ok:
  "located src (tk_span start) \<Longrightarrow> pok src toks (p_explain start) 1 (statement_ok src)"
  by (rule pokI) (auto simp: p_explain_def wp joined_located intro!: parser_ok)

lemmas [parser_ok] = pok_wp [OF p_explain_ok]

section \<open>The other statements\<close>

lemma p_number_in_parens_ok:
  "pok src toks (p_number_in_parens a b c d) 1 (\<lambda>(n, t). located src (tk_span t))"
  by (rule pokI) (auto simp: p_number_in_parens_def wp)

lemmas [parser_ok] = pok_wp [OF p_number_in_parens_ok]

lemma p_sql_type_ok: "pok src toks p_sql_type 1 (type_ok src)"
  by (rule pokI) (auto simp: p_sql_type_def p_simple_type_def wp joined_located type_ok_def
      intro!: parser_ok)

lemmas [parser_ok] = pok_wp [OF p_sql_type_ok]

lemma p_column_definition_ok:
  "pok src toks p_column_definition 1 (column_definition_ok src)"
  by (rule pokI) (auto simp: p_column_definition_def wp joined_located column_definition_ok_def
      intro!: parser_ok)

interpretation columns: item_parser src toks p_column_definition "column_definition_ok src"
  for src toks
  by unfold_locales (rule p_column_definition_ok)

lemmas [parser_ok] = pok_wp [OF columns.comma_list_ok]

interpretation literals: item_parser src toks p_literal "literal_ok src" for src toks
  by unfold_locales (rule p_literal_ok)

lemmas [parser_ok] = pok_wp [OF literals.comma_list_ok]

lemma p_storage_ok:
  "located src (tk_span close) \<Longrightarrow>
     pok src toks (p_storage close) 0 (\<lambda>(k, t). located src (tk_span t))"
  by (rule pokI) (auto simp: p_storage_def wp)

lemmas [parser_ok] = pok_wp [OF p_storage_ok]

lemma p_create_table_ok:
  "located src (tk_span start) \<Longrightarrow> pok src toks (p_create_table start) 1 (statement_ok src)"
  by (rule pokI) (auto simp: p_create_table_def wp joined_located create_table_ok_def list_all_iff
      intro!: parser_ok)

lemmas [parser_ok] = pok_wp [OF p_create_table_ok]

lemma p_index_kind_ok: "pok src toks p_index_kind 1 (\<lambda>_. True)"
  by (rule pokI) (auto simp: p_index_kind_def wp)

lemmas [parser_ok] = pok_wp [OF p_index_kind_ok]

lemma p_text_language_ok: "pok src toks p_text_language 1 (\<lambda>_. True)"
  by (rule pokI) (auto simp: p_text_language_def wp split: option.splits)

lemmas [parser_ok] = pok_wp [OF p_text_language_ok]

lemma p_create_index_ok:
  "located src (tk_span start) \<Longrightarrow> pok src toks (p_create_index start) 1 (statement_ok src)"
  by (rule pokI) (auto simp: p_create_index_def wp joined_located create_index_ok_def
      intro!: parser_ok)

lemmas [parser_ok] = pok_wp [OF p_create_index_ok]

lemma p_insert_ok:
  "located src (tk_span start) \<Longrightarrow> pok src toks (p_insert start) 1 (statement_ok src)"
  by (rule pokI) (auto simp: p_insert_def wp joined_located insert_ok_def list_all_iff
      intro!: parser_ok)

lemmas [parser_ok] = pok_wp [OF p_insert_ok]

lemma p_delete_ok:
  "located src (tk_span start) \<Longrightarrow> pok src toks (p_delete start) 1 (statement_ok src)"
  by (rule pokI) (auto simp: p_delete_def wp joined_located delete_ok_def intro!: parser_ok)

lemmas [parser_ok] = pok_wp [OF p_delete_ok]

lemma p_small_statements_ok:
  assumes "located src (tk_span start)"
  shows "pok src toks (p_drop_table start) 1 (statement_ok src)"
    "pok src toks (p_begin_transaction start) 1 (statement_ok src)"
    "pok src toks (p_end_transaction start) 1 (statement_ok src)"
  using assms
  by (auto simp: p_drop_table_def p_begin_transaction_def p_end_transaction_def wp joined_located
      intro!: pokI parser_ok)

lemmas [parser_ok] = p_small_statements_ok [THEN pok_wp]

lemma p_create_ok:
  "located src (tk_span start) \<Longrightarrow> pok src toks (p_create start) 1 (statement_ok src)"
  by (rule pokI) (auto simp: p_create_def wp intro!: parser_ok)

lemmas [parser_ok] = pok_wp [OF p_create_ok]

lemma p_statement_ok: "pok src toks p_statement 1 (statement_ok src)"
  by (rule pokI) (auto simp: p_statement_def wp intro!: parser_ok)

lemmas [parser_ok] = pok_wp [OF p_statement_ok]


section \<open>Whole texts\<close>

lemma p_parse_ok: "pok src toks p_parse 1 (statement_ok src)"
  by (rule pokI) (auto simp: p_parse_def wp intro!: parser_ok)

lemma p_script_loop_wp:
  assumes "good src toks s" "length toks < n + ps_current s" "list_all (statement_ok src) acc"
    "\<And>sts s'. good src toks s' \<Longrightarrow> ps_current s \<le> ps_current s' \<Longrightarrow> tk_kind (cur s') = K_EOF \<Longrightarrow>
       list_all (statement_ok src) sts \<Longrightarrow> Q sts s'"
  shows "pwp src toks (p_script_loop n acc) Q s"
  using assms
proof (induction n arbitrary: acc s)
  case 0
  then show ?case by (simp add: good_def)
next
  case (Suc n)
  show ?case
    using Suc.prems by (auto simp: wp intro!: parser_ok Suc.IH)
qed

lemma p_statements_wp:
  assumes "good src toks s"
    "\<And>sts s'. good src toks s' \<Longrightarrow> tk_kind (cur s') = K_EOF \<Longrightarrow>
       list_all (statement_ok src) sts \<Longrightarrow> Q sts s'"
  shows "pwp src toks p_statements Q s"
proof -
  have "pwp src toks (p_script_loop (Suc (length toks)) []) Q s"
    using assms by (intro p_script_loop_wp) auto
  then show ?thesis
    using assms(1) by (simp add: pwp_def p_statements_def good_def del: p_script_loop.simps)
qed

lemma p_parse_script_wp:
  assumes "good src toks s"
    "\<And>sts s'. sts \<noteq> [] \<Longrightarrow> list_all (statement_ok src) sts \<Longrightarrow> Q sts s'"
  shows "pwp src toks p_parse_script Q s"
  using assms by (auto simp: p_parse_script_def wp intro!: p_statements_wp)

text \<open>An error of the whole front end.\<close>

definition frontend_error :: "string \<Rightarrow> exn \<Rightarrow> bool" where
  "frontend_error src e \<longleftrightarrow>
     (\<exists>cls msg sp. e = SQLError cls msg sp (Some src) \<and> located src sp \<and> cls \<noteq> SQLSemanticError)"

definition double_overflow :: "string \<Rightarrow> bool" where
  "double_overflow src \<longleftrightarrow> (\<exists>toks. tokenize src = Inr toks \<and> overflows toks)"

lemma run_parser_cases:
  assumes "\<And>toks s. good sql toks s \<Longrightarrow> pwp sql toks p (\<lambda>x s'. R x) s"
  shows "(\<exists>x. run_parser p sql = Inr x \<and> R x)
    \<or> (\<exists>e. run_parser p sql = Inl e \<and> (frontend_error sql e \<or> (e = OverflowError \<and> double_overflow sql)))"
proof (cases "tokenize sql")
  case (Inl e)
  then show ?thesis
    using tokenize_Inl [OF Inl] by (auto simp: run_parser_def lexical_error_def frontend_error_def)
next
  case (Inr toks)
  let ?s = "\<lparr>ps_tokens = toks, ps_source = sql, ps_current = 0\<rparr>"
  have "good sql toks ?s"
    using tokenize_token_seq [OF Inr] by (simp add: good_def token_seq_def)
  then have "pwp sql toks p (\<lambda>x s'. R x) ?s"
    by (rule assms)
  then show ?thesis
    using Inr by (auto simp: pwp_def run_parser_def failure_def sql_failure_def frontend_error_def
        double_overflow_def split: sum.splits)
qed


text \<open>A script of one statement is that statement.\<close>

lemma p_statement_Inr:
  assumes "good src toks s" "p_statement s = Inr (st, s')"
  shows "good src toks s'" "ps_current s < ps_current s'" "tk_kind (cur s) \<noteq> K_EOF"
proof -
  show 1: "good src toks s'" "ps_current s < ps_current s'"
    using pok_wp [OF p_statement_ok assms(1), of "\<lambda>x s'. good src toks s' \<and> ps_current s < ps_current s'"]
      assms(2) by (auto simp: pwp_def)
  have "ps_current s = length toks - 1" if "tk_kind (cur s) = K_EOF"
  proof (rule ccontr)
    assume "ps_current s \<noteq> length toks - 1"
    then have "cur s \<in> set (butlast toks)"
      using assms(1) by (auto simp: good_def cur_def in_set_conv_nth nth_butlast
          intro!: exI [of _ "ps_current s"])
    then show False using that assms(1) by (auto simp: good_def token_seq_def)
  qed
  then show "tk_kind (cur s) \<noteq> K_EOF"
    using 1 by (auto simp: good_def)
qed

lemma p_script_loop_Suc:
  assumes "good src toks s"
  shows "p_script_loop (Suc n) acc s =
    (if tk_kind (cur s) = K_EOF then Inr (acc, s)
     else case p_statement s of
       Inl e \<Rightarrow> Inl e
     | Inr (st, s1) \<Rightarrow>
         if tk_kind (cur s1) = K_SEMICOLON then p_script_loop n (acc @ [st]) (nxt s1)
         else if tk_kind (cur s1) = K_EOF then p_script_loop n (acc @ [st]) s1
         else Inl (SQLError SQLParseError (''se esperaba ';' entre sentencias SQL'')
                (tk_span (cur s1)) (Some src)))"
proof (cases "p_statement s")
  case (Inl e)
  then show ?thesis using assms by (simp add: p_bind_def p_check_eq p_return_def)
next
  case (Inr r)
  obtain st s1 where r: "r = (st, s1)" by fastforce
  then have "good src toks s1" using p_statement_Inr [OF assms] Inr by blast
  moreover from this have "ps_source s1 = src" by (simp add: good_def)
  ultimately show ?thesis
    using assms Inr r
    by (simp add: p_bind_def p_check_eq p_return_def p_if_def p_match_eq p_error_here_def p_peek_eq
        p_error_def)
qed


definition start_state :: "string \<Rightarrow> token list \<Rightarrow> parser_state" where
  "start_state sql toks = \<lparr>ps_tokens = toks, ps_source = sql, ps_current = 0\<rparr>"

lemma run_parser_Inr_iff:
  "tokenize sql = Inr toks \<Longrightarrow>
     run_parser p sql = Inr x \<longleftrightarrow> (\<exists>s'. p (start_state sql toks) = Inr (x, s'))"
  by (auto simp: run_parser_def start_state_def bind_simps)

lemma start_state_good: "tokenize sql = Inr toks \<Longrightarrow> good sql toks (start_state sql toks)"
  using tokenize_token_seq by (auto simp: good_def token_seq_def start_state_def)

text \<open>The common part of both entry points after the first statement.\<close>

lemma p_parse_Inr_iff:
  assumes "good src toks s"
  shows "(\<exists>s'. p_parse s = Inr (st, s')) \<longleftrightarrow>
    (\<exists>s1. p_statement s = Inr (st, s1) \<and>
       (tk_kind (cur s1) = K_EOF \<or>
        (tk_kind (cur s1) = K_SEMICOLON \<and> tk_kind (cur (nxt s1)) = K_EOF)))"
proof (cases "p_statement s")
  case (Inr r)
  obtain x s1 where r: "r = (x, s1)" by fastforce
  then have g: "good src toks s1" using p_statement_Inr [OF assms] Inr by blast
  note eqs = p_parse_def p_bind_def p_if_def p_match_eq p_check_eq p_return_def p_expect_def
    p_advance_eq p_peek_eq p_error_here_def p_error_def p_raise_trailing_input_def
    p_raise_unsupported_def Let_def
  show ?thesis
  proof (cases "tk_kind (cur s1) = K_SEMICOLON")
    case True
    then have "good src toks (nxt s1)" using g by simp
    then show ?thesis using True g Inr r by (auto simp: eqs simp del: good_nxt)
  next
    case False
    then show ?thesis using g Inr r by (auto simp: eqs)
  qed
qed (simp add: p_parse_def p_bind_def)

lemma p_script_loop_grows:
  assumes "good src toks s" "p_script_loop n acc s = Inr (sts, s')"
  shows "length acc \<le> length sts \<and> (tk_kind (cur s) \<noteq> K_EOF \<longrightarrow> length acc < length sts)"
  using assms
proof (induction n arbitrary: acc s)
  case (Suc n)
  then show ?case
    using p_statement_Inr [OF Suc.prems(1)]
    by (fastforce simp: p_script_loop_Suc [OF Suc.prems(1)] simp del: p_script_loop.simps
        split: if_splits sum.splits prod.splits dest: Suc.IH [rotated])
qed (simp add: p_raise_def)

text \<open>The loop after one statement: it ends with that statement exactly at the end of the text.\<close>

lemma p_script_loop_last:
  assumes "good src toks s" "0 < n"
  shows "(\<exists>s'. p_script_loop n [x] s = Inr ([st], s')) \<longleftrightarrow> x = st \<and> tk_kind (cur s) = K_EOF"
proof -
  obtain m where n: "n = Suc m" using assms(2) by (cases n) auto
  show ?thesis
  proof (cases "tk_kind (cur s) = K_EOF")
    case True
    then have "p_script_loop n [x] s = Inr ([x], s)"
      unfolding n p_script_loop_Suc [OF assms(1)] by simp
    then show ?thesis using True by simp
  next
    case False
    then show ?thesis using p_script_loop_grows [OF assms(1), of n "[x]" "[st]"] by auto
  qed
qed

lemma p_statements_single_iff:
  assumes "good src toks s"
  shows "(\<exists>s'. p_statements s = Inr ([st], s')) \<longleftrightarrow> (\<exists>s'. p_parse s = Inr (st, s'))"
proof (cases "p_statement s")
  case (Inl e)
  then show ?thesis
    using assms p_parse_Inr_iff [OF assms, of st] p_script_loop_Suc [OF assms, of "length toks" "[]"]
    by (auto simp: p_statements_def good_def simp del: p_script_loop.simps)
next
  case (Inr r)
  obtain x s1 where r: "r = (x, s1)" by fastforce
  note s1 = p_statement_Inr [OF assms Inr [unfolded r]]
  have toks: "ps_tokens s = toks" "0 < length toks" using assms by (auto simp: good_def)
  show ?thesis
    unfolding p_parse_Inr_iff [OF assms] p_statements_def toks p_script_loop_Suc [OF assms]
    using s1 Inr r p_script_loop_last [OF s1(1) toks(2), of x st]
      p_script_loop_last [OF good_nxt [OF s1(1)] toks(2), of x st]
    by (auto simp del: p_script_loop.simps good_nxt)
qed


lemma parse_sql_error:
  assumes "parse_sql sql = Inl e" "e \<noteq> OverflowError"
  obtains cls msg sp where "e = SQLError cls msg sp (Some sql)" "located sql sp"
  using run_parser_cases [OF pok_wp [OF p_parse_ok], of sql "\<lambda>_. True"] assms
  unfolding parse_sql_def by (auto simp: frontend_error_def)

section \<open>Properties\<close>

text \<open>
  Claim C1. \<open>parse_sql\<close> on any text either returns a statement whose spans are all located in the
  text and whose literals and clauses respect the grammar (\<open>statement_ok\<close>), or raises a lexical,
  parse or unsupported error that carries the text and a span inside it. No \<open>IndexError\<close>,
  \<open>KeyError\<close>, \<open>ValueError\<close> or \<open>TypeError\<close> escapes from the parser and its loops end. The one
  exception of another class is the \<open>OverflowError\<close> of \<open>float\<close> on an integer of the text that no
  double represents.
\<close>

theorem parse_sql_safe:
  "(\<exists>st. parse_sql sql = Inr st \<and> statement_ok sql st)
   \<or> (\<exists>e. parse_sql sql = Inl e
        \<and> (frontend_error sql e \<or> (e = OverflowError \<and> double_overflow sql)))"
  unfolding parse_sql_def by (rule run_parser_cases) (rule pok_wp [OF p_parse_ok])

text \<open>
  Claim C16. \<open>parse_sql_script\<close> has the same guarantee for every statement of the script, and a
  script that parses has at least one statement.
\<close>

theorem parse_sql_script_safe:
  "(\<exists>sts. parse_sql_script sql = Inr sts \<and> sts \<noteq> [] \<and> list_all (statement_ok sql) sts)
   \<or> (\<exists>e. parse_sql_script sql = Inl e
        \<and> (frontend_error sql e \<or> (e = OverflowError \<and> double_overflow sql)))"
  using run_parser_cases [OF p_parse_script_wp, of sql
      "\<lambda>sts. sts \<noteq> [] \<and> list_all (statement_ok sql) sts"]
  unfolding parse_sql_script_def by blast

text \<open>The end of a script, before the check of the end of the text.\<close>

lemma p_parse_script_Inr_iff:
  assumes "good src toks s"
  shows "(\<exists>s'. p_parse_script s = Inr ([st], s')) \<longleftrightarrow> (\<exists>s'. p_statements s = Inr ([st], s'))"
proof -
  have "good src toks s' \<and> tk_kind (cur s') = K_EOF" if "p_statements s = Inr (sts, s')" for sts s'
    using p_statements_wp [OF assms, of "\<lambda>sts s'. good src toks s' \<and> tk_kind (cur s') = K_EOF"] that
    by (simp add: pwp_def)
  then have "p_parse_script s = Inr ([st], s')" if "p_statements s = Inr ([st], s')" for s'
    using that by (auto simp: p_parse_script_def p_bind_def p_return_def p_expect_def p_check_eq
        p_advance_eq)
  moreover have "\<exists>s'. p_statements s = Inr ([st], s')" if "p_parse_script s = Inr ([st], s')" for s'
    using that by (auto simp: p_parse_script_def p_bind_def bind_simps p_return_def split: if_splits)
  ultimately show ?thesis by blast
qed

text \<open>
  Claim C25. The two entry points agree: a text parses as one statement exactly when it parses as a
  script of that one statement.
\<close>

theorem parse_sql_script_single:
  "parse_sql sql = Inr st \<longleftrightarrow> parse_sql_script sql = Inr [st]"
proof (cases "tokenize sql")
  case (Inl e)
  then show ?thesis by (simp add: parse_sql_def parse_sql_script_def run_parser_def)
next
  case (Inr toks)
  note g = start_state_good [OF Inr]
  show ?thesis
    unfolding parse_sql_def parse_sql_script_def run_parser_Inr_iff [OF Inr]
      p_parse_script_Inr_iff [OF g] p_statements_single_iff [OF g] ..
qed


text \<open>
  Claim C24. The message of every SQL error of \<open>parse_sql\<close> shows the line of the text the error is
  on, and under it a marker of at least one caret that starts exactly below the error's column.
\<close>

theorem parse_sql_error_marker:
  assumes "parse_sql sql = Inl e" "e \<noteq> OverflowError"
  shows "\<exists>pre w. source_fragment e =
       Some (split_lines sql ! nat (err_line e - 1), pre @ replicate w CHR ''^'')
     \<and> nat (err_line e - 1) < length (split_lines sql)
     \<and> int (length pre) = err_column e - 1 \<and> set pre \<subseteq> {CHR 0x09, CHR '' ''} \<and> 1 \<le> w"
proof -
  obtain cls msg sp where "e = SQLError cls msg sp (Some sql)" "located sql sp"
    by (rule parse_sql_error [OF assms])
  then show ?thesis
    using source_fragment_located [of sql sp cls msg] by (simp add: err_line_def err_column_def)
qed

lemma parse_sql_error_marker_witness:
  "\<exists>e. parse_sql '' ?'' = Inl e \<and> err_column e = 2 \<and>
     (\<exists>pre w. source_fragment e = Some ('' ?'', pre @ replicate w CHR ''^'') \<and> length pre = 1)"
proof -
  let ?e = "SQLError SQLLexError (''caracter inesperado '' @ repr_str ''?'')
    \<lparr>sp_start = 1, sp_end = 2, sp_line = 1, sp_column = 2, sp_end_line = 1, sp_end_column = 3\<rparr>
    (Some '' ?'')"
  have "parse_sql '' ?'' = Inl ?e" by code_simp
  from parse_sql_error_marker [OF this] this show ?thesis
    by (intro exI [of _ ?e]) (auto simp: err_line_def err_column_def)
qed

end
