(* ===== verification/Py_Json.thy ===== *)
theory Py_Json
  imports Sql_Span Py_Float
begin

text \<open>
  The values a JSON document has in Python (\<open>None\<close>, \<open>bool\<close>, \<open>int\<close>, \<open>float\<close>, \<open>str\<close>, \<open>list\<close>,
  \<open>dict\<close>), the conversions \<open>int(value)\<close> and \<open>float(value)\<close> of such a value, and \<open>round(x, 3)\<close>. A
  dictionary is the list of its items, with distinct keys, in order. The texts of the exceptions
  that Python itself raises are left empty.
\<close>

datatype json =
    JNull
  | JBool bool
  | JInt int
  | JFloat pyfloat
  | JStr string
  | JList "json list"
  | JDict "(string \<times> json) list"

section \<open>Numerals in text\<close>

definition is_py_space :: "char \<Rightarrow> bool" where
  "is_py_space c \<longleftrightarrow>
     char_between CHR 0x09 CHR 0x0D c \<or> char_between CHR 0x1C CHR 0x20 c
     \<or> c = CHR 0x85 \<or> c = CHR 0xA0"

definition strip :: "string \<Rightarrow> string" where
  "strip s = rev (dropWhile is_py_space (rev (dropWhile is_py_space s)))"

text \<open>A sign in front of a numeral.\<close>

fun signed :: "string \<Rightarrow> bool \<times> string" where
  "signed (c # s) = (if c = CHR ''-'' then (True, s) else if c = CHR ''+'' then (False, s)
                     else (False, c # s))"
| "signed [] = (False, [])"

text \<open>Digits with single underscores between them: the digits, when the text is of that form.\<close>

fun digit_run :: "string \<Rightarrow> string option" where
  "digit_run [] = None"
| "digit_run [c] = (if is_digit c then Some [c] else None)"
| "digit_run (c # d # s) =
     (if \<not> is_digit c then None
      else map_option ((#) c) (if d = CHR ''_'' then digit_run s else digit_run (d # s)))"

text \<open>\<open>int(text)\<close>: at most 4300 digits.\<close>

definition int_of_text :: "string \<Rightarrow> exn + int" where
  "int_of_text text =
     (let (neg, s) = signed (strip text) in
      case digit_run s of
        None \<Rightarrow> Inl (ValueError [])
      | Some ds \<Rightarrow> if 4300 < length ds then Inl (ValueError [])
                   else Inr (if neg then - digits_value ds else digits_value ds))"

text \<open>
  \<open>float(text)\<close>: a word for an infinity or a NaN, or a decimal numeral with an optional fraction and
  exponent.
\<close>

definition split_at :: "(char \<Rightarrow> bool) \<Rightarrow> string \<Rightarrow> string \<times> string option" where
  "split_at p s =
     (let rest = dropWhile (\<lambda>c. \<not> p c) s in
      (takeWhile (\<lambda>c. \<not> p c) s, case rest of [] \<Rightarrow> None | _ # t \<Rightarrow> Some t))"

text \<open>The digits of the mantissa before and after its point: one of the two may be empty.\<close>

definition mantissa :: "string \<Rightarrow> (string \<times> string) option" where
  "mantissa s =
     (case split_at (\<lambda>c. c = CHR ''.'') s of
        (ip, None) \<Rightarrow> map_option (\<lambda>ds. (ds, [])) (digit_run ip)
      | (ip, Some fp) \<Rightarrow>
          if ip = [] then map_option (\<lambda>ds. ([], ds)) (digit_run fp)
          else if fp = [] then map_option (\<lambda>ds. (ds, [])) (digit_run ip)
          else (case (digit_run ip, digit_run fp) of
                  (Some a, Some b) \<Rightarrow> Some (a, b) | _ \<Rightarrow> None))"

definition exponent :: "string option \<Rightarrow> int option" where
  "exponent e =
     (case e of
        None \<Rightarrow> Some 0
      | Some t \<Rightarrow>
          let (neg, s) = signed t in
          map_option (\<lambda>ds. if neg then - digits_value ds else digits_value ds) (digit_run s))"

definition float_of_text :: "string \<Rightarrow> exn + pyfloat" where
  "float_of_text text =
     (let (neg, s) = signed (strip text) in
      if lower s = ''inf'' \<or> lower s = ''infinity'' then Inr (if neg then NegInf else PosInf)
      else if lower s = ''nan'' then Inr NaN
      else
      let (m, e) = split_at (\<lambda>c. c = CHR ''e'' \<or> c = CHR ''E'') s in
      case (mantissa m, exponent e) of
        (Some (ip, fp), Some k) \<Rightarrow>
          let q = decimal_value neg ip fp in
          Inr (round_binary64 (if 0 \<le> k then q * 10 ^ nat k else q / 10 ^ nat (- k)))
      | _ \<Rightarrow> Inl (ValueError []))"

section \<open>Conversions of a value\<close>

definition truncate :: "rat \<Rightarrow> int" where
  "truncate q = (if q < 0 then - \<lfloor>- q\<rfloor> else \<lfloor>q\<rfloor>)"

fun py_int :: "json \<Rightarrow> exn + int" where
  "py_int (JBool b) = Inr (if b then 1 else 0)"
| "py_int (JInt n) = Inr n"
| "py_int (JFloat (Fin q)) = Inr (truncate q)"
| "py_int (JFloat NaN) = Inl (ValueError [])"
| "py_int (JFloat _) = Inl OverflowError"
| "py_int (JStr s) = int_of_text s"
| "py_int _ = Inl (TypeError [])"

fun py_float :: "json \<Rightarrow> exn + pyfloat" where
  "py_float (JBool b) = Inr (Fin (if b then 1 else 0))"
| "py_float (JInt n) = (case float_of_int n of None \<Rightarrow> Inl OverflowError | Some x \<Rightarrow> Inr x)"
| "py_float (JFloat x) = Inr x"
| "py_float (JStr s) = float_of_text s"
| "py_float _ = Inl (TypeError [])"

text \<open>\<open>round(x, 3)\<close>: the double nearest to the decimal with three digits nearest to the value.\<close>

definition round3 :: "pyfloat \<Rightarrow> pyfloat" where
  "round3 x =
     (case x of
        Fin q \<Rightarrow> round_binary64 (of_int (round_half_even (q * 1000)) / 1000)
      | _ \<Rightarrow> x)"

section \<open>Dictionaries\<close>

text \<open>\<open>d.get(key, default)\<close> and \<open>d[key]\<close>; the receiver may be any value.\<close>

fun dict_get :: "json \<Rightarrow> string \<Rightarrow> json \<Rightarrow> exn + json" where
  "dict_get (JDict kvs) k d = Inr (case map_of kvs k of None \<Rightarrow> d | Some v \<Rightarrow> v)"
| "dict_get _ k d = Inl (AttributeError ''get'')"

fun dict_item :: "json \<Rightarrow> string \<Rightarrow> exn + json" where
  "dict_item (JDict kvs) k = (case map_of kvs k of None \<Rightarrow> Inl (KeyError k) | Some v \<Rightarrow> Inr v)"
| "dict_item _ k = Inl (TypeError [])"

text \<open>The elements a \<open>for\<close> loop takes from a value: a dictionary gives its keys, a text its characters.\<close>

fun json_iter :: "json \<Rightarrow> exn + json list" where
  "json_iter (JList xs) = Inr xs"
| "json_iter (JDict kvs) = Inr (map (JStr \<circ> fst) kvs)"
| "json_iter (JStr s) = Inr (map (\<lambda>c. JStr [c]) s)"
| "json_iter _ = Inl (TypeError [])"

lemma size_map_of: "map_of kvs k = Some v \<Longrightarrow> size v < size (JDict kvs)"
  by (induction kvs) (auto split: if_splits)

lemma size_json_iter:
  assumes "json_iter v = Inr xs" "x \<in> set xs"
  shows "size x < Suc (size v)"
  using assms by (cases v) (auto dest: size_list_estimation' [where f = size])

end
