(* ===== verification/Planner_Plan.thy ===== *)
theory Planner_Plan
  imports Py_Json
begin

text \<open>
  The report of a plan (\<open>engine/planner/plan.py\<close>): operations, structures, counters and the tree of
  measured steps, with its JSON form. The annotations of \<open>Step\<close> are not checked at run time and
  \<open>from_dict\<close> stores what the document holds, so the free fields of a step are JSON values.
  \<open>subtree_time_ms\<close> is not modelled: the result of \<open>sum\<close> over doubles depends on the version of the
  interpreter.
\<close>

datatype plan_op = OP_SCAN | OP_SEARCH | OP_RANGE_SEARCH | OP_INDEX_SEARCH | OP_INDEX_RANGE
  | OP_RADIUS_SEARCH | OP_KNN_SEARCH | OP_POLYGON_SEARCH | OP_TEXT_SEARCH | OP_FETCH | OP_FILTER
  | OP_PROJECT | OP_SORT | OP_GROUP | OP_JOIN | OP_LIMIT | OP_INSERT | OP_REMOVE | OP_UPDATE

fun op_value :: "plan_op \<Rightarrow> string" where
  "op_value OP_SCAN = ''scan''"
| "op_value OP_SEARCH = ''search''"
| "op_value OP_RANGE_SEARCH = ''range_search''"
| "op_value OP_INDEX_SEARCH = ''index_search''"
| "op_value OP_INDEX_RANGE = ''index_range''"
| "op_value OP_RADIUS_SEARCH = ''radius_search''"
| "op_value OP_KNN_SEARCH = ''knn_search''"
| "op_value OP_POLYGON_SEARCH = ''polygon_search''"
| "op_value OP_TEXT_SEARCH = ''text_search''"
| "op_value OP_FETCH = ''fetch''"
| "op_value OP_FILTER = ''filter''"
| "op_value OP_PROJECT = ''project''"
| "op_value OP_SORT = ''sort''"
| "op_value OP_GROUP = ''group''"
| "op_value OP_JOIN = ''join''"
| "op_value OP_LIMIT = ''limit''"
| "op_value OP_INSERT = ''insert''"
| "op_value OP_REMOVE = ''remove''"
| "op_value OP_UPDATE = ''update''"

definition all_ops :: "plan_op list" where
  "all_ops = [OP_SCAN, OP_SEARCH, OP_RANGE_SEARCH, OP_INDEX_SEARCH, OP_INDEX_RANGE,
     OP_RADIUS_SEARCH, OP_KNN_SEARCH, OP_POLYGON_SEARCH, OP_TEXT_SEARCH, OP_FETCH, OP_FILTER,
     OP_PROJECT, OP_SORT, OP_GROUP, OP_JOIN, OP_LIMIT, OP_INSERT, OP_REMOVE, OP_UPDATE]"

datatype plan_structure = ST_HEAP | ST_SEQUENTIAL | ST_BPLUS_CLUSTERED | ST_BPLUS_UNCLUSTERED
  | ST_EXTENDIBLE_HASH | ST_RTREE | ST_INVERTED_INDEX | ST_IVF | ST_HNSW | ST_EXTERNAL_SORT
  | ST_EXTERNAL_HASH | ST_MEMORY

fun structure_value :: "plan_structure \<Rightarrow> string" where
  "structure_value ST_HEAP = ''heap''"
| "structure_value ST_SEQUENTIAL = ''sequential''"
| "structure_value ST_BPLUS_CLUSTERED = ''bplus_clustered''"
| "structure_value ST_BPLUS_UNCLUSTERED = ''bplus_unclustered''"
| "structure_value ST_EXTENDIBLE_HASH = ''extendible_hash''"
| "structure_value ST_RTREE = ''rtree''"
| "structure_value ST_INVERTED_INDEX = ''inverted_index''"
| "structure_value ST_IVF = ''ivf''"
| "structure_value ST_HNSW = ''hnsw''"
| "structure_value ST_EXTERNAL_SORT = ''external_sort''"
| "structure_value ST_EXTERNAL_HASH = ''external_hash''"
| "structure_value ST_MEMORY = ''memory''"

definition all_structures :: "plan_structure list" where
  "all_structures = [ST_HEAP, ST_SEQUENTIAL, ST_BPLUS_CLUSTERED, ST_BPLUS_UNCLUSTERED,
     ST_EXTENDIBLE_HASH, ST_RTREE, ST_INVERTED_INDEX, ST_IVF, ST_HNSW, ST_EXTERNAL_SORT,
     ST_EXTERNAL_HASH, ST_MEMORY]"

text \<open>The constructor call of an enumeration of strings, \<open>Op(value)\<close>: the member with that value.\<close>

definition enum_of :: "('a \<Rightarrow> string) \<Rightarrow> 'a list \<Rightarrow> string \<Rightarrow> exn + 'a" where
  "enum_of val members s =
     (case List.find (\<lambda>m. val m = s) members of
        None \<Rightarrow> Inl (ValueError s) | Some m \<Rightarrow> Inr m)"

definition op_of :: "string \<Rightarrow> exn + plan_op" where
  "op_of = enum_of op_value all_ops"

definition structure_of :: "string \<Rightarrow> exn + plan_structure" where
  "structure_of = enum_of structure_value all_structures"

fun enum_json :: "(string \<Rightarrow> exn + 'a) \<Rightarrow> json \<Rightarrow> exn + 'a" where
  "enum_json f (JStr s) = f s"
| "enum_json f v = Inl (ValueError [])"

lemma op_of_value [simp]: "op_of (op_value p) = Inr p"
  by (cases p) (simp_all add: op_of_def enum_of_def all_ops_def)

lemma structure_of_value [simp]: "structure_of (structure_value s) = Inr s"
  by (cases s) (simp_all add: structure_of_def enum_of_def all_structures_def)

section \<open>Counters\<close>

datatype stats = Stats (pages_read: int) (pages_written: int) (records_examined: int)
  (records_returned: int)

text \<open>\<open>Stats.__add__\<close>, with the zero that the dataclass has by default.\<close>

instantiation stats :: comm_monoid_add
begin

definition zero_stats :: stats where
  "zero_stats = Stats 0 0 0 0"

definition plus_stats :: "stats \<Rightarrow> stats \<Rightarrow> stats" where
  "plus_stats a b = Stats (pages_read a + pages_read b) (pages_written a + pages_written b)
     (records_examined a + records_examined b) (records_returned a + records_returned b)"

instance
  by standard (auto simp: zero_stats_def plus_stats_def stats.expand)

end

definition stats_to_dict :: "stats \<Rightarrow> json" where
  "stats_to_dict s = JDict [(''pages_read'', JInt (pages_read s)),
     (''pages_written'', JInt (pages_written s)), (''records_examined'', JInt (records_examined s)),
     (''records_returned'', JInt (records_returned s))]"

definition stats_field :: "json \<Rightarrow> string \<Rightarrow> exn + int" where
  "stats_field d k = ebind (dict_get d k (JInt 0)) py_int"

definition stats_from_dict :: "json \<Rightarrow> exn + stats" where
  "stats_from_dict d =
     ebind (stats_field d ''pages_read'') (\<lambda>a.
     ebind (stats_field d ''pages_written'') (\<lambda>b.
     ebind (stats_field d ''records_examined'') (\<lambda>c.
     ebind (stats_field d ''records_returned'') (\<lambda>e. Inr (Stats a b c e)))))"

lemma stats_roundtrip [simp]: "stats_from_dict (stats_to_dict s) = Inr s"
  by (simp add: stats_from_dict_def stats_to_dict_def stats_field_def)

section \<open>Steps\<close>

datatype step = Step (st_op: plan_op) (st_structure: plan_structure) (st_table: json) (st_column: json)
  (st_detail: json) (st_stats: stats) (st_time_ms: pyfloat) (st_children: "step list")
  (st_ranking: json) (st_metric: json)

fun subtree_stats :: "step \<Rightarrow> stats" where
  "subtree_stats (Step p s t c d n ms children r m) =
     foldl (\<lambda>total child. total + subtree_stats child) n children"

fun walk :: "step \<Rightarrow> step list" where
  "walk (Step p s t c d n ms children r m) =
     concat (map walk children) @ [Step p s t c d n ms children r m]"

fun step_to_dict :: "step \<Rightarrow> json" where
  "step_to_dict (Step p s t c d n ms children r m) =
     JDict [(''op'', JStr (op_value p)), (''structure'', JStr (structure_value s)),
       (''table'', t), (''column'', c), (''detail'', d), (''stats'', stats_to_dict n),
       (''time_ms'', JFloat (round3 ms)), (''ranking'', r), (''metric'', m),
       (''children'', JList (map step_to_dict children))]"

function step_from_dict :: "json \<Rightarrow> exn + step" where
  "step_from_dict d =
     ebind (ebind (dict_item d ''op'') (enum_json op_of)) (\<lambda>p.
     ebind (ebind (dict_item d ''structure'') (enum_json structure_of)) (\<lambda>s.
     ebind (dict_get d ''table'' JNull) (\<lambda>t.
     ebind (dict_get d ''column'' JNull) (\<lambda>c.
     ebind (dict_get d ''detail'' (JStr [])) (\<lambda>dt.
     ebind (ebind (dict_get d ''stats'' (JDict [])) stats_from_dict) (\<lambda>n.
     ebind (ebind (dict_get d ''time_ms'' (JFloat (Fin 0))) py_float) (\<lambda>ms.
     ebind (ebind (dict_get d ''children'' (JList [])) json_iter) (\<lambda>cs.
     ebind (emap step_from_dict cs) (\<lambda>children.
     ebind (dict_get d ''ranking'' JNull) (\<lambda>r.
     ebind (dict_get d ''metric'' JNull) (\<lambda>m.
     Inr (Step p s t c dt n ms children r m))))))))))))"
  by pat_completeness auto
termination
proof (relation "measure size", simp)
  fix d p s t c dt n ms cs x
  assume "ebind (dict_get d ''children'' (JList [])) json_iter = Inr cs" "x \<in> set cs"
    and s: "ebind (dict_item d ''structure'') (enum_json structure_of) = Inr s"
  then obtain v where v: "dict_get d ''children'' (JList []) = Inr v" "json_iter v = Inr cs"
    by (auto simp: bind_simps)
  obtain kvs where d: "d = JDict kvs" using v(1) by (cases d) auto
  then have "v = JList [] \<or> size v < size d"
    using v(1) size_map_of [of kvs "''children''"] by (auto split: option.splits)
  then show "(x, d) \<in> measure size"
    using size_json_iter [OF v(2) \<open>x \<in> set cs\<close>] v(2) \<open>x \<in> set cs\<close> by auto
qed

declare step_from_dict.simps [simp del]

section \<open>Plans\<close>

datatype plan = Plan (pl_query: json) (pl_root: step) (pl_time_ms: pyfloat)

definition plan_to_dict :: "plan \<Rightarrow> json" where
  "plan_to_dict p =
     JDict [(''query'', pl_query p), (''time_ms'', JFloat (round3 (pl_time_ms p))),
       (''totals'', stats_to_dict (subtree_stats (pl_root p))),
       (''root'', step_to_dict (pl_root p))]"

definition plan_from_dict :: "json \<Rightarrow> exn + plan" where
  "plan_from_dict d =
     ebind (dict_item d ''query'') (\<lambda>q.
     ebind (ebind (dict_item d ''root'') step_from_dict) (\<lambda>root.
     ebind (ebind (dict_get d ''time_ms'' (JFloat (Fin 0))) py_float) (\<lambda>ms.
     Inr (Plan q root ms))))"

text \<open>The structures that touched the disk, in the order of their first step.\<close>

fun add_structures :: "plan_structure list \<Rightarrow> step list \<Rightarrow> plan_structure list" where
  "add_structures seen [] = seen"
| "add_structures seen (st # sts) =
     (if st_structure st \<noteq> ST_MEMORY \<and> st_structure st \<notin> set seen
      then add_structures (seen @ [st_structure st]) sts else add_structures seen sts)"

definition structures_used :: "plan \<Rightarrow> plan_structure list" where
  "structures_used p = add_structures [] (walk (pl_root p))"

section \<open>Properties\<close>

lemma foldl_plus: "foldl (\<lambda>total x. total + f x) (n :: stats) xs = n + sum_list (map f xs)"
  by (induction xs arbitrary: n) (simp_all add: add.assoc)

lemma sum_list_concat_map: "sum_list (concat (map f xs)) = (sum_list (map (sum_list \<circ> f) xs) :: stats)"
  by (induction xs) simp_all

text \<open>
  Claim C40. The totals of a plan are the sum of the counters of its steps: the value of
  \<open>subtree_stats\<close> at a node is the sum over the steps that \<open>walk\<close> lists below it.
\<close>

theorem subtree_stats_walk: "subtree_stats s = sum_list (map st_stats (walk s))"
proof (induction s)
  case (Step p s t c d n ms children r m)
  then have "map subtree_stats children = map (\<lambda>x. sum_list (map st_stats (walk x))) children"
    by (intro map_cong) auto
  then show ?case
    by (simp add: foldl_plus map_concat sum_list_concat_map comp_def add.commute del: map_eq_conv)
qed

text \<open>The step a report is read back as: times have three decimals.\<close>

fun rounded :: "step \<Rightarrow> step" where
  "rounded (Step p s t c d n ms children r m) =
     Step p s t c d n (round3 ms) (map rounded children) r m"

lemma step_roundtrip: "step_from_dict (step_to_dict s) = Inr (rounded s)"
proof (induction s)
  case (Step p s t c d n ms children r m)
  have "emap step_from_dict (map step_to_dict children) = Inr (map rounded children)"
    by (rule emap_map) (rule Step.IH)
  then show ?case by (subst step_from_dict.simps) simp
qed

text \<open>
  Claim C28. A plan is read back from its own report: \<open>Plan.from_dict(plan.to_dict())\<close> is the plan
  with its times rounded to three decimals, every step, counter and annotation unchanged.
\<close>

theorem plan_roundtrip:
  "plan_from_dict (plan_to_dict p)
   = Inr (Plan (pl_query p) (rounded (pl_root p)) (round3 (pl_time_ms p)))"
  by (simp add: plan_from_dict_def plan_to_dict_def step_roundtrip)

lemma remdups_rev_snoc:
  "rev (remdups (rev (xs @ [x]))) = (if x \<in> set xs then rev (remdups (rev xs)) else rev (remdups (rev xs)) @ [x])"
  by simp

lemma add_structures_first:
  "add_structures (rev (remdups (rev xs))) sts =
   rev (remdups (rev (xs @ filter (\<lambda>s. s \<noteq> ST_MEMORY) (map st_structure sts))))"
proof (induction sts arbitrary: xs)
  case (Cons st sts)
  show ?case
  proof (cases "st_structure st \<noteq> ST_MEMORY")
    case True
    then show ?thesis
      using Cons [of "xs @ [st_structure st]"] Cons [of xs]
      by (auto simp: remdups_rev_snoc)
  qed (use Cons in simp)
qed simp

text \<open>
  Claim C39. \<open>structures_used\<close> is the list of the structures of the executed steps without those in
  memory, each at its first occurrence: nothing is repeated and the order of execution is kept.
\<close>

theorem structures_used_first:
  "structures_used p =
     rev (remdups (rev (filter (\<lambda>s. s \<noteq> ST_MEMORY) (map st_structure (walk (pl_root p))))))"
  using add_structures_first [of "[]" "walk (pl_root p)"] by (simp add: structures_used_def)

end
