(* ===== verification/Planner_Optimizer.thy ===== *)
theory Planner_Optimizer
  imports Bound_Ast Planner_Plan "HOL-Library.Product_Lexorder"
begin

text \<open>
  The choice of physical routes (\<open>engine/planner/optimizer.py\<close>): the metadata of tables and indexes,
  the physical plans with the checks of their constructors, and \<open>optimize_select\<close> and
  \<open>optimize_delete\<close>. A constructor is a function that returns the record or the \<open>ValueError\<close> of its
  \<open>__post_init__\<close>.

  The code compares the leaves of a \<open>FROM\<close> by identity. Every leaf that \<open>bind_select\<close> builds is an
  object of its own, so a leaf is identified here by its number from left to right.
\<close>

datatype access_route = R_SCAN | R_TABLE_SEARCH | R_TABLE_RANGE | R_INDEX_SEARCH | R_INDEX_RANGE
  | R_RTREE_RADIUS | R_RTREE_KNN | R_RTREE_POLYGON | R_TEXT_SEARCH | R_VECTOR_KNN | R_VECTOR_SCAN

fun route_value :: "access_route \<Rightarrow> string" where
  "route_value R_SCAN = ''scan''"
| "route_value R_TABLE_SEARCH = ''table_search''"
| "route_value R_TABLE_RANGE = ''table_range''"
| "route_value R_INDEX_SEARCH = ''index_search''"
| "route_value R_INDEX_RANGE = ''index_range''"
| "route_value R_RTREE_RADIUS = ''rtree_radius''"
| "route_value R_RTREE_KNN = ''rtree_knn''"
| "route_value R_RTREE_POLYGON = ''rtree_polygon''"
| "route_value R_TEXT_SEARCH = ''text_search''"
| "route_value R_VECTOR_KNN = ''vector_knn''"
| "route_value R_VECTOR_SCAN = ''vector_scan''"

definition repr_route :: "access_route \<Rightarrow> string" where
  "repr_route r =
     ''<AccessRoute.'' @ upper (route_value r) @ '': '' @ repr_str (route_value r) @ ''>''"

datatype join_strategy = JOIN_AUTO | JOIN_HASH

datatype group_strategy = GROUP_AUTO | GROUP_HASH

text \<open>The common form of the checks: \<open>if bad: raise ValueError(text)\<close>.\<close>

definition value_error_if :: "bool \<Rightarrow> string \<Rightarrow> exn + unit" where
  "value_error_if bad text = ensure (\<not> bad) (ValueError text)"

lemma value_error_if_Inr [bind_simps]: "value_error_if bad text = Inr u \<longleftrightarrow> \<not> bad"
  by (simp add: value_error_if_def bind_simps)

lemma value_error_if_simps [simp]:
  "value_error_if False text = Inr ()" "value_error_if True text = Inl (ValueError text)"
  by (simp_all add: value_error_if_def)

section \<open>Metadata\<close>

record index_metadata =
  im_name :: string
  im_column :: int
  im_structure :: plan_structure
  im_supports_range :: bool

definition index_structures :: "plan_structure list" where
  "index_structures = [ST_BPLUS_UNCLUSTERED, ST_EXTENDIBLE_HASH, ST_RTREE, ST_INVERTED_INDEX,
     ST_IVF, ST_HNSW]"

definition repr_bool :: "bool \<Rightarrow> string" where
  "repr_bool b = (if b then ''True'' else ''False'')"

definition make_index_metadata ::
  "string \<Rightarrow> int \<Rightarrow> plan_structure \<Rightarrow> bool \<Rightarrow> exn + index_metadata" where
  "make_index_metadata name column st supports_range =
     ebind (value_error_if (name = []) ''el indice necesita un nombre'') (\<lambda>_.
     ebind (value_error_if (column < 0)
       ''la posicion de la columna del indice no puede ser negativa'') (\<lambda>_.
     ebind (value_error_if (st \<notin> set index_structures)
       (''estructura de indice secundario invalida: '' @ structure_value st)) (\<lambda>_.
     ebind (value_error_if (supports_range \<noteq> (st = ST_BPLUS_UNCLUSTERED))
       (''supports_range='' @ repr_bool supports_range @ '' contradice '' @ structure_value st)) (\<lambda>_.
     Inr \<lparr>im_name = name, im_column = column, im_structure = st,
          im_supports_range = supports_range\<rparr>))))"

record table_metadata =
  tm_name :: string
  tm_structure :: plan_structure
  tm_indexes :: "index_metadata list"
  tm_rows :: "int option"

definition table_structures :: "plan_structure list" where
  "table_structures = [ST_HEAP, ST_SEQUENTIAL, ST_BPLUS_CLUSTERED]"

definition make_table_metadata ::
  "string \<Rightarrow> plan_structure \<Rightarrow> index_metadata list \<Rightarrow> int option \<Rightarrow> exn + table_metadata" where
  "make_table_metadata name st indexes rows =
     ebind (value_error_if (name = []) ''la tabla necesita un nombre'') (\<lambda>_.
     ebind (value_error_if (case rows of None \<Rightarrow> False | Some n \<Rightarrow> n < 0)
       ''el conteo de filas no puede ser negativo'') (\<lambda>_.
     ebind (value_error_if (st \<notin> set table_structures)
       (''estructura de tabla invalida: '' @ structure_value st)) (\<lambda>_.
     Inr \<lparr>tm_name = name, tm_structure = st, tm_indexes = indexes, tm_rows = rows\<rparr>)))"

section \<open>Physical plans\<close>

record table_access =
  pa_table :: table_metadata
  pa_route :: access_route
  pa_index :: "index_metadata option"
  pa_residual :: bool
  pa_nearest :: "bound_order_by option"
  pa_nearest_limit :: "int option"
  pa_text_limit :: "int option"

definition is_index_route :: "access_route \<Rightarrow> bool" where
  "is_index_route r \<longleftrightarrow> r \<in> {R_INDEX_SEARCH, R_INDEX_RANGE, R_RTREE_RADIUS, R_RTREE_KNN,
     R_RTREE_POLYGON, R_TEXT_SEARCH, R_VECTOR_KNN}"

definition is_spatial_route :: "access_route \<Rightarrow> bool" where
  "is_spatial_route r \<longleftrightarrow> r \<in> {R_RTREE_RADIUS, R_RTREE_KNN, R_RTREE_POLYGON}"

definition is_vector_structure :: "plan_structure \<Rightarrow> bool" where
  "is_vector_structure st \<longleftrightarrow> st = ST_IVF \<or> st = ST_HNSW"

text \<open>The checks on the parameters of a text and of a nearest-neighbour search.\<close>

definition check_text_limit :: "table_access \<Rightarrow> exn + unit" where
  "check_text_limit a =
     (case pa_text_limit a of
        None \<Rightarrow> Inr ()
      | Some n \<Rightarrow>
          ebind (value_error_if (pa_route a \<noteq> R_TEXT_SEARCH)
            ''solo TEXT_SEARCH admite un limite de documentos'') (\<lambda>_.
          value_error_if (n < 0) ''el limite de documentos no puede ser negativo''))"

definition check_nearest :: "table_access \<Rightarrow> exn + unit" where
  "check_nearest a =
     (if pa_route a = R_RTREE_KNN then
        (case (pa_nearest a, pa_nearest_limit a) of
           (Some nearest, Some n) \<Rightarrow>
             ebind (value_error_if (n < 0)
               ''RTREE_KNN necesita un orden espacial y un limite no negativo'') (\<lambda>_.
             value_error_if (order_direction_of nearest \<noteq> ORDER_ASC \<or> pa_residual a)
               ''RTREE_KNN necesita orden ASC sin filtro residual'')
         | _ \<Rightarrow> Inl (ValueError ''RTREE_KNN necesita un orden espacial y un limite no negativo''))
      else value_error_if (pa_nearest a \<noteq> None \<or> pa_nearest_limit a \<noteq> None)
        ''solo RTREE_KNN admite parametros de vecinos'')"

text \<open>The checks on the index of an index route.\<close>

definition check_access_index :: "table_access \<Rightarrow> index_metadata \<Rightarrow> exn + unit" where
  "check_access_index a ix =
     ebind (value_error_if (ix \<notin> set (tm_indexes (pa_table a)))
       ''el indice elegido no pertenece a la metadata de la tabla'') (\<lambda>_.
     ebind (value_error_if (pa_route a = R_INDEX_RANGE \<and> \<not> im_supports_range ix)
       ''INDEX_RANGE necesita un indice que soporte rangos'') (\<lambda>_.
     ebind (if pa_route a = R_VECTOR_KNN then
              value_error_if (\<not> is_vector_structure (im_structure ix))
                ''VECTOR_KNN necesita IVF o HNSW''
            else value_error_if (is_vector_structure (im_structure ix))
                ''IVF y HNSW solo se usan con VECTOR_KNN'') (\<lambda>_.
     ebind (if is_spatial_route (pa_route a) then
              value_error_if (im_structure ix \<noteq> ST_RTREE)
                ''una ruta espacial necesita un indice R-Tree''
            else if im_structure ix = ST_RTREE then
              Inl (ValueError ''un R-Tree solo se usa con una ruta espacial'')
            else if pa_route a = R_TEXT_SEARCH then
              value_error_if (im_structure ix \<noteq> ST_INVERTED_INDEX)
                ''TEXT_SEARCH necesita un indice de texto''
            else value_error_if (im_structure ix = ST_INVERTED_INDEX)
                ''un indice de texto no es una ruta de igualdad ni de rango'') (\<lambda>_.
     case pa_nearest a of
       None \<Rightarrow> Inr ()
     | Some nearest \<Rightarrow>
         value_error_if (im_column ix \<noteq> int (br_index (order_column nearest)))
           ''el indice no corresponde a la columna del orden espacial''))))"

definition make_access :: "table_access \<Rightarrow> exn + table_access" where
  "make_access a =
     ebind (check_text_limit a) (\<lambda>_.
     ebind (value_error_if (pa_route a = R_TEXT_SEARCH \<and> pa_residual a)
       ''TEXT_SEARCH no tiene filtro residual: el indice decide que coincide'') (\<lambda>_.
     ebind (check_nearest a) (\<lambda>_.
     ebind (value_error_if (is_index_route (pa_route a) \<noteq> (pa_index a \<noteq> None))
       ''las rutas de indice necesitan exactamente un indice'') (\<lambda>_.
     ebind (case pa_index a of None \<Rightarrow> Inr () | Some ix \<Rightarrow> check_access_index a ix) (\<lambda>_.
     Inr a)))))"

text \<open>A call with the defaults of the last three fields.\<close>

definition plain_access ::
  "table_metadata \<Rightarrow> access_route \<Rightarrow> index_metadata option \<Rightarrow> bool \<Rightarrow> table_access" where
  "plain_access table route index residual =
     \<lparr>pa_table = table, pa_route = route, pa_index = index, pa_residual = residual,
      pa_nearest = None, pa_nearest_limit = None, pa_text_limit = None\<rparr>"

datatype physical_source =
    PAccess table_access
  | PJoin physical_source physical_source nat nat join_strategy "index_metadata option" bool bool

definition make_join ::
  "physical_source \<Rightarrow> physical_source \<Rightarrow> nat \<Rightarrow> nat \<Rightarrow> join_strategy \<Rightarrow> index_metadata option \<Rightarrow> bool
   \<Rightarrow> bool \<Rightarrow> exn + physical_source" where
  "make_join left right left_column right_column strategy probe on_primary residual =
     (let has_probe = probe \<noteq> None \<or> on_primary in
      ebind (value_error_if (strategy = JOIN_AUTO \<and> \<not> has_probe)
        ''AUTO solo tiene sentido si hay una sonda que evaluar'') (\<lambda>_.
      ebind (value_error_if (strategy = JOIN_HASH \<and> has_probe)
        ''con una sonda disponible la eleccion la hace AUTO'') (\<lambda>_.
      ebind (value_error_if (probe \<noteq> None \<and> on_primary)
        ''la sonda es el indice secundario o la clave primaria, no ambos'') (\<lambda>_.
      Inr (PJoin left right left_column right_column strategy probe on_primary residual)))))"

fun join_left_rows :: "physical_source \<Rightarrow> int option" where
  "join_left_rows (PJoin (PAccess a) _ _ _ _ _ _ _) = tm_rows (pa_table a)"
| "join_left_rows _ = None"

fun source_residual :: "physical_source \<Rightarrow> bool" where
  "source_residual (PAccess a) = pa_residual a"
| "source_residual (PJoin _ _ _ _ _ _ _ residual) = residual"

fun physical_leaves :: "physical_source \<Rightarrow> table_access list" where
  "physical_leaves (PAccess a) = [a]"
| "physical_leaves (PJoin l r _ _ _ _ _ _) = physical_leaves l @ physical_leaves r"

text \<open>The leaves of a bound \<open>FROM\<close> with the position of their first column.\<close>

fun bound_leaves :: "bound_source \<Rightarrow> nat \<Rightarrow> (bound_schema \<times> nat) list" where
  "bound_leaves (BoundTableRef s _) off = [(s, off)]"
| "bound_leaves (BoundJoinRef l r _ _ _ _) off =
     bound_leaves l off @ bound_leaves r (off + length (bs_columns (bsrc_schema l)))"

text \<open>The number of the leaf that owns the column of the predicate.\<close>

fun find_leaf :: "nat \<Rightarrow> nat \<Rightarrow> (bound_schema \<times> nat) list \<Rightarrow> nat option" where
  "find_leaf target i [] = None"
| "find_leaf target i ((s, start) # hs) =
     (if start \<le> target \<and> target < start + length (bs_columns s) then Some i
      else find_leaf target (Suc i) hs)"

definition leaf_of :: "bound_source \<Rightarrow> bound_condition option \<Rightarrow> nat option" where
  "leaf_of src wh =
     (case wh of
        None \<Rightarrow> None
      | Some w \<Rightarrow> find_leaf (br_index (bound_condition_column w)) 0 (bound_leaves src 0))"

section \<open>The choice of an index\<close>

text \<open>
  \<open>_best_index\<close>: the least \<open>(ranking, name)\<close> of the candidates; a structure that the ranking does
  not list raises.
\<close>

definition ranking_of :: "(plan_structure \<times> nat) list \<Rightarrow> index_metadata \<Rightarrow> exn + (nat \<times> string) \<times> index_metadata" where
  "ranking_of ranking ix =
     (case map_of ranking (im_structure ix) of
        None \<Rightarrow> Inl (KeyError (structure_value (im_structure ix)))
      | Some rank \<Rightarrow> Inr ((rank, im_name ix), ix))"

definition column_candidates :: "table_metadata \<Rightarrow> int \<Rightarrow> plan_structure list \<Rightarrow> index_metadata list" where
  "column_candidates table column sts =
     filter (\<lambda>ix. im_column ix = column \<and> im_structure ix \<in> set sts) (tm_indexes table)"

definition best_index ::
  "table_metadata \<Rightarrow> int \<Rightarrow> bool \<Rightarrow> bool \<Rightarrow> exn + index_metadata option" where
  "best_index table column for_range allow_hash =
     (let candidates = column_candidates table column [ST_BPLUS_UNCLUSTERED, ST_EXTENDIBLE_HASH];
          (candidates, ranking) =
            (if for_range then
               (filter im_supports_range candidates, [(ST_BPLUS_UNCLUSTERED, 0)])
             else
               (if allow_hash then candidates
                else filter (\<lambda>ix. im_structure ix \<noteq> ST_EXTENDIBLE_HASH) candidates,
                [(ST_EXTENDIBLE_HASH, 0), (ST_BPLUS_UNCLUSTERED, 1)]))
      in ebind (emap (ranking_of ranking) candidates) (\<lambda>ranked.
         Inr (map_option snd (min_key fst ranked))))"

definition best_of_structure ::
  "plan_structure \<Rightarrow> table_metadata \<Rightarrow> int \<Rightarrow> index_metadata option" where
  "best_of_structure st table column = min_key im_name (column_candidates table column [st])"

definition best_text_index :: "table_metadata \<Rightarrow> int \<Rightarrow> index_metadata option" where
  "best_text_index = best_of_structure ST_INVERTED_INDEX"

definition best_spatial_index :: "table_metadata \<Rightarrow> int \<Rightarrow> index_metadata option" where
  "best_spatial_index = best_of_structure ST_RTREE"

definition index_beats_table :: "table_metadata \<Rightarrow> index_metadata option \<Rightarrow> bool" where
  "index_beats_table table index \<longleftrightarrow> index \<noteq> None \<and> tm_structure table = ST_HEAP"

section \<open>The choice of a route\<close>

record access_choice =
  ac_route :: access_route
  ac_index :: "index_metadata option"
  ac_residual :: bool

definition choice :: "access_route \<Rightarrow> index_metadata option \<Rightarrow> bool \<Rightarrow> access_choice" where
  "choice route index residual =
     \<lparr>ac_route = route, ac_index = index, ac_residual = residual\<rparr>"

text \<open>A text that the column cannot hold is not a key of a hash index.\<close>

definition hash_key_fits :: "bound_column_reference \<Rightarrow> bound_value \<Rightarrow> bool" where
  "hash_key_fits c v =
     (case v of
        VStr s \<Rightarrow>
          \<not> (CHR 0x00 \<in> set s
             \<or> (case bc_length (br_column c) of None \<Rightarrow> False | Some n \<Rightarrow> n < int (utf8_length s)))
      | _ \<Rightarrow> True)"

definition plan_equality ::
  "bound_column_reference \<Rightarrow> bound_value \<Rightarrow> table_metadata \<Rightarrow> int \<Rightarrow> bool \<Rightarrow> exn + access_choice" where
  "plan_equality c v table column use_primary_table =
     ebind (best_index table column False (hash_key_fits c v)) (\<lambda>index.
     Inr (if use_primary_table \<and> \<not> index_beats_table table index then
            choice R_TABLE_SEARCH None False
          else if index \<noteq> None then choice R_INDEX_SEARCH index False
          else choice R_SCAN None True))"

definition plan_range :: "table_metadata \<Rightarrow> int \<Rightarrow> bool \<Rightarrow> bool \<Rightarrow> exn + access_choice" where
  "plan_range table column use_primary_table strict =
     ebind (best_index table column True True) (\<lambda>index.
     Inr (if use_primary_table \<and> \<not> index_beats_table table index then
            choice R_TABLE_RANGE None strict
          else if index \<noteq> None then choice R_INDEX_RANGE index strict
          else choice R_SCAN None True))"

definition is_strict :: "comparison_operator \<Rightarrow> bool" where
  "is_strict op \<longleftrightarrow> op = OP_LESS_THAN \<or> op = OP_GREATER_THAN"

fun choose_access ::
  "bound_condition option \<Rightarrow> int \<Rightarrow> nat \<Rightarrow> table_metadata \<Rightarrow> bool \<Rightarrow> exn + access_choice" where
  "choose_access None column key table primary = Inr (choice R_SCAN None False)"
| "choose_access (Some (BoundSimilar m)) column key table primary =
     ebind (structure_of (lower (index_value (bm_kind m)))) (\<lambda>st.
     Inr (case best_of_structure st table column of
            None \<Rightarrow> choice R_VECTOR_SCAN None False
          | Some ix \<Rightarrow> choice R_VECTOR_KNN (Some ix) False))"
| "choose_access (Some (BoundMatch c q rank explicit sp)) column key table primary =
     (case best_text_index table column of
        None \<Rightarrow> Inl (ValueError (''MATCH necesita un indice de texto sobre ''
                                 @ repr_str (bc_name (br_column c))))
      | Some ix \<Rightarrow> Inr (choice R_TEXT_SEARCH (Some ix) False))"
| "choose_access (Some (BoundPolygon c vs sp)) column key table primary =
     Inr (case best_spatial_index table column of
            None \<Rightarrow> choice R_SCAN None True
          | Some ix \<Rightarrow> choice R_RTREE_POLYGON (Some ix) False)"
| "choose_access (Some (BoundDistance c p op radius m sp)) column key table primary =
     Inr (case best_spatial_index table column of
            None \<Rightarrow> choice R_SCAN None True
          | Some ix \<Rightarrow> choice R_RTREE_RADIUS (Some ix) (op = OP_LESS_THAN))"
| "choose_access (Some (BoundBetween c lo hi sp)) column key table primary =
     plan_range table column (column = int key \<and> primary) False"
| "choose_access (Some (BoundComparison c op v sp)) column key table primary =
     (if op = OP_EQUAL then plan_equality c v table column (column = int key \<and> primary)
      else plan_range table column (column = int key \<and> primary) (is_strict op))"

text \<open>The metadata of the tables of a query, by name.\<close>

type_synonym metadata_map = "(string \<times> table_metadata) list"

definition choose_probe ::
  "bound_column_reference \<Rightarrow> bound_schema \<Rightarrow> physical_source \<Rightarrow> exn + index_metadata option \<times> bool" where
  "choose_probe right_column schema right =
     (case right of
        PJoin _ _ _ _ _ _ _ _ \<Rightarrow> Inr (None, False)
      | PAccess a \<Rightarrow>
          if pa_route a \<noteq> R_SCAN \<or> pa_residual a then Inr (None, False)
          else if br_index right_column = bs_key_column schema
                  \<and> (tm_structure (pa_table a) = ST_SEQUENTIAL
                     \<or> tm_structure (pa_table a) = ST_BPLUS_CLUSTERED) then Inr (None, True)
          else ebind (best_index (pa_table a) (int (br_index right_column)) False True) (\<lambda>index.
               Inr (index, False)))"

fun leaf_count :: "bound_source \<Rightarrow> nat" where
  "leaf_count (BoundTableRef _ _) = 1"
| "leaf_count (BoundJoinRef l r _ _ _ _) = leaf_count l + leaf_count r"

text \<open>\<open>_optimize_source\<close> of a node whose first leaf has number \<open>first_leaf\<close>.\<close>

fun optimize_source ::
  "bound_source \<Rightarrow> metadata_map \<Rightarrow> bound_condition option \<Rightarrow> nat option \<Rightarrow> nat \<Rightarrow> nat \<Rightarrow> bool
   \<Rightarrow> exn + physical_source" where
  "optimize_source (BoundTableRef schema sp) catalog wh owner first_leaf off primary =
     (case map_of catalog (bs_table_name schema) of
        None \<Rightarrow> Inl (ValueError (''falta la metadata de la tabla '' @ repr_str (bs_table_name schema)
                                 @ '' que usa la consulta''))
      | Some table \<Rightarrow>
          if owner \<noteq> Some first_leaf then
            map_sum id PAccess (make_access (plain_access table R_SCAN None False))
          else
            (case wh of
               None \<Rightarrow> Inl (AssertionError [])
             | Some w \<Rightarrow>
                 ebind (choose_access wh (int (br_index (bound_condition_column w)) - int off)
                   (bs_key_column schema) table primary) (\<lambda>c.
                 map_sum id PAccess
                   (make_access (plain_access table (ac_route c) (ac_index c) (ac_residual c))))))"
| "optimize_source (BoundJoinRef l r lc rc schema sp) catalog wh owner first_leaf off primary =
     ebind (optimize_source l catalog wh owner first_leaf off primary) (\<lambda>left.
     ebind (optimize_source r catalog wh owner (first_leaf + leaf_count l)
       (off + length (bs_columns (bsrc_schema l))) primary) (\<lambda>right.
     ebind (choose_probe rc (bsrc_schema r) right) (\<lambda>(probe, on_primary).
     make_join left right (br_index lc) (br_index rc)
       (if probe \<noteq> None \<or> on_primary then JOIN_AUTO else JOIN_HASH)
       probe on_primary (wh \<noteq> None \<and> owner = None))))"

section \<open>Plans of SELECT and DELETE\<close>

record select_plan =
  sp_statement :: bound_select
  sp_source :: physical_source
  sp_external_sort :: bool
  sp_group_strategy :: "group_strategy option"

definition score_ascending :: "bound_select \<Rightarrow> bool" where
  "score_ascending st =
     (case bl_score_order st of None \<Rightarrow> False | Some s \<Rightarrow> bso_direction s = ORDER_ASC)"

definition repr_names :: "string list \<Rightarrow> string" where
  "repr_names names = ''['' @ join_str '', '' (map repr_str names) @ '']''"

fun is_similar :: "bound_condition option \<Rightarrow> bool" where
  "is_similar (Some (BoundSimilar _)) = True"
| "is_similar _ = False"

definition is_vector_route :: "access_route \<Rightarrow> bool" where
  "is_vector_route r \<longleftrightarrow> r = R_VECTOR_KNN \<or> r = R_VECTOR_SCAN"

text \<open>The kind a \<open>SIMILAR_TO\<close> asks for, in lower case; only read for such a condition.\<close>

fun similar_kind :: "bound_condition \<Rightarrow> string" where
  "similar_kind (BoundSimilar m) = lower (index_value (bm_kind m))"
| "similar_kind _ = []"

text \<open>The checks on one leaf, which has number \<open>i\<close>.\<close>

definition validate_leaf ::
  "bound_source \<Rightarrow> bound_condition option \<Rightarrow> nat option \<Rightarrow> nat \<Rightarrow> table_access
   \<Rightarrow> bound_schema \<times> nat \<Rightarrow> exn + unit" where
  "validate_leaf bound wh owner i a leaf =
     (if pa_route a = R_RTREE_KNN then
        value_error_if ((case bound of BoundTableRef _ _ \<Rightarrow> False | _ \<Rightarrow> True) \<or> wh \<noteq> None)
          ''k-NN solo reemplaza el acceso de una tabla sin WHERE''
      else if owner \<noteq> Some i then
        value_error_if (pa_index a \<noteq> None \<or> pa_route a \<noteq> R_SCAN)
          (''la hoja '' @ repr_str (tm_name (pa_table a))
           @ '' no tiene el predicado: solo puede recorrerse'')
      else
        (case wh of
           None \<Rightarrow> Inl (AssertionError [])
         | Some w \<Rightarrow>
             let column = int (br_index (bound_condition_column w)) - int (snd leaf);
                 vector = is_vector_route (pa_route a)
             in
             ebind (value_error_if (is_similar wh \<noteq> vector)
               ''SIMILAR_TO necesita una ruta vectorial y viceversa'') (\<lambda>_.
             ebind (value_error_if (vector \<and> (pa_residual a
                 \<or> (case pa_index a of None \<Rightarrow> False
                    | Some ix \<Rightarrow> structure_value (im_structure ix) \<noteq> similar_kind w)))
               ''la ruta vectorial debe respetar USING y no lleva filtro residual'') (\<lambda>_.
             ebind (value_error_if (case pa_index a of None \<Rightarrow> False | Some ix \<Rightarrow> im_column ix \<noteq> column)
               ''el indice elegido no corresponde a la columna del predicado'') (\<lambda>_.
             value_error_if ((pa_route a = R_TABLE_SEARCH \<or> pa_route a = R_TABLE_RANGE)
                 \<and> column \<noteq> int (bs_key_column (fst leaf)))
               ''una ruta de tabla necesita la columna clave del predicado'')))))"

fun validate_leaves ::
  "bound_source \<Rightarrow> bound_condition option \<Rightarrow> nat option \<Rightarrow> nat \<Rightarrow> table_access list
   \<Rightarrow> (bound_schema \<times> nat) list \<Rightarrow> exn + unit" where
  "validate_leaves bound wh owner i (a # as) (leaf # leaves) =
     ebind (validate_leaf bound wh owner i a leaf) (\<lambda>_.
     validate_leaves bound wh owner (Suc i) as leaves)"
| "validate_leaves bound wh owner i [] [] = Inr ()"
| "validate_leaves bound wh owner i as leaves = Inl (ValueError ''zip() strict'')"

definition validate_source ::
  "physical_source \<Rightarrow> bound_source \<Rightarrow> bound_condition option \<Rightarrow> exn + unit" where
  "validate_source src bound wh =
     (let physical = map (\<lambda>a. tm_name (pa_table a)) (physical_leaves src);
          semantic = map (\<lambda>(s, _). bs_table_name s) (bound_leaves bound 0)
      in
      ebind (value_error_if (physical \<noteq> semantic)
        (''la metadata describe '' @ repr_names physical @ '' y la sentencia consulta ''
         @ repr_names semantic)) (\<lambda>_.
      validate_leaves bound wh (leaf_of bound wh) 0 (physical_leaves src) (bound_leaves bound 0)))"

fun source_nearest :: "physical_source \<Rightarrow> (bound_order_by \<times> int option) option" where
  "source_nearest (PAccess a) = map_option (\<lambda>n. (n, pa_nearest_limit a)) (pa_nearest a)"
| "source_nearest _ = None"

fun source_text_limit :: "physical_source \<Rightarrow> int option" where
  "source_text_limit (PAccess a) = pa_text_limit a"
| "source_text_limit _ = None"

definition make_select_plan :: "select_plan \<Rightarrow> exn + select_plan" where
  "make_select_plan p =
     (let st = sp_statement p; uses_knn = (source_nearest (sp_source p) \<noteq> None) in
      ebind (value_error_if
        (case source_nearest (sp_source p) of
           None \<Rightarrow> False
         | Some (nearest, n) \<Rightarrow>
             bl_order_by st \<noteq> Some nearest \<or> n \<noteq> bl_limit st \<or> bl_where st \<noteq> None
             \<or> bl_group_by st \<noteq> None \<or> (case bl_source st of BoundTableRef _ _ \<Rightarrow> False | _ \<Rightarrow> True))
        ''k-NN necesita ORDER BY y LIMIT sobre una tabla sin WHERE ni GROUP BY'') (\<lambda>_.
      ebind (value_error_if (sp_external_sort p \<noteq> (bl_order_by st \<noteq> None \<and> \<not> uses_knn))
        ''ORDER BY y external_sort deben aparecer juntos'') (\<lambda>_.
      ebind (value_error_if ((sp_group_strategy p \<noteq> None) \<noteq> (bl_group_by st \<noteq> None))
        ''GROUP BY necesita exactamente una estrategia de agrupacion'') (\<lambda>_.
      ebind (value_error_if
        (source_text_limit (sp_source p) \<noteq> None
         \<and> (source_text_limit (sp_source p) \<noteq> bl_limit st \<or> bl_order_by st \<noteq> None
            \<or> bl_group_by st \<noteq> None \<or> score_ascending st))
        ''solo el LIMIT sin ORDER BY ni GROUP BY baja al indice de texto'') (\<lambda>_.
      ebind (validate_source (sp_source p) (bl_source st) (bl_where st)) (\<lambda>_.
      Inr p))))))"

text \<open>\<open>plan.access\<close>: the one leaf of a plan on a table.\<close>

definition sp_access :: "select_plan \<Rightarrow> exn + table_access" where
  "sp_access p =
     (case sp_source p of
        PAccess a \<Rightarrow> Inr a
      | _ \<Rightarrow> Inl (TypeError ''este plan es un join: recorre source en vez de pedir una hoja''))"

text \<open>The two improvements of the access of a query on one table: nearest neighbours and top-k.\<close>

definition nearest_access :: "bound_select \<Rightarrow> physical_source \<Rightarrow> exn + physical_source" where
  "nearest_access st src =
     (case (src, bl_order_by st, bl_limit st) of
        (PAccess a, Some ob, Some n) \<Rightarrow>
          if is_distance_order ob \<and> order_direction_of ob = ORDER_ASC
             \<and> bl_where st = None \<and> bl_group_by st = None then
            (case best_spatial_index (pa_table a) (int (br_index (order_column ob))) of
               None \<Rightarrow> Inr src
             | Some ix \<Rightarrow> map_sum id PAccess (make_access
                 \<lparr>pa_table = pa_table a, pa_route = R_RTREE_KNN, pa_index = Some ix,
                  pa_residual = False, pa_nearest = Some ob, pa_nearest_limit = Some n,
                  pa_text_limit = None\<rparr>))
          else Inr src
      | _ \<Rightarrow> Inr src)"

definition top_k_access :: "bound_select \<Rightarrow> physical_source \<Rightarrow> exn + physical_source" where
  "top_k_access st src =
     (case (src, bl_limit st) of
        (PAccess a, Some n) \<Rightarrow>
          if pa_route a = R_TEXT_SEARCH \<and> bl_order_by st = None \<and> bl_group_by st = None
             \<and> \<not> score_ascending st then
            map_sum id PAccess (make_access
              \<lparr>pa_table = pa_table a, pa_route = pa_route a, pa_index = pa_index a,
               pa_residual = False, pa_nearest = None, pa_nearest_limit = None,
               pa_text_limit = Some n\<rparr>)
          else Inr src
      | _ \<Rightarrow> Inr src)"

datatype tables = OneTable table_metadata | Tables metadata_map

fun metadata_of :: "tables \<Rightarrow> metadata_map" where
  "metadata_of (OneTable t) = [(tm_name t, t)]"
| "metadata_of (Tables m) = m"

definition optimize_select :: "bound_select \<Rightarrow> tables \<Rightarrow> exn + select_plan" where
  "optimize_select st tables =
     ebind (optimize_source (bl_source st) (metadata_of tables) (bl_where st)
       (leaf_of (bl_source st) (bl_where st)) 0 0 True) (\<lambda>src0.
     ebind (nearest_access st src0) (\<lambda>src1.
     ebind (top_k_access st src1) (\<lambda>src.
     make_select_plan
       \<lparr>sp_statement = st, sp_source = src,
        sp_external_sort = (bl_order_by st \<noteq> None \<and> source_nearest src = None),
        sp_group_strategy = (if bl_group_by st \<noteq> None then Some GROUP_AUTO else None)\<rparr>)))"

record delete_plan =
  dp_statement :: bound_delete
  dp_table :: table_metadata
  dp_route :: access_route
  dp_index :: "index_metadata option"
  dp_residual :: bool

definition validate_access ::
  "string \<Rightarrow> bound_condition \<Rightarrow> table_metadata \<Rightarrow> access_route \<Rightarrow> index_metadata option
   \<Rightarrow> exn + unit" where
  "validate_access name wh table route index =
     ebind (value_error_if
       ((route \<in> {R_INDEX_SEARCH, R_INDEX_RANGE, R_RTREE_RADIUS, R_RTREE_POLYGON, R_TEXT_SEARCH})
        \<noteq> (index \<noteq> None))
       ''las rutas de indice necesitan exactamente un indice'') (\<lambda>_.
     ebind (value_error_if (tm_name table \<noteq> name)
       ''la metadata y la sentencia pertenecen a tablas distintas'') (\<lambda>_.
     case index of
       None \<Rightarrow> Inr ()
     | Some ix \<Rightarrow>
         ebind (value_error_if (ix \<notin> set (tm_indexes table))
           ''el indice elegido no pertenece a la metadata de la tabla'') (\<lambda>_.
         ebind (value_error_if (im_column ix \<noteq> int (br_index (bound_condition_column wh)))
           ''el indice elegido no corresponde a la columna del predicado'') (\<lambda>_.
         value_error_if (route = R_INDEX_RANGE \<and> \<not> im_supports_range ix)
           ''INDEX_RANGE necesita un indice que soporte rangos''))))"

definition make_delete_plan :: "delete_plan \<Rightarrow> exn + delete_plan" where
  "make_delete_plan p =
     ebind (validate_access (bs_table_name (bd_schema (dp_statement p))) (bd_where (dp_statement p))
       (dp_table p) (dp_route p) (dp_index p)) (\<lambda>_.
     ebind (value_error_if (tm_indexes (dp_table p) \<noteq> []
         \<and> (dp_route p = R_TABLE_SEARCH \<or> dp_route p = R_TABLE_RANGE))
       ''DELETE con indices necesita una ruta que conserve el RID'') (\<lambda>_.
     Inr p))"

fun is_region :: "bound_condition \<Rightarrow> bool" where
  "is_region (BoundDistance _ _ _ _ _ _) = True"
| "is_region (BoundPolygon _ _ _) = True"
| "is_region _ = False"

definition optimize_delete :: "bound_delete \<Rightarrow> table_metadata \<Rightarrow> exn + delete_plan" where
  "optimize_delete st table =
     (let w = bd_where st in
      ebind (if is_region w then Inr (choice R_SCAN None True)
             else choose_access (Some w) (int (br_index (bound_condition_column w)))
               (bs_key_column (bd_schema st)) table (tm_indexes table = [])) (\<lambda>c.
      make_delete_plan
        \<lparr>dp_statement = st, dp_table = table, dp_route = ac_route c, dp_index = ac_index c,
         dp_residual = ac_residual c\<rparr>))"

section \<open>The catalog of the core\<close>

text \<open>
  \<open>planner/native_catalog.py\<close>: the description a native table gives of itself, as the values that
  \<open>str(...)\<close> and \<open>int(...)\<close> read from it, and the metadata made of it.
\<close>

record native_index =
  ni_name :: string
  ni_column :: int
  ni_kind :: string

record native_table =
  nt_name :: string
  nt_storage :: string
  nt_columns :: nat
  nt_indexes :: "native_index list"

definition structure_from_native ::
  "string \<Rightarrow> plan_structure list \<Rightarrow> string \<Rightarrow> exn + plan_structure" where
  "structure_from_native v allowed role =
     (case structure_of v of
        Inl _ \<Rightarrow> Inl (ValueError (''estructura nativa desconocida para '' @ role @ '': '' @ repr_str v))
      | Inr st \<Rightarrow>
          if st \<notin> set allowed then
            Inl (ValueError (structure_value st @ '' no es una estructura de '' @ role))
          else Inr st)"

definition index_from_native :: "nat \<Rightarrow> native_index \<Rightarrow> exn + index_metadata" where
  "index_from_native columns ni =
     ebind (structure_from_native (ni_kind ni) index_structures ''indice'') (\<lambda>st.
     ebind (value_error_if (\<not> (0 \<le> ni_column ni \<and> ni_column ni < int columns))
       (''el indice '' @ repr_str (ni_name ni) @ '' referencia la columna inexistente ''
        @ show_int (ni_column ni))) (\<lambda>_.
     make_index_metadata (ni_name ni) (ni_column ni) st (st = ST_BPLUS_UNCLUSTERED)))"

definition from_native_table_info :: "native_table \<Rightarrow> int option \<Rightarrow> exn + table_metadata" where
  "from_native_table_info t rows =
     ebind (structure_from_native (nt_storage t) table_structures ''tabla'') (\<lambda>st.
     ebind (emap (index_from_native (nt_columns t)) (nt_indexes t)) (\<lambda>indexes.
     make_table_metadata (nt_name t) st indexes rows))"

end
