(* ===== verification/Planner_Optimizer_Spec.thy ===== *)
theory Planner_Optimizer_Spec
  imports Planner_Optimizer Sql_Semantic_Spec
begin

text \<open>
  Correctness of the optimizer: the choice of an index does not depend on the order of the catalog,
  every route fits its predicate, \<open>optimize_select\<close> and \<open>optimize_delete\<close> return a plan for every
  bound statement whose tables are described, and their own checks never fail.
\<close>

section \<open>Metadata\<close>

definition index_ok :: "index_metadata \<Rightarrow> bool" where
  "index_ok ix \<longleftrightarrow> im_name ix \<noteq> [] \<and> 0 \<le> im_column ix \<and> im_structure ix \<in> set index_structures
     \<and> im_supports_range ix = (im_structure ix = ST_BPLUS_UNCLUSTERED)"

definition table_ok :: "table_metadata \<Rightarrow> bool" where
  "table_ok t \<longleftrightarrow> tm_structure t \<in> set table_structures \<and> list_all index_ok (tm_indexes t)"

lemma make_index_metadata_Inr:
  "make_index_metadata name column st sr = Inr ix \<longleftrightarrow>
     ix = \<lparr>im_name = name, im_column = column, im_structure = st, im_supports_range = sr\<rparr>
     \<and> index_ok ix"
  by (auto simp: make_index_metadata_def bind_simps index_ok_def)

lemma from_native_table_info_ok:
  assumes "from_native_table_info t rows = Inr m"
  shows "table_ok m \<and> tm_name m = nt_name t \<and> tm_rows m = rows
    \<and> (\<forall>ix \<in> set (tm_indexes m). im_column ix < int (nt_columns t))"
proof -
  have *: "index_from_native n ni = Inr ix \<Longrightarrow> index_ok ix \<and> im_column ix < int n" for n ni ix
    by (auto simp: index_from_native_def bind_simps make_index_metadata_Inr)
  from assms show ?thesis
    by (auto simp: from_native_table_info_def bind_simps make_table_metadata_def table_ok_def
        structure_from_native_def emap_Inr_iff list_all_iff in_set_conv_nth list_all2_conv_all_nth
        split: sum.splits if_splits dest!: *)
qed

section \<open>The choice of the best index\<close>

text \<open>
  The least key of the candidates, where equal keys mean equal names: what the three searches for an
  index have in common. The names of the indexes of a table are distinct.
\<close>

locale stable_choice =
  fixes eligible :: "index_metadata \<Rightarrow> bool"
    and key :: "index_metadata \<Rightarrow> 'k::linorder"
  assumes key_name: "key a = key b \<Longrightarrow> im_name a = im_name b"
begin

definition pick :: "index_metadata list \<Rightarrow> index_metadata option" where
  "pick ixs = min_key key (filter eligible ixs)"

lemma pick_SomeD: "pick ixs = Some ix \<Longrightarrow> ix \<in> set ixs \<and> eligible ix"
  using min_key_Some [of key "filter eligible ixs" ix] by (auto simp: pick_def)

lemma pick_None: "pick ixs = None \<longleftrightarrow> (\<forall>ix \<in> set ixs. \<not> eligible ix)"
  by (auto simp: pick_def filter_empty_conv)

lemma pick_least: "pick ixs = Some ix \<Longrightarrow> jx \<in> set ixs \<Longrightarrow> eligible jx \<Longrightarrow> key ix \<le> key jx"
  using min_key_Some [of key "filter eligible ixs" ix] by (auto simp: pick_def)

lemma pick_set_eq:
  assumes "set ixs = set jxs" "inj_on im_name (set ixs)"
  shows "pick ixs = pick jxs"
proof (cases "pick ixs")
  case None
  then show ?thesis using assms(1) pick_None by metis
next
  case (Some ix)
  then obtain jx where jx: "pick jxs = Some jx"
    using pick_None pick_SomeD assms(1) by (metis not_None_eq)
  have "key ix = key jx"
    using pick_least [OF Some, of jx] pick_least [OF jx, of ix] pick_SomeD [OF Some]
      pick_SomeD [OF jx] assms(1)
    by (intro order.antisym) simp_all
  then have "ix = jx"
    using key_name [of ix jx] assms(1) pick_SomeD [OF Some] pick_SomeD [OF jx]
    by (intro inj_onD [OF assms(2)]) simp_all
  then show ?thesis using Some jx by simp
qed

end

definition eligible_structure :: "plan_structure \<Rightarrow> int \<Rightarrow> index_metadata \<Rightarrow> bool" where
  "eligible_structure st column ix \<longleftrightarrow> im_column ix = column \<and> im_structure ix = st"

definition eligible_key :: "int \<Rightarrow> bool \<Rightarrow> bool \<Rightarrow> index_metadata \<Rightarrow> bool" where
  "eligible_key column for_range allow_hash ix \<longleftrightarrow>
     im_column ix = column
     \<and> (im_structure ix = ST_BPLUS_UNCLUSTERED
        \<or> im_structure ix = ST_EXTENDIBLE_HASH \<and> \<not> for_range \<and> allow_hash)"

definition rank_key :: "index_metadata \<Rightarrow> nat \<times> string" where
  "rank_key ix = (if im_structure ix = ST_EXTENDIBLE_HASH then 0 else 1, im_name ix)"

interpretation by_name: stable_choice "eligible_structure st column" im_name for st column
  by unfold_locales

interpretation by_rank: stable_choice "eligible_key column for_range allow_hash" rank_key
  for column for_range allow_hash
  by unfold_locales (auto simp: rank_key_def split: if_splits)

lemma best_of_structure_pick: "best_of_structure st t column = by_name.pick st column (tm_indexes t)"
proof -
  have "column_candidates t column [st] = filter (eligible_structure st column) (tm_indexes t)"
    unfolding column_candidates_def by (rule filter_cong) (simp_all add: eligible_structure_def)
  then show ?thesis by (simp add: best_of_structure_def by_name.pick_def)
qed

lemma min_key_ranked: "map_option snd (min_key fst (map (\<lambda>x. (k x, x)) xs)) = min_key k xs"
proof (induction xs)
  case (Cons x xs)
  have "min_key fst (map (\<lambda>x. (k x, x)) xs) = map_option (\<lambda>x. (k x, x)) (min_key k xs)" for xs
    by (induction xs) (auto split: option.splits)
  then show ?case by (auto split: option.splits)
qed simp

lemma min_key_cong: "(\<And>x y. x \<in> set xs \<Longrightarrow> y \<in> set xs \<Longrightarrow> k x \<le> k y \<longleftrightarrow> k' x \<le> k' y)
    \<Longrightarrow> min_key k xs = min_key k' xs"
proof (induction xs)
  case (Cons x xs)
  then have "min_key k xs = min_key k' xs" by simp
  then show ?case
    using Cons.prems min_key_Some [of k' xs] by (simp split: option.splits)
qed simp

lemma emap_ranking:
  "(\<And>x. x \<in> set xs \<Longrightarrow> map_of ranking (im_structure x) = Some (r x)) \<Longrightarrow>
     emap (ranking_of ranking) xs = Inr (map (\<lambda>x. ((r x, im_name x), x)) xs)"
  by (induction xs) (simp_all add: ranking_of_def)

lemma best_index_pick:
  assumes "table_ok t"
  shows "best_index t column for_range allow_hash
    = Inr (by_rank.pick column for_range allow_hash (tm_indexes t))"
proof (cases for_range)
  case True
  let ?xs = "filter (eligible_key column True allow_hash) (tm_indexes t)"
  have xs: "filter im_supports_range (column_candidates t column
      [ST_BPLUS_UNCLUSTERED, ST_EXTENDIBLE_HASH]) = ?xs"
    using assms unfolding column_candidates_def filter_filter
    by (intro filter_cong) (auto simp: eligible_key_def table_ok_def index_ok_def list_all_iff)
  have "emap (ranking_of [(ST_BPLUS_UNCLUSTERED, 0)]) ?xs = Inr (map (\<lambda>x. ((0, im_name x), x)) ?xs)"
    by (rule emap_ranking [where r = "\<lambda>_. 0"]) (simp add: eligible_key_def)
  moreover have "min_key (\<lambda>x. (0 :: nat, im_name x)) ?xs = min_key rank_key ?xs"
    by (rule min_key_cong) (auto simp: eligible_key_def rank_key_def)
  ultimately show ?thesis
    using True by (simp add: best_index_def xs min_key_ranked by_rank.pick_def)
next
  case False
  let ?xs = "filter (eligible_key column False allow_hash) (tm_indexes t)"
  let ?r = "[(ST_EXTENDIBLE_HASH, 0), (ST_BPLUS_UNCLUSTERED, 1 :: nat)]"
  have xs: "(if allow_hash then column_candidates t column [ST_BPLUS_UNCLUSTERED, ST_EXTENDIBLE_HASH]
      else filter (\<lambda>ix. im_structure ix \<noteq> ST_EXTENDIBLE_HASH)
        (column_candidates t column [ST_BPLUS_UNCLUSTERED, ST_EXTENDIBLE_HASH])) = ?xs"
    unfolding column_candidates_def filter_filter
    by (cases allow_hash) (auto simp: eligible_key_def conj_ac intro: filter_cong)
  have "emap (ranking_of ?r) ?xs = Inr (map (\<lambda>x. (rank_key x, x)) ?xs)"
    unfolding rank_key_def
    by (rule emap_ranking [where r = "\<lambda>x. if im_structure x = ST_EXTENDIBLE_HASH then 0 else 1"])
      (auto simp: eligible_key_def)
  then show ?thesis
    using False by (simp add: best_index_def xs min_key_ranked by_rank.pick_def Let_def)
qed

section \<open>Routes and predicates\<close>

text \<open>
  The routes that answer a predicate on the column at position \<open>column\<close> of a table whose key is at
  \<open>key\<close>. A strict bound keeps its predicate as a filter above a range, a scan always does, and the
  searches of a key, a region (closed), a text or a vector need none.
\<close>

fun route_fits :: "bound_condition \<Rightarrow> int \<Rightarrow> nat \<Rightarrow> table_metadata \<Rightarrow> bool \<Rightarrow> access_choice \<Rightarrow> bool" where
  "route_fits (BoundComparison r op v sp) column key t primary c =
     (c = choice R_SCAN None True
      \<or> (if op = OP_EQUAL then
           c = choice R_TABLE_SEARCH None False \<and> column = int key \<and> primary
           \<or> (\<exists>ix \<in> set (tm_indexes t). c = choice R_INDEX_SEARCH (Some ix) False
                \<and> eligible_key column False (hash_key_fits r v) ix)
         else
           c = choice R_TABLE_RANGE None (is_strict op) \<and> column = int key \<and> primary
           \<or> (\<exists>ix \<in> set (tm_indexes t). c = choice R_INDEX_RANGE (Some ix) (is_strict op)
                \<and> eligible_key column True True ix)))"
| "route_fits (BoundBetween r lo hi sp) column key t primary c =
     (c = choice R_SCAN None True
      \<or> c = choice R_TABLE_RANGE None False \<and> column = int key \<and> primary
      \<or> (\<exists>ix \<in> set (tm_indexes t). c = choice R_INDEX_RANGE (Some ix) False
           \<and> eligible_key column True True ix))"
| "route_fits (BoundDistance r p op radius m sp) column key t primary c =
     (c = choice R_SCAN None True
      \<or> (\<exists>ix \<in> set (tm_indexes t). c = choice R_RTREE_RADIUS (Some ix) (op = OP_LESS_THAN)
           \<and> eligible_structure ST_RTREE column ix))"
| "route_fits (BoundPolygon r vs sp) column key t primary c =
     (c = choice R_SCAN None True
      \<or> (\<exists>ix \<in> set (tm_indexes t). c = choice R_RTREE_POLYGON (Some ix) False
           \<and> eligible_structure ST_RTREE column ix))"
| "route_fits (BoundMatch r q rank explicit sp) column key t primary c =
     (\<exists>ix \<in> set (tm_indexes t). c = choice R_TEXT_SEARCH (Some ix) False
        \<and> eligible_structure ST_INVERTED_INDEX column ix)"
| "route_fits (BoundSimilar m) column key t primary c =
     (c = choice R_VECTOR_SCAN None False
      \<or> (\<exists>ix \<in> set (tm_indexes t). c = choice R_VECTOR_KNN (Some ix) False
           \<and> im_column ix = column
           \<and> structure_of (lower (index_value (bm_kind m))) = Inr (im_structure ix)))"

text \<open>What a predicate asks of the metadata: a text index for \<open>MATCH\<close>, a vector kind for \<open>SIMILAR_TO\<close>.\<close>

fun searchable :: "bound_condition \<Rightarrow> int \<Rightarrow> table_metadata \<Rightarrow> bool" where
  "searchable (BoundMatch r q rank explicit sp) column t =
     list_ex (eligible_structure ST_INVERTED_INDEX column) (tm_indexes t)"
| "searchable (BoundSimilar m) column t = (bm_kind m = IDX_IVF \<or> bm_kind m = IDX_HNSW)"
| "searchable _ column t = True"

lemma pick_fits:
  "by_rank.pick column fr ah ixs = Some ix \<Longrightarrow> ix \<in> set ixs \<and> eligible_key column fr ah ix"
  "by_name.pick st column ixs = Some ix \<Longrightarrow> ix \<in> set ixs \<and> eligible_structure st column ix"
  by (auto dest: by_rank.pick_SomeD by_name.pick_SomeD)

lemma choose_access_fits:
  assumes "table_ok t" "choose_access (Some w) column key t primary = Inr c"
  shows "route_fits w column key t primary c"
proof (cases w)
  case (BoundComparison r op v sp)
  then show ?thesis
    using assms pick_fits(1) [of column _ _ "tm_indexes t"]
    by (auto simp: plan_equality_def plan_range_def best_index_pick Let_def split: if_splits)
next
  case (BoundBetween r lo hi sp)
  then show ?thesis
    using assms pick_fits(1) [of column _ _ "tm_indexes t"]
    by (auto simp: plan_range_def best_index_pick Let_def split: if_splits)
next
  case (BoundSimilar m)
  then show ?thesis
    using assms pick_fits(2) [of _ column "tm_indexes t"]
    by (fastforce simp: best_of_structure_pick bind_simps eligible_structure_def split: option.splits)
qed (use assms pick_fits(2) [of _ column "tm_indexes t"] in
    \<open>fastforce simp: best_text_index_def best_spatial_index_def best_of_structure_pick
      split: option.splits\<close>)+

lemma vector_kind_structure:
  "structure_of (lower (index_value IDX_IVF)) = Inr ST_IVF"
  "structure_of (lower (index_value IDX_HNSW)) = Inr ST_HNSW"
  "structure_of (lower ''IVF'') = Inr ST_IVF" "structure_of (lower ''HNSW'') = Inr ST_HNSW"
  by (code_simp, code_simp, code_simp, code_simp)

lemma choose_access_total:
  assumes "table_ok t" "searchable w column t"
  shows "\<exists>c. choose_access (Some w) column key t primary = Inr c"
proof (cases w)
  case (BoundMatch r q rank explicit sp)
  then have "by_name.pick ST_INVERTED_INDEX column (tm_indexes t) \<noteq> None"
    using assms(2) by (auto simp: by_name.pick_None list_ex_iff)
  then show ?thesis
    using BoundMatch by (auto simp: best_text_index_def best_of_structure_pick)
qed (use assms in \<open>auto simp: plan_equality_def plan_range_def best_index_pick Let_def
      vector_kind_structure\<close>)

text \<open>A route that fits its predicate passes the checks of \<open>PhysicalTableAccess\<close>.\<close>

lemma eligible_index_ok: "table_ok t \<Longrightarrow> ix \<in> set (tm_indexes t) \<Longrightarrow> index_ok ix"
  by (simp add: table_ok_def list_all_iff)

lemma make_access_scan: "make_access (plain_access t R_SCAN None False) = Inr (plain_access t R_SCAN None False)"
  by (simp add: make_access_def plain_access_def check_text_limit_def check_nearest_def
      is_index_route_def)

lemma make_access_fits:
  assumes "table_ok t" "route_fits w column key t primary c" "searchable w column t"
  defines "a \<equiv> plain_access t (ac_route c) (ac_index c) (ac_residual c)"
  shows "make_access a = Inr a"
proof -
  note defs = make_access_def plain_access_def check_text_limit_def check_nearest_def
    is_index_route_def check_access_index_def is_vector_structure_def is_spatial_route_def choice_def
  show ?thesis
  proof (cases w)
    case (BoundComparison r op v sp)
    then show ?thesis
      using assms(1,2) unfolding a_def
      by (auto simp: defs eligible_key_def index_ok_def split: if_splits dest: eligible_index_ok)
  next
    case (BoundSimilar m)
    then show ?thesis
      using assms(2,3) unfolding a_def
      by (auto simp: defs vector_kind_structure)
  qed (use assms(1,2) in \<open>auto simp: a_def defs eligible_key_def eligible_structure_def index_ok_def
      dest: eligible_index_ok\<close>)
qed

section \<open>The leaf of a predicate\<close>

lemma length_bound_leaves: "length (bound_leaves src off) = leaf_count src"
  by (induction src arbitrary: off) auto

lemma leaf_count_pos [simp]: "0 < leaf_count src"
  by (induction src) auto

lemma bound_leaves_schemas: "map fst (bound_leaves src off) = leaves src"
  by (induction src arbitrary: off) auto

text \<open>The leaves of a source cut its positions into consecutive intervals.\<close>

lemma bound_leaves_range:
  "source_built src \<Longrightarrow> (s, start) \<in> set (bound_leaves src off) \<Longrightarrow>
     off \<le> start \<and> start + length (bs_columns s) \<le> off + width src"
  by (induction src arbitrary: off) (fastforce simp: width_schema)+

lemma bound_leaves_cover:
  "source_built src \<Longrightarrow> off \<le> k \<Longrightarrow> k < off + width src \<Longrightarrow>
     \<exists>(s, start) \<in> set (bound_leaves src off). start \<le> k \<and> k < start + length (bs_columns s)"
proof (induction src arbitrary: off)
  case (BoundJoinRef l r lc rc s sp)
  then have w: "length (bs_columns (bsrc_schema l)) = width l" by (simp add: width_schema)
  show ?case
  proof (cases "k < off + width l")
    case True
    then show ?thesis using BoundJoinRef.IH(1) [of off] BoundJoinRef.prems by auto
  next
    case False
    then show ?thesis using BoundJoinRef.IH(2) [of "off + width l"] BoundJoinRef.prems w by auto
  qed
qed auto

lemma find_leaf_SomeD:
  "find_leaf k i hs = Some j \<Longrightarrow>
     i \<le> j \<and> j < i + length hs \<and> snd (hs ! (j - i)) \<le> k
     \<and> k < snd (hs ! (j - i)) + length (bs_columns (fst (hs ! (j - i))))"
proof (induction k i hs rule: find_leaf.induct)
  case (2 target i s start hs)
  then show ?case
    by (cases "j = i") (fastforce split: if_splits simp: nth_Cons')+
qed simp

lemma find_leaf_None:
  "find_leaf k i hs = None \<longleftrightarrow>
     (\<forall>(s, start) \<in> set hs. \<not> (start \<le> k \<and> k < start + length (bs_columns s)))"
  by (induction k i hs rule: find_leaf.induct) auto

text \<open>Every resolved predicate belongs to a leaf, so no filter is left above a join.\<close>

lemma leaf_of_exists:
  assumes "source_built src" "wh = Some w" "ref_in (bsrc_schema src) (bound_condition_column w)"
  shows "leaf_of src wh \<noteq> None"
proof -
  have "br_index (bound_condition_column w) < 0 + width src"
    using assms(1,3) by (simp add: ref_in_def width_schema)
  from bound_leaves_cover [OF assms(1) _ this] show ?thesis
    using assms(2) by (auto simp: leaf_of_def find_leaf_None)
qed

lemma condition_in_ref: "condition_in schema w \<Longrightarrow> ref_in schema (bound_condition_column w)"
  by (cases w) auto

section \<open>Sources\<close>

text \<open>The access of the leaf with number \<open>i\<close>, which starts at position \<open>off\<close>.\<close>

definition leaf_planned ::
  "metadata_map \<Rightarrow> bound_condition option \<Rightarrow> nat option \<Rightarrow> nat \<Rightarrow> nat \<Rightarrow> bound_schema \<Rightarrow> table_access
   \<Rightarrow> bool" where
  "leaf_planned m wh owner i off s a \<longleftrightarrow>
     (\<exists>t. map_of m (bs_table_name s) = Some t \<and> tm_name t = bs_table_name s \<and> table_ok t
      \<and> (if owner = Some i then
           \<exists>w c. wh = Some w
             \<and> route_fits w (int (br_index (bound_condition_column w)) - int off) (bs_key_column s) t True c
             \<and> searchable w (int (br_index (bound_condition_column w)) - int off) t
             \<and> a = plain_access t (ac_route c) (ac_index c) (ac_residual c)
         else a = plain_access t R_SCAN None False))"

text \<open>
  A join asks for a probe only when its right side is a table that is read whole, by the key of a
  table that searches its key, or by an index for equality.
\<close>

definition probe_safe ::
  "bound_schema \<Rightarrow> nat \<Rightarrow> physical_source \<Rightarrow> join_strategy \<Rightarrow> index_metadata option \<Rightarrow> bool \<Rightarrow> bool" where
  "probe_safe schema column right strategy probe on_primary \<longleftrightarrow>
     (strategy = JOIN_AUTO) = (probe \<noteq> None \<or> on_primary) \<and> \<not> (probe \<noteq> None \<and> on_primary)
     \<and> (strategy = JOIN_AUTO \<longrightarrow> (\<exists>t. right = PAccess (plain_access t R_SCAN None False)
          \<and> (on_primary \<longrightarrow> column = bs_key_column schema
               \<and> tm_structure t \<in> {ST_SEQUENTIAL, ST_BPLUS_CLUSTERED})
          \<and> (\<forall>ix. probe = Some ix \<longrightarrow> ix \<in> set (tm_indexes t) \<and> eligible_key (int column) False True ix)))"

fun planned ::
  "metadata_map \<Rightarrow> bound_condition option \<Rightarrow> nat option \<Rightarrow> nat \<Rightarrow> nat \<Rightarrow> bound_source
   \<Rightarrow> physical_source \<Rightarrow> bool" where
  "planned m wh owner i off (BoundTableRef s sp) (PAccess a) = leaf_planned m wh owner i off s a"
| "planned m wh owner i off (BoundJoinRef l r lc rc s sp) (PJoin pl pr lcol rcol strategy probe onp res) =
     (planned m wh owner i off l pl
      \<and> planned m wh owner (i + leaf_count l) (off + length (bs_columns (bsrc_schema l))) r pr
      \<and> lcol = br_index lc \<and> rcol = br_index rc \<and> res = (wh \<noteq> None \<and> owner = None)
      \<and> probe_safe (bsrc_schema r) rcol pr strategy probe onp)"
| "planned m wh owner i off _ _ = False"

text \<open>The tables are described and the owner of the predicate can search it.\<close>

fun ready ::
  "metadata_map \<Rightarrow> bound_condition option \<Rightarrow> nat option \<Rightarrow> nat \<Rightarrow> nat \<Rightarrow> bound_source \<Rightarrow> bool" where
  "ready m wh owner i off (BoundTableRef s sp) =
     (\<exists>t. map_of m (bs_table_name s) = Some t \<and> tm_name t = bs_table_name s \<and> table_ok t
      \<and> (owner = Some i \<longrightarrow> (\<exists>w. wh = Some w
           \<and> searchable w (int (br_index (bound_condition_column w)) - int off) t)))"
| "ready m wh owner i off (BoundJoinRef l r lc rc s sp) =
     (ready m wh owner i off l
      \<and> ready m wh owner (i + leaf_count l) (off + length (bs_columns (bsrc_schema l))) r)"

lemma route_fits_scan: "route_fits w column key t primary c \<Longrightarrow> ac_route c = R_SCAN \<Longrightarrow> ac_residual c"
  by (cases w) (auto simp: choice_def split: if_splits)

lemma leaf_planned_scan:
  assumes "leaf_planned m wh owner i off s a" "pa_route a = R_SCAN" "\<not> pa_residual a"
  obtains t where "table_ok t" "a = plain_access t R_SCAN None False"
  using assms route_fits_scan unfolding leaf_planned_def plain_access_def
  by (auto split: if_splits)

lemma choose_probe_safe:
  assumes "planned m wh owner i off r pr"
  shows "\<exists>probe onp. choose_probe rc (bsrc_schema r) pr = Inr (probe, onp)
    \<and> probe_safe (bsrc_schema r) (br_index rc) pr
        (if probe \<noteq> None \<or> onp then JOIN_AUTO else JOIN_HASH) probe onp"
proof (cases "\<exists>a. pr = PAccess a \<and> pa_route a = R_SCAN \<and> \<not> pa_residual a")
  case True
  then obtain a where a: "pr = PAccess a" "pa_route a = R_SCAN" "\<not> pa_residual a" by blast
  then obtain s sp where "r = BoundTableRef s sp" using assms by (cases r) auto
  then have lp: "leaf_planned m wh owner i off s a" using assms a(1) by simp
  obtain t where t: "table_ok t" "a = plain_access t R_SCAN None False"
    by (rule leaf_planned_scan [OF lp a(2,3)])
  have tab: "pa_table a = t" using t(2) by (simp add: plain_access_def)
  let ?pick = "by_rank.pick (int (br_index rc)) False True (tm_indexes t)"
  let ?key = "br_index rc = bs_key_column (bsrc_schema r)
    \<and> (tm_structure t = ST_SEQUENTIAL \<or> tm_structure t = ST_BPLUS_CLUSTERED)"
  have c: "choose_probe rc (bsrc_schema r) pr = Inr (if ?key then (None, True) else (?pick, False))"
    using a tab t(1) by (simp add: choose_probe_def best_index_pick)
  show ?thesis
  proof (cases ?key)
    case True
    then show ?thesis using c a(1) t(2) by (auto simp: probe_safe_def)
  next
    case False
    then have "choose_probe rc (bsrc_schema r) pr = Inr (?pick, False)" using c by simp
    moreover have "probe_safe (bsrc_schema r) (br_index rc) pr
        (if ?pick \<noteq> None \<or> False then JOIN_AUTO else JOIN_HASH) ?pick False"
      unfolding probe_safe_def a(1) t(2) using pick_fits(1) [of _ False True "tm_indexes t"] by auto
    ultimately show ?thesis by blast
  qed
next
  case False
  then have "choose_probe rc (bsrc_schema r) pr = Inr (None, False)"
    by (cases pr) (auto simp: choose_probe_def)
  then show ?thesis by (auto simp: probe_safe_def)
qed

lemma optimize_source_planned:
  "ready m wh owner i off src \<Longrightarrow>
     \<exists>p. optimize_source src m wh owner i off True = Inr p \<and> planned m wh owner i off src p"
proof (induction src arbitrary: i off)
  case (BoundTableRef s sp)
  then obtain t where t: "map_of m (bs_table_name s) = Some t" "tm_name t = bs_table_name s" "table_ok t"
    and w: "owner = Some i \<Longrightarrow> \<exists>w. wh = Some w
           \<and> searchable w (int (br_index (bound_condition_column w)) - int off) t"
    by auto
  show ?case
  proof (cases "owner = Some i")
    case True
    then obtain w where w: "wh = Some w"
      "searchable w (int (br_index (bound_condition_column w)) - int off) t"
      using w by blast
    then obtain c where c: "choose_access (Some w)
        (int (br_index (bound_condition_column w)) - int off) (bs_key_column s) t True = Inr c"
      using choose_access_total [OF t(3)] by blast
    note fits = choose_access_fits [OF t(3) c]
    then show ?thesis
      using True t w c make_access_fits [OF t(3) fits w(2)] by (auto simp: leaf_planned_def)
  qed (use t in \<open>simp add: leaf_planned_def make_access_scan\<close>)
next
  case (BoundJoinRef l r lc rc s sp)
  let ?off = "off + length (bs_columns (bsrc_schema l))"
  obtain pl where pl: "optimize_source l m wh owner i off True = Inr pl" "planned m wh owner i off l pl"
    using BoundJoinRef.IH(1) BoundJoinRef.prems by auto
  obtain pr where pr: "optimize_source r m wh owner (i + leaf_count l) ?off True = Inr pr"
    "planned m wh owner (i + leaf_count l) ?off r pr"
    using BoundJoinRef.IH(2) BoundJoinRef.prems by auto
  obtain probe onp where "choose_probe rc (bsrc_schema r) pr = Inr (probe, onp)"
    "probe_safe (bsrc_schema r) (br_index rc) pr
      (if probe \<noteq> None \<or> onp then JOIN_AUTO else JOIN_HASH) probe onp"
    using choose_probe_safe [OF pr(2)] by blast
  then show ?case using pl pr by (auto simp: make_join_def probe_safe_def)
qed

section \<open>Validation of the plan\<close>

lemma validate_leaves_append:
  "length as = length ls \<Longrightarrow>
     validate_leaves bound wh owner i (as @ bs) (ls @ ms) =
       ebind (validate_leaves bound wh owner i as ls) (\<lambda>_.
         validate_leaves bound wh owner (i + length as) bs ms)"
proof (induction as ls arbitrary: i rule: list_induct2)
  case (Cons a as l ls)
  show ?case
    by (cases "validate_leaf bound wh owner i a l") (simp_all add: Cons.IH)
qed simp

lemma similar_value: "structure_of s = Inr st \<Longrightarrow> structure_value st = s"
  unfolding structure_of_def enum_of_def by (auto dest: find_SomeD split: option.splits)

lemma validate_leaf_planned:
  assumes "leaf_planned m wh owner i off s a"
  shows "validate_leaf bound wh owner i a (s, off) = Inr ()"
proof (cases "owner = Some i")
  case True
  then obtain t w c where w: "wh = Some w" "table_ok t"
    "route_fits w (int (br_index (bound_condition_column w)) - int off) (bs_key_column s) t True c"
    "a = plain_access t (ac_route c) (ac_index c) (ac_residual c)"
    using assms by (auto simp: leaf_planned_def)
  note defs = validate_leaf_def plain_access_def is_vector_route_def choice_def
  show ?thesis
  proof (cases w)
    case (BoundComparison r op v sp)
    then show ?thesis using True w(1,3,4) by (auto simp: defs eligible_key_def split: if_splits)
  next
    case (BoundSimilar sm)
    then show ?thesis using True w(1,3,4) by (auto simp: defs similar_value)
  qed (use True w(1,3,4) in \<open>auto simp: defs eligible_key_def eligible_structure_def\<close>)
next
  case False
  then show ?thesis using assms by (auto simp: leaf_planned_def validate_leaf_def plain_access_def)
qed

lemma planned_leaves:
  "planned m wh owner i off src p \<Longrightarrow>
     length (physical_leaves p) = leaf_count src
     \<and> map (\<lambda>a. tm_name (pa_table a)) (physical_leaves p) = map bs_table_name (leaves src)
     \<and> validate_leaves bound wh owner i (physical_leaves p) (bound_leaves src off) = Inr ()"
proof (induction src arbitrary: p i off)
  case (BoundTableRef s sp)
  then obtain a where p: "p = PAccess a" "leaf_planned m wh owner i off s a" by (cases p) auto
  have "tm_name (pa_table a) = bs_table_name s"
    using p(2) by (auto simp: leaf_planned_def plain_access_def split: if_splits)
  then show ?case using p validate_leaf_planned [OF p(2)] by simp
next
  case (BoundJoinRef l r lc rc s sp)
  then obtain pl pr where p: "physical_leaves p = physical_leaves pl @ physical_leaves pr"
    "planned m wh owner i off l pl"
    "planned m wh owner (i + leaf_count l) (off + length (bs_columns (bsrc_schema l))) r pr"
    by (cases p) auto
  show ?case
    using BoundJoinRef.IH(1) [OF p(2)] BoundJoinRef.IH(2) [OF p(3)]
    by (simp add: p(1) validate_leaves_append length_bound_leaves)
qed

lemma bound_leaf_names: "map (\<lambda>(s, _). bs_table_name s) (bound_leaves src off) = map bs_table_name (leaves src)"
  by (induction src arbitrary: off) auto

lemma validate_source_planned:
  assumes "planned m wh (leaf_of src wh) 0 0 src p"
  shows "validate_source p src wh = Inr ()"
  using planned_leaves [OF assms, of src] by (simp add: validate_source_def bound_leaf_names)

section \<open>Plans of SELECT\<close>

text \<open>What the optimizer may make of the access of a query on one table.\<close>

definition knn_access :: "bound_select \<Rightarrow> table_access \<Rightarrow> table_access \<Rightarrow> bool" where
  "knn_access b a a' \<longleftrightarrow>
     (\<exists>ob n ix. bl_order_by b = Some ob \<and> is_distance_order ob \<and> order_direction_of ob = ORDER_ASC
      \<and> bl_limit b = Some n \<and> bl_where b = None \<and> bl_group_by b = None
      \<and> ix \<in> set (tm_indexes (pa_table a))
      \<and> eligible_structure ST_RTREE (int (br_index (order_column ob))) ix
      \<and> a' = a\<lparr>pa_route := R_RTREE_KNN, pa_index := Some ix, pa_nearest := Some ob,
                pa_nearest_limit := Some n\<rparr>)"

definition top_k :: "bound_select \<Rightarrow> table_access \<Rightarrow> table_access \<Rightarrow> bool" where
  "top_k b a a' \<longleftrightarrow>
     (\<exists>n. pa_route a = R_TEXT_SEARCH \<and> bl_limit b = Some n \<and> bl_order_by b = None
      \<and> bl_group_by b = None \<and> \<not> score_ascending b \<and> a' = a\<lparr>pa_text_limit := Some n\<rparr>)"

text \<open>The plans of a bound query: the planned source, possibly with one of the two improvements.\<close>

definition select_planned :: "metadata_map \<Rightarrow> bound_select \<Rightarrow> select_plan \<Rightarrow> bool" where
  "select_planned m b p \<longleftrightarrow>
     sp_statement p = b
     \<and> (\<exists>q. planned m (bl_where b) (leaf_of (bl_source b) (bl_where b)) 0 0 (bl_source b) q
          \<and> (sp_source p = q
             \<or> (\<exists>a a'. q = PAccess a \<and> sp_source p = PAccess a' \<and> (knn_access b a a' \<or> top_k b a a'))))
     \<and> sp_external_sort p = (bl_order_by b \<noteq> None \<and> source_nearest (sp_source p) = None)
     \<and> sp_group_strategy p = (if bl_group_by b = None then None else Some GROUP_AUTO)"

text \<open>Every table of the query is described under its own name by valid metadata.\<close>

definition described :: "metadata_map \<Rightarrow> bound_source \<Rightarrow> bool" where
  "described m src \<longleftrightarrow>
     (\<forall>s \<in> set (leaves src). \<exists>t. map_of m (bs_table_name s) = Some t \<and> tm_name t = bs_table_name s
        \<and> table_ok t)"

text \<open>\<open>MATCH\<close> and \<open>SIMILAR_TO\<close> read one table, which has what the search needs.\<close>

definition search_supported :: "metadata_map \<Rightarrow> bound_select \<Rightarrow> bool" where
  "search_supported m b \<longleftrightarrow>
     (case bl_where b of
        Some (BoundMatch r q rank ex sp) \<Rightarrow>
          (\<exists>t. map_of m (bs_table_name (bl_schema b)) = Some t
             \<and> searchable (BoundMatch r q rank ex sp) (int (br_index r)) t)
      | Some (BoundSimilar s) \<Rightarrow> bm_kind s = IDX_IVF \<or> bm_kind s = IDX_HNSW
      | _ \<Rightarrow> True)"

lemma ready_join:
  assumes "described m src" "\<forall>w k t. wh = Some w \<longrightarrow> searchable w k t" "wh = None \<longrightarrow> owner = None"
  shows "ready m wh owner i off src"
  using assms(1)
proof (induction src arbitrary: i off)
  case (BoundTableRef s sp)
  then show ?case using assms(2,3) by (cases wh) (auto simp: described_def)
next
  case (BoundJoinRef l r lc rc s sp)
  then show ?case by (auto simp: described_def)
qed

lemma source_ready:
  assumes "bound_select_ok cat b" "described m (bl_source b)" "search_supported m b"
  shows "ready m (bl_where b) (leaf_of (bl_source b) (bl_where b)) 0 0 (bl_source b)"
proof (cases "bl_source b")
  case (BoundTableRef s sp)
  then show ?thesis
    using assms(2,3) by (cases "bl_where b")
      (auto simp: described_def search_supported_def leaf_of_def bl_schema_def
        split: bound_condition.splits)
next
  case (BoundJoinRef l r lc rc s sp)
  have "searchable w k t" if "bl_where b = Some w" for w k t
    using assms(1) BoundJoinRef that
    by (cases w) (auto simp: bound_select_ok_def search_ok_def)
  then show ?thesis by (intro ready_join) (auto simp: assms(2) leaf_of_def)
qed

lemma leaf_of_table: "leaf_of (BoundTableRef s sp) wh = Some j \<Longrightarrow> j = 0"
  by (auto simp: leaf_of_def split: option.splits if_splits)

lemma leaf_planned_plain:
  assumes "leaf_planned m wh owner i off s a"
  obtains t where "table_ok t" "a = plain_access t (pa_route a) (pa_index a) (pa_residual a)"
    "make_access a = Inr a" "pa_route a \<noteq> R_RTREE_KNN" "pa_route a = R_TEXT_SEARCH \<longrightarrow> \<not> pa_residual a"
proof (cases "owner = Some i")
  case True
  then obtain t w c where w: "table_ok t" "searchable w (int (br_index (bound_condition_column w)) - int off) t"
    "route_fits w (int (br_index (bound_condition_column w)) - int off) (bs_key_column s) t True c"
    "a = plain_access t (ac_route c) (ac_index c) (ac_residual c)"
    using assms by (auto simp: leaf_planned_def)
  have "make_access a = Inr a" using make_access_fits [OF w(1,3,2)] w(4) by simp
  moreover have "ac_route c \<noteq> R_RTREE_KNN" "ac_route c = R_TEXT_SEARCH \<Longrightarrow> \<not> ac_residual c"
    using w(3) by (cases w; auto simp: choice_def split: if_splits)+
  ultimately show ?thesis using that w(1,4) by (simp add: plain_access_def)
next
  case False
  then obtain t where "table_ok t" "a = plain_access t R_SCAN None False"
    using assms by (auto simp: leaf_planned_def)
  then show ?thesis using that [of t] make_access_scan [of t] by (simp add: plain_access_def)
qed

lemma knn_access_ok:
  assumes "table_ok (pa_table a)" "knn_access b a a'" "a = plain_access t r i res" "\<not> res"
    "\<forall>n. bl_limit b = Some n \<longrightarrow> 0 \<le> n"
  shows "make_access a' = Inr a'"
  using assms
  by (auto simp: knn_access_def make_access_def plain_access_def check_text_limit_def check_nearest_def
      is_index_route_def check_access_index_def is_vector_structure_def is_spatial_route_def
      eligible_structure_def value_error_if_def ensure_def)

lemma text_limit_selectors:
  "pa_table (a\<lparr>pa_text_limit := x\<rparr>) = pa_table a" "pa_route (a\<lparr>pa_text_limit := x\<rparr>) = pa_route a"
  "pa_residual (a\<lparr>pa_text_limit := x\<rparr>) = pa_residual a"
  "pa_nearest (a\<lparr>pa_text_limit := x\<rparr>) = pa_nearest a"
  "pa_nearest_limit (a\<lparr>pa_text_limit := x\<rparr>) = pa_nearest_limit a"
  by simp_all

lemma text_limit_checks:
  "check_nearest (a\<lparr>pa_text_limit := x\<rparr>) = check_nearest a"
  "check_access_index (a\<lparr>pa_text_limit := x\<rparr>) ix = check_access_index a ix"
  unfolding check_nearest_def check_access_index_def text_limit_selectors by (rule refl)+

lemma make_access_Inr:
  "make_access a = Inr a' \<longleftrightarrow> a' = a \<and> check_text_limit a = Inr ()
     \<and> \<not> (pa_route a = R_TEXT_SEARCH \<and> pa_residual a) \<and> check_nearest a = Inr ()
     \<and> is_index_route (pa_route a) = (pa_index a \<noteq> None)
     \<and> (\<forall>ix. pa_index a = Some ix \<longrightarrow> check_access_index a ix = Inr ())"
  by (cases "pa_index a") (auto simp: make_access_def bind_simps)

lemma top_k_ok:
  assumes "make_access a = Inr a" "top_k b a a'" "\<forall>n. bl_limit b = Some n \<longrightarrow> 0 \<le> n"
  shows "make_access a' = Inr a'"
proof -
  from assms(2) obtain n where n: "pa_route a = R_TEXT_SEARCH" "bl_limit b = Some n"
    "a' = a\<lparr>pa_text_limit := Some n\<rparr>" by (auto simp: top_k_def)
  then have "check_text_limit a' = Inr ()" using assms(3) by (simp add: check_text_limit_def)
  then show ?thesis using assms(1) n(3) by (simp add: make_access_Inr text_limit_checks)
qed

lemma nearest_access_cases:
  assumes "pa_residual a = False \<or> bl_where b \<noteq> None" "table_ok (pa_table a)"
    "a = plain_access (pa_table a) (pa_route a) (pa_index a) (pa_residual a)"
    "\<forall>n. bl_limit b = Some n \<longrightarrow> 0 \<le> n"
  shows "nearest_access b (PAccess a) = Inr (PAccess a)
    \<or> (\<exists>a'. nearest_access b (PAccess a) = Inr (PAccess a') \<and> knn_access b a a')"
proof (cases "\<exists>ob n. bl_order_by b = Some ob \<and> bl_limit b = Some n \<and> is_distance_order ob
    \<and> order_direction_of ob = ORDER_ASC \<and> bl_where b = None \<and> bl_group_by b = None")
  case True
  then obtain ob n where o: "bl_order_by b = Some ob" "bl_limit b = Some n" "is_distance_order ob"
    "order_direction_of ob = ORDER_ASC" "bl_where b = None" "bl_group_by b = None"
    by blast
  show ?thesis
  proof (cases "best_spatial_index (pa_table a) (int (br_index (order_column ob)))")
    case None
    then show ?thesis using o by (simp add: nearest_access_def)
  next
    case (Some ix)
    let ?a = "a\<lparr>pa_route := R_RTREE_KNN, pa_index := Some ix, pa_nearest := Some ob,
                pa_nearest_limit := Some n\<rparr>"
    have ix: "ix \<in> set (tm_indexes (pa_table a))
        \<and> eligible_structure ST_RTREE (int (br_index (order_column ob))) ix"
      using Some pick_fits(2) by (auto simp: best_spatial_index_def best_of_structure_pick)
    have knn: "knn_access b a ?a" unfolding knn_access_def using o ix by blast
    have "pa_residual a = False" using assms(1) o(5) by blast
    then have "make_access ?a = Inr ?a"
      using knn_access_ok [OF assms(2) knn assms(3) _ assms(4)] by blast
    moreover have "?a = \<lparr>pa_table = pa_table a, pa_route = R_RTREE_KNN, pa_index = Some ix,
        pa_residual = False, pa_nearest = Some ob, pa_nearest_limit = Some n, pa_text_limit = None\<rparr>"
      by (subst assms(3)) (simp add: plain_access_def \<open>pa_residual a = False\<close>)
    ultimately have "nearest_access b (PAccess a) = Inr (PAccess ?a)"
      using o Some by (simp add: nearest_access_def)
    then show ?thesis using knn by blast
  qed
next
  case False
  then show ?thesis by (auto simp: nearest_access_def split: option.splits)
qed

lemma top_k_access_cases:
  assumes "make_access a = Inr a" "a = plain_access (pa_table a) (pa_route a) (pa_index a) (pa_residual a)"
    "pa_route a = R_TEXT_SEARCH \<longrightarrow> \<not> pa_residual a" "\<forall>n. bl_limit b = Some n \<longrightarrow> 0 \<le> n"
  shows "top_k_access b (PAccess a) = Inr (PAccess a)
    \<or> (\<exists>a'. top_k_access b (PAccess a) = Inr (PAccess a') \<and> top_k b a a')"
proof (cases "\<exists>n. bl_limit b = Some n \<and> pa_route a = R_TEXT_SEARCH \<and> bl_order_by b = None
    \<and> bl_group_by b = None \<and> \<not> score_ascending b")
  case True
  then obtain n where n: "bl_limit b = Some n" "pa_route a = R_TEXT_SEARCH" "bl_order_by b = None"
    "bl_group_by b = None" "\<not> score_ascending b" by blast
  let ?a = "a\<lparr>pa_text_limit := Some n\<rparr>"
  have k: "top_k b a ?a" using n by (auto simp: top_k_def)
  have "?a = \<lparr>pa_table = pa_table a, pa_route = pa_route a, pa_index = pa_index a,
      pa_residual = False, pa_nearest = None, pa_nearest_limit = None, pa_text_limit = Some n\<rparr>"
    using assms(3) n(2) by (subst assms(2)) (simp add: plain_access_def)
  then have "top_k_access b (PAccess a) = Inr (PAccess ?a)"
    using n top_k_ok [OF assms(1) k assms(4)] by (simp add: top_k_access_def)
  then show ?thesis using k by blast
next
  case False
  then show ?thesis by (auto simp: top_k_access_def split: option.splits)
qed

text \<open>The plan made of a source, and when its constructor accepts it.\<close>

definition plan_of :: "bound_select \<Rightarrow> physical_source \<Rightarrow> select_plan" where
  "plan_of b src =
     \<lparr>sp_statement = b, sp_source = src,
      sp_external_sort = (bl_order_by b \<noteq> None \<and> source_nearest src = None),
      sp_group_strategy = (if bl_group_by b \<noteq> None then Some GROUP_AUTO else None)\<rparr>"

lemma optimize_select_steps:
  assumes "optimize_source (bl_source b) m (bl_where b) (leaf_of (bl_source b) (bl_where b)) 0 0 True = Inr q"
    "nearest_access b q = Inr q'" "top_k_access b q' = Inr src"
  shows "optimize_select b (Tables m) = make_select_plan (plan_of b src)"
  using assms by (simp add: optimize_select_def plan_of_def)

lemma make_select_plan_of:
  assumes "validate_source src (bl_source b) (bl_where b) = Inr ()"
    "\<And>nearest n. source_nearest src = Some (nearest, n) \<Longrightarrow>
       bl_order_by b = Some nearest \<and> n = bl_limit b \<and> bl_where b = None \<and> bl_group_by b = None
       \<and> is_table_ref (bl_source b)"
    "source_text_limit src \<noteq> None \<Longrightarrow>
       source_text_limit src = bl_limit b \<and> bl_order_by b = None \<and> bl_group_by b = None
       \<and> \<not> score_ascending b"
  shows "make_select_plan (plan_of b src) = Inr (plan_of b src)"
proof -
  have limit: "(source_text_limit src \<noteq> None \<and> (source_text_limit src \<noteq> bl_limit b
      \<or> bl_order_by b \<noteq> None \<or> bl_group_by b \<noteq> None \<or> score_ascending b)) = False"
    using assms(3) by auto
  note defs = make_select_plan_def plan_of_def Let_def
  show ?thesis
  proof (cases "source_nearest src")
    case None
    then show ?thesis
      using assms(1) limit unfolding defs 
      by (cases "bl_group_by b"; cases "bl_order_by b"; cases "source_text_limit src") simp_all
  next
    case (Some x)
    obtain nearest n where x: "x = (nearest, n)" by (cases x)
    then have *: "bl_order_by b = Some nearest" "n = bl_limit b" "bl_where b = None" "bl_group_by b = None"
      "is_table_ref (bl_source b)"
      using assms(2) Some by auto
    from *(5) obtain s sp where "bl_source b = BoundTableRef s sp" by (cases "bl_source b") auto
    then show ?thesis using assms(1) limit Some x * unfolding defs by simp
  qed
qed

lemma validate_leaf_text_limit:
  "validate_leaf bound wh owner i (a\<lparr>pa_text_limit := x\<rparr>) leaf = validate_leaf bound wh owner i a leaf"
  by (cases wh) (simp_all add: validate_leaf_def)

lemma optimize_select_planned:
  assumes b: "bound_select_ok cat b" and d: "described m (bl_source b)" and s: "search_supported m b"
  shows "\<exists>p. optimize_select b (Tables m) = Inr p \<and> select_planned m b p"
proof -
  let ?ow = "leaf_of (bl_source b) (bl_where b)"
  obtain q where q: "optimize_source (bl_source b) m (bl_where b) ?ow 0 0 True = Inr q"
    "planned m (bl_where b) ?ow 0 0 (bl_source b) q"
    using optimize_source_planned [OF source_ready [OF b d s]] by blast
  note valid = validate_source_planned [OF q(2)]
  have lim: "\<forall>n. bl_limit b = Some n \<longrightarrow> 0 \<le> n" using b by (simp add: bound_select_ok_def)
  show ?thesis
  proof (cases q)
    case (PJoin pl pr lcol rcol strategy probe onp res)
    then have "nearest_access b q = Inr q" "top_k_access b q = Inr q"
      by (simp_all add: nearest_access_def top_k_access_def)
    then have "optimize_select b (Tables m) = make_select_plan (plan_of b q)"
      using q(1) by (rule optimize_select_steps [rotated])
    also have "\<dots> = Inr (plan_of b q)"
      by (rule make_select_plan_of [OF valid]) (simp_all add: PJoin)
    finally show ?thesis using q(2) by (auto simp: select_planned_def plan_of_def)
  next
    case (PAccess a)
    then obtain sch sp where src: "bl_source b = BoundTableRef sch sp"
      using q(2) by (cases "bl_source b") auto
    then have lp: "leaf_planned m (bl_where b) ?ow 0 0 sch a" using q(2) PAccess by simp
    obtain t where t: "table_ok t" "a = plain_access t (pa_route a) (pa_index a) (pa_residual a)"
      "make_access a = Inr a" "pa_route a \<noteq> R_RTREE_KNN" "pa_route a = R_TEXT_SEARCH \<longrightarrow> \<not> pa_residual a"
      by (rule leaf_planned_plain [OF lp])
    have tab: "pa_table a = t" by (subst t(2)) (simp add: plain_access_def)
    have none: "pa_nearest a = None" "pa_text_limit a = None"
      by (subst t(2), simp add: plain_access_def)+
    have res: "pa_residual a = False \<or> bl_where b \<noteq> None"
      using lp by (auto simp: leaf_planned_def plain_access_def split: if_splits)
    have val: "validate_leaf (BoundTableRef sch sp) (bl_where b) ?ow 0 a (sch, 0) = Inr ()"
      by (rule validate_leaf_planned [OF lp])
    have name: "tm_name t = bs_table_name sch"
      using lp tab by (auto simp: leaf_planned_def plain_access_def split: if_splits)
    consider (knn) a' where "nearest_access b q = Inr (PAccess a')" "knn_access b a a'" |
      (top) a' where "nearest_access b q = Inr q" "top_k_access b q = Inr (PAccess a')" "top_k b a a'" |
      (same) "nearest_access b q = Inr q" "top_k_access b q = Inr q"
      using nearest_access_cases [OF res, unfolded tab, OF t(1) t(2) lim]
        top_k_access_cases [OF t(3), unfolded tab, OF t(2,5) lim] PAccess by blast
    then show ?thesis
    proof cases
      case knn
      then have "top_k_access b (PAccess a') = Inr (PAccess a')"
        by (auto simp: top_k_access_def knn_access_def split: option.splits)
      then have "optimize_select b (Tables m) = make_select_plan (plan_of b (PAccess a'))"
        by (rule optimize_select_steps [OF q(1) knn(1)])
      also have "\<dots> = Inr (plan_of b (PAccess a'))"
        using knn(2) src tab name none
        by (intro make_select_plan_of) (auto simp: knn_access_def validate_source_def validate_leaf_def)
      finally show ?thesis using q(2) PAccess knn(2) by (auto simp: select_planned_def plan_of_def)
    next
      case top
      then have "validate_leaf (BoundTableRef sch sp) (bl_where b) ?ow 0 a' (sch, 0) = Inr ()"
        using val by (auto simp: top_k_def validate_leaf_text_limit)
      then have v: "validate_source (PAccess a') (bl_source b) (bl_where b) = Inr ()"
        using top(3) src tab name by (auto simp: top_k_def validate_source_def)
      have "optimize_select b (Tables m) = make_select_plan (plan_of b (PAccess a'))"
        by (rule optimize_select_steps [OF q(1) top(1,2)])
      also have "\<dots> = Inr (plan_of b (PAccess a'))"
        using top(3) none by (intro make_select_plan_of [OF v]) (auto simp: top_k_def)
      finally show ?thesis using q(2) PAccess top(3) by (auto simp: select_planned_def plan_of_def)
    next
      case same
      have "optimize_select b (Tables m) = make_select_plan (plan_of b q)"
        by (rule optimize_select_steps [OF q(1) same])
      also have "\<dots> = Inr (plan_of b q)"
        by (rule make_select_plan_of [OF valid]) (simp_all add: PAccess none)
      finally show ?thesis using q(2) by (auto simp: select_planned_def plan_of_def)
    qed
  qed
qed

section \<open>Properties\<close>

text \<open>
  Claim C6. The optimizer returns a plan for every bound \<open>SELECT\<close> whose tables are described (and, for
  \<open>MATCH\<close>, have a text index): none of the checks of its own constructors fails. In the plan the
  predicate is answered by the leaf of its column through a route that fits it, with a residual
  filter exactly for a scan and for strict bounds; the other leaves are read whole; joins ask for a
  probe only of a table that is read whole; nearest neighbours and a top-k replace the access only
  of a query without anything else to filter, group or sort.
\<close>

theorem optimize_select_total:
  assumes "bound_select_ok cat b" "described m (bl_source b)" "search_supported m b"
  shows "\<exists>p. optimize_select b (Tables m) = Inr p \<and> select_planned m b p"
  by (rule optimize_select_planned [OF assms])

definition demo_table :: table_metadata where
  "demo_table =
     \<lparr>tm_name = ''t'', tm_structure = ST_HEAP,
      tm_indexes = [\<lparr>im_name = ''b'', im_column = 0, im_structure = ST_BPLUS_UNCLUSTERED,
                     im_supports_range = True\<rparr>,
                    \<lparr>im_name = ''h'', im_column = 0, im_structure = ST_EXTENDIBLE_HASH,
                     im_supports_range = False\<rparr>],
      tm_rows = Some 10\<rparr>"

lemma demo_table_ok: "table_ok demo_table"
  by (simp add: demo_table_def table_ok_def index_ok_def table_structures_def index_structures_def)

lemma optimize_select_total_witness:
  "\<exists>b p a. bind_select demo_select (OneSchema demo_schema) None = Inr b
     \<and> optimize_select b (Tables [(''t'', demo_table)]) = Inr p
     \<and> select_planned [(''t'', demo_table)] b p
     \<and> sp_source p = PAccess a \<and> pa_route a = R_INDEX_SEARCH
     \<and> map_option im_name (pa_index a) = Some ''h''"
proof -
  have "case bind_select demo_select (OneSchema demo_schema) None of Inl _ \<Rightarrow> False | Inr b \<Rightarrow>
      bl_where b \<noteq> None \<and> searches (bl_where b) SCORE_TEXT = False
      \<and> searches (bl_where b) SCORE_SIMILARITY = False
      \<and> (case optimize_select b (Tables [(''t'', demo_table)]) of Inl _ \<Rightarrow> False | Inr p \<Rightarrow>
           (case sp_source p of PAccess a \<Rightarrow> pa_route a = R_INDEX_SEARCH
               \<and> map_option im_name (pa_index a) = Some ''h'' | _ \<Rightarrow> False))"
    by code_simp
  then obtain b p a where b: "bind_select demo_select (OneSchema demo_schema) None = Inr b"
    and p: "optimize_select b (Tables [(''t'', demo_table)]) = Inr p" "sp_source p = PAccess a"
      "pa_route a = R_INDEX_SEARCH" "map_option im_name (pa_index a) = Some ''h''"
    and w: "bl_where b \<noteq> None" "\<not> searches (bl_where b) SCORE_TEXT"
      "\<not> searches (bl_where b) SCORE_SIMILARITY"
    by (auto split: sum.splits physical_source.splits)
  have ok: "bound_select_ok [(bs_table_name demo_schema, demo_schema)] b"
    using bind_select_ok [OF b] by simp
  then have "described [(''t'', demo_table)] (bl_source b)"
    using demo_table_ok by (auto simp: bound_select_ok_def described_def demo_schema_def demo_table_def)
  moreover have "search_supported [(''t'', demo_table)] b"
    using w by (auto simp: search_supported_def split: option.splits bound_condition.splits)
  ultimately have "\<exists>p. optimize_select b (Tables [(''t'', demo_table)]) = Inr p
      \<and> select_planned [(''t'', demo_table)] b p"
    by (rule optimize_select_total [OF ok])
  then show ?thesis using b p by auto
qed

text \<open>
  Claim C27. The plan does not depend on the order of the catalogue: for tables whose indexes have
  distinct names, listing the same indexes in another order leaves the chosen route, index and
  filter as they are.
\<close>

theorem choose_access_order_independent:
  assumes "table_ok t" "inj_on im_name (set (tm_indexes t))" "set jxs = set (tm_indexes t)"
  shows "choose_access wh column key (t\<lparr>tm_indexes := jxs\<rparr>) primary
    = choose_access wh column key t primary"
proof -
  let ?t = "t\<lparr>tm_indexes := jxs\<rparr>"
  have t: "table_ok ?t" using assms(1,3) by (simp add: table_ok_def list_all_iff)
  have best: "best_index ?t c fr ah = best_index t c fr ah" for c fr ah
    using by_rank.pick_set_eq [of "tm_indexes t" jxs] assms
    by (simp add: best_index_pick [OF t] best_index_pick [OF assms(1)])
  have beats: "index_beats_table ?t ix = index_beats_table t ix" for ix
    by (simp add: index_beats_table_def)
  have struct: "best_of_structure st ?t c = best_of_structure st t c" for st c
    using by_name.pick_set_eq [of "tm_indexes t" jxs] assms by (simp add: best_of_structure_pick)
  show ?thesis
    by (cases "(wh, column, key, t, primary)" rule: choose_access.cases)
      (simp_all add: plan_equality_def plan_range_def best beats struct best_text_index_def
        best_spatial_index_def)
qed

lemma choose_access_order_independent_witness:
  "choose_access (Some (BoundComparison (BoundColumnReference 0 (BoundColumn ''id'' SQL_INT None) demo_span)
      OP_EQUAL (VInt 3) demo_span)) 0 0 (demo_table\<lparr>tm_indexes := rev (tm_indexes demo_table)\<rparr>) True
   = choose_access (Some (BoundComparison (BoundColumnReference 0 (BoundColumn ''id'' SQL_INT None) demo_span)
      OP_EQUAL (VInt 3) demo_span)) 0 0 demo_table True"
  by (rule choose_access_order_independent [OF demo_table_ok]) (auto simp: demo_table_def)

text \<open>
  Claim C29. A filter is never left above a join: the predicate of a bound query belongs to one leaf of
  its \<open>FROM\<close>, so the branch of \<open>_optimize_source\<close> that keeps it for the join is not taken.
\<close>

theorem predicate_reaches_leaf:
  assumes "bound_select_ok cat b" "described m (bl_source b)" "search_supported m b"
    "optimize_select b (Tables m) = Inr p"
    "sp_source p = PJoin l r lcol rcol strategy probe onp residual"
  shows "\<not> residual"
proof -
  let ?ow = "leaf_of (bl_source b) (bl_where b)"
  have "select_planned m b p"
    using optimize_select_planned [OF assms(1,2,3)] assms(4) by auto
  then have "planned m (bl_where b) ?ow 0 0 (bl_source b) (sp_source p)"
    using assms(5) by (auto simp: select_planned_def)
  then have "residual = (bl_where b \<noteq> None \<and> ?ow = None)"
    using assms(5) by (cases "bl_source b") auto
  moreover have "?ow \<noteq> None" if "bl_where b = Some w" for w
    using assms(1) that condition_in_ref [of "bl_schema b" w]
    by (intro leaf_of_exists [OF _ that]) (auto simp: bound_select_ok_def bl_schema_def)
  ultimately show ?thesis by auto
qed

text \<open>\<open>SELECT * FROM t JOIN u ON t.id = t_id WHERE u.id = 3\<close>, with an index on each table's key.\<close>

definition demo_join_select :: select_statement where
  "demo_join_select =
     \<lparr>se_projections = [PWildcard demo_span],
      se_source = JoinRef (TableRef (Identifier ''t'' demo_span) demo_span)
        (TableRef (Identifier ''u'' demo_span) demo_span)
        (ColumnReference (Identifier ''id'' demo_span) demo_span (Some (Identifier ''t'' demo_span)))
        (ColumnReference (Identifier ''t_id'' demo_span) demo_span None) demo_span,
      se_where = Some (ComparisonCondition
        (ColumnReference (Identifier ''id'' demo_span) demo_span (Some (Identifier ''u'' demo_span)))
        OP_EQUAL (IntegerLiteral 3 demo_span) demo_span),
      se_group_by = None, se_order_by = None, se_span = demo_span, se_limit = None\<rparr>"

definition demo_join_catalog :: catalog where
  "demo_join_catalog = [(''t'', demo_schema), (''u'', other_schema)]"

definition demo_join_metadata :: metadata_map where
  "demo_join_metadata = [(''t'', demo_table), (''u'', demo_table\<lparr>tm_name := ''u''\<rparr>)]"

lemma predicate_reaches_leaf_witness:
  "\<exists>b p l r lcol rcol strategy probe onp residual.
     bind_select demo_join_select (Schemas demo_join_catalog) None = Inr b
     \<and> bl_where b \<noteq> None \<and> optimize_select b (Tables demo_join_metadata) = Inr p
     \<and> sp_source p = PJoin l r lcol rcol strategy probe onp residual \<and> \<not> residual"
proof -
  have "case bind_select demo_join_select (Schemas demo_join_catalog) None of Inl _ \<Rightarrow> False | Inr b \<Rightarrow>
      bl_where b \<noteq> None \<and> searches (bl_where b) SCORE_TEXT = False
      \<and> searches (bl_where b) SCORE_SIMILARITY = False
      \<and> (case optimize_select b (Tables demo_join_metadata) of Inl _ \<Rightarrow> False | Inr p \<Rightarrow>
           (case sp_source p of PJoin _ _ _ _ _ _ _ _ \<Rightarrow> True | _ \<Rightarrow> False))"
    by code_simp
  then obtain b p l r lcol rcol strategy probe onp residual
    where b: "bind_select demo_join_select (Schemas demo_join_catalog) None = Inr b"
    and p: "optimize_select b (Tables demo_join_metadata) = Inr p"
      "sp_source p = PJoin l r lcol rcol strategy probe onp residual"
    and w: "bl_where b \<noteq> None" "\<not> searches (bl_where b) SCORE_TEXT"
      "\<not> searches (bl_where b) SCORE_SIMILARITY"
    by (auto split: sum.splits physical_source.splits)
  have ok: "bound_select_ok demo_join_catalog b" using bind_select_ok [OF b] by simp
  have "described demo_join_metadata (bl_source b)"
  proof -
    have "set (leaves (bl_source b)) \<subseteq> {demo_schema, other_schema}"
      using ok by (auto simp: bound_select_ok_def demo_join_catalog_def)
    then show ?thesis
      using demo_table_ok
      by (auto simp: described_def demo_join_metadata_def demo_schema_def other_schema_def demo_table_def
          table_ok_def)
  qed
  moreover have "search_supported demo_join_metadata b"
    using w by (auto simp: search_supported_def split: option.splits bound_condition.splits)
  ultimately have "\<not> residual" using predicate_reaches_leaf [OF ok _ _ p] by blast
  then show ?thesis using b p w(1) by blast
qed

text \<open>
  Claim C17. The optimizer returns a plan for every \<open>DELETE\<close> that the analysis lets through, and the
  plan of a table with secondary indexes reads its candidates with their RIDs: it never uses the
  searches of the table itself, which return bare records.
\<close>

theorem optimize_delete_total:
  assumes "table_ok t" "tm_name t = bs_table_name (bd_schema st)"
    "\<And>k. \<not> searches (Some (bd_where st)) k"
  shows "\<exists>p. optimize_delete st t = Inr p
    \<and> (tm_indexes t \<noteq> [] \<longrightarrow> dp_route p \<in> {R_SCAN, R_INDEX_SEARCH, R_INDEX_RANGE})
    \<and> (dp_route p = R_SCAN \<longrightarrow> dp_residual p)"
proof (cases "is_region (bd_where st)")
  case True
  then show ?thesis
    using assms(2) by (simp add: optimize_delete_def make_delete_plan_def validate_access_def choice_def)
next
  case False
  let ?w = "bd_where st"
  let ?col = "int (br_index (bound_condition_column ?w))"
  have "searchable ?w ?col t"
    using assms(3) [of SCORE_TEXT] assms(3) [of SCORE_SIMILARITY] by (cases ?w) auto
  then obtain c where c: "choose_access (Some ?w) ?col (bs_key_column (bd_schema st)) t (tm_indexes t = [])
      = Inr c"
    using choose_access_total [OF assms(1)] by blast
  note fits = choose_access_fits [OF assms(1) c]
  have range: "\<forall>ix \<in> set (tm_indexes t). im_structure ix = ST_BPLUS_UNCLUSTERED \<longrightarrow> im_supports_range ix"
    using assms(1) by (simp add: table_ok_def list_all_iff index_ok_def)
  consider (comparison) r op v sp where "?w = BoundComparison r op v sp" |
    (between) r lo hi sp where "?w = BoundBetween r lo hi sp"
    using False assms(3) [of SCORE_TEXT] assms(3) [of SCORE_SIMILARITY] by (cases ?w) auto
  then have "(case ac_index c of None \<Rightarrow> ac_route c = R_SCAN \<and> ac_residual c
        \<or> (ac_route c = R_TABLE_SEARCH \<or> ac_route c = R_TABLE_RANGE) \<and> tm_indexes t = []
      | Some ix \<Rightarrow> (ac_route c = R_INDEX_SEARCH \<or> ac_route c = R_INDEX_RANGE) \<and> ix \<in> set (tm_indexes t)
          \<and> im_column ix = ?col \<and> (ac_route c = R_INDEX_RANGE \<longrightarrow> im_supports_range ix))"
    using fits range by cases (auto simp: choice_def eligible_key_def split: if_splits)
  then show ?thesis
    using False c assms(2)
    by (auto simp: optimize_delete_def make_delete_plan_def validate_access_def split: option.splits)
qed

lemma optimize_delete_total_witness:
  "\<exists>p. optimize_delete \<lparr>bd_schema = demo_schema,
       bd_where = BoundBetween (BoundColumnReference 0 (BoundColumn ''id'' SQL_INT None) demo_span)
         (VInt 1) (VInt 5) demo_span, bd_span = demo_span\<rparr> demo_table = Inr p
     \<and> (tm_indexes demo_table \<noteq> [] \<longrightarrow> dp_route p \<in> {R_SCAN, R_INDEX_SEARCH, R_INDEX_RANGE})
     \<and> (dp_route p = R_SCAN \<longrightarrow> dp_residual p)"
  by (rule optimize_delete_total [OF demo_table_ok])
    (auto simp: demo_table_def demo_schema_def)

text \<open>
  Claim C37. The metadata read from the core is well formed: \<open>from_native_table_info\<close> gives each index
  a column of the table and the capability of its structure, or raises \<open>ValueError\<close>.
\<close>

theorem native_metadata_ok:
  "case from_native_table_info t rows of
     Inr m \<Rightarrow> table_ok m \<and> tm_name m = nt_name t
       \<and> list_all (\<lambda>ix. 0 \<le> im_column ix \<and> im_column ix < int (nt_columns t)) (tm_indexes m)
   | Inl e \<Rightarrow> (\<exists>text. e = ValueError text)"
proof (cases "from_native_table_info t rows")
  case (Inr m)
  then show ?thesis
    using from_native_table_info_ok [OF Inr] by (auto simp: table_ok_def list_all_iff index_ok_def)
next
  case (Inl e)
  have v: "value_error_if bad msg = Inl e \<Longrightarrow> \<exists>text. e = ValueError text" for bad msg
    by (cases bad) auto
  have s: "structure_from_native x allowed role = Inl e \<Longrightarrow> \<exists>text. e = ValueError text" for x allowed role
    by (auto simp: structure_from_native_def split: sum.splits if_splits)
  have "index_from_native n ni = Inl e \<Longrightarrow> \<exists>text. e = ValueError text" for n ni
    by (auto simp: index_from_native_def make_index_metadata_def bind_simps dest!: v s)
  then have "\<exists>text. e = ValueError text"
    using Inl by (auto simp: from_native_table_info_def make_table_metadata_def bind_simps
        dest!: v s emap_InlD)
  then show ?thesis using Inl by simp
qed

end
