(* ===== verification/Planner_Explain.thy ===== *)
theory Planner_Explain
  imports Planner_Optimizer
begin

text \<open>
  The description of a physical plan that is not executed (\<open>engine/planner/explain.py\<close>), and the
  steps of the text and vector searches that the executor shares with it.
\<close>

section \<open>Values of enumerations and slices of the text\<close>

fun vector_metric_value :: "vector_metric \<Rightarrow> string" where
  "vector_metric_value VM_EUCLIDEAN = ''euclidean''"
| "vector_metric_value VM_COSINE = ''cosine''"
| "vector_metric_value VM_DOT = ''dot''"

fun distance_metric_value :: "distance_metric \<Rightarrow> string" where
  "distance_metric_value DIST_HAVERSINE = ''HAVERSINE''"
| "distance_metric_value DIST_EUCLIDEAN = ''EUCLIDEAN''"

fun ranking_value :: "text_ranking \<Rightarrow> string" where
  "ranking_value RANK_TF_IDF = ''TF_IDF''"
| "ranking_value RANK_BM25 = ''BM25''"

fun direction_value :: "order_direction \<Rightarrow> string" where
  "direction_value ORDER_ASC = ''ASC''"
| "direction_value ORDER_DESC = ''DESC''"

fun group_strategy_value :: "group_strategy \<Rightarrow> string" where
  "group_strategy_value GROUP_AUTO = ''auto''"
| "group_strategy_value GROUP_HASH = ''hash''"

text \<open>\<open>text[i:j]\<close>: bounds out of range are clamped, negative ones count from the end.\<close>

definition slice_bound :: "nat \<Rightarrow> int \<Rightarrow> nat" where
  "slice_bound n i = nat (if i < 0 then max 0 (int n + i) else min (int n) i)"

definition py_slice :: "'a list \<Rightarrow> int \<Rightarrow> int \<Rightarrow> 'a list" where
  "py_slice xs i j = slice xs (slice_bound (length xs) i) (slice_bound (length xs) j)"

definition span_text :: "span \<Rightarrow> string \<Rightarrow> string" where
  "span_text sp src = py_slice src (sp_start sp) (sp_end sp)"

definition condition_text :: "bound_condition \<Rightarrow> string \<Rightarrow> string" where
  "condition_text w src = span_text (bound_condition_span w) src"

text \<open>A step with the defaults of the dataclass.\<close>

definition plain_step ::
  "plan_op \<Rightarrow> plan_structure \<Rightarrow> json \<Rightarrow> json \<Rightarrow> string \<Rightarrow> stats \<Rightarrow> pyfloat \<Rightarrow> step list \<Rightarrow> step" where
  "plain_step p st table column detail n ms children =
     Step p st table column (JStr detail) n ms children JNull JNull"

definition condition_column_name :: "bound_condition \<Rightarrow> string" where
  "condition_column_name w = bc_name (br_column (bound_condition_column w))"

section \<open>The steps of the searches\<close>

definition vector_search_step ::
  "table_access \<Rightarrow> bound_condition option \<Rightarrow> stats \<Rightarrow> pyfloat \<Rightarrow> exn + step" where
  "vector_search_step a wh n ms =
     (case wh of
        Some (BoundSimilar m) \<Rightarrow>
          (let strategy =
             (case pa_index a of
                None \<Rightarrow> ''busqueda exacta; sin indice '' @ index_value (bm_kind m) @ '' aplicable''
              | Some ix \<Rightarrow> ''indice '' @ im_name ix @ ''; '' @
                  (if im_structure ix = ST_IVF then ''nprobe='' @ show_int (bm_nprobe m)
                   else ''ef_search='' @ show_int (bm_ef_search m)));
               st = (case pa_index a of None \<Rightarrow> tm_structure (pa_table a) | Some ix \<Rightarrow> im_structure ix)
           in Inr (Step OP_KNN_SEARCH st (JStr (tm_name (pa_table a)))
                (JStr (bc_name (br_column (bm_column m))))
                (JStr (strategy @ ''; k='' @ show_int (bm_k m) @ ''; metrica ''
                       @ vector_metric_value (bm_metric m)))
                n ms [] JNull (JStr (vector_metric_value (bm_metric m)))))
      | _ \<Rightarrow> Inl (TypeError ''la busqueda vectorial necesita SIMILAR_TO''))"

definition text_ranking_name :: "text_ranking \<Rightarrow> string" where
  "text_ranking_name r = lower (ranking_value r)"

definition text_search_step ::
  "table_access \<Rightarrow> bound_condition \<Rightarrow> string \<Rightarrow> string \<Rightarrow> stats \<Rightarrow> pyfloat \<Rightarrow> string option \<Rightarrow> exn + step" where
  "text_search_step a w src table_name n ms language =
     (case w of
        BoundMatch c q rank explicit sp \<Rightarrow>
          (case pa_index a of
             None \<Rightarrow> Inl (ValueError ''text_search necesita un indice'')
           | Some ix \<Rightarrow>
               let ranking = text_ranking_name rank;
                   chosen = (if explicit then ''elegido con USING'' else ''por omision'');
                   asked = (case pa_text_limit a of None \<Rightarrow> ''todos los que coinciden''
                            | Some k \<Rightarrow> ''top-'' @ show_int k)
               in Inr (Step OP_TEXT_SEARCH (im_structure ix) (JStr table_name)
                    (JStr (bc_name (br_column c)))
                    (JStr (''indice '' @ im_name ix @ ''; '' @ condition_text w src @ ''; ranking ''
                           @ ranking @ '' ('' @ chosen @ ''); '' @ asked
                           @ (case language of None \<Rightarrow> [] | Some l \<Rightarrow>
                                if l = [] then [] else ''; idioma '' @ l)))
                    n ms [] (JStr ranking) JNull))
      | _ \<Rightarrow> Inl (TypeError ''text_search necesita MATCH''))"

section \<open>The steps of a source\<close>

definition join_structure :: "physical_source \<Rightarrow> join_strategy \<Rightarrow> index_metadata option \<Rightarrow> exn + plan_structure" where
  "join_structure right strategy probe =
     (if strategy = JOIN_HASH then Inr ST_EXTERNAL_HASH
      else case probe of
             Some ix \<Rightarrow> Inr (im_structure ix)
           | None \<Rightarrow>
               (case right of PAccess a \<Rightarrow> Inr (tm_structure (pa_table a))
                | _ \<Rightarrow> Inl (ValueError ''un join AUTO necesita una sonda en su lado derecho'')))"

definition join_detail :: "join_strategy \<Rightarrow> index_metadata option \<Rightarrow> string" where
  "join_detail strategy probe =
     (if strategy = JOIN_HASH then ''estrategia HASH; external hash join''
      else ''estrategia AUTO con sonda por ''
           @ (case probe of Some ix \<Rightarrow> ''indice '' @ im_name ix
              | None \<Rightarrow> ''clave primaria de la tabla derecha'')
           @ ''; decide al ejecutar entre indice y hash'')"

definition knn_detail :: "index_metadata \<Rightarrow> int option \<Rightarrow> distance_metric \<Rightarrow> span \<Rightarrow> string \<Rightarrow> string" where
  "knn_detail ix n m sp src =
     ''indice '' @ im_name ix @ ''; k-NN k='' @ (case n of None \<Rightarrow> ''None'' | Some k \<Rightarrow> show_int k)
     @ ''; '' @ distance_metric_value m @ ''; '' @ span_text sp src"

definition index_operations :: "(access_route \<times> plan_op) list" where
  "index_operations = [(R_INDEX_SEARCH, OP_INDEX_SEARCH), (R_INDEX_RANGE, OP_INDEX_RANGE),
     (R_RTREE_RADIUS, OP_RADIUS_SEARCH), (R_RTREE_POLYGON, OP_POLYGON_SEARCH),
     (R_TEXT_SEARCH, OP_TEXT_SEARCH)]"

definition fetch_step :: "table_access \<Rightarrow> string \<Rightarrow> string \<Rightarrow> step \<Rightarrow> step" where
  "fetch_step a table_name detail child =
     plain_step OP_FETCH (tm_structure (pa_table a)) (JStr table_name) JNull detail 0 (Fin 0) [child]"

definition access_step ::
  "table_access \<Rightarrow> bound_schema \<Rightarrow> bound_condition option \<Rightarrow> string \<Rightarrow> exn + step" where
  "access_step a schema wh src =
     (let table_name = bs_table_name schema; st = tm_structure (pa_table a) in
      if pa_route a = R_SCAN then
        Inr (plain_step OP_SCAN st (JStr table_name) JNull [] 0 (Fin 0) [])
      else if pa_route a = R_VECTOR_KNN \<or> pa_route a = R_VECTOR_SCAN then
        ebind (vector_search_step a wh 0 (Fin 0)) (\<lambda>child.
        Inr (fetch_step a table_name ''lee por RID conservando el orden de similitud'' child))
      else
      case pa_nearest a of
        Some nearest \<Rightarrow>
          (case (nearest, pa_index a) of
             (BoundDistanceOrderBy c p m d sp, Some ix) \<Rightarrow>
               Inr (fetch_step a table_name ''lee por RID conservando el orden de los vecinos''
                 (plain_step OP_KNN_SEARCH ST_RTREE (JStr table_name) (JStr (bc_name (br_column c)))
                    (knn_detail ix (pa_nearest_limit a) m sp src) 0 (Fin 0) []))
           | _ \<Rightarrow> Inl (AttributeError ''name''))
      | None \<Rightarrow>
      case wh of
        None \<Rightarrow> Inl (ValueError (''la ruta '' @ route_value (pa_route a) @ '' necesita una condicion''))
      | Some w \<Rightarrow>
          let column = JStr (condition_column_name w); detail = condition_text w src in
          if pa_route a = R_TABLE_SEARCH then
            Inr (plain_step OP_SEARCH st (JStr table_name) column detail 0 (Fin 0) [])
          else if pa_route a = R_TABLE_RANGE then
            Inr (plain_step OP_RANGE_SEARCH st (JStr table_name) column detail 0 (Fin 0) [])
          else
          case pa_index a of
            None \<Rightarrow> Inl (ValueError (''la ruta '' @ route_value (pa_route a) @ '' necesita un indice''))
          | Some ix \<Rightarrow>
              if pa_route a = R_TEXT_SEARCH then
                ebind (text_search_step a w src table_name 0 (Fin 0) None) (\<lambda>child.
                Inr (fetch_step a table_name
                       ''lee los registros en el orden de relevancia del indice'' child))
              else
                (case map_of index_operations (pa_route a) of
                   None \<Rightarrow> Inl (KeyError (route_value (pa_route a)))
                 | Some p \<Rightarrow>
                     Inr (fetch_step a table_name ''lee los registros que indiquen los RID del indice''
                       (plain_step p (im_structure ix) (JStr table_name) column
                          (''indice '' @ im_name ix @ ''; '' @ detail) 0 (Fin 0) []))))"

text \<open>The filter above a source, when the source leaves the predicate to it.\<close>

definition filter_step ::
  "bool \<Rightarrow> bound_schema \<Rightarrow> bound_condition option \<Rightarrow> string \<Rightarrow> step \<Rightarrow> exn + step" where
  "filter_step residual schema wh src base =
     (if \<not> residual then Inr base
      else case wh of
        None \<Rightarrow> Inl (ValueError ''un filtro residual necesita una condicion'')
      | Some w \<Rightarrow> Inr (plain_step OP_FILTER ST_MEMORY (JStr (bs_table_name schema))
                   (JStr (condition_column_name w)) (condition_text w src) 0 (Fin 0) [base]))"

fun source_step ::
  "physical_source \<Rightarrow> bound_source \<Rightarrow> bound_condition option \<Rightarrow> string \<Rightarrow> exn + step" where
  "source_step (PAccess a) (BoundTableRef schema sp) wh src =
     ebind (access_step a schema wh src) (filter_step (pa_residual a) schema wh src)"
| "source_step (PAccess a) (BoundJoinRef _ _ _ _ _ _) wh src =
     Inl (TypeError ''un acceso de tabla necesita una fuente semantica de tabla'')"
| "source_step (PJoin pl pr lcol rcol strategy probe onp residual) (BoundJoinRef l r lc rc schema sp) wh src =
     ebind (join_structure pr strategy probe) (\<lambda>st.
     ebind (source_step pl l wh src) (\<lambda>left.
     ebind (source_step pr r wh src) (\<lambda>right.
     filter_step residual schema wh src
       (plain_step OP_JOIN st (JStr (bs_table_name schema)) (JStr (bc_name (br_column lc)))
          (join_detail strategy probe) 0 (Fin 0) [left, right]))))"
| "source_step (PJoin _ _ _ _ _ _ _ _) (BoundTableRef _ _) wh src =
     Inl (TypeError ''un join fisico necesita un join semantico'')"

section \<open>The plan of a query\<close>

fun aggregate_name :: "bound_aggregate_call \<Rightarrow> string" where
  "aggregate_name (BoundAggregateCall f arg sp) =
     aggregate_value f @ ''_'' @ (case arg of None \<Rightarrow> ''all'' | Some c \<Rightarrow> bc_name (br_column c))"

fun projection_name :: "bound_projection \<Rightarrow> string" where
  "projection_name (BPColumn c) = bc_name (br_column c)"
| "projection_name (BPAggregate a) = aggregate_name a"

text \<open>\<open>list.insert(i, x)\<close> at a position that is not negative.\<close>

definition insert_at :: "nat \<Rightarrow> 'a \<Rightarrow> 'a list \<Rightarrow> 'a list" where
  "insert_at i x xs = take i xs @ [x] @ drop i xs"

definition projection_names :: "bound_select \<Rightarrow> string list" where
  "projection_names st =
     (let names = map projection_name (bl_projections st) in
      case bl_score st of
        None \<Rightarrow> names
      | Some s \<Rightarrow> insert_at (bsp_position s)
                    (bsp_name s @ '' ('' @ score_value (bsp_kind s) @ '')'') names)"

definition score_order_preserves_ranking :: "bound_select \<Rightarrow> exn + bool" where
  "score_order_preserves_ranking st =
     (case bl_score_order st of
        None \<Rightarrow> Inl (ValueError ''no hay ORDER BY sobre el puntaje'')
      | Some s \<Rightarrow>
          let ascending = (bso_kind s = SCORE_SIMILARITY
            \<and> (case bl_where st of Some (BoundSimilar m) \<Rightarrow> bm_metric m = VM_EUCLIDEAN | _ \<Rightarrow> False))
          in Inr ((bso_direction s = ORDER_ASC) = ascending))"

definition score_order_detail :: "bound_select \<Rightarrow> exn + string" where
  "score_order_detail st =
     (case bl_score_order st of
        None \<Rightarrow> Inl (ValueError ''no hay ORDER BY sobre el puntaje'')
      | Some s \<Rightarrow>
          if bso_kind s = SCORE_SIMILARITY then
            (case bl_where st of
               Some (BoundSimilar m) \<Rightarrow>
                 ebind (score_order_preserves_ranking st) (\<lambda>keeps.
                 Inr (''SIMILARITY_SCORE '' @ direction_value (bso_direction s) @ ''; valor natural ''
                      @ vector_metric_value (bm_metric m) @ ''; ''
                      @ (if bm_metric m = VM_EUCLIDEAN then ''menor es mejor'' else ''mayor es mejor'')
                      @ ''; '' @ (if keeps then ''conserva'' else ''invierte'')
                      @ '' en memoria el orden de vecinos; sin external sort''))
             | _ \<Rightarrow> Inl (TypeError ''SIMILARITY_SCORE requiere SIMILAR_TO''))
          else if bso_direction s = ORDER_DESC then
            Inr ''por relevancia DESC: el indice ya entrega este orden; sin external sort''
          else Inr ''por relevancia ASC: invierte en memoria el orden del indice; sin external sort'')"

text \<open>The five steps that \<open>explain_select\<close> may put above the source, from the bottom up.\<close>

definition explain_group :: "select_plan \<Rightarrow> step \<Rightarrow> exn + step" where
  "explain_group p base =
     (let st = sp_statement p in
      case bl_group_by st of
        None \<Rightarrow> Inr base
      | Some g \<Rightarrow>
          (case sp_group_strategy p of
             None \<Rightarrow> Inl (ValueError ''GROUP BY necesita una estrategia fisica'')
           | Some strategy \<Rightarrow>
               Inr (plain_step OP_GROUP ST_EXTERNAL_HASH (JStr (bs_table_name (bl_schema st)))
                 (JStr (bc_name (br_column (bg_column g))))
                 (''estrategia solicitada '' @ upper (group_strategy_value strategy)
                  @ (if strategy = GROUP_AUTO then ''; hash con posible fallback a sort al ejecutar''
                     else []))
                 0 (Fin 0) [base])))"

definition explain_sort :: "select_plan \<Rightarrow> step \<Rightarrow> exn + step" where
  "explain_sort p base =
     (let st = sp_statement p in
      if \<not> sp_external_sort p then Inr base
      else case bl_order_by st of
        None \<Rightarrow> Inl (AttributeError ''direction'')
      | Some ob \<Rightarrow>
          Inr (plain_step OP_SORT ST_EXTERNAL_SORT (JStr (bs_table_name (bl_schema st)))
            (JStr (bc_name (br_column (order_column ob))))
            (''direccion '' @ direction_value (order_direction_of ob) @ ''; external sort''
             @ (case ob of BoundDistanceOrderBy _ _ m _ _ \<Rightarrow> ''; distancia '' @ distance_metric_value m
                | _ \<Rightarrow> [])
             @ (if bl_group_by st \<noteq> None \<and> \<not> is_distance_order ob
                then ''; puede reutilizar el orden producido por GROUP BY'' else []))
            0 (Fin 0) [base]))"

definition explain_score_order :: "select_plan \<Rightarrow> step \<Rightarrow> exn + step" where
  "explain_score_order p base =
     (let st = sp_statement p in
      if bl_score_order st = None then Inr base
      else ebind (score_order_detail st) (\<lambda>detail.
        Inr (plain_step OP_SORT ST_MEMORY (JStr (bs_table_name (bl_schema st))) JNull detail
               0 (Fin 0) [base])))"

definition explain_project :: "select_plan \<Rightarrow> step \<Rightarrow> step" where
  "explain_project p base =
     (let st = sp_statement p in
      if bl_group_by st \<noteq> None \<or> \<not> bl_wildcard st \<or> bl_score st \<noteq> None then
        plain_step OP_PROJECT ST_MEMORY (JStr (bs_table_name (bl_schema st))) JNull
          (join_str '', '' (projection_names st)) 0 (Fin 0) [base]
      else base)"

definition explain_limit :: "select_plan \<Rightarrow> step \<Rightarrow> step" where
  "explain_limit p base =
     (let st = sp_statement p in
      case bl_limit st of
        None \<Rightarrow> base
      | Some n \<Rightarrow>
          if source_nearest (sp_source p) \<noteq> None then base
          else plain_step OP_LIMIT ST_MEMORY (JStr (bs_table_name (bl_schema st))) JNull
                 (''maximo '' @ show_int n @ '' filas'') 0 (Fin 0) [base])"

definition explain_select :: "select_plan \<Rightarrow> string \<Rightarrow> string \<Rightarrow> pyfloat \<Rightarrow> exn + plan" where
  "explain_select p query src planning_ms =
     (let st = sp_statement p in
      ebind (source_step (sp_source p) (bl_source st) (bl_where st) src) (\<lambda>base.
      ebind (explain_group p base) (\<lambda>base.
      ebind (explain_sort p base) (\<lambda>base.
      ebind (explain_score_order p base) (\<lambda>base.
      Inr (Plan (JStr query) (explain_limit p (explain_project p base)) planning_ms))))))"

end
