(* ===== verification/Py_Date.thy ===== *)
theory Py_Date
  imports Sql_Ast
begin

text \<open>
  The ordinals of \<open>datetime.date\<close> in the proleptic Gregorian calendar: \<open>date.toordinal\<close>, its inverse
  \<open>date.fromordinal\<close>, which a sum with a \<open>timedelta\<close> computes, and the day count since the epoch of
  the core.
\<close>

definition date_ok :: "py_date \<Rightarrow> bool" where
  "date_ok d \<longleftrightarrow> valid_date (date_year d) (date_month d) (date_day d)"

definition days_before_year :: "int \<Rightarrow> int" where
  "days_before_year y =
     (y - 1) * 365 + (y - 1) div 4 - (y - 1) div 100 + (y - 1) div 400"

definition days_before_month :: "int \<Rightarrow> int \<Rightarrow> int" where
  "days_before_month y m = sum_list (map (days_in_month y) [1..m - 1])"

definition to_ordinal :: "py_date \<Rightarrow> int" where
  "to_ordinal d =
     days_before_year (date_year d) + days_before_month (date_year d) (date_month d) + date_day d"

definition max_ordinal :: int where
  "max_ordinal = 3652059"

text \<open>The year of an ordinal is one of three, after the mean length of a year.\<close>

definition year_of_ordinal :: "int \<Rightarrow> int option" where
  "year_of_ordinal n =
     (let y = 400 * n div 146097 in
      List.find (\<lambda>y. days_before_year y < n \<and> n \<le> days_before_year (y + 1)) [y, y + 1, y + 2])"

definition from_ordinal :: "int \<Rightarrow> exn + py_date" where
  "from_ordinal n =
     (if n < 1 \<or> max_ordinal < n then Inl OverflowError
      else case year_of_ordinal n of
        None \<Rightarrow> Inl (ValueError [])
      | Some y \<Rightarrow>
          let r = n - days_before_year y in
          (case List.find (\<lambda>m. days_before_month y m < r
                \<and> r \<le> days_before_month y m + days_in_month y m) [1..12] of
             None \<Rightarrow> Inl (ValueError [])
           | Some m \<Rightarrow> Inr (PyDate y m (r - days_before_month y m))))"

section \<open>Ordinals and dates\<close>

lemma div_bounds: "0 < k \<Longrightarrow> k * (n div k) \<le> n \<and> n < k * (n div k) + (k :: int)"
  using mult_div_mod_eq [of k n] pos_mod_bound [of k n] pos_mod_sign [of k n] by linarith

lemma div_step:
  assumes "0 < (k :: int)"
  shows "y div k = (y - 1) div k + (if y mod k = 0 then 1 else 0)"
proof -
  let ?q = "(y - 1) div k"
  let ?r = "(y - 1) mod k"
  have y: "y = k * ?q + (?r + 1)" and r: "0 \<le> ?r" "?r < k"
    using mult_div_mod_eq [of k "y - 1"] assms by simp_all
  show ?thesis
  proof (cases "?r + 1 = k")
    case True
    then have y: "y = k * (?q + 1) + 0" using y by (simp add: algebra_simps)
    have "y div k = ?q + 1" "y mod k = 0"
      using int_div_pos_eq [OF y] int_mod_pos_eq [OF y] assms by auto
    then show ?thesis by simp
  next
    case False
    then have "y div k = ?q" "y mod k = ?r + 1"
      using int_div_pos_eq [OF y] int_mod_pos_eq [OF y] r by auto
    then show ?thesis using r by simp
  qed
qed

lemma year_length:
  "days_before_year (y + 1) = days_before_year y + (if leap_year y then 366 else 365)"
proof -
  have m4: "y mod 4 = 0" if "y mod 100 = 0"
    using that dvd_trans [of 4 100 y] unfolding mod_eq_0_iff_dvd by simp
  have m100: "y mod 100 = 0" if "y mod 400 = 0"
    using that dvd_trans [of 100 400 y] unfolding mod_eq_0_iff_dvd by simp
  have cases: "(if p \<and> (\<not> q \<or> r) then 366 else 365) =
      365 + (if p then 1 else 0) - (if q then 1 else 0) + (if r then 1 else (0 :: int))"
    if "q \<Longrightarrow> p" "r \<Longrightarrow> q" for p q r
    using that by (cases p; cases q; cases r) simp_all
  have "(if leap_year y then 366 else 365) =
      365 + (if y mod 4 = 0 then 1 else 0) - (if y mod 100 = 0 then 1 else 0)
        + (if y mod 400 = 0 then 1 else (0 :: int))"
    unfolding leap_year_def by (rule cases) (rule m4 m100, assumption)+
  moreover have "days_before_year (y + 1) = y * 365 + y div 4 - y div 100 + y div 400"
    by (simp add: days_before_year_def)
  moreover have "y div 4 = (y - 1) div 4 + (if y mod 4 = 0 then 1 else 0)"
    "y div 100 = (y - 1) div 100 + (if y mod 100 = 0 then 1 else 0)"
    "y div 400 = (y - 1) div 400 + (if y mod 400 = 0 then 1 else 0)"
    by (rule div_step, simp)+
  ultimately show ?thesis by (simp only: days_before_year_def left_diff_distrib)
qed

text \<open>The arithmetic of the estimate, with the quotients as variables.\<close>

lemma year_estimate:
  fixes y n a b c e d d' :: int
  assumes "4 * a \<le> y - 1 \<and> y - 1 < 4 * a + 4" "100 * b \<le> y - 1 \<and> y - 1 < 100 * b + 100"
    "400 * c \<le> y - 1 \<and> y - 1 < 400 * c + 400" "146097 * e \<le> 400 * n \<and> 400 * n < 146097 * e + 146097"
    "d = (y - 1) * 365 + a - b + c" "d' \<le> d + 366" "d < n" "n \<le> d'"
  shows "e \<le> y \<and> y \<le> e + 2"
proof -
  from assms(1-4) have "4 * a \<le> y - 1" "y - 1 < 4 * a + 4" "100 * b \<le> y - 1" "y - 1 < 100 * b + 100"
    "400 * c \<le> y - 1" "y - 1 < 400 * c + 400" "146097 * e \<le> 400 * n" "400 * n < 146097 * e + 146097"
    by blast+
  moreover have "d = 365 * y - 365 + a - b + c" using assms(5) by (simp add: algebra_simps)
  ultimately have bounds: "4 * a \<le> y - 1" "y - 1 < 4 * a + 4" "100 * b \<le> y - 1"
    "y - 1 < 100 * b + 100" "400 * c \<le> y - 1" "y - 1 < 400 * c + 400" "146097 * e \<le> 400 * n"
    "400 * n < 146097 * e + 146097" "d = 365 * y - 365 + a - b + c" "d' \<le> d + 366" "d < n" "n \<le> d'"
    using assms(6-8) by blast+
  have "e \<le> y" using bounds by linarith
  moreover have "y \<le> e + 2" using bounds by linarith
  ultimately show ?thesis by blast
qed

lemma days_before_month_step:
  assumes "1 \<le> m"
  shows "days_before_month y (m + 1) = days_before_month y m + days_in_month y m"
proof -
  have "[1..m] = [1..m - 1] @ [m]" using upto_rec2 [OF assms] .
  then show ?thesis by (simp add: days_before_month_def)
qed

lemma days_before_month_13:
  "days_before_month y 13 = (if leap_year y then 366 else 365)"
  by (simp add: days_before_month_def days_in_month_def upto_rec1)

lemma days_before_month_mono:
  assumes "1 \<le> m" "m \<le> m'"
  shows "days_before_month y m \<le> days_before_month y m'"
  using assms(2)
proof (induction m' rule: int_ge_induct)
  case (step i)
  have "0 \<le> days_in_month y i" by (simp add: days_in_month_def)
  then show ?case using step days_before_month_step [of i y] assms(1) by linarith
qed simp

lemma days_before_month_nonneg: "0 \<le> days_before_month y m"
  by (auto simp: days_before_month_def days_in_month_def intro!: sum_list_nonneg)

lemma days_before_year_mono:
  assumes "y \<le> y'"
  shows "days_before_year y \<le> days_before_year y'"
  using assms
proof (induction y' rule: int_ge_induct)
  case (step i)
  then show ?case using year_length [of i] by (auto split: if_splits)
qed simp

text \<open>A valid date lies in the interval of its month and of its year.\<close>

lemma month_interval:
  assumes "date_ok d"
  defines "r \<equiv> to_ordinal d - days_before_year (date_year d)"
  shows "days_before_month (date_year d) (date_month d) < r"
    "r \<le> days_before_month (date_year d) (date_month d + 1)"
  using assms days_before_month_step [of "date_month d" "date_year d"]
  by (auto simp: to_ordinal_def date_ok_def valid_date_def)

lemma year_interval:
  assumes "date_ok d"
  shows "days_before_year (date_year d) < to_ordinal d"
    "to_ordinal d \<le> days_before_year (date_year d + 1)"
proof -
  have m: "1 \<le> date_month d" "date_month d + 1 \<le> 13"
    using assms by (auto simp: date_ok_def valid_date_def)
  show "days_before_year (date_year d) < to_ordinal d"
    using month_interval [OF assms] days_before_month_nonneg [of "date_year d" "date_month d"] by linarith
  show "to_ordinal d \<le> days_before_year (date_year d + 1)"
    using month_interval(2) [OF assms] days_before_month_mono [OF _ m(2), of "date_year d"] m(1)
      days_before_month_13 [of "date_year d"] year_length [of "date_year d"]
    by simp
qed

lemma year_of_ordinal_eq:
  assumes "days_before_year y < n" "n \<le> days_before_year (y + 1)"
  shows "year_of_ordinal n = Some y"
proof -
  let ?e = "400 * n div 146097"
  have d: "days_before_year y = (y - 1) * 365 + (y - 1) div 4 - (y - 1) div 100 + (y - 1) div 400"
    by (simp add: days_before_year_def)
  have b: "days_before_year (y + 1) \<le> days_before_year y + 366" by (simp add: year_length)
  have q: "4 * ((y - 1) div 4) \<le> y - 1 \<and> y - 1 < 4 * ((y - 1) div 4) + 4"
    "100 * ((y - 1) div 100) \<le> y - 1 \<and> y - 1 < 100 * ((y - 1) div 100) + 100"
    "400 * ((y - 1) div 400) \<le> y - 1 \<and> y - 1 < 400 * ((y - 1) div 400) + 400"
    "146097 * ?e \<le> 400 * n \<and> 400 * n < 146097 * ?e + 146097"
    by (rule div_bounds, simp)+
  from year_estimate [OF q d b assms] have "y = ?e \<or> y = ?e + 1 \<or> y = ?e + 2" by linarith
  then have "List.find (\<lambda>z. z = y) [?e, ?e + 1, ?e + 2] = Some y" by (elim disjE) simp_all
  moreover have "days_before_year z < n \<and> n \<le> days_before_year (z + 1) \<longleftrightarrow> z = y" for z
    using days_before_year_mono [of "z + 1" y] days_before_year_mono [of "y + 1" z] assms
    by (cases "z < y"; cases "y < z") auto
  ultimately show ?thesis by (simp add: year_of_ordinal_def Let_def)
qed

lemma find_append_skip: "\<forall>x \<in> set xs. \<not> P x \<Longrightarrow> List.find P (xs @ ys) = List.find P ys"
  by (induction xs) auto

lemma find_month:
  assumes "1 \<le> m" "m \<le> 12" "days_before_month y m < r" "r \<le> days_before_month y (m + 1)"
  shows "List.find (\<lambda>m. days_before_month y m < r \<and> r \<le> days_before_month y m + days_in_month y m) [1..12]
    = Some m"
proof -
  have "[1..12] = [1..m - 1] @ m # [m + 1..12]"
    using assms(1,2) upto_split3 [of 1 m 12] by simp
  moreover have "\<not> (days_before_month y k < r \<and> r \<le> days_before_month y k + days_in_month y k)"
    if "k \<in> set [1..m - 1]" for k
    using that days_before_month_step [of k y] days_before_month_mono [of "k + 1" m y] assms(3) by auto
  ultimately show ?thesis
    using assms(3,4) days_before_month_step [OF assms(1), of y]
    by (simp add: find_append_skip)
qed

lemma ordinal_range:
  assumes "date_ok d"
  shows "1 \<le> to_ordinal d" "to_ordinal d \<le> max_ordinal"
proof -
  have y: "1 \<le> date_year d" "date_year d \<le> 9999"
    using assms by (auto simp: date_ok_def valid_date_def)
  have "days_before_year 1 \<le> days_before_year (date_year d)"
    using y(1) by (rule days_before_year_mono)
  then show "1 \<le> to_ordinal d"
    using year_interval(1) [OF assms] by (simp add: days_before_year_def)
  have "days_before_year (date_year d + 1) \<le> days_before_year 10000"
    using y(2) by (intro days_before_year_mono) simp
  then show "to_ordinal d \<le> max_ordinal"
    using year_interval(2) [OF assms] by (simp add: days_before_year_def max_ordinal_def)
qed

lemma from_to_ordinal:
  assumes "date_ok d"
  shows "from_ordinal (to_ordinal d) = Inr d"
proof -
  have y: "year_of_ordinal (to_ordinal d) = Some (date_year d)"
    by (rule year_of_ordinal_eq [OF year_interval [OF assms]])
  have "1 \<le> date_month d" "date_month d \<le> 12"
    using assms by (auto simp: date_ok_def valid_date_def)
  note month = find_month [OF this month_interval [OF assms]]
  have range: "(to_ordinal d < 1 \<or> max_ordinal < to_ordinal d) = False"
    using ordinal_range [OF assms] by simp
  have "from_ordinal (to_ordinal d) = Inr (PyDate (date_year d) (date_month d)
      (to_ordinal d - days_before_year (date_year d) - days_before_month (date_year d) (date_month d)))"
    by (simp only: from_ordinal_def range y month Let_def option.case if_False)
  also have "\<dots> = Inr d" by (cases d) (simp add: to_ordinal_def)
  finally show ?thesis .
qed

lemma less_py_date_iff:
  "a < b \<longleftrightarrow> date_year a < date_year b \<or> date_year a = date_year b
     \<and> (date_month a < date_month b \<or> date_month a = date_month b \<and> date_day a < date_day b)"
  unfolding less_py_date_def less_eq_py_date_def by auto

lemma to_ordinal_less:
  assumes "date_ok a" "date_ok b" "a < b"
  shows "to_ordinal a < to_ordinal b"
proof (cases "date_year a < date_year b")
  case True
  then have "days_before_year (date_year a + 1) \<le> days_before_year (date_year b)"
    by (intro days_before_year_mono) simp
  then show ?thesis using year_interval(2) [OF assms(1)] year_interval(1) [OF assms(2)] by linarith
next
  case False
  then have y: "date_year a = date_year b" using assms(3) by (simp add: less_py_date_iff)
  show ?thesis
  proof (cases "date_month a < date_month b")
    case True
    have "1 \<le> date_month a + 1" using assms(1) by (simp add: date_ok_def valid_date_def)
    then have "days_before_month (date_year a) (date_month a + 1) \<le> days_before_month (date_year a) (date_month b)"
      using True by (intro days_before_month_mono) simp_all
    then show ?thesis
      using month_interval(2) [OF assms(1)] month_interval(1) [OF assms(2)] y by simp
  next
    case False
    then have m: "date_month a = date_month b" "date_day a < date_day b"
      using assms(3) y by (simp_all add: less_py_date_iff)
    then show ?thesis unfolding to_ordinal_def y m(1) by simp
  qed
qed

text \<open>Days order valid dates as dates do.\<close>

lemma to_ordinal_less_iff:
  assumes "date_ok a" "date_ok b"
  shows "to_ordinal a < to_ordinal b \<longleftrightarrow> a < b"
proof (cases a b rule: linorder_cases)
  case less
  then show ?thesis using to_ordinal_less [OF assms] by blast
next
  case greater
  then show ?thesis using to_ordinal_less [OF assms(2,1) greater] order.asym [OF greater] by simp
qed simp

lemma to_ordinal_inject:
  assumes "date_ok a" "date_ok b"
  shows "to_ordinal a = to_ordinal b \<longleftrightarrow> a = b"
  using from_to_ordinal [OF assms(1)] from_to_ordinal [OF assms(2)] by (metis sum.inject(2))

end
