(* ===== verification/Native_Values.thy ===== *)
theory Native_Values
  imports Bound_Ast Py_Date
begin

text \<open>
  The border with the core (\<open>engine/executor/native.py\<close>): the values and schemas that the bindings
  exchange, their conversion from and to the bound tree, and the bounds of a column's domain. A
  native text is the list of its code points; a date is its number of days since 1970.
\<close>

datatype native_value =
    NInt int
  | NFloat pyfloat
  | NStr "nat list"
  | NBool bool
  | NDate int
  | NPoint pyfloat pyfloat
  | NVector "pyfloat list"

text \<open>\<open>native.DataType\<close>; \<open>ND_OTHER\<close> stands for a member this module does not know.\<close>

datatype native_type = ND_INT | ND_DOUBLE | ND_VARCHAR | ND_BOOL | ND_DATE | ND_POINT | ND_VECTOR
  | ND_OTHER

record native_column =
  nc_name :: string
  nc_type :: native_type
  nc_length :: int

record native_schema =
  ns_table_name :: string
  ns_columns :: "native_column list"
  ns_key_column :: nat

fun to_native_type :: "sql_type_name \<Rightarrow> native_type" where
  "to_native_type SQL_INT = ND_INT"
| "to_native_type SQL_DOUBLE = ND_DOUBLE"
| "to_native_type SQL_VARCHAR = ND_VARCHAR"
| "to_native_type SQL_BOOL = ND_BOOL"
| "to_native_type SQL_DATE = ND_DATE"
| "to_native_type SQL_POINT = ND_POINT"
| "to_native_type SQL_VECTOR = ND_VECTOR"

fun from_native_type :: "native_type \<Rightarrow> sql_type_name option" where
  "from_native_type ND_INT = Some SQL_INT"
| "from_native_type ND_DOUBLE = Some SQL_DOUBLE"
| "from_native_type ND_VARCHAR = Some SQL_VARCHAR"
| "from_native_type ND_BOOL = Some SQL_BOOL"
| "from_native_type ND_DATE = Some SQL_DATE"
| "from_native_type ND_POINT = Some SQL_POINT"
| "from_native_type ND_VECTOR = Some SQL_VECTOR"
| "from_native_type ND_OTHER = None"

definition to_native_schema :: "bound_schema \<Rightarrow> native_schema" where
  "to_native_schema s =
     \<lparr>ns_table_name = bs_table_name s,
      ns_columns = map (\<lambda>c. \<lparr>nc_name = bc_name c, nc_type = to_native_type (bc_type c),
        nc_length = (case bc_length c of None \<Rightarrow> 0 | Some n \<Rightarrow> n)\<rparr>) (bs_columns s),
      ns_key_column = bs_key_column s\<rparr>"

definition from_native_column :: "native_column \<Rightarrow> exn + bound_column" where
  "from_native_column c =
     (case from_native_type (nc_type c) of
        None \<Rightarrow> Inl (RuntimeError (''tipo nativo desconocido en la columna '' @ repr_str (nc_name c)))
      | Some ty \<Rightarrow> Inr (BoundColumn (nc_name c) ty
          (if ty = SQL_VARCHAR \<or> ty = SQL_VECTOR then Some (nc_length c) else None)))"

definition from_native_schema :: "native_schema \<Rightarrow> exn + bound_schema" where
  "from_native_schema s =
     ebind (emap from_native_column (ns_columns s)) (\<lambda>columns.
     Inr \<lparr>bs_table_name = ns_table_name s, bs_columns = columns, bs_key_column = ns_key_column s\<rparr>)"

section \<open>Values\<close>

definition epoch :: int where
  "epoch = 719163"

lemma epoch_ordinal: "to_ordinal (PyDate 1970 1 1) = epoch"
  by (simp add: to_ordinal_def days_before_year_def days_before_month_def epoch_def)

fun to_native_value :: "bound_value \<Rightarrow> native_value" where
  "to_native_value (VDate d) = NDate (to_ordinal d - epoch)"
| "to_native_value (VPoint p) = NPoint (pv_latitude p) (pv_longitude p)"
| "to_native_value (VInt n) = NInt n"
| "to_native_value (VFloat x) = NFloat x"
| "to_native_value (VStr s) = NStr (map of_char s)"
| "to_native_value (VBool b) = NBool b"
| "to_native_value (VVector xs) = NVector xs"

definition to_native_values :: "bound_value list \<Rightarrow> native_value list" where
  "to_native_values = map to_native_value"

text \<open>
  The scalars that \<open>from_native_record\<close> passes on as they are. A value of another class in such a
  column, which the core does not return, and a text outside Latin-1 have no bound value here: the
  model stops with \<open>DomainError\<close>.
\<close>

fun scalar_value :: "native_value \<Rightarrow> exn + bound_value" where
  "scalar_value (NInt n) = Inr (VInt n)"
| "scalar_value (NFloat x) = Inr (VFloat x)"
| "scalar_value (NStr cs) =
     (if list_all (\<lambda>c. c < 256) cs then Inr (VStr (map char_of cs)) else Inl (DomainError []))"
| "scalar_value (NBool b) = Inr (VBool b)"
| "scalar_value _ = Inl (DomainError [])"

text \<open>\<open>tuple(float(c) for c in value)\<close>: a text would give the numbers of its digits.\<close>

fun vector_components :: "native_value \<Rightarrow> pyfloat list option" where
  "vector_components (NVector xs) = Some xs"
| "vector_components (NStr cs) =
     (if list_all (\<lambda>c. 48 \<le> c \<and> c \<le> 57) cs then Some (map (\<lambda>c. Fin (of_nat c - 48)) cs) else None)"
| "vector_components _ = None"

definition point_bounds :: "pyfloat \<Rightarrow> pyfloat \<Rightarrow> bool" where
  "point_bounds lat lon \<longleftrightarrow>
     is_finite lat \<and> is_finite lon
     \<and> (float_le (Fin (- 90)) lat \<and> float_le lat (Fin 90))
     \<and> (float_le (Fin (- 180)) lon \<and> float_le lon (Fin 180))"

definition from_native_value :: "native_value \<Rightarrow> bound_column \<Rightarrow> exn + bound_value" where
  "from_native_value v c =
     (if bc_type c = SQL_VECTOR then
        (case vector_components v of
           Some xs \<Rightarrow> Inr (VVector xs)
         | None \<Rightarrow> Inl (RuntimeError (''el core devolvio un VECTOR invalido en la columna ''
                                      @ repr_str (bc_name c))))
      else if bc_type c = SQL_DATE then
        (case v of
           NDate days \<Rightarrow>
             (case from_ordinal (epoch + days) of
                Inr d \<Rightarrow> Inr (VDate d)
              | Inl _ \<Rightarrow> Inl (RuntimeError (''el core devolvio una fecha invalida en la columna ''
                                            @ repr_str (bc_name c))))
         | _ \<Rightarrow> Inl (RuntimeError (''el core devolvio una fecha invalida en la columna ''
                                   @ repr_str (bc_name c))))
      else if bc_type c = SQL_POINT then
        (case v of
           NPoint lat lon \<Rightarrow>
             if \<not> point_bounds lat lon then
               Inl (RuntimeError (''el core devolvio un POINT fuera de rango en la columna ''
                                  @ repr_str (bc_name c)))
             else Inr (VPoint (PointValue lat lon))
         | _ \<Rightarrow> Inl (RuntimeError (''el core devolvio un POINT invalido en la columna ''
                                   @ repr_str (bc_name c))))
      else scalar_value v)"

definition from_native_record :: "native_value list \<Rightarrow> bound_schema \<Rightarrow> exn + bound_value list" where
  "from_native_record r s =
     (if length r \<noteq> length (bs_columns s) then
        Inl (RuntimeError (''el core devolvio '' @ show_int (int (length r))
          @ '' columnas para un esquema de '' @ show_int (int (length (bs_columns s)))))
      else emap (\<lambda>(v, c). from_native_value v c) (zip r (bs_columns s)))"

section \<open>Bounds of a column\<close>

definition varchar_upper :: "int \<Rightarrow> nat list" where
  "varchar_upper n =
     replicate (nat (n div 4)) 1114111
     @ (if n mod 4 = 0 then [] else if n mod 4 = 1 then [127]
        else if n mod 4 = 2 then [2047] else [65535])"

definition native_range_bounds :: "bound_column \<Rightarrow> exn + native_value \<times> native_value" where
  "native_range_bounds c =
     (case bc_type c of
        SQL_INT \<Rightarrow> Inr (NInt (- (2 ^ 31)), NInt (2 ^ 31 - 1))
      | SQL_DOUBLE \<Rightarrow> Inr (NFloat NegInf, NFloat PosInf)
      | SQL_VARCHAR \<Rightarrow>
          (case bc_length c of
             None \<Rightarrow> Inl (ValueError ''VARCHAR necesita una longitud para construir su rango'')
           | Some n \<Rightarrow> Inr (NStr [], NStr (varchar_upper n)))
      | SQL_BOOL \<Rightarrow> Inr (NBool False, NBool True)
      | SQL_DATE \<Rightarrow> Inr (NDate (- (2 ^ 31)), NDate (2 ^ 31 - 1))
      | SQL_POINT \<Rightarrow> Inr (NPoint (Fin (- 90)) (Fin (- 180)), NPoint (Fin 90) (Fin 180))
      | SQL_VECTOR \<Rightarrow> Inl (AssertionError (''columna '' @ repr_str (bc_name c)
          @ '': un VECTOR no tiene rango; se busca por similitud'')))"

end
