(* ===== verification/Core_Interface.thy ===== *)
theory Core_Interface
  imports Native_Values
begin

text \<open>
  The native core as the Python code sees it. A call of the core is a computation that may raise and
  that always leaves a state, the one the disk and the handles are in: \<open>('s, 'a) io\<close>. The operations
  of \<open>Database\<close>, \<open>TableFile\<close> and \<open>Index\<close> (\<open>core/include/quipudb/catalog/table.hpp\<close>) that the
  modules of \<open>engine/\<close> call are the fields of the record \<open>core\<close>, a parameter of the development
  over an arbitrary type of states.
\<close>

section \<open>Computations with a state that may raise\<close>

type_synonym ('s, 'a) io = "'s \<Rightarrow> (exn + 'a) \<times> 's"

definition io_return :: "'a \<Rightarrow> ('s, 'a) io" where
  "io_return x s = (Inr x, s)"

definition io_raise :: "exn \<Rightarrow> ('s, 'a) io" where
  "io_raise e s = (Inl e, s)"

definition io_lift :: "exn + 'a \<Rightarrow> ('s, 'a) io" where
  "io_lift r s = (r, s)"

definition io_bind :: "('s, 'a) io \<Rightarrow> ('a \<Rightarrow> ('s, 'b) io) \<Rightarrow> ('s, 'b) io" where
  "io_bind m f s = (case m s of (Inl e, t) \<Rightarrow> (Inl e, t) | (Inr x, t) \<Rightarrow> f x t)"

definition io_then :: "('s, 'a) io \<Rightarrow> ('s, 'b) io \<Rightarrow> ('s, 'b) io" where
  "io_then m n = io_bind m (\<lambda>_. n)"

text \<open>\<open>with suppress(Exception)\<close>, \<open>try: ... except Exception\<close>, \<open>try: ... finally\<close>.\<close>

definition io_suppress :: "('s, 'a) io \<Rightarrow> ('s, unit) io" where
  "io_suppress m s = (Inr (), snd (m s))"

definition io_catch :: "('s, 'a) io \<Rightarrow> (exn \<Rightarrow> ('s, 'a) io) \<Rightarrow> ('s, 'a) io" where
  "io_catch m h s = (case m s of (Inl e, t) \<Rightarrow> h e t | (Inr x, t) \<Rightarrow> (Inr x, t))"

definition io_finally :: "('s, 'a) io \<Rightarrow> ('s, unit) io \<Rightarrow> ('s, 'a) io" where
  "io_finally m cleanup s =
     (case m s of (r, t) \<Rightarrow> (case cleanup t of (Inl e, u) \<Rightarrow> (Inl e, u) | (Inr _, u) \<Rightarrow> (r, u)))"

fun io_for :: "('a \<Rightarrow> ('s, unit) io) \<Rightarrow> 'a list \<Rightarrow> ('s, unit) io" where
  "io_for f [] = io_return ()"
| "io_for f (x # xs) = io_then (f x) (io_for f xs)"

fun io_map :: "('a \<Rightarrow> ('s, 'b) io) \<Rightarrow> 'a list \<Rightarrow> ('s, 'b list) io" where
  "io_map f [] = io_return []"
| "io_map f (x # xs) = io_bind (f x) (\<lambda>y. io_bind (io_map f xs) (\<lambda>ys. io_return (y # ys)))"

text \<open>
  The local variables that a \<open>try\<close> block changes and its handler reads are a first component of the
  state: \<open>io_outer\<close> runs a computation of the core beside them, \<open>io_local\<close> changes them.
\<close>

definition io_outer :: "('s, 'a) io \<Rightarrow> ('v \<times> 's, 'a) io" where
  "io_outer m vs = (case m (snd vs) of (r, t) \<Rightarrow> (r, (fst vs, t)))"

definition io_local :: "('v \<Rightarrow> 'v) \<Rightarrow> ('v \<times> 's, unit) io" where
  "io_local f vs = (Inr (), (f (fst vs), snd vs))"

named_theorems io_simps \<comment> \<open>evaluation of computations with a state\<close>

lemma io_simple [io_simps]:
  "io_return x s = (Inr x, s)" "io_raise e s = (Inl e, s)" "io_lift r s = (r, s)"
  by (simp_all add: io_return_def io_raise_def io_lift_def)

lemma io_bind_pure [simp]:
  "io_bind (io_return x) f = f x" "io_bind (io_raise e) f = io_raise e"
  "io_bind (io_lift (Inr x)) f = f x" "io_bind (io_lift (Inl e)) f = io_raise e"
  by (simp_all add: io_bind_def io_simps fun_eq_iff)

lemma io_bind_eq:
  "m s = (Inr x, t) \<Longrightarrow> io_bind m f s = f x t" "m s = (Inl e, t) \<Longrightarrow> io_bind m f s = (Inl e, t)"
  by (simp_all add: io_bind_def)

lemma io_then_eq:
  "m s = (Inr x, t) \<Longrightarrow> io_then m n s = n t" "m s = (Inl e, t) \<Longrightarrow> io_then m n s = (Inl e, t)"
  by (simp_all add: io_then_def io_bind_def)

lemma io_bind_Inr_iff:
  "io_bind m f s = (Inr y, u) \<longleftrightarrow> (\<exists>x t. m s = (Inr x, t) \<and> f x t = (Inr y, u))"
  by (auto simp: io_bind_def split: prod.splits sum.splits)

lemma io_bind_Inl_iff:
  "io_bind m f s = (Inl e, u) \<longleftrightarrow>
     m s = (Inl e, u) \<or> (\<exists>x t. m s = (Inr x, t) \<and> f x t = (Inl e, u))"
  by (auto simp: io_bind_def split: prod.splits sum.splits)

lemma io_then_Inr_iff:
  "io_then m n s = (Inr y, u) \<longleftrightarrow> (\<exists>x t. m s = (Inr x, t) \<and> n t = (Inr y, u))"
  by (simp add: io_then_def io_bind_Inr_iff)

lemma io_then_Inl_iff:
  "io_then m n s = (Inl e, u) \<longleftrightarrow>
     m s = (Inl e, u) \<or> (\<exists>x t. m s = (Inr x, t) \<and> n t = (Inl e, u))"
  by (simp add: io_then_def io_bind_Inl_iff)

lemmas io_iffs = io_bind_Inr_iff io_bind_Inl_iff io_then_Inr_iff io_then_Inl_iff

section \<open>The operations of the core\<close>

datatype rid = RID (rid_page: nat) (rid_slot: nat)

type_synonym native_record = "native_value list"

text \<open>
  The calls of \<open>database.table(name)\<close> and \<open>database.index(table, name)\<close>, the operations of the table
  with the name given and those of the index with the names given.
\<close>

record 's core =
  co_table :: "string \<Rightarrow> ('s, unit) io"
  co_index :: "string \<Rightarrow> string \<Rightarrow> ('s, unit) io"
  co_insert :: "string \<Rightarrow> native_record \<Rightarrow> ('s, rid) io"
  co_remove :: "string \<Rightarrow> native_value \<Rightarrow> ('s, nat) io"
  co_read :: "string \<Rightarrow> rid \<Rightarrow> ('s, native_record option) io"
  co_search :: "string \<Rightarrow> native_value \<Rightarrow> ('s, native_record list) io"
  co_range_search :: "string \<Rightarrow> native_value \<Rightarrow> native_value \<Rightarrow> ('s, native_record list) io"
  co_scan :: "string \<Rightarrow> ('s, native_record list) io"
  co_scan_with_rids :: "string \<Rightarrow> ('s, (rid \<times> native_record) list) io"
  ci_insert :: "string \<Rightarrow> string \<Rightarrow> native_value \<Rightarrow> rid \<Rightarrow> ('s, unit) io"
  ci_remove_one :: "string \<Rightarrow> string \<Rightarrow> native_value \<Rightarrow> rid \<Rightarrow> ('s, bool) io"
  ci_search :: "string \<Rightarrow> string \<Rightarrow> native_value \<Rightarrow> ('s, rid list) io"
  ci_range_search :: "string \<Rightarrow> string \<Rightarrow> native_value \<Rightarrow> native_value \<Rightarrow> ('s, rid list) io"
  ci_supports_range :: "string \<Rightarrow> string \<Rightarrow> ('s, bool) io"
  co_repr_value :: "native_value \<Rightarrow> string"
  co_repr_rid :: "rid \<Rightarrow> string"

section \<open>Python's equality of native values\<close>

fun native_number :: "native_value \<Rightarrow> pyfloat option" where
  "native_number (NInt n) = Some (Fin (of_int n))"
| "native_number (NFloat x) = Some x"
| "native_number (NBool b) = Some (Fin (if b then 1 else 0))"
| "native_number _ = None"

fun native_eq :: "native_value \<Rightarrow> native_value \<Rightarrow> bool" where
  "native_eq (NStr s) (NStr t) = (s = t)"
| "native_eq (NDate d) (NDate e) = (d = e)"
| "native_eq (NPoint a b) (NPoint c d) = (float_eq a c \<and> float_eq b d)"
| "native_eq (NVector xs) (NVector ys) = list_all2 float_eq xs ys"
| "native_eq x y =
     (case (native_number x, native_number y) of (Some a, Some b) \<Rightarrow> float_eq a b | _ \<Rightarrow> False)"

end
