(* ===== verification/Executor_Predicates.thy ===== *)
theory Executor_Predicates
  imports Native_Values
begin

text \<open>
  The predicates of a query evaluated in memory (\<open>engine/executor/predicates.py\<close>), their translation
  to the arguments of the core's searches, and the region a result carries
  (\<open>engine/executor/spatial.py\<close>). The functions of the C mathematical library that \<open>math\<close> calls are
  not determined by the language: they are the fields of \<open>libm\<close>, a parameter of every definition
  that measures a distance.
\<close>

section \<open>Comparison of values\<close>

text \<open>Numbers of Python compare by their exact value; a \<open>bool\<close> is 0 or 1.\<close>

fun number_of :: "bound_value \<Rightarrow> pyfloat option" where
  "number_of (VInt n) = Some (Fin (of_int n))"
| "number_of (VFloat x) = Some x"
| "number_of (VBool b) = Some (Fin (if b then 1 else 0))"
| "number_of _ = None"

text \<open>Tuples: the first position where they differ decides, else the shorter one is less.\<close>

fun tuple_less :: "pyfloat list \<Rightarrow> pyfloat list \<Rightarrow> bool" where
  "tuple_less (x # xs) (y # ys) = (if float_eq x y then tuple_less xs ys else float_less x y)"
| "tuple_less [] ys = (ys \<noteq> [])"
| "tuple_less (x # xs) [] = False"

fun class_name :: "bound_value \<Rightarrow> string" where
  "class_name (VInt _) = ''int''"
| "class_name (VFloat _) = ''float''"
| "class_name (VStr _) = ''str''"
| "class_name (VBool _) = ''bool''"
| "class_name (VDate _) = ''datetime.date''"
| "class_name (VPoint _) = ''PointValue''"
| "class_name (VVector _) = ''tuple''"

definition point_tuple :: "point_value \<Rightarrow> pyfloat list" where
  "point_tuple p = [pv_latitude p, pv_longitude p]"

definition py_less :: "bound_value \<Rightarrow> bound_value \<Rightarrow> exn + bool" where
  "py_less x y =
     (case (number_of x, number_of y) of
        (Some a, Some b) \<Rightarrow> Inr (float_less a b)
      | _ \<Rightarrow>
        (case (x, y) of
           (VStr s, VStr t) \<Rightarrow> Inr (s < t)
         | (VDate d, VDate e) \<Rightarrow> Inr (d < e)
         | (VPoint p, VPoint q) \<Rightarrow> Inr (tuple_less (point_tuple p) (point_tuple q))
         | (VVector u, VVector v) \<Rightarrow> Inr (tuple_less u v)
         | _ \<Rightarrow> Inl (TypeError (CHR 0x27 # ''<'' @ CHR 0x27 # '' not supported between instances of ''
                  @ repr_str (class_name x) @ '' and '' @ repr_str (class_name y)))))"

definition py_compare :: "bound_value \<Rightarrow> bound_value \<Rightarrow> exn + int" where
  "py_compare left right =
     ebind (py_less left right) (\<lambda>below.
     if below then Inr (- 1)
     else ebind (py_less right left) (\<lambda>above. Inr (if above then 1 else 0)))"

section \<open>Distances\<close>

record libm =
  lm_radians :: "pyfloat \<Rightarrow> pyfloat"
  lm_sin :: "pyfloat \<Rightarrow> exn + pyfloat"
  lm_cos :: "pyfloat \<Rightarrow> exn + pyfloat"
  lm_asin :: "pyfloat \<Rightarrow> exn + pyfloat"
  lm_sqrt :: "pyfloat \<Rightarrow> exn + pyfloat"
  lm_hypot :: "pyfloat \<Rightarrow> pyfloat \<Rightarrow> pyfloat"
  lm_square :: "pyfloat \<Rightarrow> exn + pyfloat"

definition earth_radius_meters :: pyfloat where
  "earth_radius_meters = round_binary64 (63710088 / 10)"

definition half :: "pyfloat \<Rightarrow> pyfloat" where
  "half x = (case float_div x (Fin 2) of Some y \<Rightarrow> y | None \<Rightarrow> NaN)"

definition haversine :: "libm \<Rightarrow> point_value \<Rightarrow> point_value \<Rightarrow> exn + pyfloat" where
  "haversine lm left right =
     (let lat1 = lm_radians lm (pv_latitude left);
          lat2 = lm_radians lm (pv_latitude right);
          delta_lat = float_sub lat2 lat1;
          delta_lon = lm_radians lm (float_sub (pv_longitude right) (pv_longitude left))
      in ebind (ebind (lm_sin lm (half delta_lat)) (lm_square lm)) (\<lambda>s1.
         ebind (lm_cos lm lat1) (\<lambda>c1.
         ebind (lm_cos lm lat2) (\<lambda>c2.
         ebind (ebind (lm_sin lm (half delta_lon)) (lm_square lm)) (\<lambda>s2.
         Inr (float_add s1 (float_mul (float_mul c1 c2) s2)))))))"

definition distance_between ::
  "libm \<Rightarrow> point_value \<Rightarrow> point_value \<Rightarrow> distance_metric \<Rightarrow> exn + pyfloat" where
  "distance_between lm left right metric =
     (if metric = DIST_EUCLIDEAN then
        Inr (lm_hypot lm (float_sub (pv_longitude left) (pv_longitude right))
               (float_sub (pv_latitude left) (pv_latitude right)))
      else
        ebind (haversine lm left right) (\<lambda>h.
        ebind (lm_sqrt lm (py_min (Fin 1) h)) (\<lambda>root_h.
        ebind (lm_asin lm root_h) (\<lambda>a.
        Inr (float_mul earth_radius_meters (float_mul (Fin 2) a))))))"

section \<open>Polygons\<close>

text \<open>\<open>scale * scale * 1e-12\<close>: the literal is the double nearest to it.\<close>

definition tolerance :: pyfloat where
  "tolerance = round_binary64 (1 / 10 ^ 12)"

type_synonym corner = "pyfloat \<times> pyfloat"

definition on_segment :: "corner \<Rightarrow> corner \<Rightarrow> pyfloat \<Rightarrow> pyfloat \<Rightarrow> bool" where
  "on_segment a b px py =
     (let ax = fst a; ay = snd a; bx = fst b; by = snd b;
          scale = foldl py_max (float_abs ax)
            [float_abs ay, float_abs bx, float_abs by, float_abs px, float_abs py, Fin 1];
          cross = float_sub (float_mul (float_sub bx ax) (float_sub py ay))
                            (float_mul (float_sub by ay) (float_sub px ax))
      in if float_less (float_mul (float_mul scale scale) tolerance) (float_abs cross) then False
         else
           (let slack = float_mul scale tolerance
            in float_le (float_sub (py_min ax bx) slack) px
               \<and> float_le px (float_add (py_max ax bx) slack)
               \<and> float_le (float_sub (py_min ay by) slack) py
               \<and> float_le py (float_add (py_max ay by) slack)))"

text \<open>The pairs \<open>(polygon[j], polygon[i])\<close> of the two loops: every corner with the one before it.\<close>

definition polygon_edges :: "corner list \<Rightarrow> (corner \<times> corner) list" where
  "polygon_edges cs = zip (last cs # butlast cs) cs"

definition crosses :: "pyfloat \<Rightarrow> pyfloat \<Rightarrow> corner \<times> corner \<Rightarrow> exn + bool" where
  "crosses px py e =
     (let bx = fst (fst e); by = snd (fst e); ax = fst (snd e); ay = snd (snd e)
      in if float_less py ay = float_less py by then Inr False
         else
           (case float_div (float_mul (float_sub bx ax) (float_sub py ay)) (float_sub by ay) of
              None \<Rightarrow> Inl ZeroDivisionError
            | Some x \<Rightarrow> Inr (float_less px (float_add x ax))))"

fun count_crossings :: "pyfloat \<Rightarrow> pyfloat \<Rightarrow> (corner \<times> corner) list \<Rightarrow> bool \<Rightarrow> exn + bool" where
  "count_crossings px py [] inside = Inr inside"
| "count_crossings px py (e # es) inside =
     ebind (crosses px py e) (\<lambda>c. count_crossings px py es (if c then \<not> inside else inside))"

definition contains_point :: "point_value list \<Rightarrow> point_value \<Rightarrow> exn + bool" where
  "contains_point vertices point =
     (if length vertices < 3 then
        Inl (ValueError (''un poligono necesita al menos 3 vertices, y se dieron ''
                         @ show_int (int (length vertices))))
      else
        (let px = pv_longitude point; py = pv_latitude point;
             edges = polygon_edges (map (\<lambda>v. (pv_longitude v, pv_latitude v)) vertices)
         in if list_ex (\<lambda>(a, b). on_segment a b px py) edges then Inr True
            else count_crossings px py edges False))"

section \<open>Evaluation of a predicate\<close>

fun compare_holds :: "comparison_operator \<Rightarrow> int \<Rightarrow> bool" where
  "compare_holds OP_EQUAL n = (n = 0)"
| "compare_holds OP_LESS_THAN n = (n < 0)"
| "compare_holds OP_LESS_THAN_OR_EQUAL n = (n \<le> 0)"
| "compare_holds OP_GREATER_THAN n = (n > 0)"
| "compare_holds OP_GREATER_THAN_OR_EQUAL n = (n \<ge> 0)"

definition cell_of :: "bound_value list \<Rightarrow> bound_condition \<Rightarrow> exn + bound_value" where
  "cell_of row w =
     (let i = br_index (bound_condition_column w)
      in if i < length row then Inr (row ! i) else Inl IndexError)"

definition point_of :: "bound_value \<Rightarrow> string \<Rightarrow> exn + point_value" where
  "point_of v message = (case v of VPoint p \<Rightarrow> Inr p | _ \<Rightarrow> Inl (TypeError message))"

fun operator_name :: "comparison_operator \<Rightarrow> string" where
  "operator_name OP_EQUAL = ''EQUAL: '' @ repr_str ''=''"
| "operator_name OP_LESS_THAN = ''LESS_THAN: '' @ repr_str ''<''"
| "operator_name OP_LESS_THAN_OR_EQUAL = ''LESS_THAN_OR_EQUAL: '' @ repr_str ''<=''"
| "operator_name OP_GREATER_THAN = ''GREATER_THAN: '' @ repr_str ''>''"
| "operator_name OP_GREATER_THAN_OR_EQUAL = ''GREATER_THAN_OR_EQUAL: '' @ repr_str ''>=''"

definition repr_operator :: "comparison_operator \<Rightarrow> string" where
  "repr_operator op = ''<ComparisonOperator.'' @ operator_name op @ ''>''"

fun row_matches :: "libm \<Rightarrow> bound_value list \<Rightarrow> bound_condition \<Rightarrow> exn + bool" where
  "row_matches lm row (BoundMatch c q rank explicit sp) =
     Inl (TypeError ''MATCH no se evalua en memoria: lo resuelve el indice de texto'')"
| "row_matches lm row (BoundPolygon c vertices sp) =
     ebind (cell_of row (BoundPolygon c vertices sp)) (\<lambda>v.
     ebind (point_of v ''DENTRO solo se puede evaluar sobre un POINT'') (contains_point vertices))"
| "row_matches lm row (BoundDistance c center op radius metric sp) =
     ebind (cell_of row (BoundDistance c center op radius metric sp)) (\<lambda>v.
     ebind (point_of v ''DISTANCIA solo se puede evaluar sobre un POINT'') (\<lambda>p.
     ebind (distance_between lm p center metric) (\<lambda>d.
     if op = OP_LESS_THAN then Inr (float_less d radius)
     else if op = OP_LESS_THAN_OR_EQUAL then Inr (float_le d radius)
     else Inl (ValueError (''operador espacial desconocido: '' @ repr_operator op)))))"
| "row_matches lm row (BoundBetween c low high sp) =
     ebind (cell_of row (BoundBetween c low high sp)) (\<lambda>v.
     ebind (py_compare v low) (\<lambda>n.
     if n < 0 then Inr False
     else ebind (py_compare v high) (\<lambda>n. Inr (n \<le> 0))))"
| "row_matches lm row (BoundComparison c op bound sp) =
     ebind (cell_of row (BoundComparison c op bound sp)) (\<lambda>v.
     ebind (py_compare v bound) (\<lambda>n. Inr (compare_holds op n)))"
| "row_matches lm row (BoundSimilar m) =
     ebind (cell_of row (BoundSimilar m)) (\<lambda>_. Inl (AttributeError ''value''))"

section \<open>Arguments of the core's searches\<close>

fun equality_key :: "bound_condition \<Rightarrow> exn + native_value" where
  "equality_key (BoundComparison c op v sp) =
     (if op = OP_EQUAL then Inr (to_native_value v)
      else Inl (ValueError ''una busqueda puntual necesita el operador =''))"
| "equality_key _ = Inl (TypeError ''una busqueda puntual necesita una comparacion'')"

fun condition_class :: "bound_condition \<Rightarrow> string" where
  "condition_class (BoundComparison _ _ _ _) = ''BoundComparisonCondition''"
| "condition_class (BoundBetween _ _ _ _) = ''BoundBetweenCondition''"
| "condition_class (BoundDistance _ _ _ _ _ _) = ''BoundDistanceCondition''"
| "condition_class (BoundPolygon _ _ _) = ''BoundPolygonCondition''"
| "condition_class (BoundMatch _ _ _ _ _) = ''BoundMatchCondition''"
| "condition_class (BoundSimilar _) = ''BoundSimilarCondition''"

fun range_values :: "bound_condition \<Rightarrow> exn + native_value \<times> native_value" where
  "range_values (BoundBetween c low high sp) = Inr (to_native_value low, to_native_value high)"
| "range_values (BoundComparison c op v sp) =
     (if op = OP_EQUAL then Inl (ValueError ''una busqueda por rango no admite el operador ='')
      else
        ebind (native_range_bounds (br_column c)) (\<lambda>(low, high).
        Inr (if op = OP_LESS_THAN \<or> op = OP_LESS_THAN_OR_EQUAL then (low, to_native_value v)
             else (to_native_value v, high))))"
| "range_values w = Inl (TypeError (''condicion enlazada desconocida: '' @ condition_class w))"

fun spatial_search_args :: "bound_condition \<Rightarrow> exn + native_value \<times> pyfloat \<times> distance_metric" where
  "spatial_search_args (BoundDistance c center op radius metric sp) =
     Inr (to_native_value (VPoint center), radius, metric)"
| "spatial_search_args _ = Inl (TypeError ''una busqueda por radio necesita DISTANCIA'')"

text \<open>The number of results asked of a text index: \<open>None\<close> is the core's \<open>ALL_RESULTS\<close>.\<close>

fun text_search_args :: "bound_condition \<Rightarrow> int option \<Rightarrow> exn + string \<times> text_ranking \<times> int option" where
  "text_search_args (BoundMatch c q rank explicit sp) k = Inr (q, rank, k)"
| "text_search_args _ k = Inl (TypeError ''una busqueda de texto necesita MATCH'')"

fun polygon_search_args :: "bound_condition \<Rightarrow> exn + native_value list" where
  "polygon_search_args (BoundPolygon c vertices sp) =
     Inr (map (\<lambda>v. to_native_value (VPoint v)) vertices)"
| "polygon_search_args _ = Inl (TypeError ''una busqueda por poligono necesita DENTRO'')"

record tokenizer_options =
  to_stopword_languages :: "text_language list"
  to_stemmer :: "text_language option"

definition language_options :: "text_language \<Rightarrow> tokenizer_options" where
  "language_options l = \<lparr>to_stopword_languages = [l], to_stemmer = Some l\<rparr>"

text \<open>\<open>None\<close> in the argument is an index of a core that does not tell its options.\<close>

definition text_index_language :: "tokenizer_options option \<Rightarrow> text_language option" where
  "text_index_language options =
     (case options of
        None \<Rightarrow> None
      | Some t \<Rightarrow>
          (case to_stemmer t of
             Some l \<Rightarrow> Some l
           | None \<Rightarrow> (case to_stopword_languages t of [] \<Rightarrow> None | l # _ \<Rightarrow> Some l)))"

section \<open>Region of a query\<close>

datatype spatial_context =
    RadiusContext "string option" string point_value pyfloat distance_metric string comparison_operator
  | PolygonContext "string option" string "point_value list"

definition context_table :: "bound_select \<Rightarrow> string option" where
  "context_table st =
     (case bl_source st of
        BoundTableRef schema sp \<Rightarrow> if bl_group_by st = None then Some (bs_table_name schema) else None
      | _ \<Rightarrow> None)"

definition spatial_context_of :: "bound_select \<Rightarrow> spatial_context option" where
  "spatial_context_of st =
     (case bl_where st of
        Some (BoundPolygon c vertices sp) \<Rightarrow>
          Some (PolygonContext (context_table st) (bc_name (br_column c)) vertices)
      | Some (BoundDistance c center op radius metric sp) \<Rightarrow>
          Some (RadiusContext (context_table st) (bc_name (br_column c)) center radius metric
            (if metric = DIST_HAVERSINE then ''meters'' else ''degrees'') op)
      | _ \<Rightarrow> None)"

end
