(* ===== verification/Query_Core.thy ===== *)
theory Query_Core
  imports Core_Interface Executor_Predicates Planner_Explain
begin

text \<open>
  What the executor of queries needs of the core beyond the operations on rows: the clock, the
  counters of each handle, the spatial, text and vector indexes and the external join. The record
  \<open>query_core\<close> extends \<open>core\<close>; every operation of it may raise and leaves a state. Measurements
  (\<open>engine/executor/instrumentation.py\<close>) are built on them.
\<close>

section \<open>The operations\<close>

text \<open>The arguments of \<open>ExternalJoin(...)\<close> and what its handle tells after a join.\<close>

record join_request =
  jr_left :: native_schema
  jr_left_column :: nat
  jr_right :: native_schema
  jr_right_column :: nat
  jr_strategy :: join_strategy

record join_report =
  jo_structure :: string
  jo_used_hash :: bool
  jo_left_rows :: int
  jo_right_rows :: int
  jo_output_rows :: int
  jo_partitions :: int
  jo_blocked_partitions :: int

text \<open>\<open>probe_of(table)\<close> and \<open>probe_of(index, table)\<close>.\<close>

datatype join_probe = PrimaryProbe string | IndexProbe string string

record 's query_core = "'s core" +
  q_clock :: "('s, int) io"
  q_reset_table :: "string \<Rightarrow> ('s, unit) io"
  q_reset_index :: "string \<Rightarrow> string \<Rightarrow> ('s, unit) io"
  q_table_stats :: "string \<Rightarrow> ('s, stats) io"
  q_index_stats :: "string \<Rightarrow> string \<Rightarrow> ('s, stats) io"
  q_table_size :: "string \<Rightarrow> ('s, int) io"
  q_index_size :: "string \<Rightarrow> string \<Rightarrow> ('s, int) io"
  q_nearest :: "string \<Rightarrow> string \<Rightarrow> native_value \<Rightarrow> int \<Rightarrow> distance_metric \<Rightarrow> ('s, rid list) io"
  q_radius :: "string \<Rightarrow> string \<Rightarrow> native_value \<Rightarrow> pyfloat \<Rightarrow> distance_metric \<Rightarrow> ('s, rid list) io"
  q_polygon :: "string \<Rightarrow> string \<Rightarrow> native_value list \<Rightarrow> ('s, rid list) io"
  q_text :: "string \<Rightarrow> string \<Rightarrow> string \<Rightarrow> text_ranking \<Rightarrow> int option \<Rightarrow> ('s, (rid \<times> pyfloat) list) io"
  q_tokenizer :: "string \<Rightarrow> string \<Rightarrow> ('s, tokenizer_options option) io"
  q_vector :: "string \<Rightarrow> string \<Rightarrow> pyfloat list \<Rightarrow> int \<Rightarrow> vector_metric \<Rightarrow> int
    \<Rightarrow> ('s, (rid \<times> pyfloat) list) io"
  q_scan_vector :: "string \<Rightarrow> string \<Rightarrow> pyfloat list \<Rightarrow> int \<Rightarrow> vector_metric
    \<Rightarrow> ('s, (rid \<times> pyfloat) list) io"
  q_from_distance :: "pyfloat \<Rightarrow> vector_metric \<Rightarrow> exn + pyfloat"
  q_make_temp :: "('s, unit) io"
  q_remove_temp :: "'s \<Rightarrow> 's"
  q_open_join :: "join_request \<Rightarrow> ('s, unit) io"
  q_open_probe :: "join_probe \<Rightarrow> ('s, unit) io"
  q_join :: "join_request \<Rightarrow> native_record list \<Rightarrow> join_probe option \<Rightarrow> native_record list \<Rightarrow> int
    \<Rightarrow> ('s, native_record list) io"
  q_join_report :: "join_request \<Rightarrow> ('s, join_report) io"

section \<open>Measurements\<close>

record 'a measurement =
  me_value :: 'a
  me_stats :: stats
  me_time :: pyfloat

text \<open>
  The quotient of two integers rounded once; readings of \<open>perf_counter_ns\<close> have 64 bits, so it is
  finite.
\<close>

definition elapsed_ms :: "int \<Rightarrow> int \<Rightarrow> pyfloat" where
  "elapsed_ms start stop = round_binary64 (of_int (stop - start) / 1000000)"

datatype handle = TableHandle string | IndexHandle string string

fun reset_stats :: "('s, 'm) query_core_scheme \<Rightarrow> handle \<Rightarrow> ('s, unit) io" where
  "reset_stats Q (TableHandle t) = q_reset_table Q t"
| "reset_stats Q (IndexHandle t n) = q_reset_index Q t n"

fun handle_stats :: "('s, 'm) query_core_scheme \<Rightarrow> handle \<Rightarrow> ('s, stats) io" where
  "handle_stats Q (TableHandle t) = q_table_stats Q t"
| "handle_stats Q (IndexHandle t n) = q_index_stats Q t n"

definition measure_native ::
  "('s, 'm) query_core_scheme \<Rightarrow> handle \<Rightarrow> ('s, 'a) io \<Rightarrow> ('s, 'a measurement) io" where
  "measure_native Q owner operation =
     io_then (reset_stats Q owner)
       (io_bind (q_clock Q) (\<lambda>start.
        io_bind operation (\<lambda>value.
        io_bind (q_clock Q) (\<lambda>stop.
        io_bind (handle_stats Q owner) (\<lambda>n.
        io_return \<lparr>me_value = value, me_stats = n, me_time = elapsed_ms start stop\<rparr>)))))"

definition measure_memory ::
  "('s, 'm) query_core_scheme \<Rightarrow> ('s, 'a) io \<Rightarrow> int \<Rightarrow> ('a \<Rightarrow> int) \<Rightarrow> ('s, 'a measurement) io" where
  "measure_memory Q operation examined returned =
     io_bind (q_clock Q) (\<lambda>start.
     io_bind operation (\<lambda>value.
     io_bind (q_clock Q) (\<lambda>stop.
     io_return \<lparr>me_value = value, me_stats = Stats 0 0 examined (returned value),
                me_time = elapsed_ms start stop\<rparr>)))"

text \<open>A step with the counters and the time of a measurement.\<close>

definition measured_step ::
  "plan_op \<Rightarrow> plan_structure \<Rightarrow> string \<Rightarrow> json \<Rightarrow> string \<Rightarrow> 'a measurement \<Rightarrow> step list \<Rightarrow> step" where
  "measured_step p st table column detail m children =
     plain_step p st (JStr table) column detail (me_stats m) (me_time m) children"

end
