(* ===== verification/Dml.thy ===== *)
theory Dml
  imports Core_Interface Executor_Predicates Planner_Optimizer
begin

text \<open>
  INSERT and DELETE on a table and its secondary indexes (\<open>engine/executor/dml.py\<close>): the order of the
  calls to the core, the checks of the candidates and the best-effort reversion of a failed
  operation. An index is given by the name and the column its metadata holds. Python compares
  candidates by identity in the reversion: a candidate carries its position in the tuple.
\<close>

type_synonym index_ref = "string \<times> int"

definition index_refs :: "table_metadata \<Rightarrow> index_ref list" where
  "index_refs t = map (\<lambda>ix. (im_name ix, im_column ix)) (tm_indexes t)"

record delete_candidate =
  dc_rid :: "rid option"
  dc_record :: native_record

text \<open>The handles that the functions open before they change anything.\<close>

definition open_handles :: "('s, 'm) core_scheme \<Rightarrow> string \<Rightarrow> index_ref list \<Rightarrow> ('s, unit) io" where
  "open_handles C table indexes =
     io_then (co_table C table) (io_for (\<lambda>(name, column). co_index C table name) indexes)"

section \<open>INSERT\<close>

text \<open>The loop of the \<open>try\<close> block; its variable is the list \<open>attempted\<close>.\<close>

definition insert_entries ::
  "('s, 'm) core_scheme \<Rightarrow> string \<Rightarrow> native_record \<Rightarrow> rid \<Rightarrow> index_ref list
   \<Rightarrow> ((string \<times> native_value) list \<times> 's, unit) io" where
  "insert_entries C table values rid indexes =
     io_for (\<lambda>(name, column).
       io_bind (io_lift (py_index values column)) (\<lambda>key.
       io_then (io_local (\<lambda>attempted. attempted @ [(name, key)]))
         (io_outer (ci_insert C table name key rid)))) indexes"

definition undo_insert ::
  "('s, 'm) core_scheme \<Rightarrow> string \<Rightarrow> native_record \<Rightarrow> rid \<Rightarrow> nat \<Rightarrow> (string \<times> native_value) list
   \<Rightarrow> ('s, unit) io" where
  "undo_insert C table values rid key_column attempted =
     io_then (io_for (\<lambda>(name, key). io_suppress (ci_remove_one C table name key rid)) (rev attempted))
       (io_suppress (io_bind (io_lift (py_index values (int key_column))) (co_remove C table)))"

definition insert_with_indexes ::
  "('s, 'm) core_scheme \<Rightarrow> string \<Rightarrow> native_record \<Rightarrow> nat \<Rightarrow> index_ref list \<Rightarrow> ('s, rid) io" where
  "insert_with_indexes C table values key_column indexes =
     io_then (open_handles C table indexes)
       (io_bind (co_insert C table values) (\<lambda>rid s.
          case insert_entries C table values rid indexes ([], s) of
            (Inr _, (attempted, t)) \<Rightarrow> (Inr rid, t)
          | (Inl e, (attempted, t)) \<Rightarrow>
              io_then (undo_insert C table values rid key_column attempted) (io_raise e) t))"

section \<open>Candidates of a DELETE\<close>

text \<open>The RIDs of an index, read one by one; a repeated RID or one without a row is an error.\<close>

fun read_rids ::
  "('s, 'm) core_scheme \<Rightarrow> string \<Rightarrow> string \<Rightarrow> rid list \<Rightarrow> delete_candidate list
   \<Rightarrow> ('s, delete_candidate list) io" where
  "read_rids C table name [] candidates = io_return candidates"
| "read_rids C table name (rid # rids) candidates =
     (if list_ex (\<lambda>c. dc_rid c = Some rid) candidates then
        io_raise (RuntimeError (''el indice '' @ repr_str name @ '' de '' @ repr_str table
          @ '' devolvio el RID duplicado '' @ co_repr_rid C rid))
      else
        io_bind (co_read C table rid) (\<lambda>r.
        case r of
          None \<Rightarrow> io_raise (RuntimeError (''el indice '' @ repr_str name @ '' de '' @ repr_str table
                    @ '' apunta a un RID inexistente: '' @ co_repr_rid C rid))
        | Some row \<Rightarrow>
            read_rids C table name rids (candidates @ [\<lparr>dc_rid = Some rid, dc_record = row\<rparr>])))"

definition read_index_candidates ::
  "('s, 'm) core_scheme \<Rightarrow> delete_plan \<Rightarrow> ('s, delete_candidate list) io" where
  "read_index_candidates C p =
     (case dp_index p of
        None \<Rightarrow> io_raise (ValueError (''la ruta '' @ route_value (dp_route p) @ '' necesita un indice''))
      | Some ix \<Rightarrow>
          let table = bs_table_name (bd_schema (dp_statement p));
              name = im_name ix;
              w = bd_where (dp_statement p)
          in io_then (co_index C table name)
               (io_bind
                 (if dp_route p = R_INDEX_SEARCH then
                    io_bind (io_lift (equality_key w)) (ci_search C table name)
                  else if dp_route p = R_INDEX_RANGE then
                    io_bind (ci_supports_range C table name) (\<lambda>ok.
                    if \<not> ok then
                      io_raise (RuntimeError (''el indice '' @ repr_str name
                        @ '' fue planificado para rango, pero no lo soporta''))
                    else io_bind (io_lift (range_values w)) (\<lambda>(lo, hi).
                         ci_range_search C table name lo hi))
                  else io_raise (ValueError (''ruta de DELETE desconocida: '' @ repr_route (dp_route p))))
                 (\<lambda>rids. read_rids C table name rids [])))"

definition candidate_matches ::
  "libm \<Rightarrow> bound_schema \<Rightarrow> bound_condition \<Rightarrow> delete_candidate \<Rightarrow> exn + bool" where
  "candidate_matches lm schema w c =
     ebind (from_native_record (dc_record c) schema) (\<lambda>row. row_matches lm row w)"

fun efilter :: "('a \<Rightarrow> exn + bool) \<Rightarrow> 'a list \<Rightarrow> exn + 'a list" where
  "efilter f [] = Inr []"
| "efilter f (x # xs) =
     ebind (f x) (\<lambda>keep. ebind (efilter f xs) (\<lambda>ys. Inr (if keep then x # ys else ys)))"

definition collect_delete_candidates ::
  "('s, 'm) core_scheme \<Rightarrow> libm \<Rightarrow> delete_plan \<Rightarrow> ('s, delete_candidate list) io" where
  "collect_delete_candidates C lm p =
     (let schema = bd_schema (dp_statement p);
          w = bd_where (dp_statement p);
          table = bs_table_name schema;
          bare = map (\<lambda>r. \<lparr>dc_rid = None, dc_record = r\<rparr>)
      in io_then (co_table C table)
        (io_bind
          (if dp_route p = R_SCAN then
             if \<not> dp_residual p then
               io_raise (ValueError ''un scan de DELETE necesita un filtro residual'')
             else io_bind (co_scan_with_rids C table) (\<lambda>rows.
                  io_return (map (\<lambda>(rid, r). \<lparr>dc_rid = Some rid, dc_record = r\<rparr>) rows))
           else if dp_route p = R_TABLE_SEARCH then
             io_bind (io_lift (equality_key w)) (\<lambda>key.
             io_bind (co_search C table key) (\<lambda>rows. io_return (bare rows)))
           else if dp_route p = R_TABLE_RANGE then
             io_bind (io_lift (range_values w)) (\<lambda>(lo, hi).
             io_bind (co_range_search C table lo hi) (\<lambda>rows. io_return (bare rows)))
           else read_index_candidates C p)
          (\<lambda>candidates.
           if dp_route p = R_SCAN \<or> dp_residual p then
             io_lift (efilter (candidate_matches lm schema w) candidates)
           else io_return candidates)))"

section \<open>DELETE\<close>

fun validate_candidates ::
  "('s, 'm) core_scheme \<Rightarrow> nat \<Rightarrow> index_ref list \<Rightarrow> delete_candidate list \<Rightarrow> native_value list
   \<Rightarrow> rid list \<Rightarrow> exn + unit" where
  "validate_candidates C key_column indexes [] keys rids = Inr ()"
| "validate_candidates C key_column indexes (c # cs) keys rids =
     (if list_ex (\<lambda>column. column < 0 \<or> int (length (dc_record c)) \<le> column)
           (int key_column # map snd indexes) then
        Inl (ValueError ''un candidato de DELETE no coincide con el esquema de la tabla'')
      else
        let key = dc_record c ! key_column in
        if list_ex (native_eq key) keys then
          Inl (RuntimeError (''DELETE recibio dos candidatos con la clave primaria '' @ co_repr_value C key))
        else if indexes = [] then validate_candidates C key_column indexes cs (keys @ [key]) rids
        else
          case dc_rid c of
            None \<Rightarrow> Inl (ValueError ''DELETE necesita el RID de cada candidato para mantener sus indices'')
          | Some rid \<Rightarrow>
              if rid \<in> set rids then
                Inl (RuntimeError (''DELETE recibio dos veces el RID '' @ co_repr_rid C rid))
              else validate_candidates C key_column indexes cs (keys @ [key]) (rids @ [rid]))"

text \<open>The variables \<open>removed_entries\<close> and \<open>removed_rows\<close> of \<open>delete_with_indexes\<close>.\<close>

record removals =
  rm_entries :: "((nat \<times> delete_candidate) \<times> string \<times> native_value) list"
  rm_rows :: "(nat \<times> delete_candidate) list"

definition remove_entry ::
  "('s, 'm) core_scheme \<Rightarrow> string \<Rightarrow> nat \<times> delete_candidate \<Rightarrow> index_ref \<Rightarrow> (removals \<times> 's, unit) io" where
  "remove_entry C table ic ref =
     (case (ref, dc_rid (snd ic)) of
        ((name, column), Some rid) \<Rightarrow>
          io_bind (io_lift (py_index (dc_record (snd ic)) column)) (\<lambda>key.
          io_bind (io_outer (ci_remove_one C table name key rid)) (\<lambda>found.
          if \<not> found then
            io_raise (RuntimeError (''el indice '' @ repr_str name @ '' no contiene ('' @ co_repr_value C key
              @ '', '' @ co_repr_rid C rid @ '')''))
          else io_local (\<lambda>r. r\<lparr>rm_entries := rm_entries r @ [(ic, name, key)]\<rparr>)))
      | (_, None) \<Rightarrow> io_raise (TypeError ''remove_one(): incompatible function arguments''))"

definition remove_row ::
  "('s, 'm) core_scheme \<Rightarrow> string \<Rightarrow> nat \<Rightarrow> nat \<times> delete_candidate \<Rightarrow> (removals \<times> 's, unit) io" where
  "remove_row C table key_column ic =
     io_bind (io_lift (py_index (dc_record (snd ic)) (int key_column))) (\<lambda>key.
     io_bind (io_outer (co_remove C table key)) (\<lambda>n.
     if n \<noteq> 1 then
       io_raise (RuntimeError (''la fila candidata con clave primaria '' @ co_repr_value C key
         @ '' desaparecio antes de borrarse''))
     else io_local (\<lambda>r. r\<lparr>rm_rows := rm_rows r @ [ic]\<rparr>)))"

definition remove_all ::
  "('s, 'm) core_scheme \<Rightarrow> string \<Rightarrow> nat \<Rightarrow> index_ref list \<Rightarrow> (nat \<times> delete_candidate) list
   \<Rightarrow> (removals \<times> 's, unit) io" where
  "remove_all C table key_column indexes cs =
     io_then (io_for (\<lambda>ic. io_for (remove_entry C table ic) indexes) cs)
       (io_for (remove_row C table key_column) cs)"

text \<open>Reversion: the rows come back first, in reverse, then the entries with the RIDs they have now.\<close>

fun reinsert_rows ::
  "('s, 'm) core_scheme \<Rightarrow> string \<Rightarrow> (nat \<times> delete_candidate) list \<Rightarrow> (nat \<times> rid) list
   \<Rightarrow> ('s, (nat \<times> rid) list) io" where
  "reinsert_rows C table [] restored = io_return restored"
| "reinsert_rows C table (ic # ics) restored =
     (\<lambda>s. case co_insert C table (dc_record (snd ic)) s of
        (Inr rid, t) \<Rightarrow> reinsert_rows C table ics (restored @ [(fst ic, rid)]) t
      | (Inl e, t) \<Rightarrow> reinsert_rows C table ics restored t)"

definition restored_rid ::
  "('s, 'm) core_scheme \<Rightarrow> string \<Rightarrow> nat \<times> delete_candidate \<Rightarrow> (nat \<times> delete_candidate) list
   \<Rightarrow> (nat \<times> rid) list \<Rightarrow> ('s, rid option) io" where
  "restored_rid C table ic removed restored =
     (case map_of restored (fst ic) of
        Some rid \<Rightarrow> io_return (Some rid)
      | None \<Rightarrow>
          if fst ic \<in> fst ` set removed then io_return None
          else
            (case dc_rid (snd ic) of
               None \<Rightarrow> io_return None
             | Some rid \<Rightarrow>
                 (\<lambda>s. case co_read C table rid s of
                    (Inr (Some row), t) \<Rightarrow> (Inr (Some rid), t)
                  | (_, t) \<Rightarrow> (Inr None, t))))"

definition rollback_delete ::
  "('s, 'm) core_scheme \<Rightarrow> string \<Rightarrow> removals \<Rightarrow> ('s, unit) io" where
  "rollback_delete C table r =
     io_bind (reinsert_rows C table (rev (rm_rows r)) []) (\<lambda>restored.
     io_for (\<lambda>(ic, name, key).
       io_bind (restored_rid C table ic (rm_rows r) restored) (\<lambda>rid.
       case rid of
         None \<Rightarrow> io_return ()
       | Some rid \<Rightarrow> io_suppress (ci_insert C table name key rid))) (rev (rm_entries r)))"

definition delete_with_indexes ::
  "('s, 'm) core_scheme \<Rightarrow> string \<Rightarrow> delete_candidate list \<Rightarrow> nat \<Rightarrow> index_ref list \<Rightarrow> ('s, nat) io" where
  "delete_with_indexes C table candidates key_column indexes =
     io_then (open_handles C table indexes)
       (io_then (io_lift (validate_candidates C key_column indexes candidates [] []))
         (\<lambda>s. case remove_all C table key_column indexes (enumerate 0 candidates)
                    (\<lparr>rm_entries = [], rm_rows = []\<rparr>, s) of
            (Inr _, (r, t)) \<Rightarrow> (Inr (length candidates), t)
          | (Inl e, (r, t)) \<Rightarrow> io_then (rollback_delete C table r) (io_raise e) t))"

definition execute_delete :: "('s, 'm) core_scheme \<Rightarrow> libm \<Rightarrow> delete_plan \<Rightarrow> ('s, nat) io" where
  "execute_delete C lm p =
     io_bind (collect_delete_candidates C lm p) (\<lambda>candidates.
       delete_with_indexes C (bs_table_name (bd_schema (dp_statement p))) candidates
         (bs_key_column (bd_schema (dp_statement p))) (index_refs (dp_table p)))"

end
