(* ===== verification/Select_Executor.thy ===== *)
theory Select_Executor
  imports Query_Core Dml
begin

text \<open>
  The operators of a SELECT without sort or group (\<open>engine/executor/operators.py\<close>) and the vector
  candidates (\<open>engine/executor/vector_search.py\<close>): the calls to the core in the order the code makes
  them, the measured step of each and the rows they give. The list \<open>scores\<close> that the code hands down
  to be filled is here the last component of the result, empty when it was not asked for.
\<close>

section \<open>Rows by RID\<close>

text \<open>Reads the rows of a list of RIDs; one without a row raises the error of the caller.\<close>

definition fetch_rows ::
  "('s, 'm) core_scheme \<Rightarrow> string \<Rightarrow> (rid \<Rightarrow> string) \<Rightarrow> rid list \<Rightarrow> ('s, native_record list) io" where
  "fetch_rows C table message rids =
     io_map (\<lambda>rid. io_bind (co_read C table rid) (\<lambda>r.
       case r of None \<Rightarrow> io_raise (RuntimeError (message rid)) | Some row \<Rightarrow> io_return row)) rids"

definition dangling_rid :: "('s, 'm) core_scheme \<Rightarrow> string \<Rightarrow> string \<Rightarrow> rid \<Rightarrow> string" where
  "dangling_rid C name table rid =
     ''el indice '' @ repr_str name @ '' de '' @ repr_str table @ '' apunta a un RID inexistente: ''
     @ co_repr_rid C rid"

definition fetched_step :: "table_access \<Rightarrow> string \<Rightarrow> string \<Rightarrow> 'a measurement \<Rightarrow> step \<Rightarrow> step" where
  "fetched_step a table detail m child =
     measured_step OP_FETCH (tm_structure (pa_table a)) table JNull detail m [child]"

section \<open>Vector candidates\<close>

text \<open>The search and its scores are one measured operation.\<close>

definition vector_matches ::
  "('s, 'm) query_core_scheme \<Rightarrow> vector_metric \<Rightarrow> bool \<Rightarrow> ('s, (rid \<times> pyfloat) list) io
   \<Rightarrow> ('s, rid list \<times> pyfloat list) io" where
  "vector_matches Q metric want search =
     io_bind search (\<lambda>found.
     if want then
       io_bind (io_lift (emap (\<lambda>(rid, d). q_from_distance Q d metric) found)) (\<lambda>scores.
       io_return (map fst found, scores))
     else io_return (map fst found, []))"

definition execute_vector_candidates ::
  "('s, 'm) query_core_scheme \<Rightarrow> table_access \<Rightarrow> bound_similar \<Rightarrow> bool
   \<Rightarrow> ('s, native_record list \<times> step \<times> pyfloat list) io" where
  "execute_vector_candidates Q a w want =
     (case bm_vector w of
        None \<Rightarrow> io_raise (ValueError ''SIMILAR_TO necesita ExtractFeatures antes de buscar'')
      | Some v \<Rightarrow>
          let table = tm_name (pa_table a); metric = bm_metric w in
          io_then (co_table Q table)
          (io_bind (q_table_size Q table) (\<lambda>size.
           let k = min (bm_k w) size in
           io_bind
             (case pa_index a of
                None \<Rightarrow>
                  io_return (TableHandle table,
                    q_scan_vector Q table (bc_name (br_column (bm_column w))) v k metric)
              | Some ix \<Rightarrow>
                  io_then (co_index Q table (im_name ix))
                    (io_return (IndexHandle table (im_name ix),
                       q_vector Q table (im_name ix) v k metric
                         (if im_structure ix = ST_IVF then bm_nprobe w else bm_ef_search w))))
             (\<lambda>(owner, search).
              io_bind (measure_native Q owner (vector_matches Q metric want search)) (\<lambda>nearest.
              io_bind (io_lift (vector_search_step a (Some (BoundSimilar w)) (me_stats nearest)
                                  (me_time nearest))) (\<lambda>st.
              io_bind (measure_native Q (TableHandle table)
                (fetch_rows Q table (\<lambda>rid. ''la busqueda vectorial devolvio un RID inexistente'')
                   (fst (me_value nearest)))) (\<lambda>rows.
              io_return (me_value rows,
                fetched_step a table ''lee por RID conservando el orden de similitud'' rows st,
                snd (me_value nearest))))))))) "

section \<open>Candidates of a table\<close>

text \<open>The nearest neighbours of a point; \<open>min(None, n)\<close> raises.\<close>

definition nearest_candidates ::
  "('s, 'm) query_core_scheme \<Rightarrow> table_access \<Rightarrow> bound_order_by \<Rightarrow> string \<Rightarrow> string
   \<Rightarrow> ('s, native_record list \<times> step) io" where
  "nearest_candidates Q a nearest table src =
     (case pa_index a of
        None \<Rightarrow> io_raise (AttributeError ''name'')
      | Some ix \<Rightarrow>
          io_then (co_index Q table (im_name ix))
          (case nearest of
             BoundOrderBy c d sp \<Rightarrow> io_raise (AttributeError ''center'')
           | BoundDistanceOrderBy c center metric d sp \<Rightarrow>
               io_bind (q_index_size Q table (im_name ix)) (\<lambda>size.
               case pa_nearest_limit a of
                 None \<Rightarrow> io_raise (TypeError (CHR 0x27 # ''<'' @ CHR 0x27
                           # '' not supported between instances of '' @ repr_str ''int'' @ '' and ''
                           @ repr_str ''NoneType''))
               | Some n \<Rightarrow>
                   io_bind (measure_native Q (IndexHandle table (im_name ix))
                     (q_nearest Q table (im_name ix) (to_native_value (VPoint center)) (min n size) metric))
                   (\<lambda>found.
                   let child = measured_step OP_KNN_SEARCH ST_RTREE table
                         (JStr (bc_name (br_column c))) (knn_detail ix (Some n) metric sp src) found []
                   in io_bind (measure_native Q (TableHandle table)
                        (fetch_rows Q table
                           (\<lambda>rid. ''el indice '' @ repr_str (im_name ix) @ '' apunta a un RID inexistente'')
                           (me_value found)))
                      (\<lambda>rows. io_return (me_value rows,
                         fetched_step a table ''lee por RID conservando el orden de los vecinos''
                           rows child))))))"

text \<open>The measured search of an index: the RIDs, with the scores of a text search.\<close>

definition index_candidates ::
  "('s, 'm) query_core_scheme \<Rightarrow> table_access \<Rightarrow> index_metadata \<Rightarrow> string \<Rightarrow> bound_condition \<Rightarrow> bool
   \<Rightarrow> ('s, plan_op \<times> (rid list \<times> pyfloat list) measurement) io" where
  "index_candidates Q a ix table w want =
     (let name = im_name ix; route = pa_route a;
          measured = (\<lambda>p m. io_bind (measure_native Q (IndexHandle table name) m) (\<lambda>r. io_return (p, r)));
          rids = (\<lambda>m. io_bind m (\<lambda>rs. io_return (rs, [])))
      in
      if route = R_INDEX_SEARCH then
        io_bind (io_lift (equality_key w)) (\<lambda>key.
        measured OP_INDEX_SEARCH (rids (ci_search Q table name key)))
      else if route = R_INDEX_RANGE then
        io_bind (ci_supports_range Q table name) (\<lambda>ok.
        if \<not> ok then
          io_raise (RuntimeError (''el indice '' @ repr_str name
            @ '' fue planificado para rango, pero no lo soporta''))
        else io_bind (io_lift (range_values w)) (\<lambda>(lo, hi).
          measured OP_INDEX_RANGE (rids (ci_range_search Q table name lo hi))))
      else if route = R_RTREE_RADIUS then
        io_bind (io_lift (spatial_search_args w)) (\<lambda>(center, radius, metric).
        measured OP_RADIUS_SEARCH (rids (q_radius Q table name center radius metric)))
      else if route = R_RTREE_POLYGON then
        io_bind (io_lift (polygon_search_args w)) (\<lambda>vertices.
        measured OP_POLYGON_SEARCH (rids (q_polygon Q table name vertices)))
      else if route = R_TEXT_SEARCH then
        io_bind (io_lift (text_search_args w (pa_text_limit a))) (\<lambda>(query, ranking, k).
        measured OP_TEXT_SEARCH
          (io_bind (q_text Q table name query ranking k) (\<lambda>found.
           io_return (map fst found, if want then map snd found else []))))
      else io_raise (ValueError (''ruta de SELECT desconocida: '' @ repr_route route)))"

fun language_name :: "text_language \<Rightarrow> string" where
  "language_name LANG_SPANISH = ''spanish''"
| "language_name LANG_ENGLISH = ''english''"

text \<open>The step of an index search; a text search tells the language of its index.\<close>

definition index_step ::
  "('s, 'm) query_core_scheme \<Rightarrow> table_access \<Rightarrow> index_metadata \<Rightarrow> string \<Rightarrow> bound_condition \<Rightarrow> string
   \<Rightarrow> plan_op \<Rightarrow> 'a measurement \<Rightarrow> ('s, step) io" where
  "index_step Q a ix table w src p m =
     (if pa_route a = R_TEXT_SEARCH then
        io_bind (q_tokenizer Q table (im_name ix)) (\<lambda>options.
        io_lift (text_search_step a w src table (me_stats m) (me_time m)
                   (map_option language_name (text_index_language options))))
      else
        io_return (measured_step p (im_structure ix) table (JStr (condition_column_name w))
                     (condition_text w src) m []))"

definition read_candidates ::
  "('s, 'm) query_core_scheme \<Rightarrow> table_access \<Rightarrow> bound_schema \<Rightarrow> bound_condition option \<Rightarrow> string \<Rightarrow> bool
   \<Rightarrow> ('s, native_record list \<times> step \<times> pyfloat list) io" where
  "read_candidates Q a schema wh src want =
     (let table = bs_table_name schema; st = tm_structure (pa_table a); route = pa_route a in
      if route = R_VECTOR_KNN \<or> route = R_VECTOR_SCAN then
        (case wh of
           Some (BoundSimilar w) \<Rightarrow> execute_vector_candidates Q a w want
         | _ \<Rightarrow> io_raise (TypeError ''la ruta vectorial necesita SIMILAR_TO''))
      else if route = R_SCAN then
        io_bind (measure_native Q (TableHandle table) (co_scan Q table)) (\<lambda>m.
        io_return (me_value m, measured_step OP_SCAN st table JNull [] m [], []))
      else
      case pa_nearest a of
        Some nearest \<Rightarrow>
          io_bind (nearest_candidates Q a nearest table src) (\<lambda>(rows, child).
          io_return (rows, child, []))
      | None \<Rightarrow>
      case wh of
        None \<Rightarrow> io_raise (ValueError (''la ruta '' @ route_value route @ '' necesita una condicion''))
      | Some w \<Rightarrow>
          let detail = condition_text w src; column = JStr (condition_column_name w) in
          if route = R_TABLE_SEARCH then
            io_bind (io_lift (equality_key w)) (\<lambda>key.
            io_bind (measure_native Q (TableHandle table) (co_search Q table key)) (\<lambda>m.
            io_return (me_value m, measured_step OP_SEARCH st table column detail m [], [])))
          else if route = R_TABLE_RANGE then
            io_bind (io_lift (range_values w)) (\<lambda>(lo, hi).
            io_bind (measure_native Q (TableHandle table) (co_range_search Q table lo hi)) (\<lambda>m.
            io_return (me_value m, measured_step OP_RANGE_SEARCH st table column detail m [], [])))
          else
          case pa_index a of
            None \<Rightarrow> io_raise (ValueError (''la ruta '' @ route_value route @ '' necesita un indice''))
          | Some ix \<Rightarrow>
              io_then (co_index Q table (im_name ix))
              (io_bind (index_candidates Q a ix table w want) (\<lambda>(p, found).
               io_bind (index_step Q a ix table w src p found) (\<lambda>child.
               io_bind (measure_native Q (TableHandle table)
                 (fetch_rows Q table (dangling_rid Q (im_name ix) table) (fst (me_value found)))) (\<lambda>rows.
               io_return (me_value rows,
                 fetched_step a table
                   (''lee '' @ show_int (int (length (fst (me_value found)))) @ '' registros por RID'')
                   rows child,
                 snd (me_value found)))))))"

section \<open>Filters and joins\<close>

text \<open>
  The predicate of the query with its column moved to the columns of this node. A position before the
  node would be negative and count from the end of its \<open>n\<close> columns, or fall out of them.
\<close>

definition local_position :: "nat \<Rightarrow> nat \<Rightarrow> nat \<Rightarrow> nat" where
  "local_position n off i =
     (if off \<le> i then i - off else if off - i \<le> n then n - (off - i) else n)"

definition shift_reference :: "nat \<Rightarrow> nat \<Rightarrow> bound_column_reference \<Rightarrow> bound_column_reference" where
  "shift_reference n off c =
     BoundColumnReference (local_position n off (br_index c)) (br_column c) (br_span c)"

fun local_condition :: "nat \<Rightarrow> nat \<Rightarrow> bound_condition \<Rightarrow> bound_condition" where
  "local_condition n off (BoundComparison c op v sp) = BoundComparison (shift_reference n off c) op v sp"
| "local_condition n off (BoundBetween c lo hi sp) = BoundBetween (shift_reference n off c) lo hi sp"
| "local_condition n off (BoundDistance c p op r m sp) = BoundDistance (shift_reference n off c) p op r m sp"
| "local_condition n off (BoundPolygon c vs sp) = BoundPolygon (shift_reference n off c) vs sp"
| "local_condition n off (BoundMatch c q r e sp) = BoundMatch (shift_reference n off c) q r e sp"
| "local_condition n off (BoundSimilar m) = BoundSimilar (m\<lparr>bm_column := shift_reference n off (bm_column m)\<rparr>)"

text \<open>The filter above a node: all the rows are converted before the measured evaluation.\<close>

definition filter_rows ::
  "('s, 'm) query_core_scheme \<Rightarrow> libm \<Rightarrow> bool \<Rightarrow> bound_schema \<Rightarrow> bound_condition option \<Rightarrow> string \<Rightarrow> nat
   \<Rightarrow> native_record list \<times> step \<times> pyfloat list
   \<Rightarrow> ('s, native_record list \<times> step \<times> pyfloat list) io" where
  "filter_rows Q lm residual schema wh src off node =
     (case node of (rows, child, scores) \<Rightarrow>
      if \<not> residual then io_return (rows, child, scores)
      else case wh of
        None \<Rightarrow> io_raise (ValueError ''un filtro residual necesita una condicion'')
      | Some w \<Rightarrow>
          let here = local_condition (length (bs_columns schema)) off w in
          io_bind (io_lift (emap (\<lambda>row. from_native_record row schema) rows)) (\<lambda>values.
          io_bind (measure_memory Q
            (io_lift (efilter (\<lambda>(row, v). row_matches lm v here) (zip rows values)))
            (int (length rows)) (int \<circ> length)) (\<lambda>m.
          io_return (map fst (me_value m),
            plain_step OP_FILTER ST_MEMORY (JStr (bs_table_name schema)) (JStr (condition_column_name w))
              (condition_text w src) (me_stats m) (me_time m) [child],
            scores))))"

definition probe_for ::
  "('s, 'm) query_core_scheme \<Rightarrow> join_strategy \<Rightarrow> index_metadata option \<Rightarrow> string
   \<Rightarrow> ('s, join_probe option) io" where
  "probe_for Q strategy probe table =
     (if strategy \<noteq> JOIN_AUTO then io_return None
      else io_then (co_table Q table)
        (case probe of
           Some ix \<Rightarrow>
             io_then (co_index Q table (im_name ix))
             (io_then (q_open_probe Q (IndexProbe table (im_name ix)))
               (io_return (Some (IndexProbe table (im_name ix)))))
         | None \<Rightarrow>
             io_then (q_open_probe Q (PrimaryProbe table)) (io_return (Some (PrimaryProbe table)))))"

fun join_strategy_value :: "join_strategy \<Rightarrow> string" where
  "join_strategy_value JOIN_AUTO = ''auto''"
| "join_strategy_value JOIN_HASH = ''hash''"

definition executed_join_detail :: "join_report \<Rightarrow> join_strategy \<Rightarrow> int option \<Rightarrow> string" where
  "executed_join_detail r strategy outer_rows =
     join_str ''; ''
       ([''pedido '' @ join_strategy_value strategy @ '', usado ''
          @ (if jo_used_hash r then ''hash join'' else ''index nested loop''),
         ''filas externas '' @ (case outer_rows of None \<Rightarrow> ''desconocidas'' | Some n \<Rightarrow> show_int n),
         show_int (jo_left_rows r) @ '' x '' @ show_int (jo_right_rows r) @ '' -> ''
           @ show_int (jo_output_rows r) @ '' filas'']
        @ (if jo_partitions r \<noteq> 0 then [show_int (jo_partitions r) @ '' particiones''] else [])
        @ (if jo_blocked_partitions r \<noteq> 0
           then [show_int (jo_blocked_partitions r) @ '' recorridas por bloques''] else []))"

text \<open>The \<open>try\<close> block of \<open>_execute_join\<close>, which runs with a directory of its own.\<close>

definition run_join ::
  "('s, 'm) query_core_scheme \<Rightarrow> join_request \<Rightarrow> index_metadata option \<Rightarrow> int option \<Rightarrow> string
   \<Rightarrow> native_record list \<Rightarrow> native_record list
   \<Rightarrow> ('s, native_record list measurement \<times> string \<times> plan_structure) io" where
  "run_join Q j probe outer_rows right_table left_rows right_rows =
     io_then (q_open_join Q j)
     (io_bind (measure_memory Q
        (io_bind (probe_for Q (jr_strategy j) probe right_table) (\<lambda>probe.
         q_join Q j left_rows probe right_rows (case outer_rows of None \<Rightarrow> 0 | Some n \<Rightarrow> n)))
        (int (length left_rows) + int (length right_rows)) (int \<circ> length)) (\<lambda>m.
      io_bind (q_join_report Q j) (\<lambda>r.
      io_bind (io_lift (structure_of (jo_structure r))) (\<lambda>st.
      io_return (m, executed_join_detail r (jr_strategy j) outer_rows, st)))))"

definition execute_join ::
  "('s, 'm) query_core_scheme \<Rightarrow> join_request \<Rightarrow> index_metadata option \<Rightarrow> int option \<Rightarrow> string \<Rightarrow> string
   \<Rightarrow> string \<Rightarrow> native_record list \<times> step \<Rightarrow> native_record list \<times> step
   \<Rightarrow> ('s, native_record list \<times> step \<times> pyfloat list) io" where
  "execute_join Q j probe outer_rows right_table table column left right =
     io_then (q_make_temp Q)
     (io_bind (io_finally
        (run_join Q j probe outer_rows right_table (fst left) (fst right))
        (\<lambda>s. (Inr (), q_remove_temp Q s)))
      (\<lambda>(m, detail, st).
       io_return (me_value m,
         plain_step OP_JOIN st (JStr table) (JStr column) detail (me_stats m) (me_time m)
           [snd left, snd right], [])))"

text \<open>The nodes of a source; only a table at the top hands the scores of its search up.\<close>

fun execute_source ::
  "('s, 'm) query_core_scheme \<Rightarrow> libm \<Rightarrow> physical_source \<Rightarrow> bound_source \<Rightarrow> bound_condition option
   \<Rightarrow> string \<Rightarrow> nat \<Rightarrow> bool \<Rightarrow> ('s, native_record list \<times> step \<times> pyfloat list) io" where
  "execute_source Q lm (PAccess a) source wh src off want =
     io_then (co_table Q (bs_table_name (bsrc_schema source)))
     (io_bind (read_candidates Q a (bsrc_schema source) wh src want)
       (filter_rows Q lm (pa_residual a) (bsrc_schema source) wh src off))"
| "execute_source Q lm (PJoin pl pr lcol rcol strategy probe onp residual)
     (BoundJoinRef l r lc rc schema sp) wh src off want =
     io_bind (execute_source Q lm pl l wh src off False) (\<lambda>(left_rows, left_step, _).
     io_bind (execute_source Q lm pr r wh src (off + length (bs_columns (bsrc_schema l))) False)
       (\<lambda>(right_rows, right_step, _).
     io_bind (execute_join Q
        \<lparr>jr_left = to_native_schema (bsrc_schema l), jr_left_column = lcol,
         jr_right = to_native_schema (bsrc_schema r), jr_right_column = rcol,
         jr_strategy = strategy\<rparr>
        probe (join_left_rows (PJoin pl pr lcol rcol strategy probe onp residual))
        (bs_table_name (bsrc_schema r)) (bs_table_name schema) (bc_name (br_column lc))
        (left_rows, left_step) (right_rows, right_step))
     (filter_rows Q lm residual schema wh src off)))"
| "execute_source Q lm (PJoin _ _ _ _ _ _ _ _) (BoundTableRef _ _) wh src off want =
     io_raise (AssertionError [])"

section \<open>The SELECT\<close>

record select_execution =
  se_columns :: "string list"
  se_types :: "sql_type_name list"
  se_rows :: "bound_value list list"
  se_root :: step

fun consumes_predicate :: "physical_source \<Rightarrow> bool" where
  "consumes_predicate (PAccess a) \<longleftrightarrow> pa_route a \<noteq> R_SCAN \<or> pa_residual a"
| "consumes_predicate (PJoin l r _ _ _ _ _ residual) \<longleftrightarrow>
     residual \<or> consumes_predicate l \<or> consumes_predicate r"

definition validate_plan :: "select_plan \<Rightarrow> exn + unit" where
  "validate_plan p =
     (let w = bl_where (sp_statement p) in
      if source_residual (sp_source p) \<and> w = None then
        Inl (ValueError ''un filtro residual necesita una condicion'')
      else if w = None \<or> consumes_predicate (sp_source p) then Inr ()
      else Inl (ValueError ''un scan con WHERE necesita un filtro residual''))"

definition apply_limit ::
  "('s, 'm) query_core_scheme \<Rightarrow> select_execution \<Rightarrow> int option \<Rightarrow> string \<Rightarrow> ('s, select_execution) io" where
  "apply_limit Q e k table =
     (case k of
        None \<Rightarrow> io_return e
      | Some n \<Rightarrow>
          io_bind (measure_memory Q (io_return (py_slice (se_rows e) 0 n))
            (min n (int (length (se_rows e)))) (int \<circ> length)) (\<lambda>m.
          io_return (e\<lparr>se_rows := me_value m,
            se_root := measured_step OP_LIMIT ST_MEMORY table JNull
              (''maximo '' @ show_int n @ '' filas'') m [se_root e]\<rparr>)))"

definition order_by_score ::
  "('s, 'm) query_core_scheme \<Rightarrow> bound_select \<Rightarrow> bound_value list list \<Rightarrow> pyfloat list \<Rightarrow> step
   \<Rightarrow> ('s, bound_value list list \<times> pyfloat list \<times> step) io" where
  "order_by_score Q st rows scores root_step =
     io_bind (io_lift (score_order_preserves_ranking st)) (\<lambda>keeps.
     io_bind (if keeps
        then measure_memory Q (io_return (rows, scores)) 0 (int \<circ> length \<circ> fst)
        else measure_memory Q (io_return (rev rows, rev scores)) (int (length rows)) (int \<circ> length \<circ> fst))
     (\<lambda>m. io_bind (io_lift (score_order_detail st)) (\<lambda>detail.
     io_return (fst (me_value m), snd (me_value m),
       measured_step OP_SORT ST_MEMORY (bs_table_name (bl_schema st)) JNull detail m [root_step]))))"

fun projected_column :: "bound_projection \<Rightarrow> exn + bound_column_reference" where
  "projected_column (BPColumn c) = Inr c"
| "projected_column (BPAggregate a) = Inl (AttributeError ''column'')"

definition project_row ::
  "bound_select \<Rightarrow> bound_column_reference list \<Rightarrow> pyfloat list \<Rightarrow> nat \<times> bound_value list
   \<Rightarrow> exn + bound_value list" where
  "project_row st columns scores ir =
     ebind (if bl_wildcard st then Inr (snd ir)
            else emap (\<lambda>c. py_index (snd ir) (int (br_index c))) columns) (\<lambda>values.
     case bl_score st of
       None \<Rightarrow> Inr values
     | Some s \<Rightarrow> ebind (py_index scores (int (fst ir))) (\<lambda>x.
         Inr (insert_at (bsp_position s) (VFloat x) values)))"

definition with_score :: "bound_select \<Rightarrow> (bound_score_projection \<Rightarrow> 'a) \<Rightarrow> 'a list \<Rightarrow> 'a list" where
  "with_score st f xs =
     (case bl_score st of None \<Rightarrow> xs | Some s \<Rightarrow> insert_at (bsp_position s) (f s) xs)"

text \<open>The projection of the rows, which a wildcard without a score does not need.\<close>

definition project_rows ::
  "('s, 'm) query_core_scheme \<Rightarrow> bound_select \<Rightarrow> bound_column_reference list \<Rightarrow> string list
   \<Rightarrow> bound_value list list \<Rightarrow> pyfloat list \<Rightarrow> step \<Rightarrow> ('s, bound_value list list \<times> step) io" where
  "project_rows Q st columns names rows scores root_step =
     (if bl_wildcard st \<and> bl_score st = None then io_return (rows, root_step)
      else
        io_bind (measure_memory Q (io_lift (emap (project_row st columns scores) (enumerate 0 rows)))
          (int (length rows)) (int \<circ> length)) (\<lambda>m.
        io_return (me_value m,
          measured_step OP_PROJECT ST_MEMORY (bs_table_name (bl_schema st)) JNull
            (join_str '', '' names) m [root_step])))"

definition execute_select ::
  "('s, 'm) query_core_scheme \<Rightarrow> libm \<Rightarrow> select_plan \<Rightarrow> string \<Rightarrow> ('s, select_execution) io" where
  "execute_select Q lm p src =
     io_then (io_lift (validate_plan p))
     (let st = sp_statement p;
          want = (bl_score st \<noteq> None \<or> bl_score_order st \<noteq> None)
      in io_bind (execute_source Q lm (sp_source p) (bl_source st) (bl_where st) src 0 want)
      (\<lambda>(native_rows, root_step, scores).
      io_bind (io_lift (emap (\<lambda>row. from_native_record row (bl_schema st)) native_rows)) (\<lambda>rows.
      io_then (if want \<and> length scores \<noteq> length rows
               then io_raise (RuntimeError ''la busqueda devolvio una cantidad de puntajes distinta de las filas'')
               else io_return ())
      (io_bind (if bl_score_order st = None then io_return (rows, scores, root_step)
                else order_by_score Q st rows scores root_step) (\<lambda>(rows, scores, root_step).
      io_bind (io_lift (emap projected_column (bl_projections st))) (\<lambda>columns.
      let names = with_score st bsp_name (map (\<lambda>c. bc_name (br_column c)) columns);
          types = with_score st (\<lambda>s. SQL_DOUBLE) (map (\<lambda>c. bc_type (br_column c)) columns)
      in io_bind (project_rows Q st columns names rows scores root_step) (\<lambda>(rows, root_step).
      apply_limit Q \<lparr>se_columns = names, se_types = types, se_rows = rows, se_root = root_step\<rparr>
        (if source_nearest (sp_source p) \<noteq> None then None else bl_limit st)
        (bs_table_name (bl_schema st)))))))))"

end
