(* ===== verification/Py_Float_Text.thy ===== *)
theory Py_Float_Text
  imports Py_Float
begin

text \<open>
  \<open>repr(x)\<close> of a double, which \<open>str\<close> and the f-strings use: the shortest decimal that rounds to it, with
  an exponent when the point would be far from the digits. The zero has no sign in the model.
\<close>

text \<open>The decimal exponent: the least \<open>e\<close> with \<open>q < 10 ^ e\<close>, from a first guess by bits.\<close>

definition pow10 :: "int \<Rightarrow> rat" where
  "pow10 e = (if 0 \<le> e then 10 ^ nat e else 1 / 10 ^ nat (- e))"

definition decimal_exponent :: "rat \<Rightarrow> int" where
  "decimal_exponent q =
     (let g = (binary_exponent q * 30103) div 100000
      in case List.find (\<lambda>e. q < pow10 e) [g - 1, g, g + 1, g + 2] of Some e \<Rightarrow> e | None \<Rightarrow> g + 2)"

text \<open>The digits of the shortest decimal: at most 17 are needed.\<close>

definition shortest_digits :: "rat \<Rightarrow> int \<times> int" where
  "shortest_digits q =
     (let e = decimal_exponent q;
          m = (\<lambda>k. round_half_even (q * pow10 (int k - e)));
          back = (\<lambda>k. round_binary64 (of_int (m k) * pow10 (e - int k)) = Fin q)
      in case List.find back [1 ..< 17] of Some k \<Rightarrow> (m k, e - int k) | None \<Rightarrow> (m 17, e - 17))"

text \<open>The digits without zeros at the end.\<close>

definition trim_zeros :: "string \<Rightarrow> string" where
  "trim_zeros ds = rev (dropWhile (\<lambda>c. c = CHR ''0'') (rev ds))"

definition positive_repr :: "rat \<Rightarrow> string" where
  "positive_repr q =
     (let (m, e) = shortest_digits q; raw = show_int m; point = int (length raw) + e; ds = trim_zeros raw;
          n = int (length ds)
      in if - 4 < point \<and> point \<le> 16 then
           (if point \<le> 0 then ''0.'' @ replicate (nat (- point)) (CHR ''0'') @ ds
            else if n \<le> point then ds @ replicate (nat (point - n)) (CHR ''0'') @ ''.0''
            else take (nat point) ds @ ''.'' @ drop (nat point) ds)
         else
           (let x = point - 1;
                mantissa = (if n = 1 then ds else take 1 ds @ ''.'' @ drop 1 ds);
                digits = show_int \<bar>x\<bar>
            in mantissa @ ''e'' @ (if x < 0 then ''-'' else ''+'')
               @ (if length digits < 2 then ''0'' @ digits else digits)))"

definition float_repr :: "pyfloat \<Rightarrow> string" where
  "float_repr x =
     (case x of
        Fin q \<Rightarrow> if q = 0 then ''0.0'' else if q < 0 then ''-'' @ positive_repr (- q) else positive_repr q
      | PosInf \<Rightarrow> ''inf'' | NegInf \<Rightarrow> ''-inf'' | NaN \<Rightarrow> ''nan'')"

end
