(* ===== verification/External_Executor.thy ===== *)
theory External_Executor
  imports Select_Executor Py_Float_Text
begin

text \<open>
  The queries with a sort or a group (\<open>engine/executor/external.py\<close>). The rows flow from the table to the
  external algorithms one at a time: a pull asks the pipeline for its next row and charges the time to
  the step that produced it. The sorter and the grouper of the core are parameters that pull as they
  like; the steps of the pipeline get their counters once they are done (\<open>finalize\<close>).
\<close>

section \<open>Options\<close>

record external_options =
  eo_buffers :: int
  eo_page_size :: int
  eo_temp_dir :: "string option"

definition make_external_options :: "external_options \<Rightarrow> exn + external_options" where
  "make_external_options eo =
     (if eo_buffers eo < 3 then
        Inl (ValueError ''external_buffers debe ser un entero mayor o igual que 3'')
      else if \<not> (128 \<le> eo_page_size eo \<and> eo_page_size eo \<le> 65536) then
        Inl (ValueError ''external_page_size debe estar entre 128 y 65536'')
      else Inr eo)"

definition native_dir :: "external_options \<Rightarrow> string" where
  "native_dir eo = (case eo_temp_dir eo of None \<Rightarrow> [] | Some d \<Rightarrow> d)"

section \<open>The pipeline\<close>

text \<open>Where the rows come from: a list at hand, a cursor of the table, RIDs to read.\<close>

datatype row_source =
    Ready "native_record list"
  | TableCursor string
  | ByRid string string "rid list"

text \<open>
  What changes while the rows flow: the source, the nanoseconds of its timer and of the filter's, the
  counters of the filter, and the timer of the output of a group.
\<close>

record pipe =
  pi_source :: row_source
  pi_timer :: int
  pi_filter_timer :: int
  pi_examined :: int
  pi_returned :: int
  pi_group_timer :: int

definition new_pipe :: "row_source \<Rightarrow> pipe" where
  "new_pipe src = \<lparr>pi_source = src, pi_timer = 0, pi_filter_timer = 0, pi_examined = 0,
     pi_returned = 0, pi_group_timer = 0\<rparr>"

type_synonym ('s, 'a) pio = "(pipe \<times> 's, 'a) io"

text \<open>
  What stays: the step of the source, the table whose counters it gets at the end, whether its time is
  taken row by row, and the filter with its schema and the text of its condition.
\<close>

record pipeline =
  pl_step :: step
  pl_counted :: "string option"
  pl_filter :: "(bound_condition \<times> bound_schema \<times> string) option"

section \<open>The external algorithms\<close>

record sort_request =
  sq_schema :: native_schema
  sq_column :: nat
  sq_direction :: order_direction
  sq_buffers :: int
  sq_page_size :: int
  sq_dir :: string

record sort_report =
  sr_runs :: int
  sr_passes :: int
  sr_buffers :: int
  sr_stats :: stats

datatype aggregate_spec = CountSpec | ColumnSpec aggregate_function nat

record group_request =
  gq_schema :: native_schema
  gq_column :: nat
  gq_specs :: "aggregate_spec list"
  gq_strategy :: group_strategy
  gq_buffers :: int
  gq_page_size :: int
  gq_dir :: string

datatype group_used = USED_AUTO | USED_HASH | USED_SORT

record group_report =
  gr_fell_back :: bool
  gr_partitions :: int
  gr_repartitions :: int
  gr_rows :: int
  gr_groups :: int
  gr_stats :: stats

record 's external_core =
  x_cursor :: "string \<Rightarrow> ('s, unit) io"
  x_cursor_next :: "string \<Rightarrow> ('s, native_record option) io"
  x_open_sort :: "sort_request \<Rightarrow> ('s, unit) io"
  x_sort :: "sort_request \<Rightarrow> ('s, native_record option) pio \<Rightarrow> ('s, native_record list) pio"
  x_sort_report :: "sort_request \<Rightarrow> ('s, sort_report) io"
  x_open_group :: "group_request \<Rightarrow> ('s, unit) io"
  x_group :: "group_request \<Rightarrow> ('s, native_record option) pio \<Rightarrow> ('s, unit) pio"
  x_group_next :: "group_request \<Rightarrow> ('s, native_record option) pio \<Rightarrow> ('s, native_record option) pio"
  x_group_schema :: "group_request \<Rightarrow> ('s, native_schema) io"
  x_group_used :: "group_request \<Rightarrow> ('s, group_used) io"
  x_group_report :: "group_request \<Rightarrow> ('s, group_report) io"

section \<open>Pulling rows\<close>

text \<open>The next row of the source, without its time.\<close>

definition next_row ::
  "('s, 'm) query_core_scheme \<Rightarrow> 's external_core \<Rightarrow> ('s, native_record option) pio" where
  "next_row Q X =
     (\<lambda>(p, s). case pi_source p of
        Ready [] \<Rightarrow> (Inr None, (p, s))
      | Ready (r # rs) \<Rightarrow> (Inr (Some r), (p\<lparr>pi_source := Ready rs\<rparr>, s))
      | TableCursor t \<Rightarrow> io_outer (x_cursor_next X t) (p, s)
      | ByRid t name [] \<Rightarrow> (Inr None, (p, s))
      | ByRid t name (rid # rids) \<Rightarrow>
          io_bind (io_outer (co_read Q t rid)) (\<lambda>r.
            case r of
              None \<Rightarrow> io_raise (RuntimeError (dangling_rid Q name t rid))
            | Some row \<Rightarrow> io_return (Some row))
            (p\<lparr>pi_source := ByRid t name rids\<rparr>, s))"

text \<open>A call whose time is added to a timer, also when it raises.\<close>

definition timed ::
  "('s, 'm) query_core_scheme \<Rightarrow> (int \<Rightarrow> pipe \<Rightarrow> pipe) \<Rightarrow> ('s, 'a) pio \<Rightarrow> ('s, 'a) pio" where
  "timed Q charge m =
     io_bind (io_outer (q_clock Q)) (\<lambda>start.
     io_finally m
       (io_bind (io_outer (q_clock Q)) (\<lambda>stop. io_local (charge (stop - start)))))"

definition charge_source :: "int \<Rightarrow> pipe \<Rightarrow> pipe" where
  "charge_source n p = p\<lparr>pi_timer := pi_timer p + n\<rparr>"

definition charge_filter :: "int \<Rightarrow> pipe \<Rightarrow> pipe" where
  "charge_filter n p = p\<lparr>pi_filter_timer := pi_filter_timer p + n\<rparr>"

definition charge_group :: "int \<Rightarrow> pipe \<Rightarrow> pipe" where
  "charge_group n p = p\<lparr>pi_group_timer := pi_group_timer p + n\<rparr>"

definition source_row ::
  "('s, 'm) query_core_scheme \<Rightarrow> 's external_core \<Rightarrow> pipeline \<Rightarrow> ('s, native_record option) pio" where
  "source_row Q X l =
     (if pl_counted l = None then next_row Q X else timed Q charge_source (next_row Q X))"

text \<open>
  The filter pulls until a row is accepted. The fuel bounds the rows it may discard in one pull; the
  rows of the table are enough.
\<close>

definition judge ::
  "('s, 'm) query_core_scheme \<Rightarrow> libm \<Rightarrow> bound_condition \<Rightarrow> bound_schema \<Rightarrow> native_record
   \<Rightarrow> ('s, bool) pio" where
  "judge Q lm w schema row =
     timed Q charge_filter
       (io_bind (io_lift (ebind (from_native_record row schema) (\<lambda>v. row_matches lm v w))) (\<lambda>ok.
        io_then (io_local (\<lambda>p. p\<lparr>pi_examined := pi_examined p + 1,
                                 pi_returned := pi_returned p + (if ok then 1 else 0)\<rparr>))
          (io_return ok)))"

fun pull_row ::
  "nat \<Rightarrow> ('s, 'm) query_core_scheme \<Rightarrow> 's external_core \<Rightarrow> libm \<Rightarrow> pipeline
   \<Rightarrow> ('s, native_record option) pio" where
  "pull_row 0 Q X lm l = io_raise OutOfFuel"
| "pull_row (Suc fuel) Q X lm l =
     io_bind (source_row Q X l) (\<lambda>r.
     case (r, pl_filter l) of
       (None, _) \<Rightarrow> io_return None
     | (Some row, None) \<Rightarrow> io_return (Some row)
     | (Some row, Some (w, schema, detail)) \<Rightarrow>
         io_bind (judge Q lm w schema row) (\<lambda>ok.
         if ok then io_return (Some row) else pull_row fuel Q X lm l))"

text \<open>The time of the timers of the pipeline, in milliseconds.\<close>

definition timer_ms :: "int \<Rightarrow> pyfloat" where
  "timer_ms ns = elapsed_ms 0 ns"

definition stream_ms :: "pipeline \<Rightarrow> pipe \<Rightarrow> pyfloat" where
  "stream_ms l p =
     foldl float_add (Fin 0)
       ((if pl_counted l = None then [] else [timer_ms (pi_timer p)])
        @ (if pl_filter l = None then [] else [timer_ms (pi_filter_timer p)]))"

text \<open>The root of the pipeline with the counters and times of the end.\<close>

fun with_measure :: "stats \<Rightarrow> pyfloat \<Rightarrow> step \<Rightarrow> step" where
  "with_measure n ms (Step p st t c d _ _ children r m) = Step p st t c d n ms children r m"

definition filter_root :: "pipeline \<Rightarrow> pipe \<Rightarrow> step \<Rightarrow> step" where
  "filter_root l p child =
     (case pl_filter l of
        None \<Rightarrow> child
      | Some (w, schema, detail) \<Rightarrow>
          plain_step OP_FILTER ST_MEMORY (JStr (bs_table_name schema)) (JStr (condition_column_name w))
            detail (Stats 0 0 (pi_examined p) (pi_returned p)) (timer_ms (pi_filter_timer p)) [child])"

definition finalize ::
  "('s, 'm) query_core_scheme \<Rightarrow> pipeline \<Rightarrow> ('s, step) pio" where
  "finalize Q l =
     io_bind (\<lambda>(p, s). (Inr p, (p, s))) (\<lambda>p.
     case pl_counted l of
       None \<Rightarrow> io_return (filter_root l p (pl_step l))
     | Some t \<Rightarrow>
         io_bind (io_outer (q_table_stats Q t)) (\<lambda>n.
         io_return (filter_root l p (with_measure n (timer_ms (pi_timer p)) (pl_step l)))))"

section \<open>The candidates\<close>

definition ready_pipeline :: "step \<Rightarrow> native_record list \<Rightarrow> pipeline \<times> row_source" where
  "ready_pipeline st rows = (\<lparr>pl_step = st, pl_counted = None, pl_filter = None\<rparr>, Ready rows)"

text \<open>The search of the index is measured at once, the reading of its RIDs row by row.\<close>

definition index_pipeline ::
  "('s, 'm) query_core_scheme \<Rightarrow> table_access \<Rightarrow> bound_schema \<Rightarrow> bound_condition option \<Rightarrow> string
   \<Rightarrow> ('s, pipeline \<times> row_source) io" where
  "index_pipeline Q a schema wh src =
     (case (wh, pa_index a) of
        (Some w, Some ix) \<Rightarrow>
          (let table = bs_table_name schema; name = im_name ix; route = pa_route a;
               measured = (\<lambda>p m. io_bind (measure_native Q (IndexHandle table name) m) (\<lambda>r. io_return (p, r)))
           in io_then (co_index Q table name)
             (io_bind
               (if route = R_INDEX_SEARCH then
                  measured OP_INDEX_SEARCH
                    (io_bind (io_lift (equality_key w)) (\<lambda>key. ci_search Q table name key))
                else if route = R_INDEX_RANGE then
                  io_bind (io_lift (range_values w)) (\<lambda>(lo, hi).
                  measured OP_INDEX_RANGE (ci_range_search Q table name lo hi))
                else if route = R_RTREE_RADIUS then
                  io_bind (io_lift (spatial_search_args w)) (\<lambda>(center, radius, metric).
                  measured OP_RADIUS_SEARCH (q_radius Q table name center radius metric))
                else if route = R_RTREE_POLYGON then
                  io_bind (io_lift (polygon_search_args w)) (\<lambda>vertices.
                  measured OP_POLYGON_SEARCH (q_polygon Q table name vertices))
                else if route = R_TEXT_SEARCH then
                  io_bind (io_lift (text_search_args w (pa_text_limit a))) (\<lambda>(query, ranking, k).
                  measured OP_TEXT_SEARCH
                    (io_bind (q_text Q table name query ranking k) (\<lambda>found. io_return (map fst found))))
                else io_raise (ValueError (''ruta externa desconocida: '' @ repr_route route)))
               (\<lambda>(p, found).
                io_bind (index_step Q a ix table w src p found) (\<lambda>child.
                io_then (q_reset_table Q table)
                  (io_return
                    (\<lparr>pl_step = plain_step OP_FETCH (tm_structure (pa_table a)) (JStr table) JNull
                         (''lee '' @ show_int (int (length (me_value found))) @ '' registros por RID'')
                         0 (Fin 0) [child],
                      pl_counted = Some table, pl_filter = None\<rparr>,
                     ByRid table name (me_value found)))))))
      | _ \<Rightarrow> io_raise (ValueError (''la ruta '' @ route_value (pa_route a) @ '' necesita condicion e indice'')))"

definition table_pipeline ::
  "('s, 'm) query_core_scheme \<Rightarrow> 's external_core \<Rightarrow> table_access \<Rightarrow> bound_schema
   \<Rightarrow> bound_condition option \<Rightarrow> string \<Rightarrow> ('s, pipeline \<times> row_source) io" where
  "table_pipeline Q X a schema wh src =
     (let table = bs_table_name schema; st = tm_structure (pa_table a); route = pa_route a in
      if route = R_SCAN then
        io_then (q_reset_table Q table)
        (io_then (x_cursor X table)
          (io_return
            (\<lparr>pl_step = plain_step OP_SCAN st (JStr table) JNull [] 0 (Fin 0) [],
              pl_counted = Some table, pl_filter = None\<rparr>, TableCursor table)))
      else if route = R_TABLE_SEARCH \<or> route = R_TABLE_RANGE then
        (case wh of
           None \<Rightarrow> io_raise (ValueError (''la ruta '' @ route_value route @ '' necesita una condicion''))
         | Some w \<Rightarrow>
             io_bind
               (if route = R_TABLE_SEARCH then
                  io_bind (measure_native Q (TableHandle table)
                    (io_bind (io_lift (equality_key w)) (\<lambda>key. co_search Q table key)))
                    (\<lambda>m. io_return (OP_SEARCH, m))
                else
                  io_bind (io_lift (range_values w)) (\<lambda>(lo, hi).
                  io_bind (measure_native Q (TableHandle table) (co_range_search Q table lo hi))
                    (\<lambda>m. io_return (OP_RANGE_SEARCH, m))))
               (\<lambda>(p, m). io_return (ready_pipeline
                  (measured_step p st table (JStr (condition_column_name w)) (condition_text w src) m [])
                  (me_value m))))
      else index_pipeline Q a schema wh src)"

definition with_filter ::
  "bool \<Rightarrow> bound_schema \<Rightarrow> bound_condition option \<Rightarrow> string \<Rightarrow> pipeline \<times> row_source
   \<Rightarrow> exn + pipeline \<times> row_source" where
  "with_filter residual schema wh src l =
     (if \<not> residual then Inr l
      else case wh of
        None \<Rightarrow> Inl (ValueError ''un filtro residual necesita una condicion'')
      | Some w \<Rightarrow> Inr ((fst l)\<lparr>pl_filter := Some (w, schema, condition_text w src)\<rparr>, snd l))"

definition candidate_pipeline ::
  "('s, 'm) query_core_scheme \<Rightarrow> 's external_core \<Rightarrow> libm \<Rightarrow> select_plan \<Rightarrow> string
   \<Rightarrow> ('s, pipeline \<times> row_source) io" where
  "candidate_pipeline Q X lm p src =
     (let st = sp_statement p;
          whole = io_bind (execute_source Q lm (sp_source p) (bl_source st) (bl_where st) src 0 False)
            (\<lambda>(rows, root_step, _). io_return (ready_pipeline root_step rows))
      in case sp_source p of
           PJoin _ _ _ _ _ _ _ _ \<Rightarrow> whole
         | PAccess a \<Rightarrow>
             if pa_route a = R_VECTOR_KNN \<or> pa_route a = R_VECTOR_SCAN then whole
             else
               io_then (co_table Q (bs_table_name (bl_schema st)))
               (io_bind (table_pipeline Q X a (bl_schema st) (bl_where st) src) (\<lambda>l.
                io_lift (with_filter (pa_residual a) (bl_schema st) (bl_where st) src l))))"

section \<open>Sort\<close>

text \<open>\<open>max(elapsed - upstream, 0.0)\<close>.\<close>

definition own_ms :: "pyfloat \<Rightarrow> pyfloat \<Rightarrow> pyfloat" where
  "own_ms elapsed upstream = py_max (float_sub elapsed upstream) (Fin 0)"

definition sort_detail :: "order_direction \<Rightarrow> sort_report \<Rightarrow> string" where
  "sort_detail d r =
     ''direccion '' @ direction_value d @ ''; '' @ show_int (sr_buffers r) @ '' buffers; ''
     @ show_int (sr_runs r) @ '' runs; '' @ show_int (sr_passes r) @ '' pasadas; ''
     @ (if sr_runs r = 0 then ''todo cupo en memoria; no se crearon runs''
        else ''se usaron runs en disco porque la entrada supero la memoria'')"

text \<open>
  The step of a sort without its child, which gets its counters later; \<open>upstream\<close> reads the time of the
  input when the sort is over.
\<close>

definition sort_rows ::
  "('s, 'm) query_core_scheme \<Rightarrow> 's external_core \<Rightarrow> external_options \<Rightarrow> bound_schema
   \<Rightarrow> ('s, native_record option) pio \<Rightarrow> nat \<Rightarrow> order_direction \<Rightarrow> string \<Rightarrow> string \<Rightarrow> string
   \<Rightarrow> (pipe \<Rightarrow> pyfloat) \<Rightarrow> ('s, native_record list \<times> (step list \<Rightarrow> step)) pio" where
  "sort_rows Q X eo schema pull column d table column_name suffix upstream =
     (let q = \<lparr>sq_schema = to_native_schema schema, sq_column = column, sq_direction = d,
               sq_buffers = eo_buffers eo, sq_page_size = eo_page_size eo, sq_dir = native_dir eo\<rparr>
      in io_then (io_outer (x_open_sort X q))
        (io_bind (io_outer (q_clock Q)) (\<lambda>start.
         io_bind (x_sort X q pull) (\<lambda>rows.
         io_bind (io_outer (q_clock Q)) (\<lambda>stop.
         io_bind (io_outer (x_sort_report X q)) (\<lambda>r.
         io_bind (\<lambda>(p, s). (Inr p, (p, s))) (\<lambda>p.
         io_return (rows,
           plain_step OP_SORT ST_EXTERNAL_SORT (JStr table) (JStr column_name)
             (sort_detail d r @ suffix)
             (Stats (pages_read (sr_stats r)) (pages_written (sr_stats r))
                (int (length rows)) (int (length rows)))
             (own_ms (elapsed_ms start stop) (upstream p))))))))))"

text \<open>A name for the column of the distances that no column has: underscores are added.\<close>

function fresh_name :: "string set \<Rightarrow> string \<Rightarrow> string" where
  "fresh_name names k = (if finite names \<and> k \<in> names then fresh_name names (k @ ''_'') else k)"
  by pat_completeness auto
termination
proof (relation "measure (\<lambda>(names, k). card {n \<in> names. length k \<le> length n})")
  fix names :: "string set" and k
  assume k: "finite names \<and> k \<in> names"
  then have "k \<in> {n \<in> names. length k \<le> length n} - {n \<in> names. length (k @ ''_'') \<le> length n}" by simp
  moreover have "{n \<in> names. length (k @ ''_'') \<le> length n} \<subseteq> {n \<in> names. length k \<le> length n}" by auto
  ultimately have "{n \<in> names. length (k @ ''_'') \<le> length n} \<subset> {n \<in> names. length k \<le> length n}" by blast
  then have "card {n \<in> names. length (k @ ''_'') \<le> length n} < card {n \<in> names. length k \<le> length n}"
    by (rule psubset_card_mono [rotated]) (use k in simp)
  then show "((names, k @ ''_''), names, k) \<in> measure (\<lambda>(names, k). card {n \<in> names. length k \<le> length n})"
    by simp
qed simp

declare fresh_name.simps [simp del]

definition distance_schema :: "bound_schema \<Rightarrow> bound_schema" where
  "distance_schema schema =
     schema\<lparr>bs_columns := bs_columns schema
       @ [BoundColumn (fresh_name (set (map bc_name (bs_columns schema))) ''_quipudb_distance'')
            SQL_DOUBLE None]\<rparr>"

text \<open>A row with the distance of its point at the end.\<close>

definition add_distance ::
  "libm \<Rightarrow> bound_schema \<Rightarrow> nat \<Rightarrow> point_value \<Rightarrow> distance_metric \<Rightarrow> native_record \<Rightarrow> exn + native_record" where
  "add_distance lm schema column center metric row =
     ebind (from_native_record row schema) (\<lambda>values.
     ebind (py_index values (int column)) (\<lambda>v.
     ebind (point_of v ''ORDER BY DISTANCIA requiere POINT'') (\<lambda>point.
     ebind (distance_between lm point center metric) (\<lambda>d. Inr (row @ [NFloat d])))))"

definition pull_with_distance ::
  "libm \<Rightarrow> bound_schema \<Rightarrow> nat \<Rightarrow> point_value \<Rightarrow> distance_metric
   \<Rightarrow> ('s, native_record option) pio \<Rightarrow> ('s, native_record option) pio" where
  "pull_with_distance lm schema column center metric pull =
     io_bind pull (\<lambda>r. case r of
       None \<Rightarrow> io_return None
     | Some row \<Rightarrow> io_bind (io_lift (add_distance lm schema column center metric row))
         (\<lambda>row. io_return (Some row)))"

definition distance_suffix :: "distance_metric \<Rightarrow> point_value \<Rightarrow> string" where
  "distance_suffix metric center =
     ''; DISTANCIA con '' @ distance_metric_value metric @ ''; POINT('' @ float_repr (pv_latitude center)
     @ '', '' @ float_repr (pv_longitude center) @ ''); ordenamiento completo''"

definition sort_order ::
  "('s, 'm) query_core_scheme \<Rightarrow> 's external_core \<Rightarrow> libm \<Rightarrow> external_options \<Rightarrow> bound_schema
   \<Rightarrow> ('s, native_record option) pio \<Rightarrow> nat \<Rightarrow> bound_order_by \<Rightarrow> string \<Rightarrow> (pipe \<Rightarrow> pyfloat)
   \<Rightarrow> ('s, native_record list \<times> (step list \<Rightarrow> step)) pio" where
  "sort_order Q X lm eo schema pull column ob table upstream =
     (case ob of
        BoundOrderBy c d sp \<Rightarrow>
          sort_rows Q X eo schema pull column d table (bc_name (br_column c)) [] upstream
      | BoundDistanceOrderBy c center metric d sp \<Rightarrow>
          io_bind
            (sort_rows Q X eo (distance_schema schema)
              (pull_with_distance lm schema column center metric pull)
              (length (bs_columns schema)) d table (bc_name (br_column c))
              (distance_suffix metric center) upstream)
            (\<lambda>(rows, st). io_return (map butlast rows, st)))"

section \<open>ORDER BY\<close>

definition project_plain ::
  "('s, 'm) query_core_scheme \<Rightarrow> string \<Rightarrow> string list \<Rightarrow> nat list \<Rightarrow> bound_value list list
   \<Rightarrow> ('s, bound_value list list \<times> (step list \<Rightarrow> step)) pio" where
  "project_plain Q table names positions rows =
     io_bind (io_outer (measure_memory Q
        (io_lift (emap (\<lambda>row. emap (\<lambda>i. py_index row (int i)) positions) rows))
        (int (length rows)) (int \<circ> length))) (\<lambda>m.
     io_return (me_value m,
       plain_step OP_PROJECT ST_MEMORY (JStr table) JNull (join_str '', '' names) (me_stats m) (me_time m)))"

text \<open>An execution whose steps still miss the root of the pipeline.\<close>

record unfinished =
  un_columns :: "string list"
  un_types :: "sql_type_name list"
  un_rows :: "bound_value list list"
  un_step :: "step \<Rightarrow> step"

definition execute_ordered ::
  "('s, 'm) query_core_scheme \<Rightarrow> 's external_core \<Rightarrow> libm \<Rightarrow> external_options \<Rightarrow> nat \<Rightarrow> select_plan
   \<Rightarrow> pipeline \<Rightarrow> ('s, unfinished) pio" where
  "execute_ordered Q X lm eo fuel p l =
     (let st = sp_statement p; schema = bl_schema st in
      case bl_order_by st of
        None \<Rightarrow> io_raise (ValueError ''ORDER BY no fue resuelto'')
      | Some ob \<Rightarrow>
          io_bind (sort_order Q X lm eo schema (pull_row fuel Q X lm l) (br_index (order_column ob)) ob
                     (bs_table_name schema) (stream_ms l)) (\<lambda>(native_rows, sort_step).
          io_bind (io_lift (emap (\<lambda>row. from_native_record row schema) native_rows)) (\<lambda>rows.
          io_bind (io_lift (emap projected_column (bl_projections st))) (\<lambda>columns.
          let names = map (\<lambda>c. bc_name (br_column c)) columns; types = map (\<lambda>c. bc_type (br_column c)) columns
          in if bl_wildcard st then
               io_return \<lparr>un_columns = names, un_types = types, un_rows = rows,
                          un_step = (\<lambda>root_step. sort_step [root_step])\<rparr>
             else
               io_bind (project_plain Q (bs_table_name schema) names (map br_index columns) rows)
                 (\<lambda>(rows, project_step).
               io_return \<lparr>un_columns = names, un_types = types, un_rows = rows,
                          un_step = (\<lambda>root_step. project_step [sort_step [root_step]])\<rparr>)))))"

section \<open>GROUP BY\<close>

text \<open>The aggregates to ask for and, for each projection, its column of the output.\<close>

fun group_outputs :: "bound_projection list \<Rightarrow> nat \<Rightarrow> exn + aggregate_spec list \<times> nat list" where
  "group_outputs [] n = Inr ([], [])"
| "group_outputs (BPColumn c # ps) n =
     ebind (group_outputs ps n) (\<lambda>(specs, outs). Inr (specs, 0 # outs))"
| "group_outputs (BPAggregate (BoundAggregateCall f arg sp) # ps) n =
     ebind
       (if f = AGG_COUNT then Inr CountSpec
        else case arg of
          None \<Rightarrow> Inl (ValueError (aggregate_value f @ '' necesita una columna''))
        | Some c \<Rightarrow> Inr (ColumnSpec f (br_index c))) (\<lambda>spec.
     ebind (group_outputs ps (Suc n)) (\<lambda>(specs, outs). Inr (spec # specs, n # outs)))"

fun used_name :: "group_used \<Rightarrow> string" where
  "used_name USED_AUTO = ''AUTO''"
| "used_name USED_HASH = ''HASH''"
| "used_name USED_SORT = ''SORT''"

definition group_detail :: "group_strategy \<Rightarrow> group_used \<Rightarrow> group_report \<Rightarrow> bool \<Rightarrow> string" where
  "group_detail strategy used r reuses =
     ''estrategia solicitada '' @ upper (group_strategy_value strategy) @ ''; usada '' @ used_name used
     @ ''; '' @ show_int (gr_partitions r) @ '' particiones; '' @ show_int (gr_repartitions r)
     @ '' reparticiones; '' @ (if gr_fell_back r then ''con fallback a sort'' else ''sin fallback'') @ ''; ''
     @ (if used = USED_HASH then ''hash porque las particiones cupieron durante la agregacion''
        else ''sort porque el hash no convergio al reparticionar'')
     @ (if reuses then ''; ORDER BY ASC reutiliza la salida ya ordenada'' else [])"

text \<open>The output of the group when no sort is needed: all its rows.\<close>

fun drain_group :: "nat \<Rightarrow> ('s, native_record option) pio \<Rightarrow> ('s, native_record list) pio" where
  "drain_group 0 next_group = io_raise OutOfFuel"
| "drain_group (Suc fuel) next_group =
     io_bind next_group (\<lambda>r.
     case r of
       None \<Rightarrow> io_return []
     | Some row \<Rightarrow> io_bind (drain_group fuel next_group) (\<lambda>rows. io_return (row # rows)))"

definition reuses_order :: "bound_order_by option \<Rightarrow> group_used \<Rightarrow> bool" where
  "reuses_order ob used \<longleftrightarrow>
     (case ob of
        None \<Rightarrow> False
      | Some b \<Rightarrow> \<not> is_distance_order b \<and> order_direction_of b = ORDER_ASC \<and> used = USED_SORT)"

text \<open>The rows of the group in the order asked for, with the step of its sort when there is one.\<close>

definition group_rows ::
  "('s, 'm) query_core_scheme \<Rightarrow> 's external_core \<Rightarrow> libm \<Rightarrow> external_options \<Rightarrow> nat \<Rightarrow> bound_schema
   \<Rightarrow> bound_order_by option \<Rightarrow> group_used \<Rightarrow> string \<Rightarrow> ('s, native_record option) pio
   \<Rightarrow> ('s, native_record list \<times> (step list \<Rightarrow> step) option) pio" where
  "group_rows Q X lm eo fuel schema ob used table next_group =
     (case ob of
        None \<Rightarrow> io_bind (drain_group fuel next_group) (\<lambda>rows. io_return (rows, None))
      | Some b \<Rightarrow>
          if reuses_order ob used then
            io_bind (drain_group fuel next_group) (\<lambda>rows. io_return (rows, None))
          else
            io_bind (sort_order Q X lm eo schema next_group 0 b table (\<lambda>p. timer_ms (pi_group_timer p)))
              (\<lambda>(rows, st). io_return (rows, Some st)))"

definition group_ms :: "pyfloat \<Rightarrow> pyfloat \<Rightarrow> pyfloat \<Rightarrow> pyfloat" where
  "group_ms call output pipeline_time = py_max (float_sub (float_add call output) pipeline_time) (Fin 0)"

definition group_step ::
  "bound_schema \<Rightarrow> bound_group_by \<Rightarrow> group_strategy \<Rightarrow> group_used \<Rightarrow> group_report \<Rightarrow> bool \<Rightarrow> pyfloat
   \<Rightarrow> step list \<Rightarrow> step" where
  "group_step schema g strategy used r reuses ms =
     plain_step OP_GROUP (if used = USED_HASH then ST_EXTERNAL_HASH else ST_EXTERNAL_SORT)
       (JStr (bs_table_name schema)) (JStr (bc_name (br_column (bg_column g))))
       (group_detail strategy used r reuses)
       (Stats (pages_read (gr_stats r)) (pages_written (gr_stats r)) (gr_rows r) (gr_groups r)) ms"

definition execute_grouped ::
  "('s, 'm) query_core_scheme \<Rightarrow> 's external_core \<Rightarrow> libm \<Rightarrow> external_options \<Rightarrow> nat \<Rightarrow> select_plan
   \<Rightarrow> bound_group_by \<Rightarrow> pipeline \<Rightarrow> ('s, unfinished) pio" where
  "execute_grouped Q X lm eo fuel p g l =
     (let st = sp_statement p; schema = bl_schema st; table = bs_table_name schema;
          pull = pull_row fuel Q X lm l; pipe_now = (\<lambda>(p, s). (Inr p, (p, s)))
      in io_bind (io_lift (group_outputs (bl_projections st) 1)) (\<lambda>(specs, outs).
      case sp_group_strategy p of
        None \<Rightarrow> io_raise (ValueError ''GROUP BY necesita una estrategia fisica'')
      | Some strategy \<Rightarrow>
          let q = \<lparr>gq_schema = to_native_schema schema, gq_column = br_index (bg_column g),
                   gq_specs = specs, gq_strategy = strategy, gq_buffers = eo_buffers eo,
                   gq_page_size = eo_page_size eo, gq_dir = native_dir eo\<rparr>;
              next_group = timed Q charge_group (x_group_next X q pull)
          in io_then (io_outer (x_open_group X q))
          (io_bind pipe_now (\<lambda>before.
           io_bind (io_outer (q_clock Q)) (\<lambda>start.
           io_then (x_group X q pull)
           (io_bind (io_outer (q_clock Q)) (\<lambda>stop.
           io_bind (io_outer (x_group_schema X q)) (\<lambda>nschema.
           io_bind (io_lift (from_native_schema nschema)) (\<lambda>gschema.
           io_bind (io_outer (x_group_used X q)) (\<lambda>used.
           io_bind (group_rows Q X lm eo fuel gschema (bl_order_by st) used table next_group)
             (\<lambda>(native_rows, sort_step).
           io_bind pipe_now (\<lambda>now.
           io_bind (io_outer (x_group_report X q)) (\<lambda>r.
           let reuses = reuses_order (bl_order_by st) used;
               ms = group_ms (elapsed_ms start stop) (timer_ms (pi_group_timer now))
                      (float_sub (stream_ms l now) (stream_ms l before));
               grouped = group_step schema g strategy used r reuses ms;
               top = (\<lambda>root_step. case sort_step of None \<Rightarrow> grouped [root_step]
                        | Some s \<Rightarrow> s [grouped [root_step]])
           in
           io_bind (io_lift (emap (\<lambda>row. from_native_record row gschema) native_rows)) (\<lambda>rows.
           io_bind (io_lift (emap (\<lambda>i. py_index (bs_columns gschema) (int i)) outs)) (\<lambda>columns.
           io_bind (project_plain Q table (map bc_name columns) outs rows) (\<lambda>(rows, project_step).
           io_return
             \<lparr>un_columns = map bc_name columns, un_types = map bc_type columns, un_rows = rows,
              un_step = (\<lambda>root_step. project_step [top root_step])\<rparr>))))))))))))))))"

section \<open>The query\<close>

text \<open>The limit is a step of the execution, so it waits for the root of the pipeline too.\<close>

definition limit_unfinished ::
  "('s, 'm) query_core_scheme \<Rightarrow> unfinished \<Rightarrow> int option \<Rightarrow> string \<Rightarrow> ('s, unfinished) pio" where
  "limit_unfinished Q x k table =
     (case k of
        None \<Rightarrow> io_return x
      | Some n \<Rightarrow>
          io_bind (io_outer (measure_memory Q (io_return (py_slice (un_rows x) 0 n))
            (min n (int (length (un_rows x)))) (int \<circ> length))) (\<lambda>m.
          io_return (x\<lparr>un_rows := me_value m,
            un_step := (\<lambda>root_step. measured_step OP_LIMIT ST_MEMORY table JNull
              (''maximo '' @ show_int n @ '' filas'') m [un_step x root_step])\<rparr>)))"

text \<open>The steps of the pipeline are finished also when the execution raises.\<close>

definition execute_external_select ::
  "('s, 'm) query_core_scheme \<Rightarrow> 's external_core \<Rightarrow> libm \<Rightarrow> external_options \<Rightarrow> nat \<Rightarrow> select_plan
   \<Rightarrow> string \<Rightarrow> ('s, select_execution) io" where
  "execute_external_select Q X lm eo fuel p src =
     (let st = sp_statement p; table = bs_table_name (bl_schema st) in
      if bl_score st \<noteq> None \<or> bl_score_order st \<noteq> None then
        io_raise (ValueError ''SCORE() no pasa por el camino externo'')
      else
        io_bind (candidate_pipeline Q X lm p src) (\<lambda>(l, source) s.
        case io_bind
          (case bl_group_by st of
             Some g \<Rightarrow> execute_grouped Q X lm eo fuel p g l
           | None \<Rightarrow>
               if bl_order_by st = None then
                 io_raise (ValueError ''el pipeline externo necesita ORDER BY o GROUP BY'')
               else execute_ordered Q X lm eo fuel p l)
          (\<lambda>x. limit_unfinished Q x (bl_limit st) table) (new_pipe source, s) of
          (r, ps) \<Rightarrow>
            (case finalize Q l ps of
               (Inl e, (_, t)) \<Rightarrow> (Inl e, t)
             | (Inr root_step, (_, t)) \<Rightarrow>
                 (case r of Inl e \<Rightarrow> Inl e
                  | Inr x \<Rightarrow> Inr \<lparr>se_columns = un_columns x, se_types = un_types x,
                                   se_rows = un_rows x, se_root = un_step x root_step\<rparr>, t))))"

end
