(* ===== verification/Transaction_Locks.thy ===== *)
theory Transaction_Locks
  imports Sql_Span Py_Float
begin

text \<open>
  The lock manager (\<open>engine/transactions/locks.py\<close>, \<open>errors.py\<close>): a shared/exclusive lock per table with
  owners, upgrades and a timeout. The body of each method is a function on the lock's state; the
  monitor of \<open>threading.Condition\<close> makes each attempt and each release one step. What the other
  threads do to the locks while this one waits, and the readings of \<open>time.monotonic()\<close>, are a
  parameter of the wait.
\<close>

datatype lock_mode = LM_SHARED | LM_EXCLUSIVE

fun lock_mode_value :: "lock_mode \<Rightarrow> string" where
  "lock_mode_value LM_SHARED = ''SHARED''"
| "lock_mode_value LM_EXCLUSIVE = ''EXCLUSIVE''"

text \<open>An owner is an object compared by identity.\<close>

type_synonym lock_owner = nat

record table_lock =
  tl_mode :: "lock_mode option"
  tl_owners :: "lock_owner set"

definition new_lock :: table_lock where
  "new_lock = \<lparr>tl_mode = None, tl_owners = {}\<rparr>"

definition try_acquire :: "lock_owner \<Rightarrow> lock_mode \<Rightarrow> table_lock \<Rightarrow> bool \<times> table_lock" where
  "try_acquire ow m l =
     (if ow \<in> tl_owners l then
        if m = LM_SHARED \<or> tl_mode l = Some LM_EXCLUSIVE then (True, l)
        else if card (tl_owners l) = 1 then (True, l\<lparr>tl_mode := Some LM_EXCLUSIVE\<rparr>)
        else (False, l)
      else
        case tl_mode l of
          None \<Rightarrow> (True, \<lparr>tl_mode = Some m, tl_owners = insert ow (tl_owners l)\<rparr>)
        | Some held \<Rightarrow>
            if held = LM_SHARED \<and> m = LM_SHARED then
              (True, l\<lparr>tl_owners := insert ow (tl_owners l)\<rparr>)
            else (False, l))"

definition release_lock :: "lock_owner \<Rightarrow> table_lock \<Rightarrow> table_lock" where
  "release_lock ow l =
     (let owners = tl_owners l - {ow}
      in \<lparr>tl_mode = (if owners = {} then None else tl_mode l), tl_owners = owners\<rparr>)"

section \<open>The lock manager\<close>

type_synonym lock_manager = "string \<rightharpoonup> table_lock"

definition lock_for :: "lock_manager \<Rightarrow> string \<Rightarrow> table_lock" where
  "lock_for lm t = (case lm t of None \<Rightarrow> new_lock | Some l \<Rightarrow> l)"

definition lm_try :: "string \<Rightarrow> lock_owner \<Rightarrow> lock_mode \<Rightarrow> lock_manager \<Rightarrow> bool \<times> lock_manager" where
  "lm_try t ow m lm = (case try_acquire ow m (lock_for lm t) of (ok, l) \<Rightarrow> (ok, lm(t \<mapsto> l)))"

definition lm_release :: "string \<Rightarrow> lock_owner \<Rightarrow> lock_manager \<Rightarrow> lock_manager" where
  "lm_release t ow lm = (case lm t of None \<Rightarrow> lm | Some l \<Rightarrow> lm(t \<mapsto> release_lock ow l))"

definition lm_release_all :: "lock_owner \<Rightarrow> string list \<Rightarrow> lock_manager \<Rightarrow> lock_manager" where
  "lm_release_all ow ts lm = fold (\<lambda>t. lm_release t ow) ts lm"

section \<open>Waiting for a lock\<close>

record lock_env =
  le_clock :: "nat \<Rightarrow> pyfloat"
  le_others :: "nat \<Rightarrow> lock_manager \<Rightarrow> lock_manager"

text \<open>
  The loop of \<open>acquire\<close> from its attempt number \<open>i\<close>; reading 0 of the clock set the deadline. The fuel
  bounds the attempts.
\<close>

fun acquire_loop ::
  "nat \<Rightarrow> lock_env \<Rightarrow> string \<Rightarrow> lock_owner \<Rightarrow> lock_mode \<Rightarrow> pyfloat \<Rightarrow> nat \<Rightarrow> lock_manager
   \<Rightarrow> (exn + unit) \<times> lock_manager" where
  "acquire_loop 0 env t ow m deadline i lm = (Inl OutOfFuel, lm)"
| "acquire_loop (Suc fuel) env t ow m deadline i lm =
     (case lm_try t ow m lm of
        (True, lm') \<Rightarrow> (Inr (), lm')
      | (False, lm') \<Rightarrow>
          if float_le (float_sub deadline (le_clock env (Suc i))) (Fin 0) then
            (Inl (LockTimeoutError (''tiempo de espera agotado pidiendo '' @ lock_mode_value m
                                    @ '' sobre la tabla '' @ repr_str t)), lm')
          else acquire_loop fuel env t ow m deadline (Suc i) (le_others env (Suc i) lm'))"

definition lm_acquire ::
  "nat \<Rightarrow> lock_env \<Rightarrow> string \<Rightarrow> lock_owner \<Rightarrow> lock_mode \<Rightarrow> pyfloat \<Rightarrow> lock_manager
   \<Rightarrow> (exn + unit) \<times> lock_manager" where
  "lm_acquire fuel env t ow m timeout lm =
     acquire_loop fuel env t ow m (float_add (le_clock env 0) timeout) 0 lm"

definition default_lock_timeout :: pyfloat where
  "default_lock_timeout = Fin 5"

section \<open>The locks under all the threads\<close>

text \<open>
  The state of the program's threads as far as locks go: the lock manager and the requests that wait
  with the deadline of each. A thread asks, retries when it is woken, gives up after its deadline, or
  releases.
\<close>

record lock_request =
  rq_table :: string
  rq_owner :: lock_owner
  rq_mode :: lock_mode
  rq_deadline :: pyfloat

record lock_system =
  sy_locks :: lock_manager
  sy_waiting :: "lock_request set"

datatype lock_event =
    Granted lock_request
  | Waits lock_request
  | TimesOut lock_request
  | Releases string lock_owner

definition request_try :: "lock_request \<Rightarrow> lock_manager \<Rightarrow> bool \<times> lock_manager" where
  "request_try q = lm_try (rq_table q) (rq_owner q) (rq_mode q)"

inductive lock_step :: "lock_system \<Rightarrow> lock_event \<Rightarrow> lock_system \<Rightarrow> bool" where
  grant: "request_try q (sy_locks s) = (True, lm) \<Longrightarrow>
    lock_step s (Granted q) \<lparr>sy_locks = lm, sy_waiting = sy_waiting s - {q}\<rparr>"
| wait: "request_try q (sy_locks s) = (False, lm) \<Longrightarrow>
    \<not> float_le (float_sub (rq_deadline q) now) (Fin 0) \<Longrightarrow>
    lock_step s (Waits q) \<lparr>sy_locks = lm, sy_waiting = insert q (sy_waiting s)\<rparr>"
| time_out: "request_try q (sy_locks s) = (False, lm) \<Longrightarrow>
    float_le (float_sub (rq_deadline q) now) (Fin 0) \<Longrightarrow>
    lock_step s (TimesOut q) \<lparr>sy_locks = lm, sy_waiting = sy_waiting s - {q}\<rparr>"
| release: "lock_step s (Releases t ow) (s\<lparr>sy_locks := lm_release t ow (sy_locks s)\<rparr>)"

inductive_cases lock_stepE: "lock_step s e s'"

definition lock_start :: lock_system where
  "lock_start = \<lparr>sy_locks = Map.empty, sy_waiting = {}\<rparr>"

inductive lock_reachable :: "lock_system \<Rightarrow> bool" where
  start: "lock_reachable lock_start"
| step: "lock_reachable s \<Longrightarrow> lock_step s e s' \<Longrightarrow> lock_reachable s'"

end
