(* ===== verification/Transaction.thy ===== *)
theory Transaction
  imports Transaction_Locks Dml "HOL-Library.AList"
begin

text \<open>
  The undo log of a transaction (\<open>engine/transactions/transaction.py\<close>): every INSERT and DELETE that
  succeeded leaves the operation that undoes it, a rollback runs them in reverse and ignores their
  failures, and the locks taken are kept until the end.
\<close>

datatype undo_action =
    UndoInsert string native_record rid nat "index_ref list"
  | UndoDelete string "delete_candidate list" nat "index_ref list"

record transaction =
  tx_owner :: lock_owner
  tx_undo :: "undo_action list"
  tx_locked :: "(string \<times> lock_mode) list"

definition new_transaction :: "lock_owner \<Rightarrow> transaction" where
  "new_transaction ow = \<lparr>tx_owner = ow, tx_undo = [], tx_locked = []\<rparr>"

definition ensure_lock ::
  "nat \<Rightarrow> lock_env \<Rightarrow> string \<Rightarrow> lock_mode \<Rightarrow> pyfloat \<Rightarrow> transaction \<Rightarrow> lock_manager
   \<Rightarrow> (exn + transaction) \<times> lock_manager" where
  "ensure_lock fuel env t m timeout tx lm =
     (let current = map_of (tx_locked tx) t in
      if current = Some LM_EXCLUSIVE \<or> current = Some m then (Inr tx, lm)
      else
        case lm_acquire fuel env t (tx_owner tx) m timeout lm of
          (Inl e, lm') \<Rightarrow> (Inl e, lm')
        | (Inr _, lm') \<Rightarrow> (Inr (tx\<lparr>tx_locked := AList.update t m (tx_locked tx)\<rparr>), lm'))"

definition record_insert ::
  "string \<Rightarrow> native_record \<Rightarrow> rid \<Rightarrow> nat \<Rightarrow> index_ref list \<Rightarrow> transaction \<Rightarrow> transaction" where
  "record_insert t values rid kc indexes tx =
     tx\<lparr>tx_undo := tx_undo tx @ [UndoInsert t values rid kc indexes]\<rparr>"

definition record_delete ::
  "string \<Rightarrow> delete_candidate list \<Rightarrow> nat \<Rightarrow> index_ref list \<Rightarrow> transaction \<Rightarrow> transaction" where
  "record_delete t cs kc indexes tx = tx\<lparr>tx_undo := tx_undo tx @ [UndoDelete t cs kc indexes]\<rparr>"

fun undo_one :: "('s, 'm) core_scheme \<Rightarrow> undo_action \<Rightarrow> ('s, unit) io" where
  "undo_one C (UndoInsert t values rid kc indexes) =
     io_bind (delete_with_indexes C t [\<lparr>dc_rid = Some rid, dc_record = values\<rparr>] kc indexes)
       (\<lambda>_. io_return ())"
| "undo_one C (UndoDelete t cs kc indexes) =
     io_for (\<lambda>c. io_bind (insert_with_indexes C t (dc_record c) kc indexes) (\<lambda>_. io_return ())) cs"

definition undo_all :: "('s, 'm) core_scheme \<Rightarrow> undo_action list \<Rightarrow> ('s, unit) io" where
  "undo_all C us = io_for (\<lambda>u. io_suppress (undo_one C u)) (rev us)"

definition release_locks :: "transaction \<Rightarrow> lock_manager \<Rightarrow> lock_manager" where
  "release_locks tx lm = lm_release_all (tx_owner tx) (map fst (tx_locked tx)) lm"

definition commit :: "transaction \<Rightarrow> lock_manager \<Rightarrow> transaction \<times> lock_manager" where
  "commit tx lm = (tx\<lparr>tx_undo := [], tx_locked := []\<rparr>, release_locks tx lm)"

definition rollback :: "('s, 'm) core_scheme \<Rightarrow> transaction \<Rightarrow> (lock_manager \<times> 's, transaction) io" where
  "rollback C tx =
     io_then (io_outer (undo_all C (tx_undo tx)))
       (io_then (io_local (release_locks tx)) (io_return (tx\<lparr>tx_undo := [], tx_locked := []\<rparr>)))"

end
