(* ===== verification/Session.thy ===== *)
theory Session
  imports External_Executor Transaction
begin

text \<open>
  The state of a \<open>QueryProcessor\<close> (\<open>engine/executor/processor.py\<close>) and what it does to it before and
  after every statement: the transaction in course, the locks it takes and gives back, and the abort
  of a transaction whose statement failed. The lock manager and the database are shared with the
  processors of other threads: what these do while a lock is awaited is a parameter.
\<close>

section \<open>The database\<close>

record 's db_core = "'s query_core" +
  db_info :: "string \<Rightarrow> ('s, native_schema \<times> string \<times> native_index list) io"
  db_create_table :: "native_schema \<Rightarrow> storage_kind \<Rightarrow> ('s, unit) io"
  db_drop_table :: "string \<Rightarrow> ('s, unit) io"
  db_create_index :: "string \<Rightarrow> string \<Rightarrow> string \<Rightarrow> index_kind \<Rightarrow> ('s, unit) io"
  db_create_text :: "string \<Rightarrow> string \<Rightarrow> string \<Rightarrow> tokenizer_options \<Rightarrow> ('s, unit) io"
  db_create_hnsw :: "string \<Rightarrow> string \<Rightarrow> string \<Rightarrow> vector_metric \<Rightarrow> ('s, unit) io"
  db_create_ivf :: "string \<Rightarrow> string \<Rightarrow> string \<Rightarrow> pyfloat list list \<Rightarrow> ('s, unit) io"
  db_hnsw_metric :: "string \<Rightarrow> string \<Rightarrow> ('s, vector_metric) io"

text \<open>\<open>table_info\<close> as the optimizer's metadata and as the indexes that INSERT and DELETE maintain.\<close>

definition table_description :: "native_schema \<times> string \<times> native_index list \<Rightarrow> native_table" where
  "table_description info =
     (case info of (schema, storage, indexes) \<Rightarrow>
        \<lparr>nt_name = ns_table_name schema, nt_storage = storage, nt_columns = length (ns_columns schema),
         nt_indexes = indexes\<rparr>)"

definition native_refs :: "native_index list \<Rightarrow> index_ref list" where
  "native_refs = map (\<lambda>ix. (ni_name ix, ni_column ix))"

section \<open>The processor\<close>

text \<open>
  The settings: the core, the mathematical library, the external algorithms with their options and the
  most rows that one pull may discard, the timeout of a lock, and for the \<open>k\<close>-th wait of
  the processor the clock and the other threads, on the locks and on the database.
\<close>

record ('s, 'm) settings =
  pe_core :: "('s, 'm) db_core_scheme"
  pe_libm :: libm
  pe_external :: "'s external_core"
  pe_options :: external_options
  pe_row_fuel :: nat
  pe_timeout :: pyfloat
  pe_fuel :: nat
  pe_lock_env :: "nat \<Rightarrow> lock_env"
  pe_meanwhile :: "nat \<Rightarrow> 's \<Rightarrow> 's"

text \<open>
  The fields of the object, with the lock manager and the database it shares. Owners are objects:
  \<open>ss_fresh\<close> is the next one that this processor will make, \<open>ss_owner\<close> the one of its statements out
  of a transaction.
\<close>

record 's session =
  ss_tx :: "transaction option"
  ss_locks :: lock_manager
  ss_core :: 's
  ss_owner :: lock_owner
  ss_fresh :: lock_owner
  ss_waits :: nat

type_synonym ('s, 'a) sio = "('s session, 'a) io"

text \<open>A call of the database.\<close>

definition on_core :: "('s, 'a) io \<Rightarrow> ('s, 'a) sio" where
  "on_core m s = (case m (ss_core s) of (r, c) \<Rightarrow> (r, s\<lparr>ss_core := c\<rparr>))"

section \<open>Transactions\<close>

definition begin_transaction :: "('s, unit) sio" where
  "begin_transaction s =
     (if ss_tx s \<noteq> None then
        (Inl (TransactionError ''ya hay una transaccion activa: falta un END TRANSACTION''), s)
      else (Inr (), s\<lparr>ss_tx := Some (new_transaction (ss_fresh s)), ss_fresh := Suc (ss_fresh s)\<rparr>))"

definition end_transaction :: "('s, unit) sio" where
  "end_transaction s =
     (case ss_tx s of
        None \<Rightarrow> (Inl (TransactionError ''no hay una transaccion activa: falta un BEGIN TRANSACTION''), s)
      | Some tx \<Rightarrow> (Inr (), s\<lparr>ss_tx := None, ss_locks := snd (commit tx (ss_locks s))\<rparr>))"

text \<open>\<open>self._transaction.rollback()\<close> and \<open>self._transaction = None\<close>.\<close>

definition abandon :: "('s, 'm) settings \<Rightarrow> transaction \<Rightarrow> ('s, unit) sio" where
  "abandon E tx s =
     (case rollback (pe_core E) tx (ss_locks s, ss_core s) of
        (Inl e, (lm, c)) \<Rightarrow> (Inl e, s\<lparr>ss_locks := lm, ss_core := c\<rparr>)
      | (Inr _, (lm, c)) \<Rightarrow> (Inr (), s\<lparr>ss_tx := None, ss_locks := lm, ss_core := c\<rparr>))"

definition rollback_session :: "('s, 'm) settings \<Rightarrow> ('s, unit) sio" where
  "rollback_session E s =
     (case ss_tx s of
        None \<Rightarrow> (Inl (TransactionError ''no hay una transaccion activa para deshacer''), s)
      | Some tx \<Rightarrow> abandon E tx s)"

definition fail_in_transaction :: "('s, 'm) settings \<Rightarrow> ('s, unit) sio" where
  "fail_in_transaction E s = (case ss_tx s of None \<Rightarrow> (Inr (), s) | Some tx \<Rightarrow> abandon E tx s)"

section \<open>Locks of a statement\<close>

text \<open>An acquisition; once it is over the other threads have left the database in some state.\<close>

definition acquire_lock ::
  "('s, 'm) settings \<Rightarrow> string \<Rightarrow> lock_owner \<Rightarrow> lock_mode \<Rightarrow> ('s, unit) sio" where
  "acquire_lock E t ow m s =
     (case lm_acquire (pe_fuel E) (pe_lock_env E (ss_waits s)) t ow m (pe_timeout E) (ss_locks s) of
        (r, lm) \<Rightarrow> (r, s\<lparr>ss_locks := lm, ss_core := pe_meanwhile E (ss_waits s) (ss_core s),
                         ss_waits := Suc (ss_waits s)\<rparr>))"

definition lock_in_transaction ::
  "('s, 'm) settings \<Rightarrow> transaction \<Rightarrow> string \<Rightarrow> lock_mode \<Rightarrow> ('s, unit) sio" where
  "lock_in_transaction E tx t m s =
     (case ensure_lock (pe_fuel E) (pe_lock_env E (ss_waits s)) t m (pe_timeout E) tx (ss_locks s) of
        (Inl e, lm) \<Rightarrow> (Inl e, s\<lparr>ss_locks := lm, ss_core := pe_meanwhile E (ss_waits s) (ss_core s),
                                ss_waits := Suc (ss_waits s)\<rparr>)
      | (Inr tx', lm) \<Rightarrow> (Inr (), s\<lparr>ss_tx := Some tx', ss_locks := lm,
                                ss_core := pe_meanwhile E (ss_waits s) (ss_core s),
                                ss_waits := Suc (ss_waits s)\<rparr>))"

definition lock_or_abort :: "('s, 'm) settings \<Rightarrow> string \<Rightarrow> lock_mode \<Rightarrow> ('s, unit) sio" where
  "lock_or_abort E t m =
     io_catch
       (\<lambda>s. case ss_tx s of
          Some tx \<Rightarrow> lock_in_transaction E tx t m s
        | None \<Rightarrow> acquire_lock E t (ss_owner s) m s)
       (\<lambda>e. io_then (fail_in_transaction E) (io_raise e))"

definition release_autocommit :: "string \<Rightarrow> ('s, unit) sio" where
  "release_autocommit t s =
     (Inr (), if ss_tx s = None then s\<lparr>ss_locks := lm_release t (ss_owner s) (ss_locks s)\<rparr> else s)"

section \<open>Errors of the core\<close>

text \<open>\<open>_domain_errors\<close>: the exceptions of the core that are reported as errors of the statement.\<close>

fun is_domain_error :: "exn \<Rightarrow> bool" where
  "is_domain_error (NativeError e m) \<longleftrightarrow> e \<in> {NE_SCHEMA, NE_INVALID_RECORD, NE_DUPLICATE_KEY}"
| "is_domain_error _ \<longleftrightarrow> False"

text \<open>\<open>str(error)\<close> of the exceptions that the processor turns into others.\<close>

fun exn_text :: "exn \<Rightarrow> string" where
  "exn_text (NativeError e m) = m"
| "exn_text (ValueError m) = m"
| "exn_text (TypeError m) = m"
| "exn_text (CsvLoadError m line) = m"
| "exn_text (MediaLoadError m) = m"
| "exn_text (OSError m) = m"
| "exn_text (ImportError m) = m"
| "exn_text _ = []"

definition raise_semantic :: "exn \<Rightarrow> string \<Rightarrow> span \<Rightarrow> string \<Rightarrow> ('s, 'a) sio" where
  "raise_semantic e message sp src =
     io_raise (SQLError SQLSemanticError
       (if exn_text e = [] then message else message @ '': '' @ exn_text e) sp (Some src))"

text \<open>\<open>except self._domain_errors as error: self._raise_semantic(...)\<close>.\<close>

definition domain_as_semantic :: "string \<Rightarrow> span \<Rightarrow> string \<Rightarrow> ('s, 'a) sio \<Rightarrow> ('s, 'a) sio" where
  "domain_as_semantic message sp src m =
     io_catch m (\<lambda>e. if is_domain_error e then raise_semantic e message sp src else io_raise e)"

text \<open>The same around a change of the database, where any failure aborts the transaction first.\<close>

definition guarded_change ::
  "('s, 'm) settings \<Rightarrow> string \<Rightarrow> (span, exn) sum \<Rightarrow> string \<Rightarrow> ('s, 'a) sio \<Rightarrow> ('s, 'a) sio" where
  "guarded_change E message sp src m =
     io_catch m (\<lambda>e. io_then (fail_in_transaction E)
       (if is_domain_error e then
          (case sp of Inl here \<Rightarrow> raise_semantic e message here src | Inr f \<Rightarrow> io_raise f)
        else io_raise e))"

definition table_missing :: "string \<Rightarrow> string" where
  "table_missing t = ''la tabla '' @ repr_str t @ '' no existe''"

end
