(* ===== verification/Csv_Reader.thy ===== *)
theory Csv_Reader
  imports Sql_Span
begin

text \<open>
  The reader of the standard module \<open>csv\<close> as the loader uses it: its state machine, one record per
  call, with the quote \<open>"\<close>, doubled quotes inside quotes and no escape. The text arrives by lines, as
  a stream opened with \<open>newline=""\<close> gives them; a line that cannot be decoded raises when it is read.
\<close>

datatype csv_line = CsvText string | Undecodable string

datatype csv_state = CSV_START_RECORD | CSV_START_FIELD | CSV_IN_FIELD | CSV_IN_QUOTED_FIELD
  | CSV_QUOTE_IN_QUOTED_FIELD | CSV_EAT_CRNL

record csv_parse =
  cs_state :: csv_state
  cs_field :: string
  cs_fields :: "string list"

definition csv_reset :: csv_parse where
  "csv_reset = \<lparr>cs_state = CSV_START_RECORD, cs_field = [], cs_fields = []\<rparr>"

definition csv_field_limit :: int where
  "csv_field_limit = 131072"

definition csv_add :: "csv_state \<Rightarrow> char \<Rightarrow> csv_parse \<Rightarrow> exn + csv_parse" where
  "csv_add st c p =
     (if csv_field_limit \<le> int (length (cs_field p)) then
        Inl (CsvError ''field larger than field limit (131072)'')
      else Inr (p\<lparr>cs_state := st, cs_field := cs_field p @ [c]\<rparr>))"

definition csv_save :: "csv_state \<Rightarrow> csv_parse \<Rightarrow> csv_parse" where
  "csv_save st p = p\<lparr>cs_state := st, cs_field := [], cs_fields := cs_fields p @ [cs_field p]\<rparr>"

definition is_newline :: "char \<Rightarrow> bool" where
  "is_newline c \<longleftrightarrow> c = CHR 0x0A \<or> c = CHR 0x0D"

definition csv_quote :: char where
  "csv_quote = CHR 0x22"

text \<open>One character of a line.\<close>

definition csv_start_field :: "char \<Rightarrow> char \<Rightarrow> csv_parse \<Rightarrow> exn + csv_parse" where
  "csv_start_field delim c p =
     (if is_newline c then Inr (csv_save CSV_EAT_CRNL p)
      else if c = csv_quote then Inr (p\<lparr>cs_state := CSV_IN_QUOTED_FIELD\<rparr>)
      else if c = delim then Inr (csv_save CSV_START_FIELD p)
      else csv_add CSV_IN_FIELD c p)"

definition csv_char :: "char \<Rightarrow> bool \<Rightarrow> char \<Rightarrow> csv_parse \<Rightarrow> exn + csv_parse" where
  "csv_char delim strict c p =
     (case cs_state p of
        CSV_START_RECORD \<Rightarrow>
          if is_newline c then Inr (p\<lparr>cs_state := CSV_EAT_CRNL\<rparr>) else csv_start_field delim c p
      | CSV_START_FIELD \<Rightarrow> csv_start_field delim c p
      | CSV_IN_FIELD \<Rightarrow>
          if is_newline c then Inr (csv_save CSV_EAT_CRNL p)
          else if c = delim then Inr (csv_save CSV_START_FIELD p)
          else csv_add CSV_IN_FIELD c p
      | CSV_IN_QUOTED_FIELD \<Rightarrow>
          if c = csv_quote then Inr (p\<lparr>cs_state := CSV_QUOTE_IN_QUOTED_FIELD\<rparr>)
          else csv_add CSV_IN_QUOTED_FIELD c p
      | CSV_QUOTE_IN_QUOTED_FIELD \<Rightarrow>
          if c = csv_quote then csv_add CSV_IN_QUOTED_FIELD c p
          else if c = delim then Inr (csv_save CSV_START_FIELD p)
          else if is_newline c then Inr (csv_save CSV_EAT_CRNL p)
          else if \<not> strict then csv_add CSV_IN_FIELD c p
          else Inl (CsvError (CHR 0x27 # delim # CHR 0x27 # '' expected after ''
                 @ [CHR 0x27, csv_quote, CHR 0x27]))
      | CSV_EAT_CRNL \<Rightarrow>
          if is_newline c then Inr p
          else Inl (CsvError (''new-line character seen in unquoted field - do you need to open the ''
                 @ ''file with newline='' @ [CHR 0x27, CHR 0x27] @ ''?'')))"

text \<open>The end of a line.\<close>

fun csv_end :: "csv_parse \<Rightarrow> csv_parse" where
  "csv_end p =
     (case cs_state p of
        CSV_START_RECORD \<Rightarrow> p
      | CSV_IN_QUOTED_FIELD \<Rightarrow> p
      | CSV_EAT_CRNL \<Rightarrow> p\<lparr>cs_state := CSV_START_RECORD\<rparr>
      | _ \<Rightarrow> csv_save CSV_START_RECORD p)"

fun csv_chars :: "char \<Rightarrow> bool \<Rightarrow> string \<Rightarrow> csv_parse \<Rightarrow> exn + csv_parse" where
  "csv_chars delim strict [] p = Inr (csv_end p)"
| "csv_chars delim strict (c # cs) p = ebind (csv_char delim strict c p) (csv_chars delim strict cs)"

text \<open>
  \<open>next(reader)\<close>: the next record, or \<open>None\<close> at the end, with the lines left and the number of lines
  read (\<open>line_num\<close>). A line with an error is consumed and the next record starts afresh.
\<close>

fun csv_record ::
  "char \<Rightarrow> bool \<Rightarrow> csv_line list \<Rightarrow> csv_parse \<Rightarrow> nat
   \<Rightarrow> (exn + string list option) \<times> csv_line list \<times> nat" where
  "csv_record delim strict [] p n =
     (if cs_field p \<noteq> [] \<or> cs_state p = CSV_IN_QUOTED_FIELD then
        if strict then (Inl (CsvError ''unexpected end of data''), [], n)
        else (Inr (Some (cs_fields p @ [cs_field p])), [], n)
      else (Inr None, [], n))"
| "csv_record delim strict (Undecodable message # ls) p n = (Inl (UnicodeDecodeError message), ls, n)"
| "csv_record delim strict (CsvText l # ls) p n =
     (case csv_chars delim strict l p of
        Inl e \<Rightarrow> (Inl e, ls, Suc n)
      | Inr q \<Rightarrow>
          if cs_state q = CSV_START_RECORD then (Inr (Some (cs_fields q)), ls, Suc n)
          else csv_record delim strict ls q (Suc n))"

definition csv_next ::
  "char \<Rightarrow> bool \<Rightarrow> csv_line list \<Rightarrow> nat \<Rightarrow> (exn + string list option) \<times> csv_line list \<times> nat" where
  "csv_next delim strict ls n = csv_record delim strict ls csv_reset n"

text \<open>Every record consumes a line, so a loop over the records ends.\<close>

lemma csv_record_shorter:
  "csv_record delim strict ls p n = (r, ls', n') \<Longrightarrow> length ls' \<le> length ls"
  by (induction delim strict ls p n rule: csv_record.induct)
    (auto split: if_splits sum.splits)

lemma csv_next_shorter:
  assumes "csv_next delim strict ls n = (r, ls', n')" "ls \<noteq> []"
  shows "length ls' < length ls"
proof (cases ls)
  case (Cons l rest)
  then show ?thesis
    using assms csv_record_shorter [of delim strict rest _ "Suc n" r ls' n']
    by (cases l) (fastforce simp: csv_next_def split: if_splits sum.splits)+
qed (use assms in simp)

lemma csv_next_end: "csv_next delim strict [] n = (r, ls', n') \<Longrightarrow> r = Inr None"
  by (simp add: csv_next_def csv_reset_def)

end
