(* ===== verification/Bulk_Load.thy ===== *)
theory Bulk_Load
  imports Csv_Reader Bound_Ast Sql_Semantic
begin

text \<open>
  The pure part of the CSV loader (\<open>engine/executor/bulk_load.py\<close>): the encoding of the file, its
  header matched with the schema and every field converted to the type of its column. Text is Latin-1
  as in the parser; a file is a list of bytes, read in chunks.
\<close>

section \<open>Reports\<close>

definition max_reported_errors :: nat where
  "max_reported_errors = 100"

record row_error =
  re_line :: int
  re_error :: string

record load_report =
  lr_table :: string
  lr_inserted :: nat
  lr_failed :: nat
  lr_errors :: "row_error list"

definition new_report :: "string \<Rightarrow> load_report" where
  "new_report t = \<lparr>lr_table = t, lr_inserted = 0, lr_failed = 0, lr_errors = []\<rparr>"

definition report_fail :: "int \<Rightarrow> string \<Rightarrow> load_report \<Rightarrow> load_report" where
  "report_fail line message r =
     r\<lparr>lr_failed := Suc (lr_failed r),
       lr_errors := (if length (lr_errors r) < max_reported_errors
                     then lr_errors r @ [\<lparr>re_line = line, re_error = message\<rparr>] else lr_errors r)\<rparr>"

definition errors_truncated :: "load_report \<Rightarrow> bool" where
  "errors_truncated r \<longleftrightarrow> length (lr_errors r) < lr_failed r"

section \<open>Text\<close>

text \<open>\<open>str.strip()\<close>: the white space of Latin-1.\<close>

definition is_white :: "char \<Rightarrow> bool" where
  "is_white c \<longleftrightarrow> char_between CHR 0x09 CHR 0x0D c \<or> char_between CHR 0x1C CHR 0x20 c
     \<or> c = CHR 0x85 \<or> c = CHR 0xA0"

definition strip :: "string \<Rightarrow> string" where
  "strip s = rev (dropWhile is_white (rev (dropWhile is_white s)))"

text \<open>\<open>str.casefold()\<close> gives code points: sharp s becomes two letters, the micro sign a Greek letter.\<close>

definition fold_char :: "char \<Rightarrow> nat list" where
  "fold_char c =
     (if c = CHR 0xDF then [115, 115] else if c = CHR 0xB5 then [956] else [of_char (lower_char c)])"

definition casefold :: "string \<Rightarrow> nat list" where
  "casefold s = concat (map fold_char s)"

definition repr_list :: "string list \<Rightarrow> string" where
  "repr_list names = join_str '', '' (map repr_str names)"

section \<open>The header\<close>

definition delimiters :: "char list" where
  "delimiters = [CHR '','', CHR '';'', CHR 0x09]"

record csv_header =
  ch_fields :: "string list"
  ch_delimiter :: char
  ch_line :: nat

definition csv_load_error :: "string \<Rightarrow> int option \<Rightarrow> exn + 'a" where
  "csv_load_error message line = Inl (CsvLoadError message line)"

text \<open>The number of columns a line has with a separator; a line that is not blank has a record.\<close>

definition header_record :: "string \<Rightarrow> bool \<Rightarrow> char \<Rightarrow> exn + string list" where
  "header_record raw strict delim =
     ebind (fst (csv_next delim strict [CsvText raw] 0)) (\<lambda>r.
     case r of None \<Rightarrow> Inl (RuntimeError ''StopIteration'') | Some fs \<Rightarrow> Inr fs)"

text \<open>\<open>max\<close> with a key: the first of the largest.\<close>

fun widest :: "(char \<times> nat) \<Rightarrow> (char \<times> nat) list \<Rightarrow> char" where
  "widest best [] = fst best"
| "widest best (d # ds) = widest (if snd best < snd d then d else best) ds"

definition best_delimiter :: "string \<Rightarrow> exn + char" where
  "best_delimiter raw =
     ebind (emap (\<lambda>d. ebind (header_record raw False d) (\<lambda>fs. Inr (d, length fs))) delimiters)
       (\<lambda>widths. Inr (widest (hd widths) (tl widths)))"

fun read_header :: "csv_line list \<Rightarrow> nat \<Rightarrow> (exn + csv_header) \<times> csv_line list" where
  "read_header [] n = (csv_load_error ''el archivo esta vacio: falta la cabecera'' None, [])"
| "read_header (Undecodable message # ls) n = (Inl (UnicodeDecodeError message), ls)"
| "read_header (CsvText raw # ls) n =
     (if strip raw = [] then read_header ls (Suc n)
      else
        (ebind (best_delimiter raw) (\<lambda>delim.
         case header_record raw True delim of
           Inl (CsvError message) \<Rightarrow>
             csv_load_error (''la cabecera esta mal formada: '' @ message) (Some (int (Suc n)))
         | Inl e \<Rightarrow> Inl e
         | Inr fs \<Rightarrow> Inr \<lparr>ch_fields = fs, ch_delimiter = delim, ch_line = Suc n\<rparr>), ls))"

text \<open>The names of the header without the empty ones at the end.\<close>

definition header_names :: "string list \<Rightarrow> string list" where
  "header_names fs = rev (dropWhile (\<lambda>n. n = []) (rev (map strip fs)))"

text \<open>The column a name of the header stands for: exact, or the only one that differs in case.\<close>

definition column_for :: "string list \<Rightarrow> string \<Rightarrow> string option" where
  "column_for expected name =
     (if name \<in> set expected then Some name
      else case filter (\<lambda>e. casefold e = casefold name) expected of [e] \<Rightarrow> Some e | _ \<Rightarrow> None)"

text \<open>The loop over the header: columns seen with their positions, repeated names, names too many.\<close>

record header_match =
  hm_seen :: "(string \<times> nat) list"
  hm_repeated :: "string list"
  hm_extra :: "string list"

definition match_name :: "string list \<Rightarrow> nat \<times> string \<Rightarrow> header_match \<Rightarrow> header_match" where
  "match_name expected pn h =
     (case column_for expected (snd pn) of
        None \<Rightarrow> h\<lparr>hm_extra := hm_extra h @ [snd pn]\<rparr>
      | Some name \<Rightarrow>
          if name \<in> fst ` set (hm_seen h) then h\<lparr>hm_repeated := hm_repeated h @ [name]\<rparr>
          else h\<lparr>hm_seen := hm_seen h @ [(name, fst pn)]\<rparr>)"

definition match_names :: "string list \<Rightarrow> string list \<Rightarrow> header_match" where
  "match_names expected names =
     fold (match_name expected) (enumerate 0 names) \<lparr>hm_seen = [], hm_repeated = [], hm_extra = []\<rparr>"

definition header_problems :: "string list \<Rightarrow> header_match \<Rightarrow> string list" where
  "header_problems expected h =
     (let missing = filter (\<lambda>e. e \<notin> fst ` set (hm_seen h)) expected
      in (if missing \<noteq> [] then [''faltan '' @ repr_list missing] else [])
         @ (if hm_extra h \<noteq> [] then [''sobran '' @ repr_list (hm_extra h)] else [])
         @ (if hm_repeated h \<noteq> [] then [''se repite '' @ repr_list (hm_repeated h)] else []))"

fun first_index :: "('a \<Rightarrow> bool) \<Rightarrow> 'a list \<Rightarrow> nat" where
  "first_index f [] = 0"
| "first_index f (x # xs) = (if f x then 0 else Suc (first_index f xs))"

definition match_header :: "string list \<Rightarrow> bound_schema \<Rightarrow> int \<Rightarrow> exn + nat list" where
  "match_header fs schema line =
     (let names = header_names fs; expected = map bc_name (bs_columns schema);
          h = match_names expected names; problems = header_problems expected h
      in if names = [] then csv_load_error ''el CSV no tiene cabecera'' (Some line)
         else if [] \<in> set names then
           csv_load_error (''la columna '' @ show_int (int (first_index (\<lambda>n. n = []) names) + 1)
             @ '' de la cabecera no tiene nombre'') (Some line)
         else if problems \<noteq> [] then
           csv_load_error (''la cabecera no calza con la tabla '' @ repr_str (bs_table_name schema)
             @ '': '' @ join_str ''; '' problems @ ''. La tabla tiene '' @ repr_list expected) (Some line)
         else Inr (map (\<lambda>e. the (map_of (hm_seen h) e)) expected))"

section \<open>Fields\<close>

definition bad_field :: "bound_column \<Rightarrow> string \<Rightarrow> exn + 'a" where
  "bad_field c message = Inl (ValueError (''columna '' @ bc_name c @ '': '' @ message))"

text \<open>A sign and what follows it.\<close>

definition split_sign :: "string \<Rightarrow> bool \<times> string" where
  "split_sign s =
     (case s of c # r \<Rightarrow> if c = CHR ''-'' then (True, r) else if c = CHR ''+'' then (False, r) else (False, s)
      | [] \<Rightarrow> (False, []))"

definition csv_int :: "string \<Rightarrow> bound_column \<Rightarrow> exn + bound_value" where
  "csv_int v c =
     (let (neg, ds) = split_sign v in
      if ds = [] \<or> \<not> list_all is_digit ds then bad_field c (repr_str v @ '' no es un INT'')
      else if 4300 < int (length ds) then
        Inl (ValueError (''Exceeds the limit (4300 digits) for integer string conversion: value has ''
          @ show_nat (length ds) @ '' digits; use sys.set_int_max_str_digits() to increase the limit''))
      else
        let n = (if neg then - digits_value ds else digits_value ds) in
        if \<not> (int32_min \<le> n \<and> n \<le> int32_max) then
          bad_field c (show_int n @ '' esta fuera del rango INT de 32 bits'')
        else Inr (VInt n))"

text \<open>
  \<open>float(s)\<close>: an optional sign and a numeral with fraction and exponent, \<open>inf\<close>, \<open>infinity\<close> or \<open>nan\<close> in
  any case. Underscores may stand between digits.
\<close>

fun underscores_ok :: "bool \<Rightarrow> string \<Rightarrow> bool" where
  "underscores_ok after_digit [] = True"
| "underscores_ok after_digit (c # cs) =
     (if c = CHR ''_'' then
        after_digit \<and> (case cs of d # _ \<Rightarrow> is_digit d | [] \<Rightarrow> False) \<and> underscores_ok False cs
      else underscores_ok (is_digit c) cs)"

definition scaled_value :: "bool \<Rightarrow> string \<Rightarrow> string \<Rightarrow> int \<Rightarrow> pyfloat" where
  "scaled_value neg ip fp e =
     (let m = decimal_value neg ip fp
      in round_binary64 (if 0 \<le> e then m * 10 ^ nat e else m / 10 ^ nat (- e)))"

definition exponent_value :: "string \<Rightarrow> int option" where
  "exponent_value s =
     (let (neg, ds) = split_sign s in
      if ds = [] \<or> \<not> list_all is_digit ds then None
      else Some (if neg then - digits_value ds else digits_value ds))"

definition number_value :: "bool \<Rightarrow> string \<Rightarrow> pyfloat option" where
  "number_value neg s =
     (let ip = takeWhile is_digit s; r = dropWhile is_digit s;
          dotted = (r \<noteq> [] \<and> hd r = CHR ''.'');
          fp = (if dotted then takeWhile is_digit (tl r) else []);
          rest = (if dotted then dropWhile is_digit (tl r) else r)
      in if ip = [] \<and> fp = [] then None
         else case rest of
           [] \<Rightarrow> Some (scaled_value neg ip fp 0)
         | c # cs \<Rightarrow>
             if lower_char c = CHR ''e'' then map_option (scaled_value neg ip fp) (exponent_value cs)
             else None)"

definition py_float_text :: "string \<Rightarrow> pyfloat option" where
  "py_float_text s =
     (if \<not> underscores_ok False s then None
      else
        let (neg, r) = split_sign (filter (\<lambda>c. c \<noteq> CHR ''_'') s); word = lower r in
        if word = ''inf'' \<or> word = ''infinity'' then Some (if neg then NegInf else PosInf)
        else if word = ''nan'' then Some NaN
        else number_value neg r)"

definition csv_double :: "string \<Rightarrow> bound_column \<Rightarrow> exn + bound_value" where
  "csv_double v c =
     (case py_float_text v of
        None \<Rightarrow> bad_field c (repr_str v @ '' no es un DOUBLE'')
      | Some x \<Rightarrow>
          if \<not> is_finite x then bad_field c ''DOUBLE requiere un valor finito'' else Inr (VFloat x))"

definition csv_bool :: "string \<Rightarrow> bound_column \<Rightarrow> exn + bound_value" where
  "csv_bool v c =
     (let w = lower v in
      if w = ''true'' \<or> w = ''1'' then Inr (VBool True)
      else if w = ''false'' \<or> w = ''0'' then Inr (VBool False)
      else bad_field c (repr_str v @ '' no es un BOOL (true/false o 1/0)''))"

definition date_shape :: "string \<Rightarrow> bool" where
  "date_shape v \<longleftrightarrow>
     length v = 10 \<and> list_all is_digit (take 4 v) \<and> v ! 4 = CHR ''-'' \<and> list_all is_digit (slice v 5 7)
     \<and> v ! 7 = CHR ''-'' \<and> list_all is_digit (drop 8 v)"

definition csv_date :: "string \<Rightarrow> bound_column \<Rightarrow> exn + bound_value" where
  "csv_date v c =
     (if \<not> date_shape v then bad_field c (repr_str v @ '' no es una fecha AAAA-MM-DD'')
      else
        let y = digits_value (take 4 v); m = digits_value (slice v 5 7); d = digits_value (drop 8 v) in
        if valid_date y m d then Inr (VDate (PyDate y m d))
        else bad_field c (repr_str v @ '' no es una fecha valida''))"

definition csv_varchar :: "string \<Rightarrow> bound_column \<Rightarrow> exn + bound_value" where
  "csv_varchar s c =
     (if CHR 0x00 \<in> set s then bad_field c ''VARCHAR no admite bytes nulos''
      else case bc_length c of
        None \<Rightarrow> bad_field c ''el esquema VARCHAR no tiene longitud''
      | Some n \<Rightarrow>
          if n < int (utf8_length s) then
            bad_field c (''el texto ocupa '' @ show_int (int (utf8_length s))
              @ '' bytes y supera VARCHAR('' @ show_int n @ '')'')
          else Inr (VStr s))"

text \<open>\<open>valor.replace(",", ".", 1)\<close>.\<close>

fun replace_first :: "char \<Rightarrow> char \<Rightarrow> string \<Rightarrow> string" where
  "replace_first a b [] = []"
| "replace_first a b (c # cs) = (if c = a then b # cs else c # replace_first a b cs)"

definition decimal_point :: "bool \<Rightarrow> string \<Rightarrow> string" where
  "decimal_point decimal_comma v =
     (if decimal_comma \<and> CHR '','' \<in> set v \<and> CHR ''.'' \<notin> set v
      then replace_first (CHR '','') (CHR ''.'') v else v)"

definition repr_type :: "sql_type_name \<Rightarrow> string" where
  "repr_type ty = ''<SqlTypeName.'' @ type_value ty @ '': '' @ repr_str (type_value ty) @ ''>''"

definition convert_field :: "string \<Rightarrow> bound_column \<Rightarrow> bool \<Rightarrow> exn + bound_value" where
  "convert_field s c decimal_comma =
     (if bc_type c = SQL_VARCHAR then csv_varchar s c
      else
        let v = strip s in
        if v = [] then bad_field c (''esta vacia y '' @ type_value (bc_type c) @ '' no admite vacios'')
        else case bc_type c of
          SQL_INT \<Rightarrow> csv_int v c
        | SQL_DOUBLE \<Rightarrow> csv_double (decimal_point decimal_comma v) c
        | SQL_BOOL \<Rightarrow> csv_bool v c
        | SQL_DATE \<Rightarrow> csv_date v c
        | ty \<Rightarrow> Inl (AssertionError (''tipo SQL desconocido: '' @ repr_type ty)))"

text \<open>The fs past the named columns must be blank.\<close>

fun check_unnamed :: "string list \<Rightarrow> nat list \<Rightarrow> exn + unit" where
  "check_unnamed fs [] = Inr ()"
| "check_unnamed fs (i # is) =
     (if strip (fs ! i) \<noteq> [] then
        Inl (ValueError (''el campo '' @ show_int (int i + 1) @ '' trae '' @ repr_str (fs ! i)
          @ '' y su columna de la cabecera no tiene nombre''))
      else check_unnamed fs is)"

definition convert_row ::
  "string list \<Rightarrow> nat list \<Rightarrow> bound_schema \<Rightarrow> nat \<Rightarrow> bool \<Rightarrow> exn + bound_value list" where
  "convert_row fs mapping schema width decimal_comma =
     (if length fs \<noteq> width then
        Inl (ValueError (''tiene '' @ show_int (int (length fs)) @ '' campos y la cabecera tiene ''
          @ show_int (int width)))
      else
        ebind (check_unnamed fs [length mapping ..< width]) (\<lambda>_.
        if length mapping \<noteq> length (bs_columns schema) then
          ebind (emap (\<lambda>(i, c). ebind (py_index fs (int i)) (\<lambda>f. convert_field f c decimal_comma))
                  (zip mapping (bs_columns schema)))
            (\<lambda>_. Inl (ValueError ''zip() arguments have different lengths''))
        else
          emap (\<lambda>(i, c). ebind (py_index fs (int i)) (\<lambda>f. convert_field f c decimal_comma))
            (zip mapping (bs_columns schema))))"

section \<open>The encoding of the file\<close>

type_synonym bytes = "nat list"

text \<open>
  The UTF-8 decoder on a list of bytes: the position of the first byte of the first invalid sequence,
  or the bytes of a sequence that is cut at the end, kept for the next call.
\<close>

definition utf8_tail :: "nat \<Rightarrow> bool" where
  "utf8_tail b \<longleftrightarrow> 128 \<le> b \<and> b \<le> 191"

definition utf8_second :: "nat \<Rightarrow> nat \<Rightarrow> bool" where
  "utf8_second a b \<longleftrightarrow>
     utf8_tail b \<and> (a = 224 \<longrightarrow> 160 \<le> b) \<and> (a = 237 \<longrightarrow> b \<le> 159)
     \<and> (a = 240 \<longrightarrow> 144 \<le> b) \<and> (a = 244 \<longrightarrow> b \<le> 143)"

text \<open>How many bytes the sequence of a first byte has; 0 when no sequence starts with it.\<close>

definition utf8_size :: "nat \<Rightarrow> nat" where
  "utf8_size a =
     (if a < 128 then 1 else if 194 \<le> a \<and> a \<le> 223 then 2
      else if 224 \<le> a \<and> a \<le> 239 then 3 else if 240 \<le> a \<and> a \<le> 244 then 4 else 0)"

definition utf8_prefix :: "bytes \<Rightarrow> bool" where
  "utf8_prefix bs =
     (case bs of [] \<Rightarrow> True | a # r \<Rightarrow>
        length bs \<le> utf8_size a
        \<and> (case r of [] \<Rightarrow> True | b # t \<Rightarrow> utf8_second a b \<and> list_all utf8_tail t))"

datatype utf8_scan = InvalidAt nat | Pending bytes

text \<open>\<open>i\<close> is the position of the first byte of the list.\<close>

function utf8_decode :: "nat \<Rightarrow> bytes \<Rightarrow> utf8_scan" where
  "utf8_decode i [] = Pending []"
| "utf8_decode i (a # r) =
     (let n = utf8_size a in
      if n = 0 \<or> \<not> utf8_prefix (take n (a # r)) then InvalidAt i
      else if length (a # r) < n then Pending (a # r)
      else utf8_decode (i + n) (drop n (a # r)))"
  by pat_completeness auto
termination
  by (relation "measure (length \<circ> snd)") auto

definition newlines :: "bytes \<Rightarrow> nat" where
  "newlines bs = count_list bs 10"

text \<open>\<open>check_utf8\<close> on the chunks that the file gives, from a line and the bytes pending.\<close>

fun check_chunks :: "bytes list \<Rightarrow> nat \<Rightarrow> bytes \<Rightarrow> exn + unit" where
  "check_chunks [] line pending =
     (if pending \<noteq> [] then
        csv_load_error ''el archivo termina a mitad de un caracter UTF-8'' (Some (int line))
      else Inr ())"
| "check_chunks (chunk # rest) line pending =
     (case utf8_decode 0 (pending @ chunk) of
        InvalidAt p \<Rightarrow>
          let here = line + newlines (take (p - length pending) chunk) in
          csv_load_error (''el archivo no es UTF-8 valido (linea '' @ show_int (int here)
            @ ''); guardalo como UTF-8 y vuelve a subirlo'') (Some (int here))
      | Pending kept \<Rightarrow> check_chunks rest (line + newlines chunk) kept)"

text \<open>The chunks of \<open>read(n)\<close> until it gives nothing.\<close>

function chunks_of :: "nat \<Rightarrow> bytes \<Rightarrow> bytes list" where
  "chunks_of n bs =
     (if bs = [] \<or> n = 0 then [] else take n bs # chunks_of n (drop n bs))"
  by pat_completeness auto
termination
  by (relation "measure (length \<circ> snd)") auto

declare chunks_of.simps [simp del]

definition check_utf8 :: "bytes \<Rightarrow> nat \<Rightarrow> exn + unit" where
  "check_utf8 file n = check_chunks (chunks_of n file) 1 []"

text \<open>A sequence of several bytes somewhere, the search of \<open>_UTF8_MULTIBYTE\<close>.\<close>

fun has_multibyte :: "bytes \<Rightarrow> bool" where
  "has_multibyte (a # b # r) \<longleftrightarrow> (194 \<le> a \<and> a \<le> 244 \<and> utf8_tail b) \<or> has_multibyte (b # r)"
| "has_multibyte _ \<longleftrightarrow> False"

fun multibyte_chunks :: "bytes list \<Rightarrow> bytes \<Rightarrow> bool" where
  "multibyte_chunks [] left_over = False"
| "multibyte_chunks (chunk # rest) left_over \<longleftrightarrow>
     has_multibyte (left_over @ chunk) \<or> multibyte_chunks rest [last chunk]"

definition cp1252_ok :: "nat \<Rightarrow> bool" where
  "cp1252_ok b \<longleftrightarrow> b \<notin> {129, 141, 143, 144, 157}"

definition detect_encoding :: "bytes \<Rightarrow> nat \<Rightarrow> exn + string" where
  "detect_encoding file n =
     (case check_utf8 file n of
        Inr _ \<Rightarrow> Inr ''utf-8''
      | Inl e \<Rightarrow>
          if multibyte_chunks (chunks_of n file) [] then Inl e
          else if \<not> list_all (list_all cp1252_ok) (chunks_of n file) then Inl e
          else Inr ''cp1252'')"

end
