(* ===== verification/Processor.thy ===== *)
theory Processor
  imports Session Sql_Parser Bulk_Load "HOL-Library.List_Lexorder"
begin

text \<open>
  The execution of a script (\<open>engine/executor/processor.py\<close>, \<open>result.py\<close>): every statement with its
  binding, its plan, its locks and its errors. The extraction of the features of a file and the training
  of centroids are parameters (\<open>services\<close>).
\<close>

section \<open>Results\<close>

record query_result =
  qr_columns :: "string list"
  qr_types :: "sql_type_name list"
  qr_rows :: "bound_value list list"
  qr_affected :: int
  qr_plan :: "plan option"
  qr_spatial :: "spatial_context option"
  qr_explain :: bool

definition empty_result :: query_result where
  "empty_result = \<lparr>qr_columns = [], qr_types = [], qr_rows = [], qr_affected = 0, qr_plan = None,
     qr_spatial = None, qr_explain = False\<rparr>"

fun check_widths :: "nat \<Rightarrow> nat \<Rightarrow> bound_value list list \<Rightarrow> exn + unit" where
  "check_widths n i [] = Inr ()"
| "check_widths n i (row # rows) =
     (if length row \<noteq> n then
        Inl (ValueError (''la fila '' @ show_int (int i) @ '' tiene '' @ show_int (int (length row))
          @ '' valores; se esperaban '' @ show_int (int n)))
      else check_widths n (Suc i) rows)"

definition make_result :: "query_result \<Rightarrow> exn + query_result" where
  "make_result r =
     (if qr_affected r < 0 then Inl (ValueError ''affected_rows no puede ser negativo'')
      else if qr_types r \<noteq> [] \<and> length (qr_types r) \<noteq> length (qr_columns r) then
        Inl (ValueError (''hay '' @ show_int (int (length (qr_types r))) @ '' tipos para ''
          @ show_int (int (length (qr_columns r))) @ '' columnas''))
      else ebind (check_widths (length (qr_columns r)) 0 (qr_rows r)) (\<lambda>_. Inr r))"

section \<open>Services\<close>

text \<open>
  \<open>VectorSearch.paths\<close> (the check of the files), \<open>VectorSearch.extract\<close> (the features of the query),
  \<open>VectorSearch.centroids\<close> and the limits of a search.
\<close>

record 's services =
  sv_paths :: "string \<Rightarrow> bound_similar \<Rightarrow> string \<Rightarrow> ('s, unit) io"
  sv_extract :: "string \<Rightarrow> bound_similar \<Rightarrow> string \<Rightarrow> ('s, pyfloat list) io"
  sv_centroids :: "string \<Rightarrow> nat \<Rightarrow> ('s, pyfloat list list) io"
  sv_nprobe :: int
  sv_ef_search :: int

text \<open>A table of the catalog, or the error that it does not exist.\<close>

definition known_table ::
  "('s, 'm) settings \<Rightarrow> ident \<Rightarrow> string \<Rightarrow> ('s, native_schema \<times> string \<times> native_index list) sio" where
  "known_table E table src =
     domain_as_semantic (table_missing (id_name table)) (id_span table) src
       (on_core (db_info (pe_core E) (id_name table)))"

section \<open>CREATE and DROP\<close>

definition no_transaction :: "string \<Rightarrow> ('s, unit) sio" where
  "no_transaction message s =
     (if ss_tx s \<noteq> None then (Inl (TransactionError message), s) else (Inr (), s))"

definition run_create_table ::
  "('s, 'm) settings \<Rightarrow> create_table_statement \<Rightarrow> string \<Rightarrow> ('s, query_result) sio" where
  "run_create_table E st src =
     io_then (no_transaction ''CREATE TABLE no se puede ejecutar dentro de una transaccion'')
     (io_bind (io_lift (bind_create_table st (Some src))) (\<lambda>b.
      io_then (domain_as_semantic (''no se pudo crear la tabla '' @ repr_str (id_name (ct_table st)))
          (id_span (ct_table st)) src
          (on_core (db_create_table (pe_core E) (to_native_schema (bt_schema b)) (bt_storage b))))
        (io_lift (make_result empty_result))))"

text \<open>The second text index on a column; the column is one of the schema.\<close>

definition reject_second_text_index ::
  "native_index list \<Rightarrow> bound_schema \<Rightarrow> create_index_statement \<Rightarrow> string \<Rightarrow> exn + unit" where
  "reject_second_text_index indexes schema st src =
     (let column = first_index (\<lambda>c. bc_name c = id_name (ci_column st)) (bs_columns schema)
      in case List.find (\<lambda>ix. ni_kind ix = structure_value ST_INVERTED_INDEX
                            \<and> ni_column ix = int column) indexes of
           None \<Rightarrow> Inr ()
         | Some ix \<Rightarrow> fail (''la columna '' @ repr_str (id_name (ci_column st))
             @ '' ya tiene el indice de texto '' @ repr_str (ni_name ix)
             @ ''; no se crea otro ni se reconstruye'') (id_span (ci_column st)) (Some src))"

definition build_index ::
  "('s, 'm) settings \<Rightarrow> 's services \<Rightarrow> bound_schema \<Rightarrow> bound_create_index \<Rightarrow> ('s, unit) io" where
  "build_index E V schema b =
     (let C = pe_core E; t = bi_table_name b; n = bi_index_name b; c = bi_column_name b in
      if bi_kind b = IDX_HNSW then
        db_create_hnsw C t n c (case bi_metric b of None \<Rightarrow> VM_COSINE | Some m \<Rightarrow> m)
      else if bi_kind b = IDX_INVERTED_INDEX \<and> bi_language b \<notin> {None, Some LANG_SPANISH} then
        db_create_text C t n c (language_options (the (bi_language b)))
      else if bi_kind b = IDX_IVF then
        io_then (co_table C t)
        (io_bind (sv_centroids V t (first_index (\<lambda>col. bc_name col = c) (bs_columns schema)))
          (db_create_ivf C t n c))
      else db_create_index C t n c (bi_kind b))"

fun is_index_error :: "exn \<Rightarrow> bool" where
  "is_index_error (ValueError m) \<longleftrightarrow> True"
| "is_index_error (CsvLoadError m line) \<longleftrightarrow> True"
| "is_index_error (MediaLoadError m) \<longleftrightarrow> True"
| "is_index_error (UnicodeDecodeError m) \<longleftrightarrow> True"
| "is_index_error (ImportError m) \<longleftrightarrow> True"
| "is_index_error e \<longleftrightarrow> is_domain_error e"

definition run_create_index ::
  "('s, 'm) settings \<Rightarrow> 's services \<Rightarrow> create_index_statement \<Rightarrow> string \<Rightarrow> ('s, query_result) sio" where
  "run_create_index E V st src =
     io_then (no_transaction ''CREATE INDEX no se puede ejecutar dentro de una transaccion'')
     (io_bind (known_table E (ci_table st) src) (\<lambda>(nschema, storage, indexes).
      io_bind (io_lift (from_native_schema nschema)) (\<lambda>schema.
      io_bind (io_lift (bind_create_index st schema (Some src))) (\<lambda>b.
      io_then (if bi_kind b = IDX_INVERTED_INDEX
               then io_lift (reject_second_text_index indexes schema st src) else io_return ())
      (io_then (lock_or_abort E (bi_table_name b) LM_EXCLUSIVE)
        (io_finally
          (io_then
            (io_catch (on_core (build_index E V schema b))
              (\<lambda>e. if is_index_error e
                   then raise_semantic e (''no se pudo crear el indice '' @ repr_str (bi_index_name b))
                          (id_span (ci_index st)) src
                   else io_raise e))
            (io_lift (make_result empty_result)))
          (release_autocommit (bi_table_name b))))))))"

definition run_drop_table ::
  "('s, 'm) settings \<Rightarrow> ident \<Rightarrow> span \<Rightarrow> string \<Rightarrow> ('s, query_result) sio" where
  "run_drop_table E table sp src =
     io_then (no_transaction ''DROP TABLE no se puede ejecutar dentro de una transaccion'')
     (io_bind (io_lift (bind_drop_table table sp (Some src))) (\<lambda>b.
      io_then (lock_or_abort E (bx_table_name b) LM_EXCLUSIVE)
      (io_finally
        (io_then
          (domain_as_semantic (''no se pudo eliminar la tabla '' @ repr_str (bx_table_name b))
            (id_span table) src (on_core (db_drop_table (pe_core E) (bx_table_name b))))
          (io_lift (make_result empty_result)))
        (release_autocommit (bx_table_name b)))))"

section \<open>INSERT and DELETE\<close>

text \<open>\<open>if self._transaction is not None: self._transaction.record_...\<close>.\<close>

definition record_in_transaction :: "(transaction \<Rightarrow> transaction) \<Rightarrow> ('s, unit) sio" where
  "record_in_transaction f s = (Inr (), s\<lparr>ss_tx := map_option f (ss_tx s)\<rparr>)"

definition affected :: "int \<Rightarrow> ('s, query_result) sio" where
  "affected n = io_lift (make_result (empty_result\<lparr>qr_affected := n\<rparr>))"

definition run_insert ::
  "('s, 'm) settings \<Rightarrow> insert_statement \<Rightarrow> string \<Rightarrow> ('s, query_result) sio" where
  "run_insert E st src =
     io_bind (known_table E (in_table st) src) (\<lambda>(nschema, storage, indexes).
     io_bind (io_lift (from_native_schema nschema)) (\<lambda>schema.
     io_bind (io_lift (bind_insert st schema (Some src))) (\<lambda>b.
     let values = to_native_values (bn_values b); refs = native_refs indexes; kc = bs_key_column schema
     in io_then (lock_or_abort E (bn_table_name b) LM_EXCLUSIVE)
        (io_finally
          (io_bind
            (guarded_change E
              (''no se pudo insertar en la tabla '' @ repr_str (id_name (in_table st)))
              (case py_index (in_values st) (int kc) of
                 Inl e \<Rightarrow> Inr e | Inr v \<Rightarrow> Inl (literal_span v)) src
              (on_core (insert_with_indexes (pe_core E) (bn_table_name b) values kc refs)))
            (\<lambda>rid. io_then (record_in_transaction (record_insert (bn_table_name b) values rid kc refs))
              (affected 1)))
          (release_autocommit (bn_table_name b))))))"

definition run_delete ::
  "('s, 'm) settings \<Rightarrow> delete_statement \<Rightarrow> string \<Rightarrow> ('s, query_result) sio" where
  "run_delete E st src =
     io_bind (known_table E (de_table st) src) (\<lambda>(nschema, storage, indexes).
     io_bind (io_lift (from_native_schema nschema)) (\<lambda>schema.
     io_bind (io_lift (bind_delete st schema (Some src))) (\<lambda>b.
     io_bind (io_lift (from_native_table_info (table_description (nschema, storage, indexes)) None)) (\<lambda>table.
     io_bind (io_lift (optimize_delete b table)) (\<lambda>p.
     let name = bs_table_name (bd_schema (dp_statement p));
         kc = bs_key_column (bd_schema (dp_statement p)); refs = index_refs (dp_table p)
     in io_then (lock_or_abort E (id_name (de_table st)) LM_EXCLUSIVE)
        (io_finally
          (io_bind
            (guarded_change E (''no se pudo borrar de la tabla '' @ repr_str (id_name (de_table st)))
              (Inl (condition_span (de_where st))) src
              (io_bind (on_core (collect_delete_candidates (pe_core E) (pe_libm E) p)) (\<lambda>cs.
               io_bind (on_core (delete_with_indexes (pe_core E) name cs kc refs)) (\<lambda>n.
               io_return (cs, n)))))
            (\<lambda>(cs, n).
              io_then (if cs = [] then io_return ()
                       else record_in_transaction (record_delete name cs kc refs))
                (affected (int n))))
          (release_autocommit (id_name (de_table st)))))))))"

section \<open>SELECT\<close>

fun table_refs :: "from_source \<Rightarrow> (ident \<times> span) list" where
  "table_refs (TableRef t sp) = [(t, sp)]"
| "table_refs (JoinRef l r a b sp) = table_refs l @ table_refs r"

text \<open>The schemas and the metadata of the tables of a FROM, in dictionaries by name.\<close>

fun describe_tables ::
  "('s, 'm) settings \<Rightarrow> string \<Rightarrow> (ident \<times> span) list \<Rightarrow> catalog \<Rightarrow> metadata_map
   \<Rightarrow> ('s, catalog \<times> metadata_map) sio" where
  "describe_tables E src [] schemas metadata = io_return (schemas, metadata)"
| "describe_tables E src ((t, sp) # refs) schemas metadata =
     io_bind
       (domain_as_semantic (table_missing (id_name t)) (id_span t) src
         (io_bind (on_core (db_info (pe_core E) (id_name t))) (\<lambda>info.
          io_then (on_core (co_table (pe_core E) (id_name t)))
          (io_bind (on_core (q_table_size (pe_core E) (id_name t))) (\<lambda>rows. io_return (info, rows))))))
       (\<lambda>(info, rows).
        io_bind (io_lift (from_native_schema (fst info))) (\<lambda>schema.
        io_bind (io_lift (from_native_table_info (table_description info) (Some rows))) (\<lambda>table.
        describe_tables E src refs (AList.update (id_name t) schema schemas)
          (AList.update (id_name t) table metadata))))"

definition require_text_index :: "bound_select \<Rightarrow> metadata_map \<Rightarrow> string \<Rightarrow> exn + unit" where
  "require_text_index b metadata src =
     (case bl_where b of
        Some (BoundMatch c q rank explicit sp) \<Rightarrow>
          (case bl_source b of
             BoundTableRef schema _ \<Rightarrow>
               (case map_of metadata (bs_table_name schema) of
                  None \<Rightarrow> Inl (KeyError (bs_table_name schema))
                | Some table \<Rightarrow>
                    if list_ex (\<lambda>ix. im_structure ix = ST_INVERTED_INDEX \<and> im_column ix = int (br_index c))
                         (tm_indexes table) then Inr ()
                    else fail (''la columna '' @ repr_str (bc_name (br_column c))
                      @ '' no tiene un indice de texto; crealo con CREATE INDEX ... ON ''
                      @ bs_table_name schema @ '' ('' @ bc_name (br_column c) @ '') USING FULLTEXT'')
                      (br_span c) (Some src))
           | _ \<Rightarrow> Inl (TypeError ''MATCH sobre un JOIN no deberia llegar al planner''))
      | _ \<Rightarrow> Inr ())"

definition with_where :: "bound_condition \<Rightarrow> bound_select \<Rightarrow> bound_select" where
  "with_where w b = b\<lparr>bl_where := Some w\<rparr>"

text \<open>The first HNSW index of the column, by name, that was built with the metric asked for.\<close>

fun compatible_hnsw ::
  "('s, 'm) settings \<Rightarrow> string \<Rightarrow> vector_metric \<Rightarrow> index_metadata list
   \<Rightarrow> ('s, index_metadata option) sio" where
  "compatible_hnsw E t m [] = io_return None"
| "compatible_hnsw E t m (ix # ixs) =
     io_then (on_core (co_index (pe_core E) t (im_name ix)))
     (io_bind (on_core (db_hnsw_metric (pe_core E) t (im_name ix))) (\<lambda>found.
      if found = m then io_return (Some ix) else compatible_hnsw E t m ixs))"

definition choose_hnsw ::
  "('s, 'm) settings \<Rightarrow> bound_select \<Rightarrow> select_plan \<Rightarrow> string \<Rightarrow> ('s, select_plan) sio" where
  "choose_hnsw E b p src =
     (case (bl_where b, sp_source p) of
        (Some (BoundSimilar w), PAccess a) \<Rightarrow>
          (case pa_index a of
             Some ix \<Rightarrow>
               if im_structure ix \<noteq> ST_HNSW then io_return p
               else
                 io_bind (compatible_hnsw E (bs_table_name (bl_schema b)) (bm_metric w)
                   (sort_key im_name
                     (filter (\<lambda>ix. im_structure ix = ST_HNSW
                                 \<and> im_column ix = int (br_index (bm_column w)))
                       (tm_indexes (pa_table a))))) (\<lambda>r.
                 case r of
                   None \<Rightarrow> io_lift (fail (''la metrica solicitada no coincide con la del indice HNSW; ''
                             @ ''crea un HNSW con esa metrica o usa IVF'') (bm_metric_span w) (Some src))
                 | Some ix \<Rightarrow>
                     io_bind (io_lift (make_access (a\<lparr>pa_index := Some ix\<rparr>))) (\<lambda>a.
                     io_lift (make_select_plan (p\<lparr>sp_source := PAccess a\<rparr>))))
           | None \<Rightarrow> io_return p)
      | (Some (BoundSimilar w), _) \<Rightarrow>
          io_raise (TypeError ''este plan es un join: recorre source en vez de pedir una hoja'')
      | _ \<Rightarrow> io_return p)"

definition prepare_select ::
  "('s, 'm) settings \<Rightarrow> 's services \<Rightarrow> select_statement \<Rightarrow> string
   \<Rightarrow> ('s, bound_select \<times> select_plan \<times> (ident \<times> span) list \<times> catalog) sio" where
  "prepare_select E V st src =
     (let refs = table_refs (se_source st) in
      io_bind (describe_tables E src refs [] []) (\<lambda>(schemas, metadata).
      io_bind (io_lift (bind_select st (Schemas schemas) (Some src))) (\<lambda>b.
      io_bind
        (case bl_where b of
           Some (BoundSimilar w) \<Rightarrow>
             io_then (on_core (sv_paths V (bs_table_name (bl_schema b)) w src))
               (io_return (with_where (BoundSimilar (w\<lparr>bm_nprobe := sv_nprobe V,
                                        bm_ef_search := sv_ef_search V\<rparr>)) b))
         | _ \<Rightarrow> io_return b) (\<lambda>b.
      io_then (io_lift (require_text_index b metadata src))
      (io_bind (io_lift (optimize_select b (Tables metadata))) (\<lambda>p.
       io_bind (choose_hnsw E b p src) (\<lambda>p. io_return (b, p, refs, schemas))))))))"

text \<open>The vector of the query file, once the plan is made.\<close>

definition extract_query ::
  "('s, 'm) settings \<Rightarrow> 's services \<Rightarrow> bound_select \<Rightarrow> select_plan \<Rightarrow> string
   \<Rightarrow> ('s, bound_select \<times> select_plan) sio" where
  "extract_query E V b p src =
     (case bl_where b of
        Some (BoundSimilar w) \<Rightarrow>
          io_bind (on_core (sv_extract V (bs_table_name (bl_schema b)) w src)) (\<lambda>v.
          let b = with_where (BoundSimilar (w\<lparr>bm_vector := Some v, bm_nprobe := sv_nprobe V,
                                bm_ef_search := sv_ef_search V\<rparr>)) b
          in io_bind (io_lift (make_select_plan (p\<lparr>sp_statement := b\<rparr>))) (\<lambda>p. io_return (b, p)))
      | _ \<Rightarrow> io_return (b, p))"

text \<open>The shared locks in order; the names of those taken are kept for the release.\<close>

fun take_shared ::
  "('s, 'm) settings \<Rightarrow> string list \<Rightarrow> string list \<Rightarrow> 's session
   \<Rightarrow> (exn + unit) \<times> string list \<times> 's session" where
  "take_shared E [] taken s = (Inr (), taken, s)"
| "take_shared E (t # ts) taken s =
     (case lock_or_abort E t LM_SHARED s of
        (Inl e, s') \<Rightarrow> (Inl e, taken, s')
      | (Inr _, s') \<Rightarrow> take_shared E ts (taken @ [t]) s')"

definition with_shared_locks ::
  "('s, 'm) settings \<Rightarrow> string list \<Rightarrow> ('s, 'a) sio \<Rightarrow> ('s, 'a) sio" where
  "with_shared_locks E tables body s =
     (case take_shared E tables [] s of
        (r, taken, s') \<Rightarrow>
          io_finally (io_then (io_lift r) body) (io_for release_autocommit (rev taken)) s')"

definition read_clock :: "('s, 'm) settings \<Rightarrow> ('s, int) sio" where
  "read_clock E = on_core (q_clock (pe_core E))"

definition run_plan ::
  "('s, 'm) settings \<Rightarrow> select_plan \<Rightarrow> string \<Rightarrow> ('s, select_execution) io" where
  "run_plan E p src =
     (if sp_group_strategy p \<noteq> None \<or> sp_external_sort p then
        execute_external_select (pe_core E) (pe_external E) (pe_libm E) (pe_options E) (pe_row_fuel E) p src
      else execute_select (pe_core E) (pe_libm E) p src)"

definition run_select ::
  "('s, 'm) settings \<Rightarrow> 's services \<Rightarrow> select_statement \<Rightarrow> string \<Rightarrow> int \<Rightarrow> string
   \<Rightarrow> ('s, query_result) sio" where
  "run_select E V st src started query =
     io_bind (prepare_select E V st src) (\<lambda>(b, p, refs, schemas).
     io_bind (extract_query E V b p src) (\<lambda>(b, p).
     with_shared_locks E (sort (map fst schemas))
       (io_bind (domain_as_semantic (''no se pudo consultar la tabla '' @ repr_str (id_name (fst (hd refs))))
          (id_span (fst (hd refs))) src (on_core (run_plan E p src))) (\<lambda>x.
        io_bind (read_clock E) (\<lambda>stop.
        io_lift (make_result
          \<lparr>qr_columns = se_columns x, qr_types = se_types x, qr_rows = se_rows x, qr_affected = 0,
           qr_plan = Some (Plan (JStr query) (se_root x) (elapsed_ms started stop)),
           qr_spatial = spatial_context_of b, qr_explain = False\<rparr>))))))"

definition run_explain ::
  "('s, 'm) settings \<Rightarrow> 's services \<Rightarrow> select_statement \<Rightarrow> bool \<Rightarrow> string \<Rightarrow> int \<Rightarrow> ('s, query_result) sio" where
  "run_explain E V st analyze src started =
     (let query = span_text (se_span st) src in
      if analyze then
        io_bind (run_select E V st src started query) (\<lambda>r.
        io_lift (make_result (empty_result\<lparr>qr_plan := qr_plan r, qr_explain := True\<rparr>)))
      else
        io_bind (prepare_select E V st src) (\<lambda>(b, p, refs, schemas).
        io_bind (read_clock E) (\<lambda>stop.
        io_bind (io_lift (explain_select p query src (elapsed_ms started stop))) (\<lambda>plan.
        io_lift (make_result (empty_result\<lparr>qr_plan := Some plan, qr_explain := True\<rparr>))))))"

section \<open>Scripts\<close>

definition execute_statement ::
  "('s, 'm) settings \<Rightarrow> 's services \<Rightarrow> statement \<Rightarrow> string \<Rightarrow> int \<Rightarrow> string \<Rightarrow> ('s, query_result) sio" where
  "execute_statement E V st src started query =
     (case st of
        CreateTableStatement c \<Rightarrow> run_create_table E c src
      | CreateIndexStatement c \<Rightarrow> run_create_index E V c src
      | InsertStatement i \<Rightarrow> run_insert E i src
      | SelectStatement q \<Rightarrow> run_select E V q src started query
      | ExplainStatement q analyze sp \<Rightarrow> run_explain E V q analyze src started
      | DeleteStatement d \<Rightarrow> run_delete E d src
      | DropTableStatement t sp \<Rightarrow> run_drop_table E t sp src
      | BeginTransactionStatement sp \<Rightarrow> io_then begin_transaction (io_lift (make_result empty_result))
      | EndTransactionStatement sp \<Rightarrow> io_then end_transaction (io_lift (make_result empty_result)))"

text \<open>The statements in order; each after the first reads the clock for its own start.\<close>

fun run_statements ::
  "('s, 'm) settings \<Rightarrow> 's services \<Rightarrow> string \<Rightarrow> bool \<Rightarrow> int option \<Rightarrow> statement list
   \<Rightarrow> ('s, query_result list) sio" where
  "run_statements E V src single started [] = io_return []"
| "run_statements E V src single started (st # sts) =
     io_bind (case started of Some t \<Rightarrow> io_return t | None \<Rightarrow> read_clock E) (\<lambda>start.
     io_bind (execute_statement E V st src start
                (if single then src else span_text (statement_span st) src)) (\<lambda>r.
     io_bind (run_statements E V src single None sts) (\<lambda>rs. io_return (r # rs))))"

definition script_result :: "query_result list \<Rightarrow> exn + query_result" where
  "script_result rs =
     (case rs of
        [r] \<Rightarrow> Inr r
      | [] \<Rightarrow> Inl IndexError
      | _ \<Rightarrow> make_result ((last rs)\<lparr>qr_affected := sum_list (map qr_affected rs)\<rparr>))"

definition execute :: "('s, 'm) settings \<Rightarrow> 's services \<Rightarrow> string \<Rightarrow> ('s, query_result) sio" where
  "execute E V src =
     io_bind (read_clock E) (\<lambda>started.
     io_bind (io_lift (parse_sql_script src)) (\<lambda>statements.
     io_bind (run_statements E V src (length statements = 1) (Some started) statements) (\<lambda>rs.
     io_lift (script_result rs))))"

end
