(* ===== verification/Core_Contract.thy ===== *)
theory Core_Contract
  imports Dml "HOL-Library.Multiset"
begin

text \<open>
  What the documentation of the core promises of the operations that change a table and its indexes
  (\<open>core/include/quipudb/catalog/table.hpp\<close>), over an abstract database: the rows of each table by
  RID and the multiset of the entries of each index. An operation either does what it promises or
  raises and changes nothing; RIDs are stable, as in a heap file, the only organization on which the
  core allows secondary indexes.
\<close>

section \<open>The abstract database\<close>

record db =
  db_rows :: "string \<Rightarrow> rid \<rightharpoonup> native_record"
  db_entries :: "string \<Rightarrow> string \<Rightarrow> (native_value \<times> rid) multiset"

definition set_row :: "string \<Rightarrow> rid \<Rightarrow> native_record option \<Rightarrow> db \<Rightarrow> db" where
  "set_row t rid r d = d\<lparr>db_rows := (db_rows d)(t := (db_rows d t)(rid := r))\<rparr>"

definition set_entries :: "string \<Rightarrow> string \<Rightarrow> (native_value \<times> rid) multiset \<Rightarrow> db \<Rightarrow> db" where
  "set_entries t n M d = d\<lparr>db_entries := (db_entries d)(t := (db_entries d t)(n := M))\<rparr>"

definition add_entry :: "string \<Rightarrow> string \<Rightarrow> native_value \<Rightarrow> rid \<Rightarrow> db \<Rightarrow> db" where
  "add_entry t n k rid d = set_entries t n (add_mset (k, rid) (db_entries d t n)) d"

definition del_entry :: "string \<Rightarrow> string \<Rightarrow> native_value \<Rightarrow> rid \<Rightarrow> db \<Rightarrow> db" where
  "del_entry t n k rid d = set_entries t n (db_entries d t n - {#(k, rid)#}) d"

lemma set_row_simps [simp]:
  "db_rows (set_row t rid r d) u = (if u = t then (db_rows d t)(rid := r) else db_rows d u)"
  "db_entries (set_row t rid r d) = db_entries d"
  by (simp_all add: set_row_def)

lemma entry_simps [simp]:
  "db_rows (add_entry t n k rid d) = db_rows d" "db_rows (del_entry t n k rid d) = db_rows d"
  "db_entries (add_entry t n k rid d) u m =
     (if u = t \<and> m = n then add_mset (k, rid) (db_entries d t n) else db_entries d u m)"
  "db_entries (del_entry t n k rid d) u m =
     (if u = t \<and> m = n then db_entries d t n - {#(k, rid)#} else db_entries d u m)"
  by (simp_all add: add_entry_def del_entry_def set_entries_def)

lemma db_eqI: "db_rows d = db_rows e \<Longrightarrow> db_entries d = db_entries e \<Longrightarrow> d = (e :: db)"
  by simp

lemma del_add_entry [simp]: "del_entry t n k rid (add_entry t n k rid d) = d"
  by (rule db_eqI) (auto simp: fun_eq_iff)

lemma del_entry_absent: "(k, rid) \<notin># db_entries d t n \<Longrightarrow> del_entry t n k rid d = d"
  by (rule db_eqI) (auto simp: fun_eq_iff diff_single_trivial)

lemma set_row_None_Some: "db_rows d t rid = None \<Longrightarrow> set_row t rid None (set_row t rid r d) = d"
  by (rule db_eqI) (auto simp: fun_eq_iff)

text \<open>The entries an index over a column must have.\<close>

definition index_of :: "(rid \<rightharpoonup> native_record) \<Rightarrow> nat \<Rightarrow> (native_value \<times> rid) multiset" where
  "index_of rows c = image_mset (\<lambda>rid. (the (rows rid) ! c, rid)) (mset_set (dom rows))"

lemma index_of_insert:
  assumes "finite (dom rows)" "rows rid = None"
  shows "index_of (rows(rid \<mapsto> r)) c = add_mset (r ! c, rid) (index_of rows c)"
proof -
  have "image_mset (\<lambda>i. (the ((rows(rid \<mapsto> r)) i) ! c, i)) (mset_set (dom rows))
      = image_mset (\<lambda>i. (the (rows i) ! c, i)) (mset_set (dom rows))"
    using assms by (intro image_mset_cong) auto
  then show ?thesis
    using assms by (simp add: index_of_def domIff)
qed

lemma index_of_remove:
  assumes "finite (dom rows)" "rows rid = Some r"
  shows "index_of (rows(rid := None)) c = index_of rows c - {#(r ! c, rid)#}"
proof -
  have "index_of ((rows(rid := None))(rid \<mapsto> r)) c
      = add_mset (r ! c, rid) (index_of (rows(rid := None)) c)"
    using assms(1) by (intro index_of_insert) auto
  moreover have "(rows(rid := None))(rid \<mapsto> r) = rows"
    using assms(2) by auto
  ultimately show ?thesis by simp
qed

lemma in_index_of: "finite (dom rows) \<Longrightarrow> (k, rid) \<in># index_of rows c \<longleftrightarrow> (\<exists>r. rows rid = Some r \<and> k = r ! c)"
  by (force simp: index_of_def image_iff domIff)

text \<open>
  A table is well kept when its rows have the columns that the indexes and the key need, its keys
  are distinct values of one type and every index has exactly the entries of its rows.
\<close>

fun native_kind :: "native_value \<Rightarrow> native_type" where
  "native_kind (NInt _) = ND_INT"
| "native_kind (NFloat _) = ND_DOUBLE"
| "native_kind (NStr _) = ND_VARCHAR"
| "native_kind (NBool _) = ND_BOOL"
| "native_kind (NDate _) = ND_DATE"
| "native_kind (NPoint _ _) = ND_POINT"
| "native_kind (NVector _) = ND_VECTOR"

lemma float_eq_iff: "float_eq x y \<longleftrightarrow> x = y \<and> x \<noteq> NaN"
  by (cases x; cases y) auto

lemma native_eq_kind: "native_eq x y \<Longrightarrow> native_kind x = native_kind y \<Longrightarrow> x = y"
proof (cases x; cases y)
  fix xs ys
  assume "native_eq x y" "x = NVector xs" "y = NVector ys"
  then have "list_all2 float_eq xs ys" by simp
  then have "list_all2 (=) xs ys" by (rule list_all2_mono) (simp add: float_eq_iff)
  then show "x = y" using \<open>x = NVector xs\<close> \<open>y = NVector ys\<close> by (simp add: list.rel_eq)
qed (auto simp: float_eq_iff split: if_splits)

definition row_fits :: "nat \<Rightarrow> native_type \<Rightarrow> index_ref list \<Rightarrow> native_record \<Rightarrow> bool" where
  "row_fits kc ty indexes r \<longleftrightarrow>
     kc < length r \<and> native_kind (r ! kc) = ty \<and> list_all (\<lambda>(n, c). 0 \<le> c \<and> c < int (length r)) indexes"

definition keys_unique :: "nat \<Rightarrow> (rid \<rightharpoonup> native_record) \<Rightarrow> bool" where
  "keys_unique kc rows \<longleftrightarrow>
     (\<forall>i j r q. rows i = Some r \<and> rows j = Some q \<and> r ! kc = q ! kc \<longrightarrow> i = j)"

definition well_kept :: "string \<Rightarrow> nat \<Rightarrow> native_type \<Rightarrow> index_ref list \<Rightarrow> db \<Rightarrow> bool" where
  "well_kept t kc ty indexes d \<longleftrightarrow>
     finite (dom (db_rows d t)) \<and> keys_unique kc (db_rows d t)
     \<and> (\<forall>r \<in> ran (db_rows d t). row_fits kc ty indexes r)
     \<and> (\<forall>(n, c) \<in> set indexes. db_entries d t n = index_of (db_rows d t) (nat c))"

definition table_shape :: "index_ref list \<Rightarrow> bool" where
  "table_shape indexes \<longleftrightarrow> distinct (map fst indexes)"

section \<open>The contract\<close>

locale dml_core =
  fixes C :: "('s, 'm) core_scheme"
    and view :: "'s \<Rightarrow> db"
    and key :: "string \<Rightarrow> nat"
  assumes open_view: "co_table C t s = (x, s') \<Longrightarrow> view s' = view s"
      "co_index C t n s = (x, s') \<Longrightarrow> view s' = view s"
    and read_view: "co_read C t rid s = (r, s') \<Longrightarrow> view s' = view s"
      "co_read C t rid s = (Inr stored, s') \<Longrightarrow> stored = db_rows (view s) t rid"
    and insert_view: "co_insert C t row s = (Inl e, s') \<Longrightarrow> view s' = view s"
      "co_insert C t row s = (Inr rid, s') \<Longrightarrow>
         view s' = set_row t rid (Some row) (view s) \<and> db_rows (view s) t rid = None
         \<and> (\<forall>r \<in> ran (db_rows (view s) t). r ! key t \<noteq> row ! key t)"
    and remove_view: "co_remove C t k s = (Inl e, s') \<Longrightarrow> view s' = view s"
      "co_remove C t k s = (Inr removed, s') \<Longrightarrow>
         (removed = 0 \<and> view s' = view s \<and> (\<forall>r \<in> ran (db_rows (view s) t). r ! key t \<noteq> k))
         \<or> (removed = 1 \<and> (\<exists>rid r. db_rows (view s) t rid = Some r \<and> r ! key t = k
                 \<and> view s' = set_row t rid None (view s)))"
    and entry_insert_view: "ci_insert C t n k rid s = (Inl e, s') \<Longrightarrow> view s' = view s"
      "ci_insert C t n k rid s = (Inr u, s') \<Longrightarrow> view s' = add_entry t n k rid (view s)"
    and entry_remove_view: "ci_remove_one C t n k rid s = (Inl e, s') \<Longrightarrow> view s' = view s"
      "ci_remove_one C t n k rid s = (Inr found, s') \<Longrightarrow>
         found = ((k, rid) \<in># db_entries (view s) t n) \<and> view s' = del_entry t n k rid (view s)"

text \<open>
  Operations that do not fail: removals, and insertions of what the contract allows. The reversions
  of the program are best effort; they do their work when the operations they call do not fail.
\<close>

definition handles_open :: "('s, 'm) core_scheme \<Rightarrow> string \<Rightarrow> index_ref list \<Rightarrow> bool" where
  "handles_open C t indexes \<longleftrightarrow>
     (\<forall>s. \<exists>s'. co_table C t s = (Inr (), s'))
     \<and> (\<forall>n \<in> fst ` set indexes. \<forall>s. \<exists>s'. co_index C t n s = (Inr (), s'))"

definition removals_reliable :: "('s, 'm) core_scheme \<Rightarrow> bool" where
  "removals_reliable C \<longleftrightarrow>
     (\<forall>t k s. \<exists>n s'. co_remove C t k s = (Inr n, s'))
     \<and> (\<forall>t n k rid s. \<exists>b s'. ci_remove_one C t n k rid s = (Inr b, s'))"

definition insertions_reliable ::
  "('s, 'm) core_scheme \<Rightarrow> ('s \<Rightarrow> db) \<Rightarrow> string \<Rightarrow> nat \<Rightarrow> (native_record \<Rightarrow> bool) \<Rightarrow> bool" where
  "insertions_reliable C view t kc fits \<longleftrightarrow>
     (\<forall>row s. fits row \<and> (\<forall>r \<in> ran (db_rows (view s) t). r ! kc \<noteq> row ! kc)
        \<longrightarrow> (\<exists>rid s'. co_insert C t row s = (Inr rid, s')))
     \<and> (\<forall>n k rid s. \<exists>s'. ci_insert C t n k rid s = (Inr (), s'))"

end
