(* ===== verification/Transaction_Spec.thy ===== *)
theory Transaction_Spec
  imports Transaction Dml_Spec
begin

text \<open>
  What the locks and the undo log guarantee: exclusive owners are alone and keep their lock until
  they release it, every wait ends, and a rollback gives back the rows of the moment of \<open>BEGIN\<close> with
  the indexes in step, as long as the transaction did not delete a row it had inserted itself.
\<close>

section \<open>Locks\<close>

definition lock_sound :: "table_lock \<Rightarrow> bool" where
  "lock_sound l \<longleftrightarrow> finite (tl_owners l) \<and> (tl_mode l = None \<longleftrightarrow> tl_owners l = {})
     \<and> (tl_mode l = Some LM_EXCLUSIVE \<longrightarrow> (\<exists>ow. tl_owners l = {ow}))"

definition holds :: "lock_owner \<Rightarrow> lock_mode \<Rightarrow> table_lock \<Rightarrow> bool" where
  "holds ow m l \<longleftrightarrow> ow \<in> tl_owners l \<and> (m = LM_EXCLUSIVE \<longrightarrow> tl_mode l = Some LM_EXCLUSIVE)"

lemma new_lock_sound [simp]: "lock_sound new_lock"
  by (simp add: new_lock_def lock_sound_def)

lemma try_acquire_sound: "lock_sound l \<Longrightarrow> try_acquire ow m l = (ok, l') \<Longrightarrow> lock_sound l'"
  by (cases m) (auto simp: try_acquire_def lock_sound_def card_1_singleton_iff
      split: if_splits option.splits)

lemma try_acquire_holds: "try_acquire ow m l = (True, l') \<Longrightarrow> holds ow m l'"
  by (cases m) (auto simp: try_acquire_def holds_def split: if_splits option.splits)

lemma try_acquire_fails: "try_acquire ow m l = (False, l') \<Longrightarrow> l' = l"
  by (auto simp: try_acquire_def split: if_splits option.splits)

lemma try_acquire_keeps:
  assumes "lock_sound l" "try_acquire ow m l = (ok, l')" "holds other h l"
  shows "holds other h l'"
  using assms by (auto simp: try_acquire_def holds_def lock_sound_def split: if_splits option.splits)

lemma release_lock_sound: "lock_sound l \<Longrightarrow> lock_sound (release_lock ow l)"
  by (auto simp: release_lock_def lock_sound_def Let_def)

lemma release_lock_keeps: "other \<noteq> ow \<Longrightarrow> holds other h l \<Longrightarrow> holds other h (release_lock ow l)"
  by (auto simp: release_lock_def holds_def Let_def)

lemma holds_alone:
  "lock_sound l \<Longrightarrow> holds ow LM_EXCLUSIVE l \<Longrightarrow> holds other h l \<Longrightarrow> other = ow"
  by (auto simp: holds_def lock_sound_def)

lemma lock_for_try:
  "lm_try t ow m lm = (ok, lm') \<Longrightarrow>
     try_acquire ow m (lock_for lm t) = (ok, lock_for lm' t) \<and> (\<forall>u. u \<noteq> t \<longrightarrow> lock_for lm' u = lock_for lm u)"
  by (auto simp: lm_try_def lock_for_def split: prod.splits)

lemma fst_lm_try [simp]: "fst (lm_try t ow m lm) = fst (try_acquire ow m (lock_for lm t))"
  by (simp add: lm_try_def split: prod.splits)

lemma release_new_lock [simp]: "release_lock ow new_lock = new_lock"
  by (simp add: release_lock_def new_lock_def)

lemma lock_for_release:
  "lock_for (lm_release t ow lm) u = (if u = t then release_lock ow (lock_for lm t) else lock_for lm u)"
  by (auto simp: lm_release_def lock_for_def split: option.splits)

lemma lock_for_release_all:
  "lock_for (lm_release_all ow ts lm) u
     = (if u \<in> set ts then release_lock ow (lock_for lm u) else lock_for lm u)"
proof -
  have twice: "release_lock ow (release_lock ow l) = release_lock ow l" for l
    by (simp add: release_lock_def Let_def)
  show ?thesis
    unfolding lm_release_all_def
    by (induction ts arbitrary: lm) (auto simp: lock_for_release twice)
qed

lemma reachable_sound: "lock_reachable s \<Longrightarrow> lock_sound (lock_for (sy_locks s) t)"
proof (induction rule: lock_reachable.induct)
  case start
  then show ?case by (simp add: lock_start_def lock_for_def)
next
  case (step s e s')
  have attempt: "lock_sound (lock_for lm t)" if "request_try q (sy_locks s) = (ok, lm)" for q ok lm
    using lock_for_try [OF that [unfolded request_try_def]] step.IH
    by (cases "t = rq_table q") (auto intro: try_acquire_sound)
  from step.hyps(2) step.IH show ?case
    by cases (auto simp: lock_for_release intro: attempt release_lock_sound)
qed

text \<open>
  Claim C12. In every state the threads can reach, a lock has a mode exactly when it has owners, and the
  owner of an exclusive lock is alone: no other thread reads or writes the table meanwhile.
\<close>

theorem mutual_exclusion:
  assumes "lock_reachable s" "holds ow LM_EXCLUSIVE (lock_for (sy_locks s) t)"
  shows "tl_owners (lock_for (sy_locks s) t) = {ow}
    \<and> (holds other m (lock_for (sy_locks s) t) \<longrightarrow> other = ow)"
  using reachable_sound [OF assms(1), of t] assms(2)
  by (auto simp: lock_sound_def holds_def)

definition demo_request :: "lock_owner \<Rightarrow> lock_mode \<Rightarrow> lock_request" where
  "demo_request ow m = \<lparr>rq_table = ''t'', rq_owner = ow, rq_mode = m, rq_deadline = Fin 5\<rparr>"

definition demo_locked :: lock_system where
  "demo_locked =
     \<lparr>sy_locks = [''t'' \<mapsto> \<lparr>tl_mode = Some LM_EXCLUSIVE, tl_owners = {1}\<rparr>], sy_waiting = {}\<rparr>"

lemma demo_locked_reachable: "lock_reachable demo_locked"
proof -
  have "lock_step lock_start (Granted (demo_request 1 LM_EXCLUSIVE))
      \<lparr>sy_locks = [''t'' \<mapsto> \<lparr>tl_mode = Some LM_EXCLUSIVE, tl_owners = {1}\<rparr>],
       sy_waiting = sy_waiting lock_start - {demo_request 1 LM_EXCLUSIVE}\<rparr>"
    by (rule lock_step.grant)
      (simp add: request_try_def demo_request_def lm_try_def lock_for_def lock_start_def
        try_acquire_def new_lock_def)
  then show ?thesis
    using lock_reachable.step [OF lock_reachable.start] by (auto simp: demo_locked_def lock_start_def)
qed

lemma mutual_exclusion_witness:
  "tl_owners (lock_for (sy_locks demo_locked) ''t'') = {1}
    \<and> \<not> holds 2 LM_SHARED (lock_for (sy_locks demo_locked) ''t'')"
  using mutual_exclusion [OF demo_locked_reachable, of 1 "''t''" 2 LM_SHARED]
  by (simp add: demo_locked_def lock_for_def holds_def)

text \<open>
  Claim C20. A lock is kept until its owner releases it: whatever the other threads ask, time out on or
  release, an owner goes on holding what it holds. With \<open>mutual_exclusion\<close> this is the isolation of
  strict two-phase locking.
\<close>

theorem lock_kept_until_release:
  assumes "lock_reachable s" "lock_step s e s'" "holds ow m (lock_for (sy_locks s) t)"
    and "e \<noteq> Releases t ow"
  shows "holds ow m (lock_for (sy_locks s') t)"
proof -
  have attempt: "holds ow m (lock_for lm t)" if "request_try q (sy_locks s) = (ok, lm)" for q ok lm
    using lock_for_try [OF that [unfolded request_try_def]] assms(3)
      try_acquire_keeps [OF reachable_sound [OF assms(1), of t]]
    by (cases "t = rq_table q") auto
  from assms(2) show ?thesis
  proof cases
    case (release u other)
    then show ?thesis
      using assms(3,4) release_lock_keeps [of ow other] by (cases "u = t") (auto simp: lock_for_release)
  qed (use attempt in auto)
qed

lemma lock_kept_until_release_witness:
  "holds 1 LM_EXCLUSIVE (lock_for (lm_release ''t'' 2 (sy_locks demo_locked)) ''t'')"
  using lock_kept_until_release [OF demo_locked_reachable
      lock_step.release [of demo_locked "''t''" 2], of 1 LM_EXCLUSIVE "''t''"]
  by (simp add: demo_locked_def lock_for_def holds_def)

text \<open>
  Claim C36. Two transactions that share a table and both ask for it exclusively block each other: neither
  is granted while the other holds its share. Once one of them gives up at its deadline and releases
  its locks, the next attempt of the other succeeds, so a timeout resolves the deadlock.
\<close>

theorem upgrade_deadlock_resolved:
  assumes "lock_sound (lock_for lm t)" "tl_owners (lock_for lm t) = {a, b}" "a \<noteq> b" "t \<in> set ts"
  shows "fst (lm_try t a LM_EXCLUSIVE lm) = False \<and> fst (lm_try t b LM_EXCLUSIVE lm) = False
    \<and> (\<exists>lm'. lm_try t b LM_EXCLUSIVE (lm_release_all a ts lm) = (True, lm')
          \<and> holds b LM_EXCLUSIVE (lock_for lm' t))"
proof -
  let ?l = "lock_for lm t"
  have mode: "tl_mode ?l \<noteq> Some LM_EXCLUSIVE" using assms(1-3) by (auto simp: lock_sound_def)
  then have "\<not> fst (try_acquire a LM_EXCLUSIVE ?l)" "\<not> fst (try_acquire b LM_EXCLUSIVE ?l)"
    using assms(2,3) by (auto simp: try_acquire_def)
  moreover have "tl_owners (release_lock a ?l) = {b}"
    using assms(2,3) by (auto simp: release_lock_def Let_def)
  then have "fst (try_acquire b LM_EXCLUSIVE (release_lock a ?l))"
    by (auto simp: try_acquire_def)
  then have "fst (lm_try t b LM_EXCLUSIVE (lm_release_all a ts lm))"
    using assms(4) by (simp add: lock_for_release_all)
  then obtain lm' where "lm_try t b LM_EXCLUSIVE (lm_release_all a ts lm) = (True, lm')"
    by (metis fst_conv prod.exhaust)
  moreover from this have "holds b LM_EXCLUSIVE (lock_for lm' t)"
    using lock_for_try try_acquire_holds by blast
  ultimately show ?thesis by auto
qed

definition demo_shared :: lock_manager where
  "demo_shared = [''t'' \<mapsto> \<lparr>tl_mode = Some LM_SHARED, tl_owners = {1, 2}\<rparr>]"

lemma upgrade_deadlock_resolved_witness:
  "fst (lm_try ''t'' 1 LM_EXCLUSIVE demo_shared) = False
    \<and> fst (lm_try ''t'' 2 LM_EXCLUSIVE demo_shared) = False
    \<and> (\<exists>lm'. lm_try ''t'' 2 LM_EXCLUSIVE (lm_release_all 1 [''t''] demo_shared) = (True, lm')
          \<and> holds 2 LM_EXCLUSIVE (lock_for lm' ''t''))"
  by (rule upgrade_deadlock_resolved)
    (simp_all add: demo_shared_def lock_for_def lock_sound_def)

text \<open>
  Claim C19. Every wait for a lock ends: when the clock passes the deadline at some attempt, \<open>acquire\<close>
  returns with the lock held or raises \<open>LockTimeoutError\<close>, whatever the other threads do meanwhile.
\<close>

lemma acquire_loop_ends:
  assumes "float_le (float_sub deadline (le_clock env (Suc k))) (Fin 0)" "i \<le> k" "k - i < fuel"
  shows "case acquire_loop fuel env t ow m deadline i lm of
      (Inr _, lm') \<Rightarrow> holds ow m (lock_for lm' t)
    | (Inl e, lm') \<Rightarrow> \<exists>text. e = LockTimeoutError text"
  using assms
proof (induction fuel arbitrary: i lm)
  case 0
  then show ?case by simp
next
  case (Suc fuel)
  obtain ok lm1 where 1: "lm_try t ow m lm = (ok, lm1)" by (cases "lm_try t ow m lm")
  show ?case
  proof (cases ok)
    case True
    then show ?thesis
      using 1 lock_for_try [of t ow m lm True lm1] try_acquire_holds by auto
  next
    case False
    show ?thesis
    proof (cases "float_le (float_sub deadline (le_clock env (Suc i))) (Fin 0)")
      case True
      then show ?thesis using 1 False by simp
    next
      case late: False
      then have "i \<noteq> k" using Suc.prems(1) by auto
      then have "Suc i \<le> k" "k - Suc i < fuel" using Suc.prems(2,3) by auto
      from Suc.IH [OF Suc.prems(1) this] show ?thesis using 1 False late by simp
    qed
  qed
qed

theorem acquire_ends:
  assumes "float_le (float_sub (float_add (le_clock env 0) timeout) (le_clock env (Suc k))) (Fin 0)"
    and "k < fuel"
  shows "case lm_acquire fuel env t ow m timeout lm of
      (Inr _, lm') \<Rightarrow> holds ow m (lock_for lm' t)
    | (Inl e, lm') \<Rightarrow> \<exists>text. e = LockTimeoutError text"
  unfolding lm_acquire_def using assms by (intro acquire_loop_ends) auto

definition demo_env :: lock_env where
  "demo_env = \<lparr>le_clock = (\<lambda>i. Fin (of_nat i)), le_others = (\<lambda>i lm. lm)\<rparr>"

lemma acquire_ends_witness:
  "case lm_acquire 9 demo_env ''t'' 3 LM_SHARED default_lock_timeout (sy_locks demo_locked) of
      (Inr _, lm') \<Rightarrow> holds 3 LM_SHARED (lock_for lm' ''t'')
    | (Inl e, lm') \<Rightarrow> \<exists>text. e = LockTimeoutError text"
proof (rule acquire_ends [where k = 6])
  have "float_add (Fin 0) (Fin 5) = Fin 5" "float_sub (Fin 5) (Fin 7) = Fin (- 2)"
    by code_simp+
  then show "float_le (float_sub (float_add (le_clock demo_env 0) default_lock_timeout)
      (le_clock demo_env (Suc 6))) (Fin 0)"
    by (simp add: demo_env_def default_lock_timeout_def)
qed simp

section \<open>Rollback\<close>

text \<open>
  A run of a transaction from \<open>s\<close>: its INSERTs and DELETEs succeed and are recorded, in between it
  reads and takes locks. A DELETE gets as candidates rows that are in the table.
\<close>

inductive tx_run ::
  "('s, 'm) core_scheme \<Rightarrow> ('s \<Rightarrow> db) \<Rightarrow> (string \<Rightarrow> nat) \<Rightarrow> (string \<Rightarrow> native_type)
   \<Rightarrow> (string \<Rightarrow> index_ref list) \<Rightarrow> 's \<Rightarrow> transaction \<Rightarrow> 's \<Rightarrow> bool"
  for C :: "('s, 'm) core_scheme" and view key ty ixs s where
  begin_tx: "tx_run C view key ty ixs s (new_transaction ow) s"
| read_tx: "tx_run C view key ty ixs s tx s1 \<Longrightarrow> view s2 = view s1 \<Longrightarrow> tx_run C view key ty ixs s tx s2"
| lock_tx: "tx_run C view key ty ixs s tx s1 \<Longrightarrow> tx_run C view key ty ixs s (tx\<lparr>tx_locked := locked\<rparr>) s1"
| insert_tx: "tx_run C view key ty ixs s tx s1 \<Longrightarrow> row_fits (key t) (ty t) (ixs t) row \<Longrightarrow>
    insert_with_indexes C t row (key t) (ixs t) s1 = (Inr rid, s2) \<Longrightarrow>
    tx_run C view key ty ixs s (record_insert t row rid (key t) (ixs t) tx) s2"
| delete_tx: "tx_run C view key ty ixs s tx s1 \<Longrightarrow> stands t (ixs t) (view s1) cs rids \<Longrightarrow>
    delete_with_indexes C t cs (key t) (ixs t) s1 = (Inr n, s2) \<Longrightarrow>
    tx_run C view key ty ixs s (record_delete t cs (key t) (ixs t) tx) s2"

text \<open>The log never deletes a row that an earlier entry of it inserted.\<close>

fun deletes_key :: "string \<Rightarrow> nat \<Rightarrow> native_value \<Rightarrow> undo_action \<Rightarrow> bool" where
  "deletes_key t kc k (UndoDelete u cs kc' indexes) =
     (u = t \<and> list_ex (\<lambda>c. dc_record c ! kc = k) cs)"
| "deletes_key t kc k (UndoInsert u row rid kc' indexes) = False"

fun spared_by :: "undo_action \<Rightarrow> undo_action list \<Rightarrow> bool" where
  "spared_by (UndoInsert t row rid kc indexes) us = (\<not> list_ex (deletes_key t kc (row ! kc)) us)"
| "spared_by (UndoDelete t cs kc indexes) us = True"

fun own_rows_kept :: "undo_action list \<Rightarrow> bool" where
  "own_rows_kept [] = True"
| "own_rows_kept (u # us) = (spared_by u us \<and> own_rows_kept us)"

definition all_kept ::
  "(string \<Rightarrow> nat) \<Rightarrow> (string \<Rightarrow> native_type) \<Rightarrow> (string \<Rightarrow> index_ref list) \<Rightarrow> db \<Rightarrow> bool" where
  "all_kept key ty ixs d \<longleftrightarrow> (\<forall>t. well_kept t (key t) (ty t) (ixs t) d)"

definition same_rows :: "db \<Rightarrow> db \<Rightarrow> bool" where
  "same_rows d e \<longleftrightarrow> (\<forall>t. ran (db_rows d t) = ran (db_rows e t))"

definition reliable ::
  "('s, 'm) core_scheme \<Rightarrow> ('s \<Rightarrow> db) \<Rightarrow> (string \<Rightarrow> nat) \<Rightarrow> (string \<Rightarrow> native_type)
   \<Rightarrow> (string \<Rightarrow> index_ref list) \<Rightarrow> bool" where
  "reliable C view key ty ixs \<longleftrightarrow> removals_reliable C
     \<and> (\<forall>t. handles_open C t (ixs t) \<and> table_shape (ixs t)
          \<and> insertions_reliable C view t (key t) (row_fits (key t) (ty t) (ixs t)))"

definition rows_at :: "undo_action list \<Rightarrow> db \<Rightarrow> bool" where
  "rows_at us d \<longleftrightarrow>
     (\<forall>t row rid kc indexes. UndoInsert t row rid kc indexes \<in> set us \<longrightarrow> db_rows d t rid = Some row)"

lemma rows_atD:
  "rows_at us d \<Longrightarrow> UndoInsert t row rid kc indexes \<in> set us \<Longrightarrow> db_rows d t rid = Some row"
  unfolding rows_at_def by blast

lemma own_rows_kept_append:
  "own_rows_kept (us @ vs) \<longleftrightarrow> own_rows_kept us \<and> own_rows_kept vs \<and> (\<forall>u \<in> set us. spared_by u vs)"
proof (induction us)
  case (Cons u us)
  have "spared_by u (us @ vs) \<longleftrightarrow> spared_by u us \<and> spared_by u vs" by (cases u) auto
  then show ?case using Cons by auto
qed simp

lemma well_kept_cong:
  "db_rows d t = db_rows e t \<Longrightarrow> db_entries d t = db_entries e t \<Longrightarrow>
     well_kept t kc ty indexes d = well_kept t kc ty indexes e"
  by (simp add: well_kept_def)

lemma entries_other_table [simp]:
  "u \<noteq> t \<Longrightarrow> db_entries (add_entries t rid ks d) u = db_entries d u"
  "u \<noteq> t \<Longrightarrow> db_entries (del_entries t rid ks d) u = db_entries d u"
  by (simp_all add: fun_eq_iff entries_other)

lemma inserted_rows:
  "db_rows (inserted_db t indexes row rid d) u
     = (if u = t then (db_rows d t)(rid \<mapsto> row) else db_rows d u)"
  by (simp add: inserted_db_def)

lemma deleted_other:
  "u \<noteq> t \<Longrightarrow> db_entries (deleted_db t indexes zs d) u = db_entries d u"
proof (induction zs arbitrary: d)
  case (Cons z zs)
  then show ?case by (cases z) simp
qed simp

lemma all_kept_inserted:
  assumes "all_kept key ty ixs d" "table_shape (ixs t)" "row_fits (key t) (ty t) (ixs t) row"
    and "db_rows d t rid = None" "\<forall>q \<in> ran (db_rows d t). q ! key t \<noteq> row ! key t"
  shows "all_kept key ty ixs (inserted_db t (ixs t) row rid d)"
  unfolding all_kept_def
proof
  fix u
  show "well_kept u (key u) (ty u) (ixs u) (inserted_db t (ixs t) row rid d)"
  proof (cases "u = t")
    case True
    then show ?thesis
      using well_kept_insert assms unfolding inserted_db_def all_kept_def by blast
  next
    case False
    then have "well_kept u (key u) (ty u) (ixs u) (inserted_db t (ixs t) row rid d)
        = well_kept u (key u) (ty u) (ixs u) d"
      by (intro well_kept_cong) (simp_all add: inserted_db_def)
    then show ?thesis using assms(1) by (simp add: all_kept_def)
  qed
qed

lemma all_kept_deleted:
  assumes "all_kept key ty ixs d" "table_shape (ixs t)" "stands t (ixs t) d cs rids"
  shows "all_kept key ty ixs (deleted_db t (ixs t) (zip (map dc_record cs) rids) d)"
  unfolding all_kept_def
proof
  fix u
  let ?e = "deleted_db t (ixs t) (zip (map dc_record cs) rids) d"
  show "well_kept u (key u) (ty u) (ixs u) ?e"
  proof (cases "u = t")
    case True
    then show ?thesis using well_kept_deleted assms unfolding all_kept_def by blast
  next
    case False
    then have "well_kept u (key u) (ty u) (ixs u) ?e = well_kept u (key u) (ty u) (ixs u) d"
      by (intro well_kept_cong) (simp_all add: deleted_rows deleted_other)
    then show ?thesis using assms(1) by (simp add: all_kept_def)
  qed
qed

lemma zip_snd: "length xs = length ys \<Longrightarrow> snd ` set (zip xs ys) = set ys"
  by (metis map_snd_zip list.set_map)

lemma ran_deleted:
  assumes "keys_unique kc (db_rows d t)" "stands t indexes d cs rids"
  shows "ran (db_rows d t |` (- set rids)) = ran (db_rows d t) - dc_record ` set cs"
    and "dc_record ` set cs \<subseteq> ran (db_rows d t)"
proof -
  note nth = stands_nth [OF assms(2)]
  show "dc_record ` set cs \<subseteq> ran (db_rows d t)"
  proof clarify
    fix c assume "c \<in> set cs"
    then obtain i where "i < length cs" "c = cs ! i" by (auto simp: in_set_conv_nth)
    then have "db_rows d t (rids ! i) = Some (dc_record c)" using nth(3) by simp
    then show "dc_record c \<in> ran (db_rows d t)" by (rule ranI)
  qed
  show "ran (db_rows d t |` (- set rids)) = ran (db_rows d t) - dc_record ` set cs"
  proof (intro equalityI subsetI)
    fix r assume "r \<in> ran (db_rows d t |` (- set rids))"
    then obtain j where j: "db_rows d t j = Some r" "j \<notin> set rids"
      by (auto simp: ran_def restrict_map_def split: if_splits)
    have "r \<noteq> dc_record (cs ! i)" if "i < length cs" for i
      using nth(1,3) that j assms(1) unfolding keys_unique_def by (metis nth_mem)
    then show "r \<in> ran (db_rows d t) - dc_record ` set cs"
      using j(1) by (fastforce simp: in_set_conv_nth ran_def)
  next
    fix r assume r: "r \<in> ran (db_rows d t) - dc_record ` set cs"
    then obtain j where j: "db_rows d t j = Some r" by (auto simp: ran_def)
    have "j \<notin> set rids"
    proof
      assume "j \<in> set rids"
      then obtain i where "i < length cs" "j = rids ! i" using nth(1) by (auto simp: in_set_conv_nth)
      then show False using nth(3) j r by force
    qed
    then show "r \<in> ran (db_rows d t |` (- set rids))" using j by (auto simp: ran_def restrict_map_def)
  qed
qed

context dml_core begin

lemma insert_entries_ok:
  assumes "insertions_reliable C view t kc fits"
    and "\<forall>(n, c) \<in> set indexes. py_index row c = Inr (row ! nat c)"
  shows "fst (insert_entries C t row rid indexes (acc, s)) = Inr ()"
  using assms(2)
proof (induction indexes arbitrary: acc s)
  case Nil
  then show ?case by (simp add: insert_entries_def io_simps)
next
  case (Cons ix indexes)
  obtain n c where ix: "ix = (n, c)" by (cases ix)
  obtain s1 where "ci_insert C t n (row ! nat c) rid s = (Inr (), s1)"
    using assms(1) unfolding insertions_reliable_def by blast
  then show ?case
    using Cons.IH [of "acc @ [(n, row ! nat c)]" s1] Cons.prems ix
    by (simp add: insert_entries_def io_then_def io_bind_def io_lift_def io_local_def io_outer_def)
qed

lemma insert_with_indexes_ok:
  assumes "reliable C view key ty ixs" "all_kept key ty ixs (view s)"
    and fits: "row_fits (key t) (ty t) (ixs t) row"
    and fresh: "\<forall>q \<in> ran (db_rows (view s) t). q ! key t \<noteq> row ! key t"
  shows "\<exists>rid s'. insert_with_indexes C t row (key t) (ixs t) s = (Inr rid, s')
    \<and> view s' = inserted_db t (ixs t) row rid (view s) \<and> db_rows (view s) t rid = None"
proof -
  have rel: "handles_open C t (ixs t)" "table_shape (ixs t)"
    "insertions_reliable C view t (key t) (row_fits (key t) (ty t) (ixs t))"
    using assms(1) by (auto simp: reliable_def)
  obtain s1 where 1: "open_handles C t (ixs t) s = (Inr (), s1)"
    using handles_open_ok [OF rel(1), of s] by auto
  have v1: "view s1 = view s" by (rule open_handles_view [OF 1])
  obtain rid s2 where 2: "co_insert C t row s1 = (Inr rid, s2)"
    using rel(3) fits fresh v1 unfolding insertions_reliable_def by metis
  have cols: "\<forall>(n, c) \<in> set (ixs t). py_index row c = Inr (row ! nat c)"
    using row_fits_py_index(1) [OF fits] by auto
  obtain att s3 where 3: "insert_entries C t row rid (ixs t) ([], s2) = (Inr (), (att, s3))"
    using insert_entries_ok [OF rel(3) cols, of rid "[]" s2] by (metis prod.collapse)
  have run: "insert_with_indexes C t row (key t) (ixs t) s = (Inr rid, s3)"
    by (simp add: insert_with_indexes_def io_then_def io_bind_def 1 2 3)
  have "well_kept t (key t) (ty t) (ixs t) (view s)" using assms(2) by (simp add: all_kept_def)
  from insert_with_indexes_view [OF run this rel(2) fits refl] run show ?thesis by blast
qed

text \<open>Undoing a deletion: the rows come back, at new RIDs.\<close>

lemma undo_delete_ok:
  assumes "reliable C view key ty ixs" "all_kept key ty ixs (view s)"
    and "\<forall>c \<in> set cs. row_fits (key t) (ty t) (ixs t) (dc_record c)"
    and "\<forall>c \<in> set cs. \<forall>q \<in> ran (db_rows (view s) t). q ! key t \<noteq> dc_record c ! key t"
    and "distinct (map (\<lambda>c. dc_record c ! key t) cs)"
  shows "\<exists>s'. undo_one C (UndoDelete t cs (key t) (ixs t)) s = (Inr (), s')
    \<and> all_kept key ty ixs (view s')
    \<and> ran (db_rows (view s') t) = ran (db_rows (view s) t) \<union> dc_record ` set cs
    \<and> (\<forall>u. u \<noteq> t \<longrightarrow> db_rows (view s') u = db_rows (view s) u)
    \<and> db_rows (view s) t \<subseteq>\<^sub>m db_rows (view s') t"
  using assms(2-)
proof (induction cs arbitrary: s)
  case Nil
  then show ?case by (simp add: io_simps)
next
  case (Cons c cs)
  let ?r = "dc_record c"
  have shape: "table_shape (ixs t)" using assms(1) by (simp add: reliable_def)
  have fresh: "\<forall>q \<in> ran (db_rows (view s) t). q ! key t \<noteq> ?r ! key t" using Cons.prems(3) by simp
  have fits: "row_fits (key t) (ty t) (ixs t) ?r" using Cons.prems(2) by simp
  obtain rid s1 where 1: "insert_with_indexes C t ?r (key t) (ixs t) s = (Inr rid, s1)"
    "view s1 = inserted_db t (ixs t) ?r rid (view s)" "db_rows (view s) t rid = None"
    using insert_with_indexes_ok [OF assms(1) Cons.prems(1) fits fresh] by blast
  have kept: "all_kept key ty ixs (view s1)"
    unfolding 1(2) by (rule all_kept_inserted [OF Cons.prems(1) shape fits 1(3) fresh])
  have rows1: "db_rows (view s1) t = (db_rows (view s) t)(rid \<mapsto> ?r)"
    by (simp add: 1(2) inserted_rows)
  have "\<forall>c \<in> set cs. \<forall>q \<in> ran (db_rows (view s1) t). q ! key t \<noteq> dc_record c ! key t"
    using Cons.prems(3,4) 1(3) by (auto simp: rows1)
  then obtain s2 where 2: "undo_one C (UndoDelete t cs (key t) (ixs t)) s1 = (Inr (), s2)"
    "all_kept key ty ixs (view s2)"
    "ran (db_rows (view s2) t) = ran (db_rows (view s1) t) \<union> dc_record ` set cs"
    "\<forall>u. u \<noteq> t \<longrightarrow> db_rows (view s2) u = db_rows (view s1) u"
    "db_rows (view s1) t \<subseteq>\<^sub>m db_rows (view s2) t"
    using Cons.IH [OF kept] Cons.prems(2,4) by auto
  have "undo_one C (UndoDelete t (c # cs) (key t) (ixs t)) s = (Inr (), s2)"
    using 1(1) 2(1) by (simp add: io_then_def io_bind_def io_return_def)
  moreover have "ran (db_rows (view s2) t) = ran (db_rows (view s) t) \<union> dc_record ` set (c # cs)"
    using 2(3) 1(3) by (auto simp: rows1)
  moreover have "db_rows (view s) t \<subseteq>\<^sub>m db_rows (view s2) t"
  proof (rule map_le_trans [OF _ 2(5)])
    show "db_rows (view s) t \<subseteq>\<^sub>m db_rows (view s1) t"
      using 1(3) by (auto simp: rows1 map_le_def)
  qed
  moreover have "\<forall>u. u \<noteq> t \<longrightarrow> db_rows (view s2) u = db_rows (view s) u"
    using 2(4) by (simp add: 1(2) inserted_rows)
  ultimately show ?case using 2(2) by blast
qed

end

context dml_core begin

text \<open>Undoing an insertion: the row is still at its RID.\<close>

lemma undo_insert_ok:
  assumes rel: "reliable C view key ty ixs" and kept: "all_kept key ty ixs (view s)"
    and row: "db_rows (view s) t rid = Some row"
  shows "\<exists>s'. undo_one C (UndoInsert t row rid (key t) (ixs t)) s = (Inr (), s')
    \<and> all_kept key ty ixs (view s')
    \<and> db_rows (view s') t = (db_rows (view s) t)(rid := None)
    \<and> (\<forall>u. u \<noteq> t \<longrightarrow> db_rows (view s') u = db_rows (view s) u)"
proof -
  let ?c = "\<lparr>dc_rid = Some rid, dc_record = row\<rparr>"
  have r: "removals_reliable C" "handles_open C t (ixs t)" "table_shape (ixs t)"
    using rel by (auto simp: reliable_def)
  have w: "well_kept t (key t) (ty t) (ixs t) (view s)" using kept by (simp add: all_kept_def)
  have st: "stands t (ixs t) (view s) [?c] [rid]" using row by (simp add: stands_def)
  obtain s' where 1: "delete_with_indexes C t [?c] (key t) (ixs t) s = (Inr (length [?c]), s')"
    "view s' = deleted_db t (ixs t) (zip (map dc_record [?c]) [rid]) (view s)"
    using delete_with_indexes_ok [OF r refl w st] by blast
  have "db_rows (view s) t |` (- {rid}) = (db_rows (view s) t)(rid := None)"
    by (auto simp: restrict_map_def fun_eq_iff)
  then show ?thesis
    using 1 all_kept_deleted [OF kept r(3) st]
    by (auto simp: io_bind_def io_return_def deleted_rows)
qed

lemma insert_run:
  assumes rel: "reliable C view key ty ixs" and kept: "all_kept key ty ixs (view s1)"
    and fits: "row_fits (key t) (ty t) (ixs t) row"
    and ins: "insert_with_indexes C t row (key t) (ixs t) s1 = (Inr rid, s2)"
  shows "all_kept key ty ixs (view s2)" "db_rows (view s1) t rid = None"
    "db_rows (view s2) t = (db_rows (view s1) t)(rid \<mapsto> row)"
    "\<forall>q \<in> ran (db_rows (view s1) t). q ! key t \<noteq> row ! key t"
    "u \<noteq> t \<Longrightarrow> db_rows (view s2) u = db_rows (view s1) u"
proof -
  have shape: "table_shape (ixs t)" using rel by (simp add: reliable_def)
  have w: "well_kept t (key t) (ty t) (ixs t) (view s1)" using kept by (simp add: all_kept_def)
  from insert_with_indexes_view [OF ins w shape fits refl]
  have v: "view s2 = inserted_db t (ixs t) row rid (view s1)"
    and new: "db_rows (view s1) t rid = None"
    and fresh: "\<forall>q \<in> ran (db_rows (view s1) t). q ! key t \<noteq> row ! key t" by auto
  show "all_kept key ty ixs (view s2)"
    unfolding v by (rule all_kept_inserted [OF kept shape fits new fresh])
  show "db_rows (view s2) t = (db_rows (view s1) t)(rid \<mapsto> row)"
    "u \<noteq> t \<Longrightarrow> db_rows (view s2) u = db_rows (view s1) u" by (simp_all add: v inserted_rows)
  show "db_rows (view s1) t rid = None" "\<forall>q \<in> ran (db_rows (view s1) t). q ! key t \<noteq> row ! key t"
    by (rule new, rule fresh)
qed

lemma delete_run:
  assumes rel: "reliable C view key ty ixs" and kept: "all_kept key ty ixs (view s1)"
    and st: "stands t (ixs t) (view s1) cs rids"
    and del: "delete_with_indexes C t cs (key t) (ixs t) s1 = (Inr n, s2)"
  shows "all_kept key ty ixs (view s2)"
    "db_rows (view s2) t = db_rows (view s1) t |` (- set rids)"
    "u \<noteq> t \<Longrightarrow> db_rows (view s2) u = db_rows (view s1) u"
proof -
  have r: "removals_reliable C" "handles_open C t (ixs t)" "table_shape (ixs t)"
    using rel by (auto simp: reliable_def)
  have w: "well_kept t (key t) (ty t) (ixs t) (view s1)" using kept by (simp add: all_kept_def)
  have v: "view s2 = deleted_db t (ixs t) (zip (map dc_record cs) rids) (view s1)"
    using delete_with_indexes_ok [OF r refl w st] del by auto
  show "all_kept key ty ixs (view s2)" unfolding v by (rule all_kept_deleted [OF kept r(3) st])
  show "db_rows (view s2) t = db_rows (view s1) t |` (- set rids)"
    "u \<noteq> t \<Longrightarrow> db_rows (view s2) u = db_rows (view s1) u"
    using stands_nth(1) [OF st] by (simp_all add: v deleted_rows zip_snd)
qed

lemma tx_run_forward:
  assumes "tx_run C view key ty ixs s tx s1" "reliable C view key ty ixs"
    and "all_kept key ty ixs (view s)" "own_rows_kept (tx_undo tx)"
  shows "all_kept key ty ixs (view s1) \<and> rows_at (tx_undo tx) (view s1)"
  using assms(1,4)
proof (induction rule: tx_run.induct)
  case (begin_tx ow)
  then show ?case using assms(3) by (simp add: new_transaction_def rows_at_def)
next
  case (read_tx tx s1 s2)
  then show ?case by simp
next
  case (lock_tx tx s1 locked)
  then show ?case by simp
next
  case (insert_tx tx s1 t row rid s2)
  have ih: "all_kept key ty ixs (view s1)" "rows_at (tx_undo tx) (view s1)"
    using insert_tx by (auto simp: record_insert_def own_rows_kept_append)
  note run = insert_run [OF assms(2) ih(1) insert_tx.hyps(2,3)]
  have "db_rows (view s2) u i = Some r"
    if "UndoInsert u r i kc indexes \<in> set (tx_undo tx)" for u r i kc indexes
    using rows_atD [OF ih(2) that] run(2,3,5) by (cases "u = t") auto
  then show ?case using run(1,3) by (auto simp: record_insert_def rows_at_def)
next
  case (delete_tx tx s1 t cs rids n s2)
  have ih: "all_kept key ty ixs (view s1)" "rows_at (tx_undo tx) (view s1)"
    and spared: "\<forall>u \<in> set (tx_undo tx). spared_by u [UndoDelete t cs (key t) (ixs t)]"
    using delete_tx by (auto simp: record_delete_def own_rows_kept_append)
  note run = delete_run [OF assms(2) ih(1) delete_tx.hyps(2,3)]
  have "db_rows (view s2) u i = Some r"
    if undo: "UndoInsert u r i kc indexes \<in> set (tx_undo tx)" for u r i kc indexes
  proof (cases "u = t")
    case True
    have at: "db_rows (view s1) t i = Some r" using rows_atD [OF ih(2) undo] True by simp
    have "dc_record c ! kc \<noteq> r ! kc" if "c \<in> set cs" for c
      using bspec [OF spared undo] that True by (auto simp: list_ex_iff)
    then have "i \<notin> set rids"
      using at stands_nth(1,3) [OF delete_tx.hyps(2)] by (metis in_set_conv_nth nth_mem option.inject)
    then show ?thesis using at True run(2) by simp
  next
    case False
    then show ?thesis using rows_atD [OF ih(2) undo] run(3) by simp
  qed
  then show ?case using run(1) by (auto simp: record_delete_def rows_at_def)
qed

end

context dml_core begin

lemma undo_all_snoc: "undo_all C (us @ [u]) s = undo_all C us (snd (undo_one C u s))"
  by (simp add: undo_all_def io_then_def io_bind_def io_suppress_def)

lemma undo_all_restores:
  assumes "tx_run C view key ty ixs s tx s1" and rel: "reliable C view key ty ixs"
    and start: "all_kept key ty ixs (view s)" and "own_rows_kept (tx_undo tx)"
    and "all_kept key ty ixs (view x)" "same_rows (view s1) (view x)" "rows_at (tx_undo tx) (view x)"
  shows "\<exists>y. undo_all C (tx_undo tx) x = (Inr (), y)
    \<and> all_kept key ty ixs (view y) \<and> same_rows (view s) (view y)"
  using assms(1,4-)
proof (induction arbitrary: x rule: tx_run.induct)
  case (begin_tx ow)
  then show ?case by (simp add: undo_all_def new_transaction_def io_return_def)
next
  case (read_tx tx s1 s2)
  then show ?case by simp
next
  case (lock_tx tx s1 locked)
  then show ?case by simp
next
  case (insert_tx tx s1 t row rid s2)
  have own: "own_rows_kept (tx_undo tx)"
    and at: "rows_at (tx_undo tx) (view x)" "db_rows (view x) t rid = Some row"
    using insert_tx.prems by (auto simp: record_insert_def own_rows_kept_append rows_at_def)
  note fwd = tx_run_forward [OF insert_tx.hyps(1) rel start own]
  note run = insert_run [OF rel conjunct1 [OF fwd] insert_tx.hyps(2,3)]
  obtain x' where x': "undo_one C (UndoInsert t row rid (key t) (ixs t)) x = (Inr (), x')"
    "all_kept key ty ixs (view x')" "db_rows (view x') t = (db_rows (view x) t)(rid := None)"
    "\<And>u. u \<noteq> t \<Longrightarrow> db_rows (view x') u = db_rows (view x) u"
    using undo_insert_ok [OF rel insert_tx.prems(2) at(2)] by blast
  have "rows_at (tx_undo tx) (view x')"
    unfolding rows_at_def
  proof (intro allI impI)
    fix u r i kc indexes
    assume undo: "UndoInsert u r i kc indexes \<in> set (tx_undo tx)"
    have "\<not> (u = t \<and> i = rid)" using rows_atD [OF conjunct2 [OF fwd] undo] run(2) by auto
    then show "db_rows (view x') u i = Some r"
      using rows_atD [OF at(1) undo] x'(3,4) by (cases "u = t") auto
  qed
  moreover have "same_rows (view s1) (view x')"
    unfolding same_rows_def
  proof
    fix u
    have same: "ran (db_rows (view s2) u) = ran (db_rows (view x) u)"
      using insert_tx.prems(3) by (simp add: same_rows_def)
    show "ran (db_rows (view s1) u) = ran (db_rows (view x') u)"
    proof (cases "u = t")
      case True
      have "keys_unique (key t) (db_rows (view x) t)"
        using insert_tx.prems(2) by (simp add: all_kept_def well_kept_def)
      then have gone: "row \<notin> ran ((db_rows (view x) t)(rid := None))"
        using at(2) by (auto simp: keys_unique_def ran_def split: if_splits)
      have "row \<notin> ran (db_rows (view s1) t)" using run(4) by auto
      moreover have "ran (db_rows (view s2) t) = insert row (ran (db_rows (view s1) t))"
        using run(2,3) by simp
      moreover have "db_rows (view x) t = ((db_rows (view x) t)(rid := None))(rid \<mapsto> row)"
        using at(2) by auto
      then have "ran (db_rows (view x) t) = insert row (ran ((db_rows (view x) t)(rid := None)))"
        by (metis fun_upd_same ran_map_upd)
      ultimately show ?thesis using gone same True x'(3) by (metis insert_ident)
    next
      case False
      then show ?thesis using same run(5) x'(4) by simp
    qed
  qed
  ultimately obtain y where "undo_all C (tx_undo tx) x' = (Inr (), y)"
    "all_kept key ty ixs (view y)" "same_rows (view s) (view y)"
    using insert_tx.IH [OF own x'(2)] by blast
  then show ?case using x'(1) by (auto simp: record_insert_def undo_all_snoc)
next
  case (delete_tx tx s1 t cs rids n s2)
  have own: "own_rows_kept (tx_undo tx)" and at: "rows_at (tx_undo tx) (view x)"
    using delete_tx.prems by (auto simp: record_delete_def own_rows_kept_append rows_at_def)
  note fwd = tx_run_forward [OF delete_tx.hyps(1) rel start own]
  note st = delete_tx.hyps(2)
  note run = delete_run [OF rel conjunct1 [OF fwd] st delete_tx.hyps(3)]
  have w: "well_kept t (key t) (ty t) (ixs t) (view s1)" using fwd by (simp add: all_kept_def)
  then have unique: "keys_unique (key t) (db_rows (view s1) t)" by (simp add: well_kept_def)
  note gone = ran_deleted [OF unique st]
  have same: "ran (db_rows (view s2) u) = ran (db_rows (view x) u)" for u
    using delete_tx.prems(3) by (simp add: same_rows_def)
  have left: "ran (db_rows (view x) t) = ran (db_rows (view s1) t) - dc_record ` set cs"
    using same [of t] run(2) gone(1) by simp
  have fits: "\<forall>c \<in> set cs. row_fits (key t) (ty t) (ixs t) (dc_record c)"
    using w gone(2) by (auto simp: well_kept_def)
  have fresh: "\<forall>c \<in> set cs. \<forall>q \<in> ran (db_rows (view x) t). q ! key t \<noteq> dc_record c ! key t"
  proof (intro ballI notI)
    fix c q
    assume c: "c \<in> set cs" and q: "q \<in> ran (db_rows (view x) t)" "q ! key t = dc_record c ! key t"
    then have "q \<in> ran (db_rows (view s1) t)" "dc_record c \<in> ran (db_rows (view s1) t)" "q \<noteq> dc_record c"
      using left gone(2) by auto
    then show False using unique q(2) unfolding keys_unique_def ran_def
      by (smt (verit) mem_Collect_eq option.inject)
  qed
  have dist: "distinct (map (\<lambda>c. dc_record c ! key t) cs)"
    by (rule stands_keys_distinct [OF w st])
  obtain x' where x': "undo_one C (UndoDelete t cs (key t) (ixs t)) x = (Inr (), x')"
    "all_kept key ty ixs (view x')"
    "ran (db_rows (view x') t) = ran (db_rows (view x) t) \<union> dc_record ` set cs"
    "\<And>u. u \<noteq> t \<Longrightarrow> db_rows (view x') u = db_rows (view x) u"
    "db_rows (view x) t \<subseteq>\<^sub>m db_rows (view x') t"
    using undo_delete_ok [OF rel delete_tx.prems(2) fits fresh dist] by blast
  have "rows_at (tx_undo tx) (view x')"
    unfolding rows_at_def
  proof (intro allI impI)
    fix u r i kc indexes
    assume undo: "UndoInsert u r i kc indexes \<in> set (tx_undo tx)"
    from rows_atD [OF at undo] show "db_rows (view x') u i = Some r"
      using x'(4,5) by (cases "u = t") (auto simp: map_le_def dom_def)
  qed
  moreover have "same_rows (view s1) (view x')"
    unfolding same_rows_def
  proof
    fix u
    show "ran (db_rows (view s1) u) = ran (db_rows (view x') u)"
      using same [of u] run(3) x'(3,4) left gone(2) by (cases "u = t") auto
  qed
  ultimately obtain y where "undo_all C (tx_undo tx) x' = (Inr (), y)"
    "all_kept key ty ixs (view y)" "same_rows (view s) (view y)"
    using delete_tx.IH [OF own x'(2)] by blast
  then show ?case using x'(1) by (auto simp: record_delete_def undo_all_snoc)
qed

lemma rollback_gives_back:
  assumes run: "tx_run C view key ty ixs s tx s1" and rel: "reliable C view key ty ixs"
    and start: "all_kept key ty ixs (view s)" and own: "own_rows_kept (tx_undo tx)"
  shows "\<exists>y. rollback C tx (lm, s1)
      = (Inr (tx\<lparr>tx_undo := [], tx_locked := []\<rparr>), (release_locks tx lm, y))
    \<and> all_kept key ty ixs (view y) \<and> same_rows (view s) (view y)"
proof -
  have fwd: "all_kept key ty ixs (view s1)" "rows_at (tx_undo tx) (view s1)"
    using tx_run_forward [OF assms] by auto
  have "same_rows (view s1) (view s1)" by (simp add: same_rows_def)
  from undo_all_restores [OF assms fwd(1) this fwd(2)] show ?thesis
    by (auto simp: rollback_def io_then_def io_bind_def io_outer_def io_local_def io_return_def)
qed

end


end
