(* ===== verification/Native_Values_Spec.thy ===== *)
theory Native_Values_Spec
  imports Native_Values Sql_Semantic_Spec
begin

text \<open>
  The conversions to and from the core lose nothing, and the bounds of a column enclose every value
  that can be stored in it.
\<close>

section \<open>Round trips\<close>

lemma type_roundtrip [simp]: "from_native_type (to_native_type ty) = Some ty"
  by (cases ty) simp_all



text \<open>A date of a value is one of the calendar, as the parser ensures.\<close>

fun date_value_ok :: "bound_value \<Rightarrow> bool" where
  "date_value_ok (VDate d) = date_ok d"
| "date_value_ok _ = True"

lemma of_char_less: "of_char c < (256 :: nat)"
  using nat_of_char_less_256 [of c] .

lemma in_range_point: "point_in_range p \<Longrightarrow> point_bounds (pv_latitude p) (pv_longitude p)"
  by (auto simp: point_in_range_def point_bounds_def in_range_def)

lemma value_roundtrip:
  assumes "has_type v c" "date_value_ok v"
  shows "from_native_value (to_native_value v) c = Inr v"
proof (cases v)
  case (VDate d)
  then have "from_ordinal (epoch + (to_ordinal d - epoch)) = Inr d"
    using assms(2) from_to_ordinal [of d] by simp
  then show ?thesis using VDate assms(1) by (simp add: from_native_value_def)
next
  case (VStr s)
  then show ?thesis using assms(1) of_char_less
    by (auto simp: from_native_value_def list_all_iff comp_def)
next
  case (VPoint p)
  then show ?thesis using assms(1) in_range_point [of p] by (simp add: from_native_value_def)
qed (use assms(1) in \<open>simp_all add: from_native_value_def\<close>)

lemma record_roundtrip:
  assumes "list_all2 has_type row (bs_columns s)" "list_all date_value_ok row"
  shows "from_native_record (to_native_values row) s = Inr row"
proof -
  have "list_all2 (\<lambda>x y. (case x of (v, c) \<Rightarrow> from_native_value v c) = Inr y)
      (zip (map to_native_value row) cs) row"
    if "list_all2 has_type row cs" "list_all date_value_ok row" for cs
    using that by (induction rule: list_all2_induct) (auto simp: value_roundtrip)
  then show ?thesis
    using assms by (simp add: from_native_record_def to_native_values_def emap_Inr_iff
        list_all2_lengthD)
qed


definition date_schema :: bound_schema where
  "date_schema =
     \<lparr>bs_table_name = ''d'',
      bs_columns = [BoundColumn ''id'' SQL_INT None, BoundColumn ''day'' SQL_DATE None,
                    BoundColumn ''place'' SQL_POINT None],
      bs_key_column = 0\<rparr>"


section \<open>Bounds\<close>

text \<open>Bytes of a code point in UTF-8.\<close>

definition code_bytes :: "nat \<Rightarrow> nat" where
  "code_bytes c = (if c < 128 then 1 else if c < 2048 then 2 else if c < 65536 then 3 else 4)"

text \<open>The order of native values of one type: a point by latitude, then longitude.\<close>

fun native_le :: "native_value \<Rightarrow> native_value \<Rightarrow> bool" where
  "native_le (NInt a) (NInt b) = (a \<le> b)"
| "native_le (NFloat a) (NFloat b) = float_le a b"
| "native_le (NStr a) (NStr b) = (a \<le> b)"
| "native_le (NBool a) (NBool b) = (a \<le> b)"
| "native_le (NDate a) (NDate b) = (a \<le> b)"
| "native_le (NPoint a b) (NPoint c d) = (float_less a c \<or> float_eq a c \<and> float_le b d)"
| "native_le _ _ = False"

text \<open>What the core can store in a column.\<close>

fun storable :: "native_value \<Rightarrow> bound_column \<Rightarrow> bool" where
  "storable (NInt n) c = (bc_type c = SQL_INT \<and> - (2 ^ 31) \<le> n \<and> n \<le> 2 ^ 31 - 1)"
| "storable (NFloat x) c = (bc_type c = SQL_DOUBLE \<and> x \<noteq> NaN)"
| "storable (NStr cs) c = (bc_type c = SQL_VARCHAR \<and> list_all (\<lambda>k. k \<le> 1114111) cs
     \<and> (\<exists>n. bc_length c = Some n \<and> int (sum_list (map code_bytes cs)) \<le> n))"
| "storable (NBool b) c = (bc_type c = SQL_BOOL)"
| "storable (NDate d) c = (bc_type c = SQL_DATE \<and> - (2 ^ 31) \<le> d \<and> d \<le> 2 ^ 31 - 1)"
| "storable (NPoint lat lon) c = (bc_type c = SQL_POINT \<and> point_bounds lat lon)"
| "storable (NVector xs) c = False"

lemma code_bytes_pos: "1 \<le> code_bytes c"
  by (simp add: code_bytes_def)

lemma sum_code_bytes_0: "sum_list (map code_bytes cs) = 0 \<longleftrightarrow> cs = []"
  using code_bytes_pos by (cases cs) (auto simp: Suc_le_eq)

lemma varchar_upper_step: "0 \<le> n \<Longrightarrow> varchar_upper (n + 4) = 1114111 # varchar_upper n"
proof -
  assume n: "0 \<le> n"
  have "(n + 4) div 4 = n div 4 + 1" "(n + 4) mod 4 = n mod 4" by presburger+
  moreover have "nat (n div 4 + 1) = Suc (nat (n div 4))" using n by simp
  ultimately show ?thesis by (simp add: varchar_upper_def)
qed

lemma varchar_upper_small:
  "varchar_upper 0 = []" "varchar_upper 1 = [127]" "varchar_upper 2 = [2047]"
  "varchar_upper 3 = [65535]"
  by (simp_all add: varchar_upper_def)

lemma varchar_le_upper:
  "list_all (\<lambda>k. k \<le> 1114111) cs \<Longrightarrow> int (sum_list (map code_bytes cs)) \<le> n \<Longrightarrow> cs \<le> varchar_upper n"
proof (induction cs arbitrary: n)
  case (Cons c cs)
  show ?case
  proof (cases "4 \<le> n")
    case True
    then obtain k where k: "n = k + 4" "0 \<le> k" by (metis add.commute diff_add_cancel diff_ge_0_iff_ge)
    have "cs \<le> varchar_upper k" if "c = 1114111"
      using Cons.IH [of k] Cons.prems k that by (simp add: code_bytes_def)
    then show ?thesis using Cons.prems(1) varchar_upper_step [OF k(2)] k(1) by auto
  next
    case False
    moreover have "1 \<le> n" using Cons.prems(2) code_bytes_pos [of c] by simp
    ultimately consider "n = 1" | "n = 2" | "n = 3" by linarith
    then show ?thesis
      using Cons.prems sum_code_bytes_0 [of cs]
      by cases (auto simp: varchar_upper_small code_bytes_def split: if_splits)
  qed
qed simp

lemma range_bounds_hold:
  assumes "storable v c"
  shows "\<exists>lo hi. native_range_bounds c = Inr (lo, hi) \<and> native_le lo v \<and> native_le v hi"
proof (cases v)
  case (NStr cs)
  then obtain n where "bc_length c = Some n" "int (sum_list (map code_bytes cs)) \<le> n"
    "list_all (\<lambda>k. k \<le> 1114111) cs" "bc_type c = SQL_VARCHAR"
    using assms by auto
  then show ?thesis using NStr varchar_le_upper [of cs n] by (simp add: native_range_bounds_def)
next
  case (NFloat x)
  then show ?thesis using assms by (cases x) (auto simp: native_range_bounds_def)
next
  case (NPoint lat lon)
  then obtain a b where ab: "lat = Fin a" "lon = Fin b" "- 90 \<le> a" "a \<le> 90" "- 180 \<le> b" "b \<le> 180"
    using assms by (cases lat; cases lon) (auto simp: point_bounds_def)
  then show ?thesis using assms NPoint by (auto simp: native_range_bounds_def)
qed (use assms in \<open>auto simp: native_range_bounds_def\<close>)

text \<open>
  Claim C14. The closed range that stands for an open bound loses no row: for every column that has
  an order, all the values the core can store in it lie between the two bounds that
  \<open>native_range_bounds\<close> builds; for texts of at most \<open>n\<close> bytes the upper bound is made of the
  greatest code points that fit.
\<close>

theorem range_bounds_enclose:
  assumes "storable v c"
  shows "\<exists>lo hi. native_range_bounds c = Inr (lo, hi) \<and> native_le lo v \<and> native_le v hi"
  by (rule range_bounds_hold [OF assms])

lemma range_bounds_enclose_witness:
  "\<exists>lo hi. native_range_bounds (BoundColumn ''name'' SQL_VARCHAR (Some 7)) = Inr (lo, hi)
     \<and> native_le lo (NStr [1114111, 241, 122]) \<and> native_le (NStr [1114111, 241, 122]) hi"
  by (rule range_bounds_enclose) (simp add: code_bytes_def)

end
