(* ===== verification/Heap_Core.thy ===== *)
theory Heap_Core
  imports Transaction_Spec Native_Values_Spec
begin

text \<open>
  A core in memory: for each table a heap file of one page (\<open>core/src/storage/heap_file.cpp\<close>), whose
  insertion takes the first free slot of the page, and for each index the list of its entries. It
  keeps the contract of \<open>dml_core\<close> and is the core of the concrete runs of the development.
\<close>

record mem =
  mm_slots :: "string \<Rightarrow> native_record option list"
  mm_entries :: "string \<Rightarrow> string \<Rightarrow> (native_value \<times> rid) list"

fun live_rows :: "nat \<Rightarrow> native_record option list \<Rightarrow> (rid \<times> native_record) list" where
  "live_rows i [] = []"
| "live_rows i (None # slots) = live_rows (Suc i) slots"
| "live_rows i (Some r # slots) = (RID 1 i, r) # live_rows (Suc i) slots"

definition heap_read :: "native_record option list \<Rightarrow> rid \<Rightarrow> native_record option" where
  "heap_read slots rid =
     (if rid_page rid = 1 \<and> rid_slot rid < length slots then slots ! rid_slot rid else None)"

fun find_slot :: "(native_record option \<Rightarrow> bool) \<Rightarrow> native_record option list \<Rightarrow> nat" where
  "find_slot p [] = 0"
| "find_slot p (x # xs) = (if p x then 0 else Suc (find_slot p xs))"

definition has_key :: "nat \<Rightarrow> native_value \<Rightarrow> native_record option \<Rightarrow> bool" where
  "has_key kc k x = (case x of None \<Rightarrow> False | Some r \<Rightarrow> r ! kc = k)"

definition put_slot :: "native_record \<Rightarrow> native_record option list \<Rightarrow> native_record option list" where
  "put_slot r slots =
     (let i = find_slot (\<lambda>x. x = None) slots
      in if i < length slots then slots[i := Some r] else slots @ [Some r])"

definition mem_insert :: "(string \<Rightarrow> nat) \<Rightarrow> string \<Rightarrow> native_record \<Rightarrow> (mem, rid) io" where
  "mem_insert key t r m =
     (let slots = mm_slots m t in
      if length r \<le> key t then (Inl (NativeError NE_INVALID_RECORD []), m)
      else if list_ex (has_key (key t) (r ! key t)) slots then
        (Inl (NativeError NE_DUPLICATE_KEY (''la clave primaria ya existe en '' @ t)), m)
      else (Inr (RID 1 (find_slot (\<lambda>x. x = None) slots)),
            m\<lparr>mm_slots := (mm_slots m)(t := put_slot r slots)\<rparr>))"

definition mem_remove :: "(string \<Rightarrow> nat) \<Rightarrow> string \<Rightarrow> native_value \<Rightarrow> (mem, nat) io" where
  "mem_remove key t k m =
     (let slots = mm_slots m t; i = find_slot (has_key (key t) k) slots in
      if i < length slots then
        (Inr 1, m\<lparr>mm_slots := (mm_slots m)(t := slots[i := None])\<rparr>)
      else (Inr 0, m))"

definition mem_entry_insert :: "string \<Rightarrow> string \<Rightarrow> native_value \<Rightarrow> rid \<Rightarrow> (mem, unit) io" where
  "mem_entry_insert t n k rid m =
     (Inr (), m\<lparr>mm_entries := (mm_entries m)(t := (mm_entries m t)(n := mm_entries m t n @ [(k, rid)]))\<rparr>)"

definition mem_entry_remove :: "string \<Rightarrow> string \<Rightarrow> native_value \<Rightarrow> rid \<Rightarrow> (mem, bool) io" where
  "mem_entry_remove t n k rid m =
     (Inr ((k, rid) \<in> set (mm_entries m t n)),
      m\<lparr>mm_entries := (mm_entries m)(t := (mm_entries m t)(n := remove1 (k, rid) (mm_entries m t n)))\<rparr>)"

definition key_within :: "native_value \<Rightarrow> native_value \<Rightarrow> native_value \<Rightarrow> bool" where
  "key_within lo hi k \<longleftrightarrow> native_le lo k \<and> native_le k hi"

definition mem_core :: "(string \<Rightarrow> nat) \<Rightarrow> mem core" where
  "mem_core key =
     \<lparr>co_table = (\<lambda>t. io_return ()), co_index = (\<lambda>t n. io_return ()),
      co_insert = mem_insert key, co_remove = mem_remove key,
      co_read = (\<lambda>t rid m. (Inr (heap_read (mm_slots m t) rid), m)),
      co_search = (\<lambda>t k m.
        (Inr (filter (\<lambda>r. r ! key t = k) (map snd (live_rows 0 (mm_slots m t)))), m)),
      co_range_search = (\<lambda>t lo hi m.
        (Inr (filter (\<lambda>r. key_within lo hi (r ! key t)) (map snd (live_rows 0 (mm_slots m t)))), m)),
      co_scan = (\<lambda>t m. (Inr (map snd (live_rows 0 (mm_slots m t))), m)),
      co_scan_with_rids = (\<lambda>t m. (Inr (live_rows 0 (mm_slots m t)), m)),
      ci_insert = mem_entry_insert, ci_remove_one = mem_entry_remove,
      ci_search = (\<lambda>t n k m. (Inr (map snd (filter (\<lambda>e. fst e = k) (mm_entries m t n))), m)),
      ci_range_search = (\<lambda>t n lo hi m.
        (Inr (map snd (filter (\<lambda>e. key_within lo hi (fst e)) (mm_entries m t n))), m)),
      ci_supports_range = (\<lambda>t n m. (Inr True, m)),
      co_repr_value = (\<lambda>k. []), co_repr_rid = (\<lambda>rid. [])\<rparr>"

definition mem_view :: "mem \<Rightarrow> db" where
  "mem_view m =
     \<lparr>db_rows = (\<lambda>t. heap_read (mm_slots m t)), db_entries = (\<lambda>t n. mset (mm_entries m t n))\<rparr>"

lemma mem_core_simps [simp]:
  "co_table (mem_core key) t = io_return ()" "co_index (mem_core key) t n = io_return ()"
  "co_insert (mem_core key) = mem_insert key" "co_remove (mem_core key) = mem_remove key"
  "co_read (mem_core key) t rid m = (Inr (heap_read (mm_slots m t) rid), m)"
  "ci_insert (mem_core key) = mem_entry_insert" "ci_remove_one (mem_core key) = mem_entry_remove"
  by (simp_all add: mem_core_def)

lemma mem_view_simps [simp]:
  "db_rows (mem_view m) t = heap_read (mm_slots m t)"
  "db_entries (mem_view m) t n = mset (mm_entries m t n)"
  by (simp_all add: mem_view_def)

lemma mem_view_eqI:
  "(\<And>t. heap_read (mm_slots m t) = db_rows d t) \<Longrightarrow> (\<And>t n. mset (mm_entries m t n) = db_entries d t n)
   \<Longrightarrow> mem_view m = d"
  by (rule db_eqI) (auto simp: fun_eq_iff)

lemma find_slot_less: "find_slot p xs < length xs \<Longrightarrow> p (xs ! find_slot p xs)"
  by (induction xs) auto

lemma find_slot_le: "find_slot p xs \<le> length xs"
  by (induction xs) auto

lemma find_slot_none: "find_slot p xs = length xs \<Longrightarrow> x \<in> set xs \<Longrightarrow> \<not> p x"
  by (induction xs) (auto split: if_splits)

lemma heap_read_update:
  assumes "i < length slots"
  shows "heap_read (slots[i := x]) = (heap_read slots)(RID 1 i := x)"
proof
  fix rid
  show "heap_read (slots[i := x]) rid = ((heap_read slots)(RID 1 i := x)) rid"
    using assms by (cases rid) (auto simp: heap_read_def nth_list_update)
qed

lemma heap_read_append:
  "heap_read (slots @ [x]) = (heap_read slots)(RID 1 (length slots) := x)"
proof
  fix rid
  show "heap_read (slots @ [x]) rid = ((heap_read slots)(RID 1 (length slots) := x)) rid"
    by (cases rid) (auto simp: heap_read_def nth_append less_Suc_eq)
qed

lemma heap_read_put:
  "heap_read (put_slot r slots) = (heap_read slots)(RID 1 (find_slot (\<lambda>x. x = None) slots) \<mapsto> r)"
  "heap_read slots (RID 1 (find_slot (\<lambda>x. x = None) slots)) = None"
proof -
  let ?i = "find_slot (\<lambda>x. x = None) slots"
  show "heap_read (put_slot r slots) = (heap_read slots)(RID 1 ?i \<mapsto> r)"
    using find_slot_le [of "\<lambda>x. x = None" slots]
    by (cases "?i < length slots") (simp_all add: put_slot_def Let_def heap_read_update heap_read_append)
  show "heap_read slots (RID 1 ?i) = None"
    using find_slot_less [of "\<lambda>x. x = None" slots] by (simp add: heap_read_def)
qed

lemma ran_heap_read: "r \<in> ran (heap_read slots) \<longleftrightarrow> Some r \<in> set slots"
proof
  assume "r \<in> ran (heap_read slots)"
  then show "Some r \<in> set slots"
    by (auto simp: ran_def heap_read_def in_set_conv_nth split: if_splits)
next
  assume "Some r \<in> set slots"
  then obtain i where "i < length slots" "slots ! i = Some r" by (auto simp: in_set_conv_nth)
  then have "heap_read slots (RID 1 i) = Some r" by (simp add: heap_read_def)
  then show "r \<in> ran (heap_read slots)" by (rule ranI)
qed

interpretation heap: dml_core "mem_core key" mem_view key for key
proof unfold_locales
  fix t row m m' e
  assume "co_insert (mem_core key) t row m = (Inl e, m')"
  then show "mem_view m' = mem_view m" by (auto simp: mem_insert_def Let_def split: if_splits)
next
  fix t row m rid m'
  assume "co_insert (mem_core key) t row m = (Inr rid, m')"
  then have new: "\<not> list_ex (has_key (key t) (row ! key t)) (mm_slots m t)"
    and rid: "rid = RID 1 (find_slot (\<lambda>x. x = None) (mm_slots m t))"
    and m': "m' = m\<lparr>mm_slots := (mm_slots m)(t := put_slot row (mm_slots m t))\<rparr>"
    by (auto simp: mem_insert_def Let_def split: if_splits)
  have "mem_view m' = set_row t rid (Some row) (mem_view m)"
    by (rule mem_view_eqI) (simp_all add: m' rid heap_read_put(1))
  moreover have "\<forall>r \<in> ran (db_rows (mem_view m) t). r ! key t \<noteq> row ! key t"
    using new by (auto simp: ran_heap_read list_ex_iff has_key_def split: option.splits)
  ultimately show "mem_view m' = set_row t rid (Some row) (mem_view m)
      \<and> db_rows (mem_view m) t rid = None \<and> (\<forall>r \<in> ran (db_rows (mem_view m) t). r ! key t \<noteq> row ! key t)"
    using heap_read_put(2) by (simp add: rid)
next
  fix t k and m :: mem and count m'
  let ?i = "find_slot (has_key (key t) k) (mm_slots m t)"
  assume removed: "co_remove (mem_core key) t k m = (Inr count, m')"
  show "(count = 0 \<and> mem_view m' = mem_view m \<and> (\<forall>r \<in> ran (db_rows (mem_view m) t). r ! key t \<noteq> k))
      \<or> (count = 1 \<and> (\<exists>rid r. db_rows (mem_view m) t rid = Some r \<and> r ! key t = k
            \<and> mem_view m' = set_row t rid None (mem_view m)))"
  proof (cases "?i < length (mm_slots m t)")
    case True
    then obtain r where r: "mm_slots m t ! ?i = Some r" "r ! key t = k"
      using find_slot_less [of "has_key (key t) k" "mm_slots m t"]
      by (auto simp: has_key_def split: option.splits)
    then have "count = 1" "mem_view m' = set_row t (RID 1 ?i) None (mem_view m)"
      using removed True
      by (auto simp: mem_remove_def Let_def heap_read_update intro!: mem_view_eqI)
    then show ?thesis using r True by (auto simp: heap_read_def intro!: exI [where x = "RID 1 ?i"])
  next
    case False
    then have "?i = length (mm_slots m t)" using find_slot_le [of "has_key (key t) k" "mm_slots m t"] by simp
    then show ?thesis
      using removed False find_slot_none [of "has_key (key t) k" "mm_slots m t"]
      by (fastforce simp: mem_remove_def ran_heap_read has_key_def Let_def)
  qed
next
  fix t n k rid m found m'
  assume "ci_remove_one (mem_core key) t n k rid m = (Inr found, m')"
  then show "found = ((k, rid) \<in># db_entries (mem_view m) t n)
      \<and> mem_view m' = del_entry t n k rid (mem_view m)"
    by (auto simp: mem_entry_remove_def intro!: mem_view_eqI)
qed (auto simp: io_return_def mem_remove_def mem_entry_insert_def mem_entry_remove_def Let_def
      intro!: mem_view_eqI split: if_splits)

text \<open>Nothing fails in memory, apart from the rows that the contract refuses.\<close>

lemma mem_reliable:
  "removals_reliable (mem_core key)" "handles_open (mem_core key) t indexes"
  "insertions_reliable (mem_core key) mem_view t (key t) (row_fits (key t) ty indexes)"
proof -
  show "removals_reliable (mem_core key)"
    by (auto simp: removals_reliable_def mem_remove_def mem_entry_remove_def Let_def)
  show "handles_open (mem_core key) t indexes" by (simp add: handles_open_def io_return_def)
  have "\<exists>rid m'. mem_insert key t row m = (Inr rid, m')"
    if "row_fits (key t) ty indexes row" "\<forall>r \<in> ran (heap_read (mm_slots m t)). r ! key t \<noteq> row ! key t"
    for row m
    using that
    by (auto simp: mem_insert_def Let_def row_fits_def ran_heap_read list_ex_iff has_key_def
        split: option.splits)
  then show "insertions_reliable (mem_core key) mem_view t (key t) (row_fits (key t) ty indexes)"
    by (auto simp: insertions_reliable_def mem_entry_insert_def)
qed

end
