(* ===== verification/Query_Values.thy ===== *)
theory Query_Values
  imports Select_Executor Native_Values_Spec
begin

text \<open>
  The meaning of a comparison: the order of the values of a type, the rows of the core that are rows of
  a schema, and what a predicate of the query says of the rows of the leaf that owns its column. A
  filter in memory decides exactly that, an equality is the equality of native values, and the bounds
  of a range search lose no row.
\<close>

section \<open>The order of the values of a type\<close>

fun value_less :: "bound_value \<Rightarrow> bound_value \<Rightarrow> bool" where
  "value_less (VInt a) (VInt b) = (a < b)"
| "value_less (VFloat a) (VFloat b) = float_less a b"
| "value_less (VStr s) (VStr t) = (s < t)"
| "value_less (VBool a) (VBool b) = (\<not> a \<and> b)"
| "value_less (VDate d) (VDate e) = (d < e)"
| "value_less (VPoint p) (VPoint q) =
     (float_less (pv_latitude p) (pv_latitude q)
      \<or> pv_latitude p = pv_latitude q \<and> float_less (pv_longitude p) (pv_longitude q))"
| "value_less _ _ = False"

text \<open>The meaning of a predicate on the value of its column, and on a row.\<close>

fun value_satisfies :: "bound_condition \<Rightarrow> bound_value \<Rightarrow> bool" where
  "value_satisfies (BoundComparison c op b sp) v =
     (case op of
        OP_EQUAL \<Rightarrow> v = b
      | OP_LESS_THAN \<Rightarrow> value_less v b
      | OP_LESS_THAN_OR_EQUAL \<Rightarrow> value_less v b \<or> v = b
      | OP_GREATER_THAN \<Rightarrow> value_less b v
      | OP_GREATER_THAN_OR_EQUAL \<Rightarrow> value_less b v \<or> v = b)"
| "value_satisfies (BoundBetween c lo hi sp) v =
     ((value_less lo v \<or> lo = v) \<and> (value_less v hi \<or> v = hi))"
| "value_satisfies _ v = False"

definition satisfies :: "bound_condition \<Rightarrow> bound_value list \<Rightarrow> bool" where
  "satisfies w row = value_satisfies w (row ! br_index (bound_condition_column w))"

text \<open>Predicates on a value of an ordered type; dates are those of the calendar.\<close>

fun attribute_condition :: "bound_condition \<Rightarrow> bool" where
  "attribute_condition (BoundComparison c op v sp) =
     (bc_type (br_column c) \<noteq> SQL_VECTOR \<and> date_value_ok v)"
| "attribute_condition (BoundBetween c lo hi sp) =
     (bc_type (br_column c) \<noteq> SQL_VECTOR \<and> date_value_ok lo \<and> date_value_ok hi)"
| "attribute_condition _ = False"

text \<open>A literal and a value of the column it is compared with.\<close>

definition comparable :: "bound_value \<Rightarrow> bound_value \<Rightarrow> bound_column \<Rightarrow> bool" where
  "comparable v b c \<longleftrightarrow> has_type v c \<and> has_predicate_type b c \<and> bc_type c \<noteq> SQL_VECTOR
     \<and> date_value_ok v \<and> date_value_ok b"

lemma comparable_cases:
  assumes "comparable v b c"
  obtains (int) m n where "v = VInt m" "b = VInt n"
    | (float) x y where "v = VFloat (Fin x)" "b = VFloat (Fin y)"
    | (str) s t where "v = VStr s" "b = VStr t"
    | (bool) p q where "v = VBool p" "b = VBool q"
    | (date) d e where "v = VDate d" "b = VDate e" "date_ok d" "date_ok e"
    | (point) x y x' y' where "v = VPoint (PointValue (Fin x) (Fin y))" "b = VPoint (PointValue (Fin x') (Fin y'))"
proof -
  have fin: "\<exists>r. x = Fin r" if "is_finite x" for x using that by (cases x) auto
  have point: "\<exists>x y. p = PointValue (Fin x) (Fin y)" if "point_in_range p" for p
    using that fin by (cases p) (auto simp: point_in_range_def)
  show ?thesis
    using assms that fin point
    by (cases v; cases b) (fastforce simp: comparable_def has_predicate_type_def split: if_splits)+
qed

lemma str_code_less: "map (of_char :: char \<Rightarrow> nat) s < map of_char t \<longleftrightarrow> s < t"
proof (induction s arbitrary: t)
  case Nil
  then show ?case by (cases t) auto
next
  case (Cons a s)
  then show ?case by (cases t) (auto simp: less_char_def)
qed

lemma str_code_inject: "map (of_char :: char \<Rightarrow> nat) s = map of_char t \<longleftrightarrow> s = t"
  by (simp add: inj_map_eq_map inj_on_def)

lemma native_order:
  assumes "comparable v b c"
  shows "native_le (to_native_value v) (to_native_value b) \<longleftrightarrow> value_less v b \<or> v = b"
    and "native_le (to_native_value b) (to_native_value v) \<longleftrightarrow> value_less b v \<or> v = b"
    and "to_native_value v = to_native_value b \<longleftrightarrow> v = b"
  using assms
  by (cases rule: comparable_cases; auto simp: str_code_less str_code_inject le_less to_ordinal_less_iff
      to_ordinal_inject)+

lemma python_order:
  assumes "comparable v b c"
  shows "py_compare v b = Inr (if value_less v b then - 1 else if value_less b v then 1 else 0)"
    and "v = b \<longleftrightarrow> \<not> value_less v b \<and> \<not> value_less b v"
    and "\<not> (value_less v b \<and> value_less b v)"
  using assms
  by (cases rule: comparable_cases; auto simp: py_compare_def py_less_def point_tuple_def)+

section \<open>Stored rows\<close>

text \<open>A record of the core that is a row of the types of a schema, and that row.\<close>

definition row_stored :: "bound_schema \<Rightarrow> native_record \<Rightarrow> bool" where
  "row_stored s r =
     (case from_native_record r s of
        Inl _ \<Rightarrow> False
      | Inr row \<Rightarrow> list_all2 has_type row (bs_columns s) \<and> list_all date_value_ok row
                   \<and> to_native_values row = r)"

definition bound_row :: "bound_schema \<Rightarrow> native_record \<Rightarrow> bound_value list" where
  "bound_row s r = (case from_native_record r s of Inl _ \<Rightarrow> [] | Inr row \<Rightarrow> row)"

lemma row_storedD:
  assumes "row_stored s r"
  shows "from_native_record r s = Inr (bound_row s r)" "list_all2 has_type (bound_row s r) (bs_columns s)"
    "list_all date_value_ok (bound_row s r)" "to_native_values (bound_row s r) = r"
  using assms by (auto simp: row_stored_def bound_row_def split: sum.splits)

lemma row_stored_values:
  assumes "list_all2 has_type row (bs_columns s)" "list_all date_value_ok row"
  shows "row_stored s (to_native_values row)" "bound_row s (to_native_values row) = row"
  using assms record_roundtrip [OF assms] by (simp_all add: row_stored_def bound_row_def)

lemma row_stored_length:
  "row_stored s r \<Longrightarrow> length (bound_row s r) = length (bs_columns s) \<and> length r = length (bs_columns s)"
  using list_all2_lengthD [OF row_storedD(2)] arg_cong [OF row_storedD(4), of s r length]
  by (simp add: to_native_values_def)

lemma row_stored_nth:
  assumes "row_stored s r" "i < length (bs_columns s)"
  shows "r ! i = to_native_value (bound_row s r ! i)" "has_type (bound_row s r ! i) (bs_columns s ! i)"
    "date_value_ok (bound_row s r ! i)"
proof -
  note r = row_storedD [OF assms(1)] row_stored_length [OF assms(1)]
  show "has_type (bound_row s r ! i) (bs_columns s ! i)" "date_value_ok (bound_row s r ! i)"
    using r assms(2) by (auto simp: list_all2_conv_all_nth list_all_length)
  have "r ! i = to_native_values (bound_row s r) ! i" by (simp add: r(4))
  then show "r ! i = to_native_value (bound_row s r ! i)"
    using r(5) assms(2) by (simp add: to_native_values_def)
qed

text \<open>The type of a value does not depend on the name of its column.\<close>

lemma has_type_cong:
  "bc_type c = bc_type c' \<Longrightarrow> bc_length c = bc_length c' \<Longrightarrow> has_type v c = has_type v c'"
  by (cases v) auto

lemma prefix_columns_types:
  "list_all2 (\<lambda>c c'. bc_type c = bc_type c' \<and> bc_length c = bc_length c') (bs_columns s) (prefix_columns K s)"
  by (auto simp: prefix_columns_def list_all2_conv_all_nth)

lemma has_type_prefix:
  assumes "list_all2 has_type row (bs_columns s)"
  shows "list_all2 has_type row (prefix_columns K s)"
  unfolding list_all2_conv_all_nth
proof (intro conjI allI impI)
  note P = prefix_columns_types [of s K, unfolded list_all2_conv_all_nth]
    and R = assms [unfolded list_all2_conv_all_nth]
  show "length row = length (prefix_columns K s)" using P R by simp
  fix i assume i: "i < length row"
  then have "has_type (row ! i) (bs_columns s ! i)" using R by blast
  then show "has_type (row ! i) (prefix_columns K s ! i)"
    using P R i has_type_cong [of "bs_columns s ! i" "prefix_columns K s ! i" "row ! i"] by simp
qed

lemma row_stored_join:
  assumes "row_stored s l" "row_stored t r"
  shows "row_stored (join_output_schema s t) (l @ r)"
    "bound_row (join_output_schema s t) (l @ r) = bound_row s l @ bound_row t r"
proof -
  let ?row = "bound_row s l @ bound_row t r"
  have "list_all2 has_type ?row (bs_columns (join_output_schema s t))"
    using row_storedD(2) [OF assms(1)] row_storedD(2) [OF assms(2)]
    by (auto simp: join_output_schema_def Let_def intro!: list_all2_appendI has_type_prefix)
  moreover have "list_all date_value_ok ?row"
    using row_storedD(3) [OF assms(1)] row_storedD(3) [OF assms(2)] by simp
  moreover have "to_native_values ?row = l @ r"
    using row_storedD(4) [OF assms(1)] row_storedD(4) [OF assms(2)] by (simp add: to_native_values_def)
  ultimately show "row_stored (join_output_schema s t) (l @ r)"
    "bound_row (join_output_schema s t) (l @ r) = ?row"
    using row_stored_values [of ?row "join_output_schema s t"] by auto
qed

lemma stored_storable:
  assumes "has_type v c" "date_value_ok v" "bc_type c \<noteq> SQL_VECTOR"
  shows "storable (to_native_value v) c"
proof (cases v)
  case (VStr s)
  have "sum_list (map (code_bytes \<circ> of_char) s) = utf8_length s"
    by (induction s) (auto simp: utf8_length_def code_bytes_def is_ascii_def less_eq_char_def of_char_less
        intro: less_trans [OF of_char_less])
  moreover have "list_all (\<lambda>k. k \<le> 1114111) (map (of_char :: char \<Rightarrow> nat) s)"
    by (auto simp: list_all_iff intro!: order.trans [OF less_imp_le [OF of_char_less]])
  ultimately show ?thesis using assms(1) VStr by auto
next
  case (VDate d)
  then show ?thesis
    using assms ordinal_range [of d] by (auto simp: epoch_def max_ordinal_def)
next
  case (VPoint p)
  then show ?thesis using assms(1) in_range_point [of p] by simp
qed (use assms in \<open>auto simp: int32_min_def int32_max_def\<close>)

section \<open>A predicate at the leaf of its column\<close>

text \<open>
  The predicate of a query names its column by the position in the whole row; the leaf that owns it
  starts at \<open>off\<close>.
\<close>

fun condition_values :: "bound_condition \<Rightarrow> bound_value list" where
  "condition_values (BoundComparison c op v sp) = [v]"
| "condition_values (BoundBetween c lo hi sp) = [lo, hi]"
| "condition_values _ = []"

definition condition_at :: "bound_condition \<Rightarrow> nat \<Rightarrow> bound_schema \<Rightarrow> bool" where
  "condition_at w off s \<longleftrightarrow>
     (let r = bound_condition_column w; i = br_index r in
      attribute_condition w \<and> off \<le> i \<and> i - off < length (bs_columns s)
      \<and> bc_type (br_column r) = bc_type (bs_columns s ! (i - off))
      \<and> bc_length (br_column r) = bc_length (bs_columns s ! (i - off))
      \<and> (bc_type (br_column r) = SQL_VARCHAR \<longrightarrow> bc_length (br_column r) \<noteq> None)
      \<and> list_all (\<lambda>v. has_predicate_type v (br_column r)) (condition_values w))"

definition satisfies_at :: "bound_condition \<Rightarrow> nat \<Rightarrow> bound_schema \<Rightarrow> native_record \<Rightarrow> bool" where
  "satisfies_at w off s r =
     value_satisfies w (bound_row s r ! (br_index (bound_condition_column w) - off))"

lemma condition_at_comparable:
  assumes "condition_at w off s" "row_stored s r" "b \<in> set (condition_values w)"
  defines "i \<equiv> br_index (bound_condition_column w) - off"
  shows "comparable (bound_row s r ! i) b (br_column (bound_condition_column w))"
    and "r ! i = to_native_value (bound_row s r ! i)" and "i < length (bs_columns s)"
proof -
  have i: "i < length (bs_columns s)" using assms(1) by (simp add: condition_at_def Let_def i_def)
  note n = row_stored_nth [OF assms(2) i]
  have "has_type (bound_row s r ! i) (br_column (bound_condition_column w))"
    using assms(1) n(2) has_type_cong [of "br_column (bound_condition_column w)" "bs_columns s ! i"]
    by (simp add: condition_at_def Let_def i_def)
  then show "comparable (bound_row s r ! i) b (br_column (bound_condition_column w))"
    using assms(1,3) n(3)
    by (cases w) (auto simp: comparable_def condition_at_def Let_def)
  show "r ! i = to_native_value (bound_row s r ! i)" "i < length (bs_columns s)" by (rule n(1), rule i)
qed

text \<open>A filter in memory decides the predicate, and an equality is that of the native values.\<close>

lemma row_matches_satisfies:
  assumes "condition_at w off s" "row_stored s r"
  shows "row_matches lm (bound_row s r) (local_condition (length (bs_columns s)) off w)
    = Inr (satisfies_at w off s r)"
proof -
  let ?i = "br_index (bound_condition_column w) - off"
  let ?v = "bound_row s r ! ?i"
  have len: "length (bound_row s r) = length (bs_columns s)"
    using row_stored_length [OF assms(2)] by simp
  have off: "off \<le> br_index (bound_condition_column w)" using assms(1) by (simp add: condition_at_def Let_def)
  note c = condition_at_comparable [OF assms(1,2)]
  show ?thesis
  proof (cases w)
    case (BoundComparison col op b sp)
    have b: "b \<in> set (condition_values w)" by (simp add: BoundComparison)
    note order = python_order [OF c(1) [OF b]]
    have "compare_holds op (if value_less ?v b then - 1 else if value_less b ?v then 1 else 0)
        = value_satisfies w ?v"
      using order(2,3) by (cases op) (auto simp: BoundComparison)
    then show ?thesis
      using order(1) c(3) [OF b] len off
      by (simp add: BoundComparison satisfies_at_def cell_of_def shift_reference_def local_position_def)
  next
    case (BoundBetween col lo hi sp)
    have b: "lo \<in> set (condition_values w)" "hi \<in> set (condition_values w)" by (simp_all add: BoundBetween)
    note lo = python_order [OF c(1) [OF b(1)]] and hi = python_order [OF c(1) [OF b(2)]]
    show ?thesis
      using lo hi c(3) [OF b(1)] len off
      by (auto simp: BoundBetween satisfies_at_def cell_of_def shift_reference_def local_position_def)
  qed (use assms(1) in \<open>simp_all add: condition_at_def Let_def\<close>)
qed

lemma equality_satisfies:
  assumes "condition_at (BoundComparison col OP_EQUAL b sp) off s" "row_stored s r"
  shows "satisfies_at (BoundComparison col OP_EQUAL b sp) off s r
    \<longleftrightarrow> r ! (br_index col - off) = to_native_value b"
  using condition_at_comparable [OF assms, of b] native_order(3)
  by (fastforce simp: satisfies_at_def)

text \<open>The arguments of a range search: it loses no row, and strict bounds leave rows to filter.\<close>

definition strict_condition :: "bound_condition \<Rightarrow> bool" where
  "strict_condition w = (case w of BoundComparison c op v sp \<Rightarrow> is_strict op | _ \<Rightarrow> False)"

lemma range_bounds_total:
  "bc_type c \<noteq> SQL_VECTOR \<Longrightarrow> (bc_type c = SQL_VARCHAR \<longrightarrow> bc_length c \<noteq> None) \<Longrightarrow>
     \<exists>lo hi. native_range_bounds c = Inr (lo, hi)"
  by (cases "bc_type c") (auto simp: native_range_bounds_def)

lemma range_satisfies:
  assumes at: "condition_at w off s" and op: "\<nexists>c v sp. w = BoundComparison c OP_EQUAL v sp"
  shows "\<exists>lo hi. range_values w = Inr (lo, hi)
    \<and> (\<forall>r. row_stored s r \<longrightarrow>
         (let x = r ! (br_index (bound_condition_column w) - off); hit = native_le lo x \<and> native_le x hi in
          (satisfies_at w off s r \<longrightarrow> hit) \<and> (\<not> strict_condition w \<longrightarrow> hit \<longrightarrow> satisfies_at w off s r)))"
proof (cases w)
  case (BoundBetween col lo hi sp)
  have b: "lo \<in> set (condition_values w)" "hi \<in> set (condition_values w)" by (simp_all add: BoundBetween)
  have "satisfies_at w off s r \<longleftrightarrow> native_le (to_native_value lo) (r ! (br_index col - off))
      \<and> native_le (r ! (br_index col - off)) (to_native_value hi)" if "row_stored s r" for r
    using condition_at_comparable(2) [OF at that b(1)]
      native_order(2) [OF condition_at_comparable(1) [OF at that b(1)]]
      native_order(1) [OF condition_at_comparable(1) [OF at that b(2)]]
    by (auto simp: BoundBetween satisfies_at_def)
  then show ?thesis by (simp add: BoundBetween Let_def)
next
  case (BoundComparison col op' b sp)
  let ?k = "br_index col - off"
  have b: "b \<in> set (condition_values w)" by (simp add: BoundComparison)
  have ne: "op' \<noteq> OP_EQUAL" using op BoundComparison by blast
  have col: "bc_type (br_column col) \<noteq> SQL_VECTOR"
    "bc_type (br_column col) = SQL_VARCHAR \<longrightarrow> bc_length (br_column col) \<noteq> None"
    using at unfolding BoundComparison condition_at_def Let_def bound_condition_column.simps
      attribute_condition.simps by blast+
  obtain lo hi where bounds: "native_range_bounds (br_column col) = Inr (lo, hi)"
    using range_bounds_total [OF col] by blast
  have enclosed: "native_le lo (r ! ?k) \<and> native_le (r ! ?k) hi"
    and cmp: "comparable (bound_row s r ! ?k) b (br_column col)"
    and nth: "r ! ?k = to_native_value (bound_row s r ! ?k)" if "row_stored s r" for r
  proof -
    note c = condition_at_comparable [OF at that b, unfolded BoundComparison bound_condition_column.simps]
    show "comparable (bound_row s r ! ?k) b (br_column col)" "r ! ?k = to_native_value (bound_row s r ! ?k)"
      by (rule c(1), rule c(2))
    have "storable (to_native_value (bound_row s r ! ?k)) (br_column col)"
      using c(1) by (auto simp: comparable_def intro: stored_storable)
    from range_bounds_hold [OF this] show "native_le lo (r ! ?k) \<and> native_le (r ! ?k) hi"
      using bounds c(2) by simp
  qed
  show ?thesis
    using ne bounds enclosed nth native_order [OF cmp]
    by (cases op') (auto simp: BoundComparison satisfies_at_def strict_condition_def is_strict_def Let_def)
qed (use at in \<open>simp_all add: condition_at_def Let_def\<close>)

end
