(* ===== verification/Query_Contract.thy ===== *)
theory Query_Contract
  imports Query_Core Core_Contract Native_Values_Spec
begin

text \<open>
  What the documentation of the core promises of its reads (\<open>catalog/table.hpp\<close>,
  \<open>external/external_join.hpp\<close>): scans and searches of a table, searches of an index, and the inner
  equijoin of two streams. They change neither rows nor entries. The rules for computations that only
  read are those of total correctness: they return, leave the database as it was, and their value
  satisfies what is promised.
\<close>

section \<open>Computations that only read\<close>

text \<open>A law of an operation that may fail, and an operation that does not.\<close>

definition reader :: "('s \<Rightarrow> db) \<Rightarrow> ('s, 'a) io \<Rightarrow> (db \<Rightarrow> 'a \<Rightarrow> bool) \<Rightarrow> bool" where
  "reader view m P \<longleftrightarrow>
     (\<forall>s r s'. m s = (r, s') \<longrightarrow> view s' = view s \<and> (\<forall>x. r = Inr x \<longrightarrow> P (view s) x))"

definition returns :: "('s, 'a) io \<Rightarrow> bool" where
  "returns m \<longleftrightarrow> (\<forall>s. \<exists>x s'. m s = (Inr x, s'))"

definition reads :: "('s \<Rightarrow> db) \<Rightarrow> db \<Rightarrow> ('s, 'a) io \<Rightarrow> ('a \<Rightarrow> bool) \<Rightarrow> bool" where
  "reads view d m P \<longleftrightarrow>
     (\<forall>s. view s = d \<longrightarrow> (\<exists>x s'. m s = (Inr x, s') \<and> view s' = d \<and> P x))"

named_theorems reads_rules \<comment> \<open>rules for computations that only read\<close>

lemma reads_op:
  assumes "reader view m P" "returns m" "\<And>x. P d x \<Longrightarrow> Q x"
  shows "reads view d m Q"
  unfolding reads_def
proof (intro allI impI)
  fix s assume s: "view s = d"
  obtain x s' where m: "m s = (Inr x, s')" using assms(2) unfolding returns_def by blast
  then have "view s' = view s \<and> P (view s) x" using assms(1) unfolding reader_def by blast
  then show "\<exists>x s'. m s = (Inr x, s') \<and> view s' = d \<and> Q x" using m s assms(3) by auto
qed

lemma reads_law: "reader view m P \<Longrightarrow> returns m \<Longrightarrow> reads view d m (P d)"
  by (rule reads_op)

lemma reads_return [reads_rules]: "P x \<Longrightarrow> reads view d (io_return x) P"
  by (simp add: reads_def io_return_def)

lemma reads_lift [reads_rules]: "r = Inr x \<Longrightarrow> P x \<Longrightarrow> reads view d (io_lift r) P"
  by (simp add: reads_def io_lift_def)

lemma reads_bind:
  "reads view d m P \<Longrightarrow> (\<And>x. P x \<Longrightarrow> reads view d (f x) Q) \<Longrightarrow> reads view d (io_bind m f) Q"
  unfolding reads_def io_bind_def by fastforce

lemma reads_bind3:
  assumes "reads view d m (\<lambda>(x, y, z). P x y z)" "\<And>x y z. P x y z \<Longrightarrow> reads view d (f x y z) Q"
  shows "reads view d (io_bind m (\<lambda>(x, y, z). f x y z)) Q"
  using assms(1) by (rule reads_bind) (use assms(2) in auto)

lemma reads_then:
  "reads view d m P \<Longrightarrow> reads view d n Q \<Longrightarrow> reads view d (io_then m n) Q"
  unfolding io_then_def by (rule reads_bind)

lemma reads_weaken: "reads view d m P \<Longrightarrow> (\<And>x. P x \<Longrightarrow> Q x) \<Longrightarrow> reads view d m Q"
  unfolding reads_def by blast

lemma reads_map:
  assumes "\<And>x. x \<in> set xs \<Longrightarrow> reads view d (f x) (\<lambda>y. y = g x)"
  shows "reads view d (io_map f xs) (\<lambda>ys. ys = map g xs)"
  using assms
proof (induction xs)
  case (Cons x xs)
  have "reads view d (f x) (\<lambda>y. y = g x)" using Cons.prems by simp
  moreover have "reads view d (io_map f xs) (\<lambda>ys. ys = map g xs)" using Cons by simp
  ultimately show ?case by (auto intro!: reads_bind reads_return elim!: reads_bind)
qed (simp add: reads_return)

lemma reads_finally:
  assumes "reads view d m P" "\<And>s. view (f s) = view s"
  shows "reads view d (io_finally m (\<lambda>s. (Inr (), f s))) P"
  using assms unfolding reads_def io_finally_def by fastforce

section \<open>The rows of a table and of a join\<close>

definition table_rows :: "db \<Rightarrow> string \<Rightarrow> native_record multiset" where
  "table_rows d t = image_mset (\<lambda>rid. the (db_rows d t rid)) (mset_set (dom (db_rows d t)))"

definition join_rows ::
  "nat \<Rightarrow> nat \<Rightarrow> native_record multiset \<Rightarrow> native_record multiset \<Rightarrow> native_record multiset" where
  "join_rows i j L R = (\<Sum>l\<in>#L. image_mset (\<lambda>r. l @ r) (filter_mset (\<lambda>r. l ! i = r ! j) R))"

lemma in_table_rows: "finite (dom (db_rows d t)) \<Longrightarrow> r \<in># table_rows d t \<longleftrightarrow> r \<in> ran (db_rows d t)"
  by (force simp: table_rows_def ran_def image_iff domIff)

lemma in_join_rows: "x \<in># join_rows i j L R \<longleftrightarrow> (\<exists>l r. x = l @ r \<and> l \<in># L \<and> r \<in># R \<and> l ! i = r ! j)"
  by (auto simp: join_rows_def)

text \<open>The rows that the entries of an index give are those whose column satisfies the search.\<close>

lemma rows_of_entries:
  assumes "db_entries d t n = index_of (db_rows d t) c"
  shows "image_mset (\<lambda>e. the (db_rows d t (snd e))) (filter_mset (\<lambda>e. P (fst e)) (db_entries d t n))
    = filter_mset (\<lambda>r. P (r ! c)) (table_rows d t)"
  by (simp add: assms index_of_def table_rows_def filter_mset_image_mset multiset.map_comp comp_def)

lemma entries_live:
  assumes "db_entries d t n = index_of (db_rows d t) c" "finite (dom (db_rows d t))"
    and "e \<in># db_entries d t n"
  shows "snd e \<in> dom (db_rows d t)"
  using assms by (auto simp: index_of_def)

text \<open>The probe of a join searches the rows of the right side by the column of the join.\<close>

fun probe_right :: "(string \<Rightarrow> nat) \<Rightarrow> db \<Rightarrow> nat \<Rightarrow> join_probe option \<Rightarrow> native_record multiset \<Rightarrow> bool" where
  "probe_right key d c None R = True"
| "probe_right key d c (Some (PrimaryProbe t)) R = (key t = c \<and> R = table_rows d t)"
| "probe_right key d c (Some (IndexProbe t n)) R =
     (R = table_rows d t \<and> db_entries d t n = index_of (db_rows d t) c)"

section \<open>The contract\<close>

locale query_db = dml_core C view key
  for C :: "('s, 'm) query_core_scheme" and view :: "'s \<Rightarrow> db" and key :: "string \<Rightarrow> nat" +
  assumes scan_law: "reader view (co_scan C t) (\<lambda>d rows. mset rows = table_rows d t)"
    and search_law:
      "reader view (co_search C t k) (\<lambda>d rows. mset rows = filter_mset (\<lambda>r. r ! key t = k) (table_rows d t))"
    and range_law:
      "reader view (co_range_search C t lo hi) (\<lambda>d rows.
         mset rows = filter_mset (\<lambda>r. native_le lo (r ! key t) \<and> native_le (r ! key t) hi) (table_rows d t))"
    and index_search_law:
      "reader view (ci_search C t n k) (\<lambda>d rids.
         mset rids = image_mset snd (filter_mset (\<lambda>e. fst e = k) (db_entries d t n)))"
    and index_range_law:
      "reader view (ci_range_search C t n lo hi) (\<lambda>d rids.
         mset rids = image_mset snd (filter_mset (\<lambda>e. native_le lo (fst e) \<and> native_le (fst e) hi)
                       (db_entries d t n)))"
    and supports_law: "reader view (ci_supports_range C t n) (\<lambda>d b. True)"
    and clock_law: "reader view (q_clock C) (\<lambda>d n. True)"
    and counter_laws: "reader view (q_reset_table C t) (\<lambda>d u. True)"
      "reader view (q_reset_index C t n) (\<lambda>d u. True)"
      "reader view (q_table_stats C t) (\<lambda>d c. True)" "reader view (q_index_stats C t n) (\<lambda>d c. True)"
    and temp_laws: "reader view (q_make_temp C) (\<lambda>d u. True)" "view (q_remove_temp C s) = view s"
    and join_open_laws: "reader view (q_open_join C j) (\<lambda>d u. True)"
      "reader view (q_open_probe C p) (\<lambda>d u. True)"
    and join_law:
      "reader view (q_join C j L probe R outer_rows) (\<lambda>d rows.
         probe_right key d (jr_right_column j) probe (mset R) \<longrightarrow>
         mset rows = join_rows (jr_left_column j) (jr_right_column j) (mset L) (mset R))"
    and join_report_law:
      "reader view (q_join_report C j) (\<lambda>d r. \<exists>st. structure_of (jo_structure r) = Inr st)"

text \<open>Reads of tables and indexes that exist do not fail; a B+ index supports ranges.\<close>

definition reads_reliable :: "('s, 'm) query_core_scheme \<Rightarrow> (string \<Rightarrow> index_ref list) \<Rightarrow> bool" where
  "reads_reliable C ixs \<longleftrightarrow>
     (\<forall>t. handles_open C t (ixs t)) \<and> (\<forall>t rid. returns (co_read C t rid))
     \<and> (\<forall>t. returns (co_scan C t)) \<and> (\<forall>t k. returns (co_search C t k))
     \<and> (\<forall>t lo hi. returns (co_range_search C t lo hi)) \<and> (\<forall>t n k. returns (ci_search C t n k))
     \<and> (\<forall>t n lo hi. returns (ci_range_search C t n lo hi))
     \<and> returns (q_clock C) \<and> (\<forall>t. returns (q_reset_table C t)) \<and> (\<forall>t n. returns (q_reset_index C t n))
     \<and> (\<forall>t. returns (q_table_stats C t)) \<and> (\<forall>t n. returns (q_index_stats C t n))
     \<and> returns (q_make_temp C) \<and> (\<forall>j. returns (q_open_join C j)) \<and> (\<forall>p. returns (q_open_probe C p))
     \<and> (\<forall>j L p R n. returns (q_join C j L p R n)) \<and> (\<forall>j. returns (q_join_report C j))"

definition range_supported ::
  "('s, 'm) query_core_scheme \<Rightarrow> string \<Rightarrow> index_metadata list \<Rightarrow> bool" where
  "range_supported C t ixs \<longleftrightarrow>
     (\<forall>ix \<in> set ixs. im_structure ix = ST_BPLUS_UNCLUSTERED \<longrightarrow> (\<forall>s. \<exists>s'. ci_supports_range C t (im_name ix) s = (Inr True, s')))"

context query_db begin

lemma reads_measure_native:
  assumes rel: "reads_reliable C ixs" and m: "reads view d m P"
  shows "reads view d (measure_native C h m) (\<lambda>r. P (me_value r))"
proof -
  have ops: "returns (q_clock C)" "returns (q_reset_table C t)" "returns (q_reset_index C t n)"
    "returns (q_table_stats C t)" "returns (q_index_stats C t n)" for t n
    using rel by (simp_all add: reads_reliable_def)
  have any: "reads view d (q_clock C) (\<lambda>_. True)" "reads view d (reset_stats C h) (\<lambda>_. True)"
    "reads view d (handle_stats C h) (\<lambda>_. True)"
    by (rule reads_op [OF clock_law ops(1) TrueI])
      (cases h; simp add: reads_op [OF counter_laws(1) ops(2)] reads_op [OF counter_laws(2) ops(3)]
        reads_op [OF counter_laws(3) ops(4)] reads_op [OF counter_laws(4) ops(5)])+
  show ?thesis
    unfolding measure_native_def
    by (rule reads_then [OF any(2)], rule reads_bind [OF any(1)], rule reads_bind [OF m],
        rule reads_bind [OF any(1)], rule reads_bind [OF any(3)], rule reads_return) simp
qed

lemma reads_measure_memory:
  assumes rel: "reads_reliable C ixs" and m: "reads view d m P"
  shows "reads view d (measure_memory C m examined f) (\<lambda>r. P (me_value r))"
proof -
  have any: "reads view d (q_clock C) (\<lambda>_. True)"
    using rel by (intro reads_op [OF clock_law]) (simp_all add: reads_reliable_def)
  show ?thesis
    unfolding measure_memory_def
    by (rule reads_bind [OF any], rule reads_bind [OF m], rule reads_bind [OF any], rule reads_return) simp
qed

lemma reads_open:
  assumes "reads_reliable C ixs"
  shows "reads view d (co_table C t) (\<lambda>_. True)"
    and "(n, c) \<in> set (ixs t) \<Longrightarrow> reads view d (co_index C t n) (\<lambda>_. True)"
proof -
  have open_reader: "reader view (co_table C t) (\<lambda>d u. True)" "reader view (co_index C t n) (\<lambda>d u. True)"
    unfolding reader_def by (blast dest: open_view(1), blast dest: open_view(2))
  have h: "handles_open C t (ixs t)" using assms by (simp add: reads_reliable_def)
  then have "returns (co_table C t)" unfolding handles_open_def returns_def by blast
  then show "reads view d (co_table C t) (\<lambda>_. True)" by (rule reads_op [OF open_reader(1)]) simp
  assume "(n, c) \<in> set (ixs t)"
  then have "n \<in> fst ` set (ixs t)" by force
  then have "returns (co_index C t n)" using h unfolding handles_open_def returns_def by blast
  then show "reads view d (co_index C t n) (\<lambda>_. True)" by (rule reads_op [OF open_reader(2)]) simp
qed

end

end
