(* ===== verification/Select_Routes.thy ===== *)
theory Select_Routes
  imports Query_Values Query_Contract Planner_Optimizer_Spec
begin

text \<open>
  Every route that the optimizer may choose for a comparison or an interval reads rows that answer the
  predicate: the search of the key or of an index, a range of either, or a scan; where the route reads
  more rows, the plan keeps the predicate as a filter.
\<close>

section \<open>The routes of a leaf\<close>

text \<open>
  A table in step with its metadata: its key is that of the schema, its rows are rows of the schema and
  its indexes are in step with them.
\<close>

definition table_kept ::
  "(string \<Rightarrow> nat) \<Rightarrow> (string \<Rightarrow> native_type) \<Rightarrow> (string \<Rightarrow> index_ref list) \<Rightarrow> db \<Rightarrow> table_metadata
   \<Rightarrow> bound_schema \<Rightarrow> bool" where
  "table_kept key ty ixs d tm s \<longleftrightarrow>
     (let t = bs_table_name s in
      tm_name tm = t \<and> key t = bs_key_column s \<and> well_kept t (key t) (ty t) (ixs t) d
      \<and> (\<forall>r \<in> ran (db_rows d t). row_stored s r)
      \<and> (\<forall>ix \<in> set (tm_indexes tm). (im_name ix, im_column ix) \<in> set (ixs t)))"

text \<open>What a leaf reads: rows of the table among which are all those that satisfy the predicate.\<close>

definition answers ::
  "(native_record \<Rightarrow> bool) \<Rightarrow> bool \<Rightarrow> native_record multiset \<Rightarrow> native_record multiset \<Rightarrow> bool" where
  "answers P residual T M \<longleftrightarrow>
     (\<exists>Q. M = filter_mset Q T \<and> (\<forall>r. r \<in># T \<longrightarrow> P r \<longrightarrow> Q r) \<and> (\<not> residual \<longrightarrow> (\<forall>r. r \<in># T \<longrightarrow> Q r \<longrightarrow> P r)))"

lemma answersI:
  "M = filter_mset Q T \<Longrightarrow> (\<And>r. r \<in># T \<Longrightarrow> P r \<Longrightarrow> Q r) \<Longrightarrow> (\<And>r. \<not> residual \<Longrightarrow> r \<in># T \<Longrightarrow> Q r \<Longrightarrow> P r)
   \<Longrightarrow> answers P residual T M"
  unfolding answers_def by blast

lemma answersD:
  assumes "answers P residual T M"
  shows "r \<in># M \<Longrightarrow> r \<in># T" "filter_mset P M = filter_mset P T" "\<not> residual \<Longrightarrow> M = filter_mset P T"
proof -
  obtain Q where Q: "M = filter_mset Q T" "\<forall>r. r \<in># T \<longrightarrow> P r \<longrightarrow> Q r"
    "\<not> residual \<longrightarrow> (\<forall>r. r \<in># T \<longrightarrow> Q r \<longrightarrow> P r)"
    using assms unfolding answers_def by blast
  show "r \<in># M \<Longrightarrow> r \<in># T" by (simp add: Q(1))
  show "filter_mset P M = filter_mset P T"
    unfolding Q(1) filter_filter_mset using Q(2) by (intro filter_mset_cong) auto
  assume "\<not> residual"
  then show "M = filter_mset P T"
    unfolding Q(1) using Q(2,3) by (intro filter_mset_cong) auto
qed

context query_db begin

lemma reads_fetch:
  assumes rel: "reads_reliable C ixs" and live: "set rids \<subseteq> dom (db_rows d t)"
  shows "reads view d (fetch_rows C t message rids) (\<lambda>rows. rows = map (\<lambda>rid. the (db_rows d t rid)) rids)"
  unfolding fetch_rows_def
proof (rule reads_map)
  fix rid assume "rid \<in> set rids"
  then obtain row where row: "db_rows d t rid = Some row" using live by auto
  have reader: "reader view (co_read C t rid) (\<lambda>e stored. stored = db_rows e t rid)"
    unfolding reader_def using read_view by blast
  have "returns (co_read C t rid)" using rel by (simp add: reads_reliable_def)
  then have "reads view d (co_read C t rid) (\<lambda>stored. stored = Some row)"
    using reads_op [OF reader] row by fastforce
  then show "reads view d (io_bind (co_read C t rid)
      (\<lambda>r. case r of None \<Rightarrow> io_raise (RuntimeError (message rid)) | Some row \<Rightarrow> io_return row))
      (\<lambda>y. y = the (db_rows d t rid))"
    by (rule reads_bind) (simp add: row reads_return)
qed

text \<open>The rows whose RIDs a search of an index gives.\<close>

lemma index_rows:
  assumes kept: "table_kept key ty ixs d tm s" and ix: "ix \<in> set (tm_indexes tm)"
    and rids: "mset rids = image_mset snd (filter_mset (\<lambda>e. P (fst e)) (db_entries d (bs_table_name s) (im_name ix)))"
  shows "set rids \<subseteq> dom (db_rows d (bs_table_name s))"
    and "mset (map (\<lambda>rid. the (db_rows d (bs_table_name s) rid)) rids)
      = filter_mset (\<lambda>r. P (r ! nat (im_column ix))) (table_rows d (bs_table_name s))"
proof -
  let ?t = "bs_table_name s"
  have "(im_name ix, im_column ix) \<in> set (ixs ?t)" "well_kept ?t (key ?t) (ty ?t) (ixs ?t) d"
    using kept ix by (auto simp: table_kept_def Let_def)
  then have entries: "db_entries d ?t (im_name ix) = index_of (db_rows d ?t) (nat (im_column ix))"
    and fin: "finite (dom (db_rows d ?t))"
    by (auto simp: well_kept_def)
  have "set rids = set_mset (mset rids)" by simp
  also have "\<dots> \<subseteq> dom (db_rows d ?t)"
    unfolding rids using entries_live [OF entries fin] by auto
  finally show "set rids \<subseteq> dom (db_rows d ?t)" .
  show "mset (map (\<lambda>rid. the (db_rows d ?t rid)) rids)
      = filter_mset (\<lambda>r. P (r ! nat (im_column ix))) (table_rows d ?t)"
    using rows_of_entries [OF entries, of P] by (simp add: rids multiset.map_comp comp_def)
qed

end


text \<open>The four shapes of a plan for a comparison or an interval.\<close>

lemma route_cases:
  assumes "attribute_condition w" "route_fits w column k tm primary c"
  obtains (scan) "c = choice R_SCAN None True"
    | (key_search) col v sp where "w = BoundComparison col OP_EQUAL v sp"
        "c = choice R_TABLE_SEARCH None False" "column = int k"
    | (index_search) col v sp ix where "w = BoundComparison col OP_EQUAL v sp"
        "c = choice R_INDEX_SEARCH (Some ix) False" "ix \<in> set (tm_indexes tm)" "im_column ix = column"
    | (key_range) "\<nexists>col v sp. w = BoundComparison col OP_EQUAL v sp"
        "c = choice R_TABLE_RANGE None (strict_condition w)" "column = int k"
    | (index_range) ix where "\<nexists>col v sp. w = BoundComparison col OP_EQUAL v sp"
        "c = choice R_INDEX_RANGE (Some ix) (strict_condition w)" "ix \<in> set (tm_indexes tm)"
        "im_column ix = column" "im_structure ix = ST_BPLUS_UNCLUSTERED"
  using assms that
  by (cases w) (auto simp: strict_condition_def eligible_key_def split: if_splits)

definition planned_access :: "table_metadata \<Rightarrow> access_choice \<Rightarrow> table_access" where
  "planned_access tm c = plain_access tm (ac_route c) (ac_index c) (ac_residual c)"

context query_db begin

lemma reads_measured:
  assumes rel: "reads_reliable C ixs" and m: "reads view d m P"
  shows "reads view d
    (io_bind (measure_native C h (io_bind m (\<lambda>rs. io_return (rs, [])))) (\<lambda>r. io_return (p, r)))
    (\<lambda>(p, m). P (fst (me_value m)) \<and> snd (me_value m) = [])"
proof -
  have "reads view d (io_bind m (\<lambda>rs. io_return (rs, []))) (\<lambda>x. P (fst x) \<and> snd x = [])"
    by (rule reads_bind [OF m]) (rule reads_return, simp)
  from reads_measure_native [OF rel this] show ?thesis
    by (rule reads_bind) (rule reads_return, simp)
qed

lemma reads_index_search:
  assumes rel: "reads_reliable C ixs" and key: "equality_key w = Inr k" and route: "pa_route a = R_INDEX_SEARCH"
  shows "reads view d (index_candidates C a ix t w want) (\<lambda>(p, m).
    mset (fst (me_value m)) = image_mset snd (filter_mset (\<lambda>e. fst e = k) (db_entries d t (im_name ix)))
    \<and> snd (me_value m) = [])"
proof -
  have "returns (ci_search C t (im_name ix) k)" using rel by (simp add: reads_reliable_def)
  from reads_measured [OF rel reads_law [OF index_search_law this]]
  show ?thesis by (simp add: index_candidates_def route key Let_def)
qed

lemma reads_index_range:
  assumes rel: "reads_reliable C ixs" and bounds: "range_values w = Inr (lo, hi)"
    and route: "pa_route a = R_INDEX_RANGE"
    and supported: "\<forall>s. \<exists>s'. ci_supports_range C t (im_name ix) s = (Inr True, s')"
  shows "reads view d (index_candidates C a ix t w want) (\<lambda>(p, m).
    mset (fst (me_value m)) = image_mset snd (filter_mset (\<lambda>e. native_le lo (fst e) \<and> native_le (fst e) hi)
      (db_entries d t (im_name ix))) \<and> snd (me_value m) = [])"
proof -
  have "returns (ci_range_search C t (im_name ix) lo hi)" using rel by (simp add: reads_reliable_def)
  note search = reads_measured [OF rel reads_law [OF index_range_law this]]
  have "reads view d (ci_supports_range C t (im_name ix)) (\<lambda>ok. ok)"
    unfolding reads_def
  proof (intro allI impI)
    fix s assume s: "view s = d"
    obtain s' where ok: "ci_supports_range C t (im_name ix) s = (Inr True, s')" using supported by blast
    then have "view s' = d" using supports_law s unfolding reader_def by blast
    then show "\<exists>x s'. ci_supports_range C t (im_name ix) s = (Inr x, s') \<and> view s' = d \<and> x" using ok by blast
  qed
  note ok = this
  show ?thesis
    by (simp add: index_candidates_def route bounds Let_def) (rule reads_bind [OF ok], simp add: bounds search)
qed

lemma reads_index_route:
  assumes rel: "reads_reliable C ixs" and kept: "table_kept key ty ixs d tm s" and ix: "ix \<in> set (tm_indexes tm)"
    and a: "pa_route a \<notin> {R_VECTOR_KNN, R_VECTOR_SCAN, R_SCAN, R_TABLE_SEARCH, R_TABLE_RANGE, R_TEXT_SEARCH}"
      "pa_nearest a = None" "pa_index a = Some ix"
    and rids: "reads view d (index_candidates C a ix (bs_table_name s) w want) (\<lambda>(p, m).
      mset (fst (me_value m)) = image_mset snd (filter_mset (\<lambda>e. P (fst e)) (db_entries d (bs_table_name s) (im_name ix)))
      \<and> snd (me_value m) = [])"
  shows "reads view d (read_candidates C a s (Some w) src want) (\<lambda>(rows, st, sc).
    sc = [] \<and> mset rows = filter_mset (\<lambda>r. P (r ! nat (im_column ix))) (table_rows d (bs_table_name s)))"
proof -
  let ?t = "bs_table_name s"
  have "(im_name ix, im_column ix) \<in> set (ixs ?t)" using kept ix by (simp add: table_kept_def Let_def)
  note open_ix = reads_open(2) [OF rel this]
  have fetched: "reads view d (measure_native C h (fetch_rows C ?t message rids)) (\<lambda>r. mset (me_value r)
      = filter_mset (\<lambda>r. P (r ! nat (im_column ix))) (table_rows d ?t))"
    if r: "mset rids = image_mset snd (filter_mset (\<lambda>e. P (fst e)) (db_entries d ?t (im_name ix)))"
    for h message rids
  proof -
    note rows = index_rows [OF kept ix r]
    have "reads view d (fetch_rows C ?t message rids) (\<lambda>rs. mset rs
        = filter_mset (\<lambda>r. P (r ! nat (im_column ix))) (table_rows d ?t))"
      by (rule reads_weaken [OF reads_fetch [OF rel rows(1)]]) (use rows(2) in simp)
    from reads_measure_native [OF rel this] show ?thesis .
  qed
  have "reads view d (index_step C a ix ?t w src p m) (\<lambda>_. True)" for p m
    using a(1) by (simp add: index_step_def reads_return)
  note steps = this
  show ?thesis
    using a
    by (simp add: read_candidates_def Let_def)
      (rule reads_then [OF open_ix], rule reads_bind [OF rids], clarify, rule reads_bind [OF steps],
        rule reads_bind [OF fetched], assumption, rule reads_return, simp)
qed

text \<open>A leaf with the predicate of the query reads rows that answer it.\<close>

lemma reads_leaf:
  assumes rel: "reads_reliable C ixs" and kept: "table_kept key ty ixs d tm s"
    and supported: "range_supported C (bs_table_name s) (tm_indexes tm)"
    and at: "condition_at w off s"
    and fits: "route_fits w (int (br_index (bound_condition_column w)) - int off) (bs_key_column s) tm primary c"
  shows "reads view d (read_candidates C (planned_access tm c) s (Some w) src False) (\<lambda>(rows, st, sc).
    sc = [] \<and> answers (satisfies_at w off s) (ac_residual c) (table_rows d (bs_table_name s)) (mset rows))"
proof -
  let ?t = "bs_table_name s" and ?k = "br_index (bound_condition_column w) - off"
  let ?T = "table_rows d ?t"
  have off: "off \<le> br_index (bound_condition_column w)" "attribute_condition w"
    using at by (auto simp: condition_at_def Let_def)
  have stored: "row_stored s r" if "r \<in># ?T" for r
    using kept that by (auto simp: table_kept_def Let_def well_kept_def in_table_rows)
  have column: "nat (int (br_index (bound_condition_column w)) - int off) = ?k" by simp
  have key_column: "key ?t = bs_key_column s" using kept by (simp add: table_kept_def Let_def)
  from off(2) fits show ?thesis
  proof (cases rule: route_cases)
    case scan
    have "returns (co_scan C ?t)" using rel by (simp add: reads_reliable_def)
    note found = reads_measure_native [OF rel reads_law [OF scan_law this]]
    show ?thesis
      by (simp add: scan planned_access_def plain_access_def choice_def read_candidates_def Let_def)
        (rule reads_bind [OF found], rule reads_return, auto intro: answersI [where Q = "\<lambda>_. True"])
  next
    case (key_search col v sp)
    have k: "?k = key ?t" using key_search(3) key_column off(1) by simp
    have "returns (co_search C ?t (to_native_value v))" using rel by (simp add: reads_reliable_def)
    note found = reads_measure_native [OF rel reads_law [OF search_law this]]
    have "answers (satisfies_at w off s) False ?T (filter_mset (\<lambda>r. r ! key ?t = to_native_value v) ?T)"
      using equality_satisfies [OF at [unfolded key_search(1)] stored] k
      by (intro answersI [where Q = "\<lambda>r. r ! key ?t = to_native_value v"]) (simp_all add: key_search(1))
    then show ?thesis
      by (simp add: key_search(1,2) planned_access_def plain_access_def choice_def read_candidates_def Let_def)
        (rule reads_bind [OF found], rule reads_return, simp)
  next
    case (index_search col v sp ix)
    have key: "equality_key w = Inr (to_native_value v)" by (simp add: index_search(1))
    have col: "nat (im_column ix) = br_index col - off"
      using column unfolding index_search(4) index_search(1) bound_condition_column.simps .
    have "reads view d (read_candidates C (planned_access tm c) s (Some w) src False) (\<lambda>(rows, st, sc).
        sc = [] \<and> mset rows = filter_mset (\<lambda>r. r ! nat (im_column ix) = to_native_value v) ?T)"
      by (rule reads_index_route [OF rel kept index_search(3), where P = "\<lambda>x. x = to_native_value v"])
        (simp_all add: index_search(2) planned_access_def plain_access_def choice_def
          reads_index_search [OF rel key])
    moreover have "answers (satisfies_at w off s) False ?T
        (filter_mset (\<lambda>r. r ! nat (im_column ix) = to_native_value v) ?T)"
      using equality_satisfies [OF at [unfolded index_search(1)] stored]
      by (intro answersI [where Q = "\<lambda>r. r ! nat (im_column ix) = to_native_value v"])
        (simp_all add: index_search(1) col)
    ultimately show ?thesis
      by (auto simp: index_search(2) choice_def elim!: reads_weaken)
  next
    case key_range
    obtain lo hi where b: "range_values w = Inr (lo, hi)"
      "\<And>r. row_stored s r \<Longrightarrow> satisfies_at w off s r \<Longrightarrow> native_le lo (r ! ?k) \<and> native_le (r ! ?k) hi"
      "\<And>r. row_stored s r \<Longrightarrow> \<not> strict_condition w \<Longrightarrow> native_le lo (r ! ?k) \<and> native_le (r ! ?k) hi
        \<Longrightarrow> satisfies_at w off s r"
      using range_satisfies [OF at key_range(1)] by (auto simp: Let_def)
    have k: "?k = key ?t" using key_range(3) key_column off(1) by simp
    have "returns (co_range_search C ?t lo hi)" using rel by (simp add: reads_reliable_def)
    note found = reads_measure_native [OF rel reads_law [OF range_law this]]
    have "answers (satisfies_at w off s) (strict_condition w) ?T
        (filter_mset (\<lambda>r. native_le lo (r ! key ?t) \<and> native_le (r ! key ?t) hi) ?T)"
      by (rule answersI [OF refl]) (rule b(2) [OF stored, unfolded k] b(3) [OF stored, unfolded k]; assumption)+
    then show ?thesis
      by (simp add: key_range(2) b(1) planned_access_def plain_access_def choice_def read_candidates_def Let_def)
        (rule reads_bind [OF found], rule reads_return, simp)
  next
    case (index_range ix)
    obtain lo hi where b: "range_values w = Inr (lo, hi)"
      "\<And>r. row_stored s r \<Longrightarrow> satisfies_at w off s r \<Longrightarrow> native_le lo (r ! ?k) \<and> native_le (r ! ?k) hi"
      "\<And>r. row_stored s r \<Longrightarrow> \<not> strict_condition w \<Longrightarrow> native_le lo (r ! ?k) \<and> native_le (r ! ?k) hi
        \<Longrightarrow> satisfies_at w off s r"
      using range_satisfies [OF at index_range(1)] by (auto simp: Let_def)
    have sup: "\<forall>s. \<exists>s'. ci_supports_range C ?t (im_name ix) s = (Inr True, s')"
      using supported index_range(3,5) by (simp add: range_supported_def)
    have "reads view d (read_candidates C (planned_access tm c) s (Some w) src False) (\<lambda>(rows, st, sc).
        sc = [] \<and> mset rows = filter_mset (\<lambda>r. native_le lo (r ! nat (im_column ix))
          \<and> native_le (r ! nat (im_column ix)) hi) ?T)"
      by (rule reads_index_route [OF rel kept index_range(3), where P = "\<lambda>x. native_le lo x \<and> native_le x hi"])
        (simp_all add: index_range(2) planned_access_def plain_access_def choice_def
          reads_index_range [OF rel b(1) _ sup])
    moreover have "answers (satisfies_at w off s) (strict_condition w) ?T
        (filter_mset (\<lambda>r. native_le lo (r ! nat (im_column ix)) \<and> native_le (r ! nat (im_column ix)) hi) ?T)"
      unfolding index_range(4) column
      by (rule answersI [OF refl]) (rule b(2) [OF stored] b(3) [OF stored]; assumption)+
    ultimately show ?thesis
      by (auto simp: index_range(2) choice_def elim!: reads_weaken)
  qed
qed

end

end
