(* ===== verification/Select_Spec.thy ===== *)
theory Select_Spec
  imports Select_Routes
begin

text \<open>
  A SELECT answers its query: whatever routes the optimizer chose, the executor returns the projection
  of the rows of the \<open>FROM\<close> that satisfy the \<open>WHERE\<close>, where the \<open>FROM\<close> is the equijoin of its tables.
  The proof follows the plan: a join of filtered leaves is the filter of the join, a probe searches
  the right side of its join, and the steps above the source convert, project and cut the rows.
\<close>

section \<open>The rows of a source\<close>

text \<open>The \<open>FROM\<close> of a query: the rows of its tables, joined by equality.\<close>

fun source_rows :: "db \<Rightarrow> bound_source \<Rightarrow> native_record multiset" where
  "source_rows d (BoundTableRef s sp) = table_rows d (bs_table_name s)"
| "source_rows d (BoundJoinRef l r lc rc s sp) =
     join_rows (br_index lc) (br_index rc) (source_rows d l) (source_rows d r)"

definition source_kept ::
  "('s, 'm) query_core_scheme \<Rightarrow> (string \<Rightarrow> nat) \<Rightarrow> (string \<Rightarrow> native_type) \<Rightarrow> (string \<Rightarrow> index_ref list)
   \<Rightarrow> metadata_map \<Rightarrow> db \<Rightarrow> bound_source \<Rightarrow> bool" where
  "source_kept C key ty ixs m d src \<longleftrightarrow>
     (\<forall>s \<in> set (leaves src). \<forall>tm. map_of m (bs_table_name s) = Some tm \<longrightarrow>
        table_kept key ty ixs d tm s \<and> range_supported C (bs_table_name s) (tm_indexes tm))"

text \<open>The leaf with the number of the owner is where the column of the predicate is.\<close>

fun owned :: "bound_condition \<Rightarrow> nat option \<Rightarrow> nat \<Rightarrow> nat \<Rightarrow> bound_source \<Rightarrow> bool" where
  "owned w owner i off (BoundTableRef s sp) = (owner = Some i \<longrightarrow> condition_at w off s)"
| "owned w owner i off (BoundJoinRef l r lc rc s sp) =
     (owned w owner i off l
      \<and> owned w owner (i + leaf_count l) (off + length (bs_columns (bsrc_schema l))) r)"

definition owner_inside :: "nat option \<Rightarrow> nat \<Rightarrow> bound_source \<Rightarrow> bool" where
  "owner_inside owner i src \<longleftrightarrow> (case owner of None \<Rightarrow> False | Some j \<Rightarrow> i \<le> j \<and> j < i + leaf_count src)"

lemma owner_inside_simps [simp]:
  "owner_inside owner i (BoundTableRef s sp) \<longleftrightarrow> owner = Some i"
  "owner_inside owner i (BoundJoinRef l r lc rc s sp) \<longleftrightarrow>
     owner_inside owner i l \<or> owner_inside owner (i + leaf_count l) r"
  by (auto simp: owner_inside_def split: option.splits)

lemma owner_not_both: "owner_inside owner i l \<Longrightarrow> \<not> owner_inside owner (i + leaf_count l) r"
  by (auto simp: owner_inside_def split: option.splits)

lemma owner_range:
  assumes "source_built src" "owned w owner i off src" "owner_inside owner i src"
  shows "off \<le> br_index (bound_condition_column w)
    \<and> br_index (bound_condition_column w) - off < length (bs_columns (bsrc_schema src))"
  using assms
proof (induction src arbitrary: i off)
  case (BoundTableRef s sp)
  then show ?case by (simp add: condition_at_def Let_def)
next
  case (BoundJoinRef l r lc rc s sp)
  then show ?case by fastforce
qed

lemma source_rows_stored:
  assumes "source_built src" "source_kept C key ty ixs m d src"
    and "\<forall>s \<in> set (leaves src). map_of m (bs_table_name s) \<noteq> None" "r \<in># source_rows d src"
  shows "row_stored (bsrc_schema src) r"
  using assms
proof (induction src arbitrary: r)
  case (BoundTableRef s sp)
  then show ?case
    by (auto simp: source_kept_def table_kept_def Let_def well_kept_def in_table_rows)
next
  case (BoundJoinRef l r lc rc s sp)
  then show ?case
    by (auto simp: in_join_rows source_kept_def ball_Un intro!: row_stored_join(1))
qed

text \<open>A filter of one side of a join is a filter of the join.\<close>

lemma join_rows_filter_left:
  assumes "\<And>l r. l \<in># L \<Longrightarrow> r \<in># R \<Longrightarrow> P (l @ r) = Q l"
  shows "join_rows i j (filter_mset Q L) R = filter_mset P (join_rows i j L R)"
  using assms
proof (induction L)
  case (add l L)
  have "filter_mset P (image_mset (\<lambda>r. l @ r) (filter_mset (\<lambda>r. l ! i = r ! j) R))
      = (if Q l then image_mset (\<lambda>r. l @ r) (filter_mset (\<lambda>r. l ! i = r ! j) R) else {#})"
    using add.prems [of l] by (auto simp: filter_mset_image_mset filter_filter_mset intro!: filter_mset_cong
        arg_cong [where f = "image_mset _"] simp: filter_mset_eq_conv)
  then show ?case using add by (simp add: join_rows_def)
qed (simp add: join_rows_def)

lemma join_rows_filter_right:
  assumes "\<And>l r. l \<in># L \<Longrightarrow> r \<in># R \<Longrightarrow> P (l @ r) = Q r"
  shows "join_rows i j L (filter_mset Q R) = filter_mset P (join_rows i j L R)"
  using assms
proof (induction L)
  case (add l L)
  have "filter_mset (\<lambda>r. l ! i = r ! j) (filter_mset Q R)
      = filter_mset (\<lambda>r. P (l @ r)) (filter_mset (\<lambda>r. l ! i = r ! j) R)"
    unfolding filter_filter_mset using add.prems [of l] by (intro filter_mset_cong) auto
  then have "image_mset (\<lambda>r. l @ r) (filter_mset (\<lambda>r. l ! i = r ! j) (filter_mset Q R))
      = filter_mset P (image_mset (\<lambda>r. l @ r) (filter_mset (\<lambda>r. l ! i = r ! j) R))"
    by (simp add: filter_mset_image_mset)
  then show ?case using add by (simp add: join_rows_def)
qed (simp add: join_rows_def)

lemma satisfies_at_join:
  fixes w :: bound_condition
  assumes "row_stored sl a" "row_stored sr b"
  defines "i \<equiv> br_index (bound_condition_column w)" and "n \<equiv> length (bs_columns sl)"
  shows "i - off < n \<Longrightarrow> satisfies_at w off (join_output_schema sl sr) (a @ b) = satisfies_at w off sl a"
    and "off + n \<le> i \<Longrightarrow> satisfies_at w off (join_output_schema sl sr) (a @ b) = satisfies_at w (off + n) sr b"
proof -
  note row = row_stored_join(2) [OF assms(1,2)] and len = row_stored_length [OF assms(1), folded n_def]
  show "i - off < n \<Longrightarrow> satisfies_at w off (join_output_schema sl sr) (a @ b) = satisfies_at w off sl a"
    using len by (simp add: satisfies_at_def row nth_append i_def [symmetric])
  assume "off + n \<le> i"
  then have "\<not> i - off < n" "i - off - n = i - (off + n)" by linarith+
  then show "satisfies_at w off (join_output_schema sl sr) (a @ b) = satisfies_at w (off + n) sr b"
    using len by (simp add: satisfies_at_def row nth_append i_def [symmetric])
qed

text \<open>What a node of the plan gives: the rows of its source, filtered where the owner is inside it.\<close>

definition node_rows ::
  "bound_condition option \<Rightarrow> nat option \<Rightarrow> nat \<Rightarrow> nat \<Rightarrow> db \<Rightarrow> bound_source \<Rightarrow> native_record multiset" where
  "node_rows wh owner i off d src =
     (case wh of
        Some w \<Rightarrow> if owner_inside owner i src
                  then filter_mset (satisfies_at w off (bsrc_schema src)) (source_rows d src)
                  else source_rows d src
      | None \<Rightarrow> source_rows d src)"

lemma node_rows_subset: "r \<in># node_rows wh owner i off d src \<Longrightarrow> r \<in># source_rows d src"
  by (auto simp: node_rows_def split: option.splits if_splits)

lemma node_rows_join:
  assumes built: "source_built (BoundJoinRef l r lc rc s sp)"
    and owned: "\<And>w. wh = Some w \<Longrightarrow> owned w owner i off (BoundJoinRef l r lc rc s sp)"
    and stored: "\<And>a. a \<in># source_rows d l \<Longrightarrow> row_stored (bsrc_schema l) a"
      "\<And>b. b \<in># source_rows d r \<Longrightarrow> row_stored (bsrc_schema r) b"
  shows "join_rows (br_index lc) (br_index rc) (node_rows wh owner i off d l)
      (node_rows wh owner (i + leaf_count l) (off + length (bs_columns (bsrc_schema l))) d r)
    = node_rows wh owner i off d (BoundJoinRef l r lc rc s sp)"
proof (cases wh)
  case None
  then show ?thesis by (simp add: node_rows_def)
next
  case (Some w)
  have b: "source_built l" "source_built r" "s = join_output_schema (bsrc_schema l) (bsrc_schema r)"
    using built by auto
  have o: "owned w owner i off l"
    "owned w owner (i + leaf_count l) (off + length (bs_columns (bsrc_schema l))) r"
    using owned [OF Some] by auto
  note at = satisfies_at_join [OF stored]
  consider (left) "owner_inside owner i l" "\<not> owner_inside owner (i + leaf_count l) r"
    | (right) "owner_inside owner (i + leaf_count l) r" "\<not> owner_inside owner i l"
    | (out) "\<not> owner_inside owner i l" "\<not> owner_inside owner (i + leaf_count l) r"
    using owner_not_both by blast
  then show ?thesis
  proof cases
    case left
    note range = owner_range [OF b(1) o(1) left(1)]
    show ?thesis
      using left at(1) range
      by (simp add: Some node_rows_def b(3)) (rule join_rows_filter_left, simp)
  next
    case right
    note range = owner_range [OF b(2) o(2) right(1)]
    show ?thesis
      using right at(2) range
      by (simp add: Some node_rows_def b(3)) (rule join_rows_filter_right, simp)
  next
    case out
    then show ?thesis by (simp add: Some node_rows_def)
  qed
qed

section \<open>The execution of a source\<close>

lemma emap_stored:
  "\<forall>r \<in> set rows. row_stored s r \<Longrightarrow>
     emap (\<lambda>row. from_native_record row s) rows = Inr (map (bound_row s) rows)"
  using emap_map [of rows "\<lambda>row. from_native_record row s" id "bound_row s"] row_storedD(1) by auto

lemma efilter_Inr: "\<forall>x \<in> set xs. f x = Inr (p x) \<Longrightarrow> efilter f xs = Inr (filter p xs)"
  by (induction xs) auto

context query_db begin

lemma reads_filter:
  assumes rel: "reads_reliable C ixs" and at: "condition_at w off s"
    and stored: "\<forall>r \<in> set rows. row_stored s r"
  shows "reads view d (filter_rows C lm True s (Some w) src off (rows, child, sc))
    (\<lambda>(rows', st, sc'). rows' = filter (satisfies_at w off s) rows \<and> sc' = sc)"
proof -
  let ?here = "local_condition (length (bs_columns s)) off w"
  let ?keep = "filter (\<lambda>(row, v). satisfies_at w off s row) (zip rows (map (bound_row s) rows))"
  have "efilter (\<lambda>(row, v). row_matches lm v ?here) (zip rows (map (bound_row s) rows)) = Inr ?keep"
    using stored row_matches_satisfies [OF at]
    by (intro efilter_Inr) (auto simp: set_zip)
  then have "reads view d (io_lift (efilter (\<lambda>(row, v). row_matches lm v ?here)
      (zip rows (map (bound_row s) rows)))) (\<lambda>x. x = ?keep)"
    by (rule reads_lift) simp
  note found = reads_measure_memory [OF rel this]
  have keep: "map fst ?keep = filter (satisfies_at w off s) rows" by (induction rows) auto
  show ?thesis
    by (simp add: filter_rows_def emap_stored [OF stored] Let_def)
      (rule reads_bind [OF found], rule reads_return, simp add: keep)
qed

lemma reads_probe:
  assumes rel: "reads_reliable C ixs"
    and safe: "probe_safe s column right strategy probe onp"
    and kept: "table_kept key ty ixs d tm s" and right: "right = PAccess a" "pa_table a = tm"
  shows "reads view d (probe_for C strategy probe (bs_table_name s))
    (\<lambda>p. probe_right key d column p (table_rows d (bs_table_name s)))"
proof (cases "strategy = JOIN_AUTO")
  case False
  then show ?thesis by (simp add: probe_for_def reads_return)
next
  case True
  let ?t = "bs_table_name s"
  have safe': "probe \<noteq> None \<or> onp" "onp \<longrightarrow> column = bs_key_column s"
    "\<forall>ix. probe = Some ix \<longrightarrow> ix \<in> set (tm_indexes tm) \<and> im_column ix = int column"
    using safe True right by (auto simp: probe_safe_def plain_access_def eligible_key_def)
  have probes: "returns (q_open_probe C p)" for p using rel by (simp add: reads_reliable_def)
  note opened = reads_law [OF join_open_laws(2) probes]
  show ?thesis
  proof (cases probe)
    case None
    have "key ?t = column" using kept safe'(1,2) None by (simp add: table_kept_def Let_def)
    then show ?thesis
      by (simp add: probe_for_def True None)
        (rule reads_then [OF reads_open(1) [OF rel]], rule reads_then [OF opened], rule reads_return, simp)
  next
    case (Some ix)
    then have ix: "ix \<in> set (tm_indexes tm)" "im_column ix = int column" using safe'(3) by auto
    then have "(im_name ix, im_column ix) \<in> set (ixs ?t)" "well_kept ?t (key ?t) (ty ?t) (ixs ?t) d"
      using kept by (auto simp: table_kept_def Let_def)
    then have "db_entries d ?t (im_name ix) = index_of (db_rows d ?t) column"
      and mem: "(im_name ix, im_column ix) \<in> set (ixs ?t)"
      using ix(2) by (auto simp: well_kept_def)
    then show ?thesis
      by (simp add: probe_for_def True Some)
        (rule reads_then [OF reads_open(1) [OF rel]], rule reads_then [OF reads_open(2) [OF rel mem]],
          rule reads_then [OF opened], rule reads_return, simp)
  qed
qed

lemma reads_join:
  assumes rel: "reads_reliable C ixs"
    and probe: "reads view d (probe_for C (jr_strategy j) probe t)
      (\<lambda>p. probe_right key d (jr_right_column j) p (mset (fst right)))"
  shows "reads view d (execute_join C j probe n t table column left right)
    (\<lambda>(rows, st, sc). sc = [] \<and> mset rows
      = join_rows (jr_left_column j) (jr_right_column j) (mset (fst left)) (mset (fst right)))"
proof -
  have ret: "returns (q_make_temp C)" "returns (q_open_join C j)" "returns (q_join_report C j)"
    "\<And>L p R n. returns (q_join C j L p R n)"
    using rel by (simp_all add: reads_reliable_def)
  have "reads view d (io_bind (probe_for C (jr_strategy j) probe t)
      (\<lambda>p. q_join C j (fst left) p (fst right) m)) (\<lambda>rows. mset rows
        = join_rows (jr_left_column j) (jr_right_column j) (mset (fst left)) (mset (fst right)))" for m
    by (rule reads_bind [OF probe], rule reads_weaken [OF reads_law [OF join_law ret(4)]]) blast
  note joined = reads_measure_memory [OF rel this]
  have run: "reads view d (run_join C j probe n t (fst left) (fst right)) (\<lambda>(m, detail, st).
      mset (me_value m) = join_rows (jr_left_column j) (jr_right_column j) (mset (fst left)) (mset (fst right)))"
    unfolding run_join_def
  proof (rule reads_then [OF reads_law [OF join_open_laws(1) ret(2)]], rule reads_bind [OF joined],
      rule reads_bind [OF reads_law [OF join_report_law ret(3)]])
    fix m :: "native_record list measurement" and r :: join_report
    assume m: "mset (me_value m) = join_rows (jr_left_column j) (jr_right_column j) (mset (fst left)) (mset (fst right))"
      and "\<exists>st. structure_of (jo_structure r) = Inr st"
    then obtain st where "structure_of (jo_structure r) = Inr st" by blast
    then show "reads view d (io_bind (io_lift (structure_of (jo_structure r)))
        (\<lambda>st. io_return (m, executed_join_detail r (jr_strategy j) n, st)))
        (\<lambda>(m, detail, st). mset (me_value m)
          = join_rows (jr_left_column j) (jr_right_column j) (mset (fst left)) (mset (fst right)))"
      using m by (simp add: reads_return)
  qed
  show ?thesis
    unfolding execute_join_def
    by (rule reads_then [OF reads_law [OF temp_laws(1) ret(1)]],
        rule reads_bind [OF reads_finally [OF run temp_laws(2)]]) (clarsimp, rule reads_return, simp)
qed

end


lemma planned_described:
  "planned m wh owner i off src p \<Longrightarrow> \<forall>s \<in> set (leaves src). map_of m (bs_table_name s) \<noteq> None"
proof (induction src arbitrary: p i off)
  case (BoundTableRef s sp)
  then show ?case by (cases p) (auto simp: leaf_planned_def)
next
  case (BoundJoinRef l r lc rc s sp)
  then obtain pl pr where "planned m wh owner i off l pl"
    "planned m wh owner (i + leaf_count l) (off + length (bs_columns (bsrc_schema l))) r pr"
    by (cases p) auto
  from BoundJoinRef.IH(1) [OF this(1)] BoundJoinRef.IH(2) [OF this(2)] show ?case by auto
qed

context query_db begin

lemma reads_plain_scan:
  assumes rel: "reads_reliable C ixs"
  shows "reads view d (read_candidates C (plain_access tm R_SCAN None res) s wh src want)
    (\<lambda>(rows, st, sc). sc = [] \<and> mset rows = table_rows d (bs_table_name s))"
proof -
  have "returns (co_scan C (bs_table_name s))" using rel by (simp add: reads_reliable_def)
  note found = reads_measure_native [OF rel reads_law [OF scan_law this]]
  show ?thesis
    by (simp add: plain_access_def read_candidates_def Let_def)
      (rule reads_bind [OF found], rule reads_return, simp)
qed

lemma reads_access:
  assumes rel: "reads_reliable C ixs" and plan: "leaf_planned m wh owner i off s a"
    and kept: "source_kept C key ty ixs m d (BoundTableRef s sp)"
    and owned: "\<And>w. wh = Some w \<Longrightarrow> owned w owner i off (BoundTableRef s sp)"
  shows "reads view d (execute_source C lm (PAccess a) (BoundTableRef s sp) wh src off False)
    (\<lambda>(rows, st, sc). sc = [] \<and> mset rows = node_rows wh owner i off d (BoundTableRef s sp))"
proof -
  let ?t = "bs_table_name s"
  obtain tm where tm: "map_of m ?t = Some tm"
    and a: "if owner = Some i then \<exists>w c. wh = Some w
        \<and> route_fits w (int (br_index (bound_condition_column w)) - int off) (bs_key_column s) tm True c
        \<and> searchable w (int (br_index (bound_condition_column w)) - int off) tm
        \<and> a = plain_access tm (ac_route c) (ac_index c) (ac_residual c)
      else a = plain_access tm R_SCAN None False"
    using plan unfolding leaf_planned_def by blast
  have table: "table_kept key ty ixs d tm s" "range_supported C ?t (tm_indexes tm)"
    using kept tm by (auto simp: source_kept_def)
  note opened = reads_open(1) [OF rel, of d ?t]
  show ?thesis
  proof (cases "owner = Some i")
    case False
    then have plain: "a = plain_access tm R_SCAN None False" using a by simp
    have res: "pa_residual a = False" by (simp add: plain plain_access_def)
    show ?thesis
      unfolding execute_source.simps bsrc_schema.simps res
      by (rule reads_then [OF opened], unfold plain, rule reads_bind [OF reads_plain_scan [OF rel]])
        (use False in \<open>auto simp: filter_rows_def node_rows_def intro!: reads_return split: option.splits\<close>)
  next
    case True
    then obtain w c where w: "wh = Some w"
      "route_fits w (int (br_index (bound_condition_column w)) - int off) (bs_key_column s) tm True c"
      "a = planned_access tm c"
      using a unfolding planned_access_def by auto
    have at: "condition_at w off s" using owned [OF w(1)] True by simp
    have res: "pa_residual a = ac_residual c" by (simp add: w(3) planned_access_def plain_access_def)
    have stored: "row_stored s r" if "r \<in># table_rows d ?t" for r
      using table(1) that by (auto simp: table_kept_def Let_def well_kept_def in_table_rows)
    have rows: "node_rows wh owner i off d (BoundTableRef s sp)
        = filter_mset (satisfies_at w off s) (table_rows d ?t)"
      using w(1) True by (simp add: node_rows_def)
    have filtered: "reads view d (filter_rows C lm (ac_residual c) s (Some w) src off (rows, st, []))
        (\<lambda>(rows', st', sc'). sc' = [] \<and> mset rows' = filter_mset (satisfies_at w off s) (table_rows d ?t))"
      if ans: "answers (satisfies_at w off s) (ac_residual c) (table_rows d ?t) (mset rows)" for rows st
    proof (cases "ac_residual c")
      case True
      have "\<forall>r \<in> set rows. row_stored s r" using answersD(1) [OF ans] stored by auto
      then have "reads view d (filter_rows C lm True s (Some w) src off (rows, st, []))
          (\<lambda>(rows', st', sc'). rows' = filter (satisfies_at w off s) rows \<and> sc' = [])"
        by (rule reads_filter [OF rel at])
      then show ?thesis
        using True answersD(2) [OF ans] by (auto simp: mset_filter elim!: reads_weaken)
    next
      case False
      then show ?thesis using answersD(3) [OF ans] by (simp add: filter_rows_def reads_return)
    qed
    show ?thesis
      unfolding execute_source.simps bsrc_schema.simps res rows
      by (rule reads_then [OF opened], unfold w(1,3), rule reads_bind [OF reads_leaf [OF rel table at w(2)]])
        (use filtered in auto)
  qed
qed

lemma reads_source:
  assumes rel: "reads_reliable C ixs" and "source_built src" "planned m wh owner i off src p"
    and "source_kept C key ty ixs m d src" "\<And>w. wh = Some w \<Longrightarrow> owned w owner i off src"
    and owner: "wh \<noteq> None \<longrightarrow> owner \<noteq> None"
  shows "reads view d (execute_source C lm p src wh txt off False)
    (\<lambda>(rows, st, sc). sc = [] \<and> mset rows = node_rows wh owner i off d src)"
  using assms(2-5)
proof (induction src arbitrary: p i off)
  case (BoundTableRef s sp)
  then obtain a where p: "p = PAccess a" "leaf_planned m wh owner i off s a" by (cases p) auto
  show ?case unfolding p(1) by (rule reads_access [OF rel p(2) BoundTableRef.prems(3,4)])
next
  case (BoundJoinRef l r lc rc s sp)
  let ?ir = "i + leaf_count l" and ?offr = "off + length (bs_columns (bsrc_schema l))"
  obtain pl pr lcol rcol strategy probe onp res where p: "p = PJoin pl pr lcol rcol strategy probe onp res"
    using BoundJoinRef.prems(2) by (cases p) auto
  have plan: "planned m wh owner i off l pl" "planned m wh owner ?ir ?offr r pr"
    "lcol = br_index lc" "rcol = br_index rc" "\<not> res"
    "probe_safe (bsrc_schema r) rcol pr strategy probe onp"
    using BoundJoinRef.prems(2) owner by (auto simp: p)
  have built: "source_built l" "source_built r" using BoundJoinRef.prems(1) by auto
  have kept: "source_kept C key ty ixs m d l" "source_kept C key ty ixs m d r"
    using BoundJoinRef.prems(3) by (auto simp: source_kept_def)
  have own: "\<And>w. wh = Some w \<Longrightarrow> owned w owner i off l" "\<And>w. wh = Some w \<Longrightarrow> owned w owner ?ir ?offr r"
    using BoundJoinRef.prems(4) by auto
  have left: "reads view d (execute_source C lm pl l wh txt off False)
      (\<lambda>(rows, st, sc). sc = [] \<and> mset rows = node_rows wh owner i off d l)"
    by (rule BoundJoinRef.IH(1) [OF built(1) plan(1) kept(1)]) (rule own(1))
  have right: "reads view d (execute_source C lm pr r wh txt ?offr False)
      (\<lambda>(rows, st, sc). sc = [] \<and> mset rows = node_rows wh owner ?ir ?offr d r)"
    by (rule BoundJoinRef.IH(2) [OF built(2) plan(2) kept(2)]) (rule own(2))
  have rows: "join_rows lcol rcol (node_rows wh owner i off d l) (node_rows wh owner ?ir ?offr d r)
      = node_rows wh owner i off d (BoundJoinRef l r lc rc s sp)"
    unfolding plan(3,4)
    by (rule node_rows_join [OF BoundJoinRef.prems(1,4)])
      (use source_rows_stored [OF built(1) kept(1) planned_described [OF plan(1)]]
        source_rows_stored [OF built(2) kept(2) planned_described [OF plan(2)]] in blast)+
  have probe: "reads view d (probe_for C strategy probe (bs_table_name (bsrc_schema r)))
      (\<lambda>q. probe_right key d rcol q (node_rows wh owner ?ir ?offr d r))"
  proof (cases "strategy = JOIN_AUTO")
    case False
    then show ?thesis by (simp add: probe_for_def reads_return)
  next
    case True
    then obtain t where t: "pr = PAccess (plain_access t R_SCAN None False)"
      using plan(6) by (auto simp: probe_safe_def)
    obtain sr spr where r: "r = BoundTableRef sr spr" using plan(2) t by (cases r) auto
    have lp: "leaf_planned m wh owner ?ir ?offr sr (plain_access t R_SCAN None False)"
      using plan(2) by (simp add: r t)
    then have tm: "map_of m (bs_table_name sr) = Some t"
      and out: "owner \<noteq> Some ?ir"
      using route_fits_scan by (auto simp: leaf_planned_def plain_access_def split: if_splits)
    have "table_kept key ty ixs d t sr" using kept(2) tm by (auto simp: source_kept_def r)
    moreover have "node_rows wh owner ?ir ?offr d r = table_rows d (bs_table_name sr)"
      using out by (simp add: node_rows_def r split: option.splits)
    ultimately show ?thesis
      using reads_probe [OF rel plan(6) _ t] by (simp add: r plain_access_def)
  qed
  show ?case
    unfolding p execute_source.simps
  proof (rule reads_bind3 [OF left], rule reads_bind3 [OF right], elim conjE)
    fix L stl R str
    assume L: "mset L = node_rows wh owner i off d l" and R: "mset R = node_rows wh owner ?ir ?offr d r"
    let ?j = "\<lparr>jr_left = to_native_schema (bsrc_schema l), jr_left_column = lcol,
      jr_right = to_native_schema (bsrc_schema r), jr_right_column = rcol, jr_strategy = strategy\<rparr>"
    have "reads view d (execute_join C ?j probe (join_left_rows (PJoin pl pr lcol rcol strategy probe onp res))
        (bs_table_name (bsrc_schema r)) (bs_table_name s) (bc_name (br_column lc)) (L, stl) (R, str))
      (\<lambda>(rows, st, sc). sc = [] \<and> mset rows = node_rows wh owner i off d (BoundJoinRef l r lc rc s sp))"
      using reads_join [OF rel, where j = ?j and left = "(L, stl)" and right = "(R, str)"] probe
      by (simp add: L R rows)
    then show "reads view d (io_bind (execute_join C ?j probe
        (join_left_rows (PJoin pl pr lcol rcol strategy probe onp res))
        (bs_table_name (bsrc_schema r)) (bs_table_name s) (bc_name (br_column lc)) (L, stl) (R, str))
        (filter_rows C lm res s wh txt off))
      (\<lambda>(rows, st, sc). sc = [] \<and> mset rows = node_rows wh owner i off d (BoundJoinRef l r lc rc s sp))"
      by (rule reads_bind) (auto simp: filter_rows_def plan(5) intro: reads_return)
  qed
qed

end


section \<open>Where the predicate is\<close>

lemma leaf_columns:
  "source_built src \<Longrightarrow> (s, k) \<in> set (bound_leaves src off) \<Longrightarrow> n < length (bs_columns s) \<Longrightarrow>
     let c = bs_columns (bsrc_schema src) ! (k - off + n); c' = bs_columns s ! n in
     off \<le> k \<and> k - off + n < length (bs_columns (bsrc_schema src))
     \<and> bc_type c = bc_type c' \<and> bc_length c = bc_length c'"
proof (induction src arbitrary: off)
  case (BoundTableRef s' sp)
  then show ?case by (simp add: Let_def)
next
  case (BoundJoinRef l r lc rc j sp)
  let ?n = "length (bs_columns (bsrc_schema l))"
  let ?K = "set (column_names (bsrc_schema l)) \<inter> set (column_names (bsrc_schema r))"
  have b: "source_built l" "source_built r" "j = join_output_schema (bsrc_schema l) (bsrc_schema r)"
    using BoundJoinRef.prems(1) by auto
  have cols: "bs_columns j = prefix_columns ?K (bsrc_schema l) @ prefix_columns ?K (bsrc_schema r)"
    by (simp add: b(3) join_output_schema_def Let_def)
  have same: "length (prefix_columns K t) = length (bs_columns t)"
    "q < length (bs_columns t) \<Longrightarrow> bc_type (prefix_columns K t ! q) = bc_type (bs_columns t ! q)
       \<and> bc_length (prefix_columns K t ! q) = bc_length (bs_columns t ! q)" for K t q
    using prefix_columns_types [of t K] by (auto simp: list_all2_conv_all_nth)
  have side: "let c = bs_columns j ! (q + (if right then ?n else 0)); c' = bs_columns (if right then bsrc_schema r else bsrc_schema l) ! q in
      bc_type c = bc_type c' \<and> bc_length c = bc_length c'"
    if "q < length (bs_columns (if right then bsrc_schema r else bsrc_schema l))" for q right
    using that same by (cases right) (simp_all add: cols nth_append Let_def)
  have len: "length (bs_columns j) = ?n + length (bs_columns (bsrc_schema r))" by (simp add: cols same(1))
  from BoundJoinRef.prems(2) consider "(s, k) \<in> set (bound_leaves l off)" | "(s, k) \<in> set (bound_leaves r (off + ?n))"
    by auto
  then show ?case
  proof cases
    case 1
    note IH = BoundJoinRef.IH(1) [OF b(1) this BoundJoinRef.prems(3), unfolded Let_def]
    define q where "q = k - off + n"
    show ?thesis
      using IH side [of q False] len unfolding q_def [symmetric] by (simp add: Let_def)
  next
    case 2
    note IH = BoundJoinRef.IH(2) [OF b(2) this BoundJoinRef.prems(3), unfolded Let_def]
    then have "k - off + n = k - (off + ?n) + n + ?n" by linarith
    then show ?thesis using IH side [of "k - (off + ?n) + n" True] len by (simp only: Let_def bsrc_schema.simps) auto
  qed
qed

lemma owned_nth:
  "(\<And>j. owner = Some j \<Longrightarrow> i \<le> j \<Longrightarrow> j < i + leaf_count src \<Longrightarrow>
      condition_at w (snd (bound_leaves src off ! (j - i))) (fst (bound_leaves src off ! (j - i))))
   \<Longrightarrow> owned w owner i off src"
proof (induction src arbitrary: i off)
  case (BoundTableRef s sp)
  then show ?case by simp
next
  case (BoundJoinRef l r lc rc s sp)
  let ?n = "length (bs_columns (bsrc_schema l))"
  show ?case
    unfolding owned.simps
  proof (intro conjI BoundJoinRef.IH)
    fix j assume j: "owner = Some j" "i \<le> j" "j < i + leaf_count l"
    then show "condition_at w (snd (bound_leaves l off ! (j - i))) (fst (bound_leaves l off ! (j - i)))"
      using BoundJoinRef.prems [of j] less_diff_conv2 [OF j(2)] by (simp add: nth_append length_bound_leaves)
  next
    fix j assume j: "owner = Some j" "i + leaf_count l \<le> j" "j < i + leaf_count l + leaf_count r"
    then have eq: "j - i = leaf_count l + (j - (i + leaf_count l))" by simp
    have "bound_leaves (BoundJoinRef l r lc rc s sp) off ! (j - i)
        = bound_leaves r (off + ?n) ! (j - (i + leaf_count l))"
      unfolding eq bound_leaves.simps by (simp add: nth_append length_bound_leaves)
    then show "condition_at w (snd (bound_leaves r (off + ?n) ! (j - (i + leaf_count l))))
        (fst (bound_leaves r (off + ?n) ! (j - (i + leaf_count l))))"
      using BoundJoinRef.prems [of j] j by simp
  qed
qed

lemma condition_owned:
  assumes built: "source_built src" and ok: "\<forall>s \<in> set (leaves src). list_all bound_column_ok (bs_columns s)"
    and w: "condition_in (bsrc_schema src) w" "attribute_condition w"
  shows "owned w (leaf_of src (Some w)) 0 0 src" "owner_inside (leaf_of src (Some w)) 0 src"
proof -
  let ?k = "br_index (bound_condition_column w)"
  have ref: "ref_in (bsrc_schema src) (bound_condition_column w)" by (rule condition_in_ref [OF w(1)])
  show "owned w (leaf_of src (Some w)) 0 0 src"
  proof (rule owned_nth)
    fix j assume "leaf_of src (Some w) = Some j"
    then have j: "j < leaf_count src" "snd (bound_leaves src 0 ! j) \<le> ?k"
      "?k < snd (bound_leaves src 0 ! j) + length (bs_columns (fst (bound_leaves src 0 ! j)))"
      using find_leaf_SomeD [of ?k 0 "bound_leaves src 0" j] by (auto simp: leaf_of_def length_bound_leaves)
    obtain s k where leaf: "bound_leaves src 0 ! j = (s, k)" by (cases "bound_leaves src 0 ! j")
    have mem: "(s, k) \<in> set (bound_leaves src 0)"
      using j(1) leaf nth_mem [of j "bound_leaves src 0"] by (simp add: length_bound_leaves)
    have pos: "k \<le> ?k" "?k - k < length (bs_columns s)" using j leaf by auto
    from leaf_columns [OF built mem pos(2)] pos(1)
    have same: "bc_type (bs_columns (bsrc_schema src) ! ?k) = bc_type (bs_columns s ! (?k - k))"
      "bc_length (bs_columns (bsrc_schema src) ! ?k) = bc_length (bs_columns s ! (?k - k))"
      by (auto simp: Let_def)
    have "s \<in> set (leaves src)"
      using imageI [OF mem, of fst] by (simp add: bound_leaves_schemas [of src 0, symmetric])
    then have "bound_column_ok (bs_columns s ! (?k - k))" using ok pos(2) by (auto simp: list_all_length)
    then have "bc_type (bs_columns s ! (?k - k)) = SQL_VARCHAR \<longrightarrow> bc_length (bs_columns s ! (?k - k)) \<noteq> None"
      by (auto simp: bound_column_ok_def column_type_ok_def split: option.splits)
    moreover have "list_all (\<lambda>v. has_predicate_type v (br_column (bound_condition_column w))) (condition_values w)"
      using w by (cases w) auto
    ultimately show "condition_at w (snd (bound_leaves src 0 ! (j - 0))) (fst (bound_leaves src 0 ! (j - 0)))"
      using pos same ref w(2) by (simp add: leaf condition_at_def Let_def ref_in_def)
  qed
  show "owner_inside (leaf_of src (Some w)) 0 src"
    using leaf_of_exists [OF built refl ref] find_leaf_SomeD [of ?k 0 "bound_leaves src 0"]
    by (auto simp: owner_inside_def leaf_of_def length_bound_leaves split: option.splits)
qed

lemma planned_consumes:
  "planned m (Some w) owner i off src p \<Longrightarrow> owner_inside owner i src \<Longrightarrow> consumes_predicate p"
proof (induction src arbitrary: p i off)
  case (BoundTableRef s sp)
  then show ?case
    using route_fits_scan by (cases p) (auto simp: leaf_planned_def plain_access_def)
next
  case (BoundJoinRef l r lc rc s sp)
  then show ?case by (cases p) auto
qed

lemma planned_residual:
  "planned m None None i off src p \<Longrightarrow> \<not> source_residual p"
  by (cases src; cases p) (auto simp: leaf_planned_def plain_access_def)

lemma planned_plain:
  assumes "planned m wh owner i off src p" "\<forall>w. wh = Some w \<longrightarrow> attribute_condition w"
  shows "source_nearest p = None" "p = PAccess a \<Longrightarrow> pa_route a \<noteq> R_TEXT_SEARCH"
proof -
  have "ac_route c \<noteq> R_TEXT_SEARCH" if "route_fits w k key t primary c" "attribute_condition w" for w k key t primary c
    using that by (cases w) (auto simp: choice_def split: if_splits)
  then show "source_nearest p = None" "p = PAccess a \<Longrightarrow> pa_route a \<noteq> R_TEXT_SEARCH"
    using assms by (cases src; cases p; auto simp: leaf_planned_def plain_access_def split: if_splits)+
qed


section \<open>The answer of a query\<close>

text \<open>
  The rows of the \<open>FROM\<close> that satisfy the \<open>WHERE\<close>, as values of the schema; the projection of a row;
  the rows that a \<open>LIMIT\<close> leaves.
\<close>

definition query_answer :: "db \<Rightarrow> bound_select \<Rightarrow> bound_value list multiset" where
  "query_answer d b =
     filter_mset (\<lambda>row. case bl_where b of None \<Rightarrow> True | Some w \<Rightarrow> satisfies w row)
       (image_mset (bound_row (bl_schema b)) (source_rows d (bl_source b)))"

fun projected_cell :: "bound_value list \<Rightarrow> bound_projection \<Rightarrow> bound_value option" where
  "projected_cell row (BPColumn c) = Some (row ! br_index c)"
| "projected_cell row (BPAggregate a) = None"

definition projected :: "bound_select \<Rightarrow> bound_value list \<Rightarrow> bound_value list" where
  "projected b row =
     (if bl_wildcard b then row
      else List.map_filter (projected_cell row) (bl_projections b))"

definition limited :: "int option \<Rightarrow> 'a list \<Rightarrow> 'a list" where
  "limited k xs = (case k of None \<Rightarrow> xs | Some n \<Rightarrow> take (nat n) xs)"

lemma py_slice_prefix: "0 \<le> n \<Longrightarrow> py_slice xs 0 n = take (nat n) xs"
  by (simp add: py_slice_def slice_bound_def slice_def min_def)

lemma projected_columns:
  assumes "\<not> list_ex is_bound_aggregate ps"
  shows "\<exists>cs. emap projected_column ps = Inr cs \<and> set ps = BPColumn ` set cs
    \<and> (\<forall>row. List.map_filter (projected_cell row) ps
         = map (\<lambda>c. row ! br_index c) cs)"
  using assms
proof (induction ps)
  case Nil
  then show ?case by (simp add: map_filter_simps)
next
  case (Cons p ps)
  then obtain cs where cs: "emap projected_column ps = Inr cs" "set ps = BPColumn ` set cs"
    "\<forall>row. List.map_filter (projected_cell row) ps
       = map (\<lambda>c. row ! br_index c) cs"
    by auto
  obtain c where "p = BPColumn c" using Cons.prems by (cases p) auto
  then show ?case using cs by (intro exI [of _ "c # cs"]) (simp add: map_filter_simps)
qed

lemma emap_all: "\<forall>x \<in> set xs. f x = Inr (h x) \<Longrightarrow> emap f xs = Inr (map h xs)"
  by (induction xs) auto

lemma emap_project_rows:
  assumes "bl_score b = None" "\<not> bl_wildcard b" "\<forall>c \<in> set cs. br_index c < n"
    and "\<forall>row \<in> set rows. length row = n"
  shows "emap (project_row b cs scores) (enumerate k rows) = Inr (map (\<lambda>row. map (\<lambda>c. row ! br_index c) cs) rows)"
  using assms(4)
proof (induction rows arbitrary: k)
  case (Cons row rows)
  have "emap (\<lambda>c. py_index row (int (br_index c))) cs = Inr (map (\<lambda>c. row ! br_index c) cs)"
    by (rule emap_all) (use assms(3) Cons.prems in \<open>auto simp: py_index_def Let_def\<close>)
  then show ?case using Cons assms(1,2) by (simp add: project_row_def)
qed simp

context query_db begin

lemma reads_project:
  assumes rel: "reads_reliable C ixs" and score: "bl_score b = None"
    and cs: "emap projected_column (bl_projections b) = Inr cs"
      "\<forall>row. List.map_filter (projected_cell row) (bl_projections b) = map (\<lambda>c. row ! br_index c) cs"
    and widths: "\<forall>c \<in> set cs. br_index c < n" "\<forall>row \<in> set rows. length row = n"
  shows "reads view d (project_rows C b cs names rows scores st) (\<lambda>(rows', st'). rows' = map (projected b) rows)"
proof (cases "bl_wildcard b")
  case True
  then show ?thesis
    by (auto simp: project_rows_def score projected_def [abs_def] intro!: reads_return)
next
  case False
  have "reads view d (io_lift (emap (project_row b cs scores) (enumerate 0 rows)))
      (\<lambda>x. x = map (projected b) rows)"
    by (rule reads_lift [OF emap_project_rows [OF score False widths]]) (simp add: projected_def False cs(2))
  note found = reads_measure_memory [OF rel this]
  show ?thesis
    by (simp add: project_rows_def False) (rule reads_bind [OF found], rule reads_return, simp)
qed

lemma reads_limit:
  assumes rel: "reads_reliable C ixs" and k: "\<forall>n. k = Some n \<longrightarrow> 0 \<le> n"
  shows "reads view d (apply_limit C e k t) (\<lambda>e'. se_rows e' = limited k (se_rows e))"
proof (cases k)
  case None
  then show ?thesis by (simp add: apply_limit_def limited_def reads_return)
next
  case (Some n)
  have "reads view d (io_return (py_slice (se_rows e) 0 n)) (\<lambda>x. x = limited k (se_rows e))"
    using k by (simp add: limited_def Some py_slice_prefix reads_return)
  note found = reads_measure_memory [OF rel this]
  show ?thesis
    by (simp add: apply_limit_def Some) (rule reads_bind [OF found], rule reads_return, simp add: Some)
qed

lemma map_limited: "limited k (map f xs) = map f (limited k xs)"
  by (cases k) (simp_all add: limited_def take_map)

lemma reads_select:
  assumes rel: "reads_reliable C ixs" and b: "bound_select_ok cat b" and cat: "\<forall>s \<in> snd ` set cat. schema_ok s"
    and m: "described m (bl_source b)" and plan: "optimize_select b (Tables m) = Inr p"
    and kept: "source_kept C key ty ixs m d (bl_source b)"
    and plain: "\<forall>w. bl_where b = Some w \<longrightarrow> attribute_condition w" "bl_order_by b = None" "bl_group_by b = None"
  shows "reads view d (execute_select C lm p txt)
    (\<lambda>e. \<exists>rows. mset rows = query_answer d b \<and> se_rows e = map (projected b) (limited (bl_limit b) rows))"
proof -
  let ?wh = "bl_where b" and ?src = "bl_source b"
  let ?ow = "leaf_of ?src ?wh"
  have built: "source_built ?src" "set (leaves ?src) \<subseteq> snd ` set cat"
    using b by (simp_all add: bound_select_ok_def)
  have cols: "\<forall>s \<in> set (leaves ?src). list_all bound_column_ok (bs_columns s)"
    using built(2) cat by (auto simp: schema_ok_def)
  have inside: "condition_in (bl_schema b) w" if "?wh = Some w" for w
    using b that by (simp add: bound_select_ok_def)
  have nosearch: "\<not> searches ?wh k" for k
    using plain(1) by (cases "?wh"; cases "the ?wh") auto
  then have score: "bl_score b = None" "bl_score_order b = None"
    using b by (auto simp: bound_select_ok_def scoring_ok_def)
  have "search_supported m b"
    using plain(1) by (auto simp: search_supported_def split: option.splits bound_condition.splits)
  then have "select_planned m b p" using optimize_select_planned [OF b m] plan by auto
  then obtain q where q: "sp_statement p = b" "planned m ?wh ?ow 0 0 ?src q"
    "sp_source p = q \<or> (\<exists>a a'. q = PAccess a \<and> sp_source p = PAccess a' \<and> (knn_access b a a' \<or> top_k b a a'))"
    by (auto simp: select_planned_def)
  note pl = planned_plain [OF q(2) plain(1)]
  have src: "sp_source p = q" using q(3) pl(2) plain(2) by (auto simp: knn_access_def top_k_def)
  have owned: "owned w ?ow 0 0 ?src" "owner_inside ?ow 0 ?src" if "?wh = Some w" for w
    using condition_owned [OF built(1) cols, of w] inside [OF that] plain(1) that
    by (auto simp: bl_schema_def)
  have valid: "validate_plan p = Inr ()"
  proof (cases ?wh)
    case None
    then have "planned m None None 0 0 ?src q" using q(2) by (simp add: leaf_of_def)
    then show ?thesis using planned_residual None by (simp add: validate_plan_def q(1) src)
  next
    case (Some w)
    have "consumes_predicate q" using planned_consumes q(2) owned(2) [OF Some] Some by auto
    then show ?thesis by (simp add: validate_plan_def q(1) src Some)
  qed
  have found: "reads view d (execute_source C lm q ?src ?wh txt 0 False)
      (\<lambda>(rows, st, sc). sc = [] \<and> mset rows = node_rows ?wh ?ow 0 0 d ?src)"
    by (rule reads_source [OF rel built(1) q(2) kept])
      (use owned in \<open>auto simp: owner_inside_def split: option.splits\<close>)
  have stored: "row_stored (bl_schema b) r" if "r \<in># node_rows ?wh ?ow 0 0 d ?src" for r
    using source_rows_stored [OF built(1) kept planned_described [OF q(2)] node_rows_subset [OF that]]
    by (simp add: bl_schema_def)
  have answer: "image_mset (bound_row (bl_schema b)) (node_rows ?wh ?ow 0 0 d ?src) = query_answer d b"
  proof (cases ?wh)
    case None
    then show ?thesis by (simp add: node_rows_def query_answer_def)
  next
    case (Some w)
    then show ?thesis
      using owned(2) [OF Some]
      by (simp add: node_rows_def query_answer_def filter_mset_image_mset satisfies_at_def [abs_def]
          satisfies_def bl_schema_def)
  qed
  have "\<not> list_ex is_bound_aggregate (bl_projections b)"
    using b plain(3) by (simp add: bound_select_ok_def grouping_ok_def)
  then obtain cs where cs: "emap projected_column (bl_projections b) = Inr cs" "set (bl_projections b) = BPColumn ` set cs"
    "\<forall>row. List.map_filter (projected_cell row) (bl_projections b) = map (\<lambda>c. row ! br_index c) cs"
    using projected_columns by blast
  have "list_all (projection_in (bl_schema b)) (bl_projections b)" using b by (simp add: bound_select_ok_def)
  then have index: "\<forall>c \<in> set cs. br_index c < length (bs_columns (bl_schema b))"
    by (auto simp: list_all_iff cs(2) ref_in_def)
  have lim: "\<forall>n. bl_limit b = Some n \<longrightarrow> 0 \<le> n" using b by (simp add: bound_select_ok_def)
  have rest: "reads view d
      (io_bind (project_rows C b cs (map (\<lambda>c. bc_name (br_column c)) cs) (map (bound_row (bl_schema b)) rows) [] st)
        (\<lambda>(rows, st). apply_limit C \<lparr>se_columns = map (\<lambda>c. bc_name (br_column c)) cs,
           se_types = map (\<lambda>c. bc_type (br_column c)) cs, se_rows = rows, se_root = st\<rparr> (bl_limit b)
           (bs_table_name (bl_schema b))))
      (\<lambda>e. \<exists>rows. mset rows = query_answer d b \<and> se_rows e = map (projected b) (limited (bl_limit b) rows))"
    if rows: "mset rows = node_rows ?wh ?ow 0 0 d ?src" for rows st
  proof -
    let ?rows = "map (bound_row (bl_schema b)) rows"
    have w: "\<forall>row \<in> set ?rows. length row = length (bs_columns (bl_schema b))"
      using stored rows row_stored_length by (auto simp flip: set_mset_mset)
    have "mset ?rows = query_answer d b" using answer rows by simp
    then show ?thesis
      by (intro reads_bind [OF reads_project [OF rel score(1) cs(1,3) index w]])
        (auto simp: map_limited intro!: reads_weaken [OF reads_limit [OF rel lim]] exI [of _ ?rows])
  qed
  show ?thesis
    unfolding execute_select_def Let_def q(1) src valid
    by (simp add: score io_then_def pl(1) with_score_def)
      (rule reads_bind3 [OF found], use stored rest cs(1) emap_stored in
        \<open>auto simp flip: set_mset_mset simp: io_then_def\<close>)
qed

end

section \<open>The property\<close>


end
