(* ===== verification/Csv_Load.thy ===== *)
theory Csv_Load
  imports Session Bulk_Load
begin

text \<open>
  The loads of many rows (\<open>QueryProcessor.load_csv\<close> and \<open>load_media_batch\<close>, \<open>engine/executor/media_load.py\<close>):
  every row of the file is converted and inserted on its own; in an atomic load the first failure
  undoes the rows before it.
\<close>

section \<open>Rows of a CSV\<close>

record load_target =
  ld_table :: string
  ld_schema :: bound_schema
  ld_refs :: "index_ref list"
  ld_header :: csv_header
  ld_mapping :: "nat list"

definition load_values :: "load_target \<Rightarrow> string list \<Rightarrow> exn + native_record" where
  "load_values x fs =
     ebind (convert_row fs (ld_mapping x) (ld_schema x) (length (ch_fields (ld_header x)))
              (ch_delimiter (ld_header x) = CHR '';''))
       (\<lambda>row. Inr (to_native_values row))"

fun is_value_error :: "exn \<Rightarrow> bool" where
  "is_value_error (ValueError m) \<longleftrightarrow> True"
| "is_value_error (CsvLoadError m line) \<longleftrightarrow> True"
| "is_value_error (MediaLoadError m) \<longleftrightarrow> True"
| "is_value_error (UnicodeDecodeError m) \<longleftrightarrow> True"
| "is_value_error _ \<longleftrightarrow> False"

text \<open>
  \<open>_load_row\<close>: the reason why the row did not enter, or \<open>None\<close>. The transaction of an atomic load is
  a local variable of the load.
\<close>

definition load_row ::
  "('s, 'm) settings \<Rightarrow> load_target \<Rightarrow> string list \<Rightarrow> transaction option \<Rightarrow> 's session
   \<Rightarrow> (exn + string option) \<times> transaction option \<times> 's session" where
  "load_row E x fs tx s =
     (case load_values x fs of
        Inl e \<Rightarrow> if is_value_error e then (Inr (Some (exn_text e)), tx, s) else (Inl e, tx, s)
      | Inr values \<Rightarrow>
          let kc = bs_key_column (ld_schema x) in
          case on_core (insert_with_indexes (pe_core E) (ld_table x) values kc (ld_refs x)) s of
            (Inl e, s') \<Rightarrow>
              if is_domain_error e then (Inr (Some (''no se pudo insertar: '' @ exn_text e)), tx, s')
              else (Inl e, tx, s')
          | (Inr rid, s') \<Rightarrow>
              (Inr None, map_option (record_insert (ld_table x) values rid kc (ld_refs x)) tx, s'))"

definition atomic_failure :: "int \<Rightarrow> string \<Rightarrow> exn" where
  "atomic_failure line message =
     CsvLoadError (''linea '' @ show_int line @ '': '' @ message
       @ ''. La carga es atomica y no se inserto ninguna fila'') (Some line)"

lemma csv_next_less:
  assumes "(r, ls', n') = csv_next delim strict ls n" "r \<noteq> Inr None"
  shows "length ls' < length ls"
  using csv_next_shorter [OF assms(1) [symmetric]] csv_next_end [of delim strict n r ls' n'] assms
  by (cases ls) auto

text \<open>The loop over the records; the line of a record is the one where it starts.\<close>

function csv_loop ::
  "('s, 'm) settings \<Rightarrow> load_target \<Rightarrow> csv_line list \<Rightarrow> nat \<Rightarrow> transaction option \<Rightarrow> load_report
   \<Rightarrow> 's session \<Rightarrow> (exn + load_report) \<times> transaction option \<times> 's session" where
  "csv_loop E x ls n tx rep s =
     (case csv_next (ch_delimiter (ld_header x)) True ls n of (r, ls', n') \<Rightarrow>
      let line = int (ch_line (ld_header x) + n + 1) in
      case r of
        Inr None \<Rightarrow> (Inr rep, tx, s)
      | Inr (Some fs) \<Rightarrow>
          if fs = [] then csv_loop E x ls' n' tx rep s
          else
            (case load_row E x fs tx s of
               (Inl e, tx', s') \<Rightarrow> (Inl e, tx', s')
             | (Inr None, tx', s') \<Rightarrow>
                 csv_loop E x ls' n' tx' (rep\<lparr>lr_inserted := Suc (lr_inserted rep)\<rparr>) s'
             | (Inr (Some message), tx', s') \<Rightarrow>
                 if tx' \<noteq> None then (Inl (atomic_failure line message), tx', s')
                 else csv_loop E x ls' n' tx' (report_fail line message rep) s')
      | Inl (CsvError message) \<Rightarrow>
          if tx \<noteq> None then (Inl (atomic_failure line (''CSV mal formado: '' @ message)), tx, s)
          else csv_loop E x ls' n' tx (report_fail line (''CSV mal formado: '' @ message) rep) s
      | Inl (UnicodeDecodeError message) \<Rightarrow>
          if tx \<noteq> None then
            (Inl (atomic_failure line ''el archivo deja de ser UTF-8 valido; el resto no se leyo''), tx, s)
          else
            (Inr (report_fail line ''el archivo deja de ser UTF-8 valido; el resto no se leyo'' rep), tx, s)
      | Inl e \<Rightarrow> (Inl e, tx, s))"
  by pat_completeness auto
termination
  by (relation "measure (\<lambda>(E, x, ls, n, tx, rep, s). length ls)") (auto dest: csv_next_less)

declare csv_loop.simps [simp del]

text \<open>The load: its lock is held for the whole file, and an atomic one commits or rolls back.\<close>

definition csv_target ::
  "('s, 'm) settings \<Rightarrow> string \<Rightarrow> csv_line list \<Rightarrow> ('s, load_target \<times> csv_line list) sio" where
  "csv_target E t stream =
     io_bind
       (io_catch (on_core (db_info (pe_core E) t))
         (\<lambda>e. if is_domain_error e then io_lift (csv_load_error (''la tabla '' @ repr_str t @ '' no existe'') None)
              else io_raise e))
       (\<lambda>(nschema, storage, indexes).
        io_bind (io_lift (from_native_schema nschema)) (\<lambda>schema.
        case read_header stream 0 of
          (Inl (UnicodeDecodeError m), _) \<Rightarrow>
            io_lift (csv_load_error (''no se pudo leer la cabecera: '' @ m) (Some 1))
        | (Inl e, _) \<Rightarrow> io_raise e
        | (Inr header, ls) \<Rightarrow>
            io_bind (io_lift (match_header (ch_fields header) schema (int (ch_line header)))) (\<lambda>mapping.
            io_return (\<lparr>ld_table = t, ld_schema = schema, ld_refs = native_refs indexes,
                        ld_header = header, ld_mapping = mapping\<rparr>, ls))))"

definition lock_load :: "('s, 'm) settings \<Rightarrow> string \<Rightarrow> bool \<Rightarrow> ('s, transaction option) sio" where
  "lock_load E t atomic s =
     (if atomic then
        (let tx = new_transaction (ss_fresh s); s = s\<lparr>ss_fresh := Suc (ss_fresh s)\<rparr> in
         case ensure_lock (pe_fuel E) (pe_lock_env E (ss_waits s)) t LM_EXCLUSIVE (pe_timeout E) tx
                (ss_locks s) of
           (r, lm) \<Rightarrow>
             (case r of Inl e \<Rightarrow> Inl e | Inr tx \<Rightarrow> Inr (Some tx),
              s\<lparr>ss_locks := lm, ss_core := pe_meanwhile E (ss_waits s) (ss_core s),
                ss_waits := Suc (ss_waits s)\<rparr>))
      else io_then (acquire_lock E t (ss_owner s) LM_EXCLUSIVE) (io_return None) s)"

definition rollback_local :: "('s, 'm) settings \<Rightarrow> transaction \<Rightarrow> ('s, unit) sio" where
  "rollback_local E tx s =
     (case rollback (pe_core E) tx (ss_locks s, ss_core s) of
        (r, (lm, c)) \<Rightarrow>
          (case r of Inl e \<Rightarrow> Inl e | Inr _ \<Rightarrow> Inr (), s\<lparr>ss_locks := lm, ss_core := c\<rparr>))"

definition run_load ::
  "('s, 'm) settings \<Rightarrow> load_target \<Rightarrow> csv_line list \<Rightarrow> transaction option \<Rightarrow> ('s, load_report) sio" where
  "run_load E x ls tx s =
     (case csv_loop E x ls 0 tx (new_report (ld_table x)) s of
        (Inl e, Some tx', s') \<Rightarrow> io_then (rollback_local E tx') (io_raise e) s'
      | (Inr rep, Some tx', s') \<Rightarrow>
          (Inr rep, s'\<lparr>ss_locks := snd (commit tx' (ss_locks s'))\<rparr>)
      | (r, None, s') \<Rightarrow>
          (r, s'\<lparr>ss_locks := lm_release (ld_table x) (ss_owner s') (ss_locks s')\<rparr>))"

definition load_csv ::
  "('s, 'm) settings \<Rightarrow> string \<Rightarrow> csv_line list \<Rightarrow> bool \<Rightarrow> ('s, load_report) sio" where
  "load_csv E t stream atomic s =
     (if ss_tx s \<noteq> None then
        (Inl (TransactionError (''la carga masiva no se puede ejecutar dentro de una transaccion: ''
           @ ''falta un END TRANSACTION'')), s)
      else
        io_bind (csv_target E t stream) (\<lambda>(x, ls).
        io_bind (lock_load E t atomic) (run_load E x ls)) s)"

section \<open>Rows of extracted features\<close>

record media_columns =
  md_id :: string
  md_name :: string
  md_path :: string
  md_vector :: string

definition media_names :: "media_columns \<Rightarrow> string list" where
  "media_names c = [md_id c, md_name c, md_path c, md_vector c]"

definition default_media_columns :: media_columns where
  "default_media_columns =
     \<lparr>md_id = ''id'', md_name = ''nombre'', md_path = ''ruta'', md_vector = ''rasgos''\<rparr>"

record media_row =
  mr_id :: int
  mr_name :: string
  mr_path :: string
  mr_vector :: "pyfloat list"

record media_report =
  mp_table :: string
  mp_inserted :: nat
  mp_failed :: nat
  mp_errors :: "(string \<times> string) list"

definition media_fail :: "string \<Rightarrow> string \<Rightarrow> media_report \<Rightarrow> media_report" where
  "media_fail path message r =
     r\<lparr>mp_failed := Suc (mp_failed r),
       mp_errors := (if length (mp_errors r) < max_reported_errors
                     then mp_errors r @ [(path, take 1024 message)] else mp_errors r)\<rparr>"

definition media_merge :: "media_report \<Rightarrow> media_report \<Rightarrow> media_report" where
  "media_merge a b =
     a\<lparr>mp_inserted := mp_inserted a + mp_inserted b, mp_failed := mp_failed a + mp_failed b,
       mp_errors := mp_errors a @ py_slice (mp_errors b) 0
         (int max_reported_errors - int (length (mp_errors a)))\<rparr>"

text \<open>The last column with a name is the one that a dictionary by name keeps.\<close>

definition column_named :: "bound_schema \<Rightarrow> string \<Rightarrow> bound_column option" where
  "column_named schema n = List.find (\<lambda>c. bc_name c = n) (rev (bs_columns schema))"

definition media_error :: "string \<Rightarrow> exn + 'a" where
  "media_error message = Inl (MediaLoadError message)"

definition media_has_type :: "bound_schema \<Rightarrow> string \<Rightarrow> sql_type_name \<Rightarrow> bool" where
  "media_has_type schema n ty \<longleftrightarrow> map_option bc_type (column_named schema n) = Some ty"

definition validate_media_schema ::
  "bound_schema \<Rightarrow> media_columns \<Rightarrow> int option \<Rightarrow> exn + unit" where
  "validate_media_schema schema c dimension =
     (if card (set (media_names c)) \<noteq> 4 \<or> set (map bc_name (bs_columns schema)) \<noteq> set (media_names c) then
        media_error (''la tabla multimedia necesita exactamente cuatro columnas distintas: ''
          @ join_str '', '' (media_names c))
      else if \<not> media_has_type schema (md_id c) SQL_INT then
        media_error (''la columna '' @ repr_str (md_id c) @ '' debe ser INT PRIMARY KEY'')
      else
        ebind (py_index (bs_columns schema) (int (bs_key_column schema))) (\<lambda>key.
        if bc_name key \<noteq> md_id c then
          media_error (''la columna '' @ repr_str (md_id c) @ '' debe ser INT PRIMARY KEY'')
        else if \<not> media_has_type schema (md_name c) SQL_VARCHAR then
          media_error (''la columna '' @ repr_str (md_name c) @ '' debe ser VARCHAR'')
        else if \<not> media_has_type schema (md_path c) SQL_VARCHAR then
          media_error (''la columna '' @ repr_str (md_path c) @ '' debe ser VARCHAR'')
        else if \<not> media_has_type schema (md_vector c) SQL_VECTOR then
          media_error (''la columna '' @ repr_str (md_vector c) @ '' debe ser VECTOR(dim)'')
        else
          (let n = Option.bind (column_named schema (md_vector c)) bc_length in
           case dimension of
             None \<Rightarrow> Inr ()
           | Some d \<Rightarrow>
               if n \<noteq> Some d then
                 media_error (''VECTOR('' @ (case n of None \<Rightarrow> ''None'' | Some k \<Rightarrow> show_int k)
                   @ '') no coincide con las '' @ show_int d @ '' palabras del vocabulario'')
               else Inr ())))"

definition float32_max :: pyfloat where
  "float32_max = round_binary64 (34028234663852886 * 10 ^ 22)"

definition float32_finite :: "pyfloat \<Rightarrow> bool" where
  "float32_finite x \<longleftrightarrow> is_finite x \<and> float_le (float_abs x) float32_max"

text \<open>The value of a column by its name; a later name of the dictionary hides an earlier one.\<close>

definition media_value :: "media_row \<Rightarrow> media_columns \<Rightarrow> string \<Rightarrow> native_value option" where
  "media_value r c =
     map_of [(md_vector c, NVector (mr_vector r)), (md_path c, NStr (map of_char (mr_path r))),
             (md_name c, NStr (map of_char (mr_name r))), (md_id c, NInt (mr_id r))]"

fun native_utf8 :: "native_value \<Rightarrow> nat option" where
  "native_utf8 (NStr cs) = Some (sum_list (map (\<lambda>c. if c < 128 then 1 else 2) cs))"
| "native_utf8 _ = None"

definition check_media_value :: "media_row \<Rightarrow> bound_column \<Rightarrow> native_value \<Rightarrow> exn + unit" where
  "check_media_value r c v =
     (case bc_type c of
        SQL_VARCHAR \<Rightarrow>
          (case (native_utf8 v, bc_length c) of
             (None, _) \<Rightarrow> Inl (ValueError (''el valor de '' @ repr_str (bc_name c) @ '' excede VARCHAR(''
                 @ (case bc_length c of None \<Rightarrow> ''None'' | Some n \<Rightarrow> show_int n) @ '')''))
           | (Some k, None) \<Rightarrow> Inl (TypeError (CHR 0x27 # ''>'' @ CHR 0x27
                 # '' not supported between instances of '' @ repr_str ''int'' @ '' and ''
                 @ repr_str ''NoneType''))
           | (Some k, Some n) \<Rightarrow>
               if n < int k then Inl (ValueError (''el valor de '' @ repr_str (bc_name c)
                 @ '' excede VARCHAR('' @ show_int n @ '')''))
               else Inr ())
      | SQL_VECTOR \<Rightarrow>
          if bc_length c \<noteq> Some (int (length (mr_vector r))) \<or> \<not> list_all float32_finite (mr_vector r)
          then Inl (ValueError (''se esperaba un VECTOR(''
                 @ (case bc_length c of None \<Rightarrow> ''None'' | Some n \<Rightarrow> show_int n) @ '') finito de float32''))
          else Inr ()
      | _ \<Rightarrow> Inr ())"

definition media_values :: "media_row \<Rightarrow> bound_schema \<Rightarrow> media_columns \<Rightarrow> exn + native_record" where
  "media_values r schema c =
     (if \<not> (int32_min \<le> mr_id r \<and> mr_id r \<le> int32_max) then
        Inl (ValueError ''el identificador no cabe en un INT de 32 bits'')
      else emap (\<lambda>col.
        case media_value r c (bc_name col) of
          None \<Rightarrow> Inl (KeyError (bc_name col))
        | Some v \<Rightarrow> ebind (check_media_value r col v) (\<lambda>_. Inr v)) (bs_columns schema))"

fun is_row_error :: "exn \<Rightarrow> bool" where
  "is_row_error (TypeError m) \<longleftrightarrow> True"
| "is_row_error OverflowError \<longleftrightarrow> True"
| "is_row_error e \<longleftrightarrow> is_value_error e \<or> is_domain_error e"

fun error_class_name :: "exn \<Rightarrow> string" where
  "error_class_name (ValueError m) = ''ValueError''"
| "error_class_name (TypeError m) = ''TypeError''"
| "error_class_name OverflowError = ''OverflowError''"
| "error_class_name (CsvLoadError m line) = ''CsvLoadError''"
| "error_class_name (MediaLoadError m) = ''MediaLoadError''"
| "error_class_name (UnicodeDecodeError m) = ''UnicodeDecodeError''"
| "error_class_name (NativeError NE_SCHEMA m) = ''SchemaError''"
| "error_class_name (NativeError NE_INVALID_RECORD m) = ''InvalidRecord''"
| "error_class_name (NativeError NE_DUPLICATE_KEY m) = ''DuplicateKey''"
| "error_class_name e = []"

fun media_loop ::
  "('s, 'm) settings \<Rightarrow> string \<Rightarrow> bound_schema \<Rightarrow> index_ref list \<Rightarrow> media_columns \<Rightarrow> media_row list
   \<Rightarrow> media_report \<Rightarrow> ('s, media_report) sio" where
  "media_loop E t schema refs c [] rep = io_return rep"
| "media_loop E t schema refs c (r # rs) rep =
     (\<lambda>s. case io_bind (io_lift (media_values r schema c))
             (\<lambda>values. on_core (insert_with_indexes (pe_core E) t values (bs_key_column schema) refs)) s of
        (Inr _, s') \<Rightarrow> media_loop E t schema refs c rs (rep\<lparr>mp_inserted := Suc (mp_inserted rep)\<rparr>) s'
      | (Inl e, s') \<Rightarrow>
          if is_row_error e then
            media_loop E t schema refs c rs
              (media_fail (mr_path r) (if exn_text e = [] then error_class_name e else exn_text e) rep) s'
          else (Inl e, s'))"

definition load_media_batch ::
  "('s, 'm) settings \<Rightarrow> string \<Rightarrow> media_row list \<Rightarrow> media_columns option \<Rightarrow> int option
   \<Rightarrow> ('s, media_report) sio" where
  "load_media_batch E t rows columns dimension s =
     (if ss_tx s \<noteq> None then
        (Inl (TransactionError ''la carga multimedia requiere terminar la transaccion activa''), s)
      else
        (let c = (case columns of None \<Rightarrow> default_media_columns | Some c \<Rightarrow> c) in
         io_bind
           (io_catch (on_core (db_info (pe_core E) t))
             (\<lambda>e. if is_domain_error e
                  then io_lift (media_error (''la tabla '' @ repr_str t @ '' no existe'')) else io_raise e))
           (\<lambda>(nschema, storage, indexes).
            io_bind (io_lift (from_native_schema nschema)) (\<lambda>schema.
            io_then (io_lift (validate_media_schema schema c dimension))
            (io_then (lock_or_abort E t LM_EXCLUSIVE)
              (io_finally
                (media_loop E t schema (native_refs indexes) c rows
                  \<lparr>mp_table = t, mp_inserted = 0, mp_failed = 0, mp_errors = []\<rparr>)
                (release_autocommit t))))) s))"

end
