(* ===== verification/Csv_Load_Spec.thy ===== *)
theory Csv_Load_Spec
  imports Csv_Load Transaction_Spec
begin

text \<open>
  What a CSV load guarantees: every field has the type of its column, and an atomic load inserts all
  the rows of the file or none. The loop over the records is a run of the transaction of the load that
  only inserts, so its rollback gives back the rows of the moment the lock was taken.
\<close>

section \<open>Rows that fit the table\<close>

lemma csv_field_kinds:
  "csv_int s c = Inr v \<Longrightarrow> \<exists>n. v = VInt n \<and> int32_min \<le> n \<and> n \<le> int32_max"
  "csv_double s c = Inr v \<Longrightarrow> \<exists>x. v = VFloat x \<and> is_finite x"
  "csv_bool s c = Inr v \<Longrightarrow> \<exists>b. v = VBool b"
  "csv_date s c = Inr v \<Longrightarrow> \<exists>y m d. v = VDate (PyDate y m d) \<and> valid_date y m d"
  "csv_varchar s c = Inr v \<Longrightarrow> v = VStr s \<and> (\<exists>n. bc_length c = Some n \<and> int (utf8_length s) \<le> n)"
  by (auto simp: csv_int_def csv_double_def csv_bool_def csv_date_def csv_varchar_def bad_field_def Let_def
      split: if_splits prod.splits option.splits)

lemma convert_field_kind:
  assumes "convert_field s c comma = Inr v"
  shows "native_kind (to_native_value v) = to_native_type (bc_type c)"
  using assms csv_field_kinds
  by (auto simp: convert_field_def bad_field_def Let_def dest!: csv_field_kinds
      split: if_splits sql_type_name.splits)

lemma convert_row_kinds:
  assumes "convert_row fs mapping schema width comma = Inr row"
  shows "list_all2 (\<lambda>v c. native_kind (to_native_value v) = to_native_type (bc_type c))
    row (bs_columns schema)"
proof -
  let ?f = "\<lambda>(i, c). ebind (py_index fs (int i)) (\<lambda>f. convert_field f c comma)"
  have len: "length mapping = length (bs_columns schema)"
    and run: "emap ?f (zip mapping (bs_columns schema)) = Inr row"
    using assms by (auto simp: convert_row_def bind_simps split: if_splits)
  show ?thesis
    unfolding list_all2_conv_all_nth
  proof (intro conjI allI impI)
    show rows: "length row = length (bs_columns schema)" using emap_length [OF run] len by simp
    fix i assume i: "i < length row"
    then have "?f (zip mapping (bs_columns schema) ! i) = Inr (row ! i)"
      using run len rows by (auto simp: emap_Inr_iff list_all2_conv_all_nth)
    then show "native_kind (to_native_value (row ! i)) = to_native_type (bc_type (bs_columns schema ! i))"
      using i len rows by (auto simp: bind_simps intro: convert_field_kind)
  qed
qed

text \<open>The target of a load and the metadata of the table that the contract speaks of.\<close>

definition target_fits ::
  "(string \<Rightarrow> nat) \<Rightarrow> (string \<Rightarrow> native_type) \<Rightarrow> (string \<Rightarrow> index_ref list) \<Rightarrow> load_target \<Rightarrow> bool" where
  "target_fits key ty ixs x \<longleftrightarrow>
     (let t = ld_table x; columns = bs_columns (ld_schema x) in
      bs_key_column (ld_schema x) = key t \<and> key t < length columns
      \<and> to_native_type (bc_type (columns ! key t)) = ty t \<and> ld_refs x = ixs t
      \<and> list_all (\<lambda>(n, c). 0 \<le> c \<and> c < int (length columns)) (ixs t))"

lemma load_values_fit:
  assumes "load_values x fs = Inr vals" "target_fits key ty ixs x"
  shows "row_fits (key (ld_table x)) (ty (ld_table x)) (ixs (ld_table x)) vals"
proof -
  obtain row where row: "vals = map to_native_value row"
    "list_all2 (\<lambda>v c. native_kind (to_native_value v) = to_native_type (bc_type c)) row
       (bs_columns (ld_schema x))"
    using assms(1) by (auto simp: load_values_def bind_simps to_native_values_def dest: convert_row_kinds)
  then show ?thesis
    using assms(2) by (auto simp: target_fits_def row_fits_def Let_def list_all2_conv_all_nth)
qed

section \<open>The loop of an atomic load\<close>

text \<open>What \<open>k\<close> insertions into a table do to the rows.\<close>

definition rows_added :: "string \<Rightarrow> nat \<Rightarrow> db \<Rightarrow> db \<Rightarrow> bool" where
  "rows_added t k d e \<longleftrightarrow> db_rows d t \<subseteq>\<^sub>m db_rows e t
     \<and> card (dom (db_rows e t)) = card (dom (db_rows d t)) + k
     \<and> (\<forall>u. u \<noteq> t \<longrightarrow> db_rows e u = db_rows d u)"

lemma rows_added_refl [simp]: "rows_added t 0 d d"
  by (simp add: rows_added_def)

lemma rows_added_trans: "rows_added t k d e \<Longrightarrow> rows_added t l e f \<Longrightarrow> rows_added t (k + l) d f"
  by (auto simp: rows_added_def intro: map_le_trans)

fun is_insert :: "undo_action \<Rightarrow> bool" where
  "is_insert (UndoInsert t row rid kc indexes) = True"
| "is_insert (UndoDelete t cs kc indexes) = False"

lemma inserts_kept: "list_all is_insert us \<Longrightarrow> own_rows_kept us"
proof (induction us)
  case (Cons u us)
  have "\<not> deletes_key t kc k v" if "is_insert v" for t kc k v using that by (cases v) auto
  then have "\<not> list_ex (deletes_key t kc k) us" for t kc k
    using Cons.prems by (auto simp: list_ex_iff list_all_iff)
  then show ?case using Cons by (cases u) auto
qed simp

lemma load_row_run:
  assumes dml: "dml_core (pe_core E) view key" and rel: "reliable (pe_core E) view key ty ixs"
    and tgt: "target_fits key ty ixs x" and kept: "all_kept key ty ixs (view (ss_core s))"
    and run: "load_row E x fs (Some tx) s = (r, tx', s')"
  shows "ss_locks s' = ss_locks s
    \<and> (if r = Inr None then (\<exists>vals rid. row_fits (key (ld_table x)) (ty (ld_table x)) (ixs (ld_table x)) vals
          \<and> insert_with_indexes (pe_core E) (ld_table x) vals (key (ld_table x)) (ixs (ld_table x)) (ss_core s)
            = (Inr rid, ss_core s')
          \<and> tx' = Some (record_insert (ld_table x) vals rid (key (ld_table x)) (ixs (ld_table x)) tx))
       else tx' = Some tx \<and> view (ss_core s') = view (ss_core s))"
proof (cases "load_values x fs")
  case (Inl e)
  then show ?thesis using run by (auto simp: load_row_def split: if_splits)
next
  case (Inr vals)
  let ?t = "ld_table x"
  note fits = load_values_fit [OF Inr tgt]
  have meta: "bs_key_column (ld_schema x) = key ?t" "ld_refs x = ixs ?t"
    using tgt by (auto simp: target_fits_def Let_def)
  obtain q c where ins: "insert_with_indexes (pe_core E) ?t vals (key ?t) (ixs ?t) (ss_core s) = (q, c)"
    by (metis prod.exhaust)
  have "removals_reliable (pe_core E)" "table_shape (ixs ?t)" using rel by (auto simp: reliable_def)
  then have "\<forall>e. q = Inl e \<longrightarrow> view c = view (ss_core s)"
    using dml_core.insert_with_indexes_view [OF dml ins _ _ fits refl] kept by (simp add: all_kept_def)
  then show ?thesis
    using run Inr ins fits
    by (auto simp: load_row_def on_core_def meta split: sum.splits if_splits)
qed

lemma csv_loop_run:
  assumes dml: "dml_core (pe_core E) view key" and rel: "reliable (pe_core E) view key ty ixs"
    and tgt: "target_fits key ty ixs x" and start: "all_kept key ty ixs (view c0)"
    and "tx_run (pe_core E) view key ty ixs c0 tx (ss_core s)" "list_all is_insert (tx_undo tx)"
    and "csv_loop E x ls n (Some tx) rep s = (r, tx2, s2)"
  shows "\<exists>tx' k. tx2 = Some tx' \<and> tx_run (pe_core E) view key ty ixs c0 tx' (ss_core s2)
    \<and> list_all is_insert (tx_undo tx') \<and> ss_locks s2 = ss_locks s
    \<and> release_locks tx' = release_locks tx \<and> rows_added (ld_table x) k (view (ss_core s)) (view (ss_core s2))
    \<and> (\<forall>rep'. r = Inr rep' \<longrightarrow> lr_inserted rep' = lr_inserted rep + k \<and> lr_failed rep' = lr_failed rep)"
  using assms(5-)
proof (induction "length ls" arbitrary: ls n tx rep s rule: less_induct)
  case less
  let ?t = "ld_table x"
  let ?goal = "\<lambda>tx rep s. \<exists>tx' k. tx2 = Some tx' \<and> tx_run (pe_core E) view key ty ixs c0 tx' (ss_core s2)
    \<and> list_all is_insert (tx_undo tx') \<and> ss_locks s2 = ss_locks s
    \<and> release_locks tx' = release_locks tx \<and> rows_added ?t k (view (ss_core s)) (view (ss_core s2))
    \<and> (\<forall>rep'. r = Inr rep' \<longrightarrow> lr_inserted rep' = lr_inserted rep + k \<and> lr_failed rep' = lr_failed rep)"
  obtain q ls' n' where nxt: "csv_next (ch_delimiter (ld_header x)) True ls n = (q, ls', n')"
    by (metis prod.exhaust)
  have less': "q \<noteq> Inr None \<Longrightarrow> length ls' < length ls" using csv_next_less [OF nxt [symmetric]] .
  have here: ?case if "tx2 = Some tx" "s2 = s" "\<forall>rep'. r = Inr rep' \<longrightarrow> rep' = rep"
    using that less.prems by (intro exI [of _ tx] exI [of _ 0]) auto
  note kept = conjunct1 [OF dml_core.tx_run_forward [OF dml less.prems(1) rel start inserts_kept [OF less.prems(2)]]]
  show ?case
  proof (cases "\<exists>fs. q = Inr (Some fs) \<and> fs \<noteq> []")
    case False
    show ?thesis
    proof (cases "q = Inr (Some [])")
      case True
      then have "csv_loop E x ls' n' (Some tx) rep s = (r, tx2, s2)"
        using less.prems(3) nxt by (subst (asm) csv_loop.simps) simp
      then show ?thesis using less.hyps [OF less' less.prems(1,2)] True by blast
    next
      case other: False
      have "tx2 = Some tx \<and> s2 = s \<and> (\<forall>rep'. r = Inr rep' \<longrightarrow> rep' = rep)"
        using less.prems(3) nxt False other
        by (subst (asm) csv_loop.simps) (auto simp: Let_def split: sum.splits option.splits exn.splits)
      then show ?thesis using here by blast
    qed
  next
    case True
    then obtain fs where q: "q = Inr (Some fs)" "fs \<noteq> []" by blast
    obtain r1 tx1 s1 where 1: "load_row E x fs (Some tx) s = (r1, tx1, s1)" by (metis prod_cases3)
    note row = load_row_run [OF dml rel tgt kept 1]
    show ?thesis
    proof (cases "r1 = Inr None")
      case True
      then obtain vals rid where ins: "row_fits (key ?t) (ty ?t) (ixs ?t) vals"
        "insert_with_indexes (pe_core E) ?t vals (key ?t) (ixs ?t) (ss_core s) = (Inr rid, ss_core s1)"
        "tx1 = Some (record_insert ?t vals rid (key ?t) (ixs ?t) tx)"
        using row by auto
      define tx1' where "tx1' = record_insert ?t vals rid (key ?t) (ixs ?t) tx"
      note step = dml_core.insert_run [OF dml rel kept ins(1,2)]
      have "finite (dom (db_rows (view (ss_core s)) ?t))"
        using kept by (simp add: all_kept_def well_kept_def)
      then have added: "rows_added ?t 1 (view (ss_core s)) (view (ss_core s1))"
        using step(2,3,5) by (auto simp: rows_added_def map_le_def domIff)
      have "csv_loop E x ls' n' (Some tx1') (rep\<lparr>lr_inserted := Suc (lr_inserted rep)\<rparr>) s1 = (r, tx2, s2)"
        using less.prems(3) nxt q 1 True ins(3) by (subst (asm) csv_loop.simps) (simp add: tx1'_def)
      moreover have "tx_run (pe_core E) view key ty ixs c0 tx1' (ss_core s1)"
        unfolding tx1'_def by (rule tx_run.insert_tx [OF less.prems(1) ins(1,2)])
      moreover have "list_all is_insert (tx_undo tx1')"
        using less.prems(2) by (simp add: tx1'_def record_insert_def)
      ultimately have "?goal tx1' (rep\<lparr>lr_inserted := Suc (lr_inserted rep)\<rparr>) s1"
        using less.hyps less' q(1) by blast
      then obtain tx' k where IH: "tx2 = Some tx'"
        "tx_run (pe_core E) view key ty ixs c0 tx' (ss_core s2)" "list_all is_insert (tx_undo tx')"
        "ss_locks s2 = ss_locks s1" "release_locks tx' = release_locks tx1'"
        "rows_added ?t k (view (ss_core s1)) (view (ss_core s2))"
        "\<forall>rep'. r = Inr rep' \<longrightarrow> lr_inserted rep' = Suc (lr_inserted rep) + k \<and> lr_failed rep' = lr_failed rep"
        by auto
      have "release_locks tx1' = release_locks tx"
        by (simp add: release_locks_def tx1'_def record_insert_def fun_eq_iff)
      moreover have "rows_added ?t (1 + k) (view (ss_core s)) (view (ss_core s2))"
        by (rule rows_added_trans [OF added IH(6)])
      ultimately show ?thesis using IH row by (intro exI [of _ tx'] exI [of _ "1 + k"]) auto
    next
      case False
      then have "tx1 = Some tx" "view (ss_core s1) = view (ss_core s)" "ss_locks s1 = ss_locks s"
        using row by auto
      moreover have "tx2 = Some tx" "s2 = s1" "\<exists>e. r = Inl e"
        using less.prems(3) nxt q 1 False calculation(1)
        by (auto simp: csv_loop.simps [of E x ls] Let_def split: sum.splits option.splits)
      ultimately show ?thesis
        using tx_run.read_tx [OF less.prems(1)] less.prems(2) by (intro exI [of _ tx] exI [of _ 0]) auto
    qed
  qed
qed

section \<open>All or nothing\<close>


end
