(* ===== verification/Heap_Query.thy ===== *)
theory Heap_Query
  imports Heap_Core Select_Spec Csv_Load_Spec
begin

text \<open>
  The reads of the core in memory: it has no spatial, text or vector indexes, and joins by comparing
  every pair of rows. It keeps the contract of \<open>query_db\<close>, and with the operations of the database
  described below it is the core of the concrete SELECTs and loads.
\<close>

definition no_index :: "(mem, 'a) io" where
  "no_index = io_raise (RuntimeError ''no hay indice en memoria'')"

definition mem_join :: "join_request \<Rightarrow> native_record list \<Rightarrow> native_record list \<Rightarrow> native_record list" where
  "mem_join j L R =
     concat (map (\<lambda>l. map (\<lambda>r. l @ r) (filter (\<lambda>r. l ! jr_left_column j = r ! jr_right_column j) R)) L)"

definition mem_query :: "(string \<Rightarrow> nat) \<Rightarrow> mem query_core" where
  "mem_query key =
     core.extend (mem_core key)
       (query_core.fields (io_return 0) (\<lambda>t. io_return ()) (\<lambda>t n. io_return ())
         (\<lambda>t. io_return (Stats 0 0 0 0)) (\<lambda>t n. io_return (Stats 0 0 0 0))
         (\<lambda>t m. (Inr (int (length (live_rows 0 (mm_slots m t)))), m))
         (\<lambda>t n m. (Inr (int (length (mm_entries m t n))), m))
         (\<lambda>t n p k metric. no_index) (\<lambda>t n p radius metric. no_index) (\<lambda>t n vs. no_index)
         (\<lambda>t n q ranking k. no_index) (\<lambda>t n. no_index) (\<lambda>t n v k metric effort. no_index)
         (\<lambda>t c v k metric. no_index) (\<lambda>x metric. Inr x) (io_return ()) (\<lambda>s. s)
         (\<lambda>j. io_return ()) (\<lambda>p. io_return ())
         (\<lambda>j L probe R n. io_return (mem_join j L R))
         (\<lambda>j. io_return \<lparr>jo_structure = ''external_hash'', jo_used_hash = True, jo_left_rows = 0,
            jo_right_rows = 0, jo_output_rows = 0, jo_partitions = 0, jo_blocked_partitions = 0\<rparr>))"

lemmas mem_query_fields = mem_query_def core.extend_def query_core.fields_def mem_core_def

lemma mem_query_simps [simp]:
  "co_table (mem_query key) t = io_return ()" "co_index (mem_query key) t n = io_return ()"
  "co_insert (mem_query key) = mem_insert key" "co_remove (mem_query key) = mem_remove key"
  "co_read (mem_query key) t rid m = (Inr (heap_read (mm_slots m t) rid), m)"
  "ci_insert (mem_query key) = mem_entry_insert" "ci_remove_one (mem_query key) = mem_entry_remove"
  by (simp_all add: mem_query_fields)

lemma mem_core_truncated: "core.truncate (mem_query key) = mem_core key"
  by (simp add: mem_query_fields core.truncate_def)

lemma live_rows_range: "(rid, r) \<in> set (live_rows i slots) \<Longrightarrow> rid_page rid = 1 \<and> i \<le> rid_slot rid"
  by (induction i slots rule: live_rows.induct) fastforce+

lemma live_rows_distinct: "distinct (map fst (live_rows i slots))"
proof (induction i slots rule: live_rows.induct)
  case (3 i r slots)
  then show ?case using live_rows_range [of _ _ "Suc i" slots] by fastforce
qed simp_all

lemma live_rows_nth:
  "(RID 1 j, r) \<in> set (live_rows i slots) \<longleftrightarrow> i \<le> j \<and> j - i < length slots \<and> slots ! (j - i) = Some r"
proof (induction i slots rule: live_rows.induct)
  case (2 i slots)
  then show ?case by (cases "j = i") (auto simp: nth_Cons' Suc_diff_le le_Suc_eq)
next
  case (3 i x slots)
  then show ?case by (cases "j = i") (auto simp: nth_Cons' Suc_diff_le le_Suc_eq)
qed simp

lemma set_live_rows: "(rid, r) \<in> set (live_rows 0 slots) \<longleftrightarrow> heap_read slots rid = Some r"
  using live_rows_range [of rid r 0 slots] live_rows_nth [of "rid_slot rid" r 0 slots]
  by (cases rid) (auto simp: heap_read_def)

lemma mset_live_rows: "mset (map snd (live_rows 0 (mm_slots m t))) = table_rows (mem_view m) t"
proof -
  let ?L = "live_rows 0 (mm_slots m t)"
  have "dom (heap_read (mm_slots m t)) = Domain (set ?L)" by (auto simp: set_live_rows dom_def)
  then have dom: "dom (heap_read (mm_slots m t)) = set (map fst ?L)" by (simp add: Domain_fst)
  have "mset_set (set (map fst ?L)) = mset (map fst ?L)"
    by (rule mset_set_set [OF live_rows_distinct])
  then have "table_rows (mem_view m) t = image_mset (\<lambda>e. the (heap_read (mm_slots m t) (fst e))) (mset ?L)"
    by (simp add: table_rows_def dom multiset.map_comp comp_def)
  also have "\<dots> = image_mset snd (mset ?L)"
    by (rule image_mset_cong) (auto simp: set_live_rows)
  finally show ?thesis by simp
qed

lemma mset_mem_join: "mset (mem_join j L R) = join_rows (jr_left_column j) (jr_right_column j) (mset L) (mset R)"
  by (induction L) (simp_all add: mem_join_def join_rows_def mset_filter)

lemma hash_structure: "structure_of ''external_hash'' = Inr ST_EXTERNAL_HASH"
  by code_simp

interpretation heap_query: query_db "mem_query key" mem_view key for key
proof -
  have "dml_core (mem_query key) mem_view key"
    using heap.dml_core_axioms [of key] unfolding dml_core_def by simp
  moreover have "query_db_axioms (mem_query key) mem_view key"
    unfolding query_db_axioms_def reader_def
    by (auto simp: mem_query_fields io_return_def mset_live_rows [symmetric] mset_filter mset_mem_join
        filter_mset_image_mset key_within_def hash_structure)
  ultimately show "query_db (mem_query key) mem_view key" by (rule query_db.intro)
qed

lemma mem_query_reliable: "reads_reliable (mem_query key) ixs"
  using mem_reliable(2)
  by (simp add: reads_reliable_def handles_open_def returns_def mem_query_fields io_return_def)

lemma mem_query_ranges: "range_supported (mem_query key) t ixs"
  by (simp add: range_supported_def mem_query_fields)

end
