(* ===== verification/Transaction_Heap.thy ===== *)
theory Transaction_Heap
  imports Heap_Core
begin

text \<open>
  Transactions over the heap in memory: a run that a rollback undoes, and the run that it does not,
  because undoing a DELETE gives a row of the same transaction another RID than the one its INSERT
  recorded.
\<close>

definition demo_key :: "string \<Rightarrow> nat" where
  "demo_key t = 0"

definition demo_ty :: "string \<Rightarrow> native_type" where
  "demo_ty t = ND_INT"

definition demo_ixs :: "string \<Rightarrow> index_ref list" where
  "demo_ixs t = (if t = ''t'' then [(''i'', 1)] else [])"

definition pair_row :: "int \<Rightarrow> int \<Rightarrow> native_record" where
  "pair_row k v = [NInt k, NInt v]"

abbreviation demo_core :: "mem core" where
  "demo_core \<equiv> mem_core demo_key"

definition demo_insert :: "native_record \<Rightarrow> (mem, rid) io" where
  "demo_insert r = insert_with_indexes demo_core ''t'' r (demo_key ''t'') (demo_ixs ''t'')"

definition demo_delete :: "delete_candidate \<Rightarrow> (mem, nat) io" where
  "demo_delete c = delete_with_indexes demo_core ''t'' [c] (demo_key ''t'') (demo_ixs ''t'')"

definition demo_candidate :: "nat \<Rightarrow> native_record \<Rightarrow> delete_candidate" where
  "demo_candidate slot r = \<lparr>dc_rid = Some (RID 1 slot), dc_record = r\<rparr>"

definition empty_mem :: mem where
  "empty_mem = \<lparr>mm_slots = (\<lambda>t. []), mm_entries = (\<lambda>t n. [])\<rparr>"

definition demo_mem :: mem where
  "demo_mem = snd (demo_insert (pair_row 2 20) (snd (demo_insert (pair_row 1 10) empty_mem)))"

lemma demo_reliable: "reliable demo_core mem_view demo_key demo_ty demo_ixs"
  using mem_reliable by (simp add: reliable_def table_shape_def demo_ixs_def)

lemma pair_row_fits: "row_fits (demo_key ''t'') (demo_ty ''t'') (demo_ixs ''t'') (pair_row k v)"
  by (simp add: row_fits_def demo_key_def demo_ty_def demo_ixs_def pair_row_def)

lemma demo_insert_kept:
  assumes "all_kept demo_key demo_ty demo_ixs (mem_view m)" "fst (demo_insert (pair_row k v) m) = Inr rid"
  shows "all_kept demo_key demo_ty demo_ixs (mem_view (snd (demo_insert (pair_row k v) m)))"
  using heap.insert_run(1) [OF demo_reliable assms(1) pair_row_fits] assms(2)
  unfolding demo_insert_def by (metis prod.collapse)

lemma demo_mem_kept: "all_kept demo_key demo_ty demo_ixs (mem_view demo_mem)"
proof -
  have "heap_read [] = Map.empty" by (auto simp: heap_read_def)
  then have "all_kept demo_key demo_ty demo_ixs (mem_view empty_mem)"
    by (simp add: all_kept_def well_kept_def keys_unique_def empty_mem_def index_of_def)
  moreover have "fst (demo_insert (pair_row 1 10) empty_mem) = Inr (RID 1 0)"
    "fst (demo_insert (pair_row 2 20) (snd (demo_insert (pair_row 1 10) empty_mem))) = Inr (RID 1 1)"
    by code_simp+
  ultimately show ?thesis unfolding demo_mem_def by (metis demo_insert_kept)
qed

section \<open>The states of a run\<close>

text \<open>
  Every state of the runs below has rows in the table \<open>t\<close> and entries in its index \<open>i\<close> only, so it is
  given by two lists, on which the operations are computed.
\<close>

definition canon :: "native_record option list \<Rightarrow> (native_value \<times> rid) list \<Rightarrow> mem" where
  "canon s e = \<lparr>mm_slots = (\<lambda>t. if t = ''t'' then s else []),
     mm_entries = (\<lambda>t n. if t = ''t'' \<and> n = ''i'' then e else [])\<rparr>"

lemma canon_insert:
  "demo_insert (pair_row k v) (canon s e) =
     (if list_ex (has_key 0 (NInt k)) s
      then (Inl (NativeError NE_DUPLICATE_KEY (''la clave primaria ya existe en '' @ ''t'')), canon s e)
      else (let rid = RID 1 (find_slot (\<lambda>x. x = None) s)
            in (Inr rid, canon (put_slot (pair_row k v) s) (e @ [(NInt v, rid)]))))"
  by (simp add: demo_insert_def insert_with_indexes_def io_simps io_then_def io_bind_def open_handles_def
      canon_def demo_ixs_def demo_key_def mem_insert_def pair_row_def Let_def insert_entries_def io_lift_def
      io_local_def io_outer_def io_return_def mem_entry_insert_def fun_eq_iff py_index_def)


lemma canon_delete:
  assumes "find_slot (has_key 0 (NInt k)) s < length s" "(NInt v, RID 1 slot) \<in> set e"
  shows "demo_delete (demo_candidate slot (pair_row k v)) (canon s e) =
     (Inr 1, canon (s[find_slot (has_key 0 (NInt k)) s := None]) (remove1 (NInt v, RID 1 slot) e))"
  using assms
  by (simp add: demo_delete_def delete_with_indexes_def demo_candidate_def io_simps io_then_def io_bind_def
      open_handles_def canon_def demo_ixs_def demo_key_def mem_remove_def pair_row_def Let_def remove_all_def
      remove_entry_def remove_row_def enumerate_eq_zip
      io_lift_def io_local_def io_outer_def io_return_def mem_entry_remove_def fun_eq_iff py_index_def)

lemma empty_canon: "empty_mem = canon [] []"
  by (simp add: empty_mem_def canon_def fun_eq_iff)

lemma has_key_pair [simp]: "has_key 0 k (Some (pair_row a b)) \<longleftrightarrow> k = NInt a" "\<not> has_key 0 k None"
  by (auto simp: has_key_def pair_row_def)

lemmas canon_run = canon_insert canon_delete Let_def put_slot_def empty_canon

lemma demo_canon: "demo_mem = canon [Some (pair_row 1 10), Some (pair_row 2 20)] [(NInt 10, RID 1 0), (NInt 20, RID 1 1)]"
  unfolding demo_mem_def by (simp add: canon_run)

section \<open>Operations inside a transaction\<close>

definition tx_insert :: "int \<Rightarrow> int \<Rightarrow> nat \<Rightarrow> transaction \<Rightarrow> transaction" where
  "tx_insert k v slot = record_insert ''t'' (pair_row k v) (RID 1 slot) (demo_key ''t'') (demo_ixs ''t'')"

definition tx_delete :: "delete_candidate \<Rightarrow> transaction \<Rightarrow> transaction" where
  "tx_delete c = record_delete ''t'' [c] (demo_key ''t'') (demo_ixs ''t'')"

abbreviation demo_run :: "transaction \<Rightarrow> mem \<Rightarrow> bool" where
  "demo_run \<equiv> tx_run demo_core mem_view demo_key demo_ty demo_ixs demo_mem"

lemma demo_run_insert:
  assumes "demo_run tx m" "fst (demo_insert (pair_row k v) m) = Inr (RID 1 slot)"
  shows "demo_run (tx_insert k v slot tx) (snd (demo_insert (pair_row k v) m))"
  using tx_run.insert_tx [OF assms(1) pair_row_fits] assms(2)
  unfolding demo_insert_def tx_insert_def by (metis prod.collapse)

lemma demo_run_delete:
  assumes "demo_run tx m" "fst (demo_delete (demo_candidate slot r) m) = Inr 1"
    and "heap_read (mm_slots m ''t'') (RID 1 slot) = Some r"
  shows "demo_run (tx_delete (demo_candidate slot r) tx) (snd (demo_delete (demo_candidate slot r) m))"
proof -
  have "stands ''t'' (demo_ixs ''t'') (mem_view m) [demo_candidate slot r] [RID 1 slot]"
    using assms(3) by (simp add: stands_def demo_candidate_def)
  from tx_run.delete_tx [OF assms(1) this] show ?thesis
    using assms(2) unfolding demo_delete_def tx_delete_def by (metis prod.collapse)
qed

section \<open>A transaction that is undone\<close>

definition good_mem :: "nat \<Rightarrow> mem" where
  "good_mem i =
     (let m1 = snd (demo_insert (pair_row 3 30) demo_mem)
      in if i = 1 then m1 else snd (demo_delete (demo_candidate 0 (pair_row 1 10)) m1))"

definition good_tx :: transaction where
  "good_tx = tx_delete (demo_candidate 0 (pair_row 1 10)) (tx_insert 3 30 2
     ((new_transaction 7)\<lparr>tx_locked := [(''t'', LM_EXCLUSIVE)]\<rparr>))"

definition good_locks :: lock_manager where
  "good_locks = [''t'' \<mapsto> \<lparr>tl_mode = Some LM_EXCLUSIVE, tl_owners = {7}\<rparr>]"

lemma good_run: "demo_run good_tx (good_mem 2)"
proof -
  have "fst (demo_insert (pair_row 3 30) demo_mem) = Inr (RID 1 2)"
    "fst (demo_delete (demo_candidate 0 (pair_row 1 10)) (good_mem 1)) = Inr 1"
    "heap_read (mm_slots (good_mem 1) ''t'') (RID 1 0) = Some (pair_row 1 10)"
    by code_simp+
  then show ?thesis
    unfolding good_tx_def good_mem_def Let_def
    by (simp add: demo_run_insert demo_run_delete tx_run.lock_tx tx_run.begin_tx)
qed


section \<open>A transaction that is not\<close>

text \<open>
  The rows with keys 1 and 2 are in the slots 0 and 1. The transaction inserts the row 3, in the slot
  2, and deletes the rows 1 and 3. Undoing the second deletion puts the row 3 in the first free slot,
  0, so the recorded RID of its insertion is no longer its own.
\<close>

definition lost_mem :: "nat \<Rightarrow> mem" where
  "lost_mem i =
     (let m1 = snd (demo_insert (pair_row 3 30) demo_mem);
          m2 = snd (demo_delete (demo_candidate 0 (pair_row 1 10)) m1)
      in if i = 1 then m1 else if i = 2 then m2
         else snd (demo_delete (demo_candidate 2 (pair_row 3 30)) m2))"

definition lost_tx :: transaction where
  "lost_tx = tx_delete (demo_candidate 2 (pair_row 3 30))
     (tx_delete (demo_candidate 0 (pair_row 1 10)) (tx_insert 3 30 2 (new_transaction 7)))"

lemma lost_canon: "lost_mem 3 = canon [None, Some (pair_row 2 20), None] [(NInt 20, RID 1 1)]"
  unfolding lost_mem_def by (simp add: canon_run demo_canon)

lemma lost_run: "demo_run lost_tx (lost_mem 3)"
proof -
  have "fst (demo_insert (pair_row 3 30) demo_mem) = Inr (RID 1 2)"
    "fst (demo_delete (demo_candidate 0 (pair_row 1 10)) (lost_mem 1)) = Inr 1"
    "heap_read (mm_slots (lost_mem 1) ''t'') (RID 1 0) = Some (pair_row 1 10)"
    "fst (demo_delete (demo_candidate 2 (pair_row 3 30)) (lost_mem 2)) = Inr 1"
    "heap_read (mm_slots (lost_mem 2) ''t'') (RID 1 2) = Some (pair_row 3 30)"
    by code_simp+
  then show ?thesis
    unfolding lost_tx_def lost_mem_def Let_def
    by (simp add: demo_run_insert demo_run_delete tx_run.begin_tx)
qed


section \<open>Single statements\<close>

lemma demo_mem_well_kept:
  "well_kept ''t'' (demo_key ''t'') (demo_ty ''t'') (demo_ixs ''t'') (mem_view demo_mem)"
  using demo_mem_kept by (simp add: all_kept_def)

lemma demo_dml_core: "dml_core demo_core mem_view demo_key"
  by (rule heap.dml_core_axioms)

lemma demo_shape: "table_shape (demo_ixs ''t'')"
  by (simp add: table_shape_def demo_ixs_def)



end
