(* ===== verification/Heap_Session.thy ===== *)
theory Heap_Session
  imports Heap_Query Transaction_Heap
begin

text \<open>
  Concrete runs over the core in memory: a SELECT with a join and an index, and the atomic load, into a
  table with an index, of a CSV whose second row repeats a key.
\<close>

section \<open>A SELECT\<close>

definition pair_schema :: "string \<Rightarrow> string \<Rightarrow> string \<Rightarrow> bound_schema" where
  "pair_schema t a b =
     \<lparr>bs_table_name = t, bs_columns = [BoundColumn a SQL_INT None, BoundColumn b SQL_INT None],
      bs_key_column = 0\<rparr>"

definition pair_catalog :: catalog where
  "pair_catalog = [(''t'', pair_schema ''t'' ''k'' ''v''), (''u'', pair_schema ''u'' ''id'' ''k_t'')]"

definition pair_metadata :: metadata_map where
  "pair_metadata =
     [(''t'', \<lparr>tm_name = ''t'', tm_structure = ST_HEAP,
        tm_indexes = [\<lparr>im_name = ''i'', im_column = 1, im_structure = ST_BPLUS_UNCLUSTERED,
                       im_supports_range = True\<rparr>], tm_rows = Some 2\<rparr>),
      (''u'', \<lparr>tm_name = ''u'', tm_structure = ST_HEAP, tm_indexes = [], tm_rows = Some 2\<rparr>)]"

text \<open>\<open>SELECT * FROM t JOIN u ON t.k = u.k_t WHERE t.v > 15 LIMIT 5\<close>.\<close>

definition pair_select :: select_statement where
  "pair_select =
     (let col = (\<lambda>t c. ColumnReference (Identifier c demo_span) demo_span (Some (Identifier t demo_span)))
      in \<lparr>se_projections = [PWildcard demo_span],
          se_source = JoinRef (TableRef (Identifier ''t'' demo_span) demo_span)
            (TableRef (Identifier ''u'' demo_span) demo_span) (col ''t'' ''k'') (col ''u'' ''k_t'') demo_span,
          se_where = Some (ComparisonCondition (col ''t'' ''v'') OP_GREATER_THAN (IntegerLiteral 15 demo_span)
            demo_span),
          se_group_by = None, se_order_by = None, se_span = demo_span, se_limit = Some (Limit 5 demo_span)\<rparr>)"

definition insert_u :: "native_record \<Rightarrow> (mem, rid) io" where
  "insert_u r = insert_with_indexes demo_core ''u'' r (demo_key ''u'') (demo_ixs ''u'')"

definition pair_mem :: mem where
  "pair_mem = snd (insert_u (pair_row 8 1) (snd (insert_u (pair_row 7 2) demo_mem)))"

lemma pair_mem_slots:
  "mm_slots pair_mem ''t'' = [Some (pair_row 1 10), Some (pair_row 2 20)]"
  "mm_slots pair_mem ''u'' = [Some (pair_row 7 2), Some (pair_row 8 1)]"
  by code_simp+

text \<open>The two inserts leave the table \<open>t\<close> as it was.\<close>

lemma pair_canon:
  "pair_mem = \<lparr>mm_slots = (\<lambda>t. if t = ''t'' then [Some (pair_row 1 10), Some (pair_row 2 20)]
       else if t = ''u'' then [Some (pair_row 7 2), Some (pair_row 8 1)] else []),
     mm_entries = mm_entries (canon [] [(NInt 10, RID 1 0), (NInt 20, RID 1 1)])\<rparr>"
  by (simp add: pair_mem_def insert_u_def demo_canon canon_def insert_with_indexes_def io_simps io_then_def
      io_bind_def open_handles_def demo_ixs_def demo_key_def mem_insert_def pair_row_def Let_def
      insert_entries_def io_lift_def io_local_def io_outer_def io_return_def fun_eq_iff py_index_def
      has_key_def put_slot_def)

lemma pair_mem_kept: "all_kept demo_key demo_ty demo_ixs (mem_view pair_mem)"
proof -
  have fits: "row_fits (demo_key ''u'') (demo_ty ''u'') (demo_ixs ''u'') (pair_row k v)" for k v
    by (simp add: row_fits_def demo_key_def demo_ty_def demo_ixs_def pair_row_def)
  have step: "all_kept demo_key demo_ty demo_ixs (mem_view (snd (insert_u (pair_row k v) m)))"
    if "all_kept demo_key demo_ty demo_ixs (mem_view m)" "fst (insert_u (pair_row k v) m) = Inr rid"
    for k v m rid
    using heap.insert_run(1) [OF demo_reliable that(1) fits] that(2)
    unfolding insert_u_def by (metis prod.collapse)
  have "fst (insert_u (pair_row 7 2) demo_mem) = Inr (RID 1 0)"
    "fst (insert_u (pair_row 8 1) (snd (insert_u (pair_row 7 2) demo_mem))) = Inr (RID 1 1)"
    by code_simp+
  then show ?thesis unfolding pair_mem_def using demo_mem_kept by (metis step)
qed

lemma pair_tables_kept:
  assumes "(t, s) \<in> set pair_catalog" "(t, tm) \<in> set pair_metadata"
  shows "table_kept demo_key demo_ty demo_ixs (mem_view pair_mem) tm s"
proof -
  have row: "row_stored (pair_schema t a b) (pair_row x y)"
    if "int32_min \<le> x" "x \<le> int32_max" "int32_min \<le> y" "y \<le> int32_max" for t a b x y
    using row_stored_values(1) [of "[VInt x, VInt y]" "pair_schema t a b"] that
    by (simp add: pair_schema_def pair_row_def to_native_values_def)
  have rows: "row_stored (pair_schema ''t'' ''k'' ''v'') (pair_row 1 10)"
    "row_stored (pair_schema ''t'' ''k'' ''v'') (pair_row 2 20)"
    "row_stored (pair_schema ''u'' ''id'' ''k_t'') (pair_row 7 2)"
    "row_stored (pair_schema ''u'' ''id'' ''k_t'') (pair_row 8 1)"
    by (rule row; simp add: int32_min_def int32_max_def)+
  have kept: "well_kept t (demo_key t) (demo_ty t) (demo_ixs t) (mem_view pair_mem)" for t
    using pair_mem_kept by (simp add: all_kept_def)
  show ?thesis
    using assms rows kept
    by (auto simp: pair_catalog_def pair_metadata_def table_kept_def pair_schema_def ran_heap_read
        pair_mem_slots demo_key_def demo_ixs_def)
qed

lemma case_right: "(case x of Inl e \<Rightarrow> False | Inr b \<Rightarrow> P b) \<longleftrightarrow> (\<exists>b. x = Inr b \<and> P b)"
  by (cases x) simp_all


section \<open>A load\<close>

text \<open>
  A database of tables with the metadata given; tables and indexes are neither created nor dropped.
  The settings of a processor alone: nobody else takes locks or writes while it waits.
\<close>

definition mem_db ::
  "(string \<Rightarrow> nat) \<Rightarrow> (string \<Rightarrow> (native_schema \<times> string \<times> native_index list) option) \<Rightarrow> mem db_core" where
  "mem_db key info =
     query_core.extend (mem_query key)
       (db_core.fields
         (\<lambda>t. case info t of None \<Rightarrow> io_raise (NativeError NE_SCHEMA []) | Some i \<Rightarrow> io_return i)
         (\<lambda>s kind. no_index) (\<lambda>t. no_index) (\<lambda>t n c kind. no_index) (\<lambda>t n c options. no_index)
         (\<lambda>t n c metric. no_index) (\<lambda>t n c centers. no_index) (\<lambda>t n. no_index))"

lemma mem_db_simps [simp]:
  "co_table (mem_db key info) t = io_return ()" "co_index (mem_db key info) t n = io_return ()"
  "co_insert (mem_db key info) = mem_insert key" "co_remove (mem_db key info) = mem_remove key"
  "co_read (mem_db key info) t rid m = (Inr (heap_read (mm_slots m t) rid), m)"
  "ci_insert (mem_db key info) = mem_entry_insert" "ci_remove_one (mem_db key info) = mem_entry_remove"
  by (simp_all add: mem_db_def query_core.extend_def db_core.fields_def mem_query_fields)

interpretation heap_db: dml_core "mem_db key info" mem_view key for key info
  using heap.dml_core_axioms [of key] unfolding dml_core_def by simp

lemma mem_db_reliable:
  assumes "\<forall>t. table_shape (ixs t)"
  shows "reliable (mem_db key info) mem_view key ty ixs"
  using assms mem_reliable [of key]
  by (auto simp: reliable_def removals_reliable_def handles_open_def insertions_reliable_def)

definition lone_env :: lock_env where
  "lone_env = \<lparr>le_clock = (\<lambda>i. Fin (of_nat i)), le_others = (\<lambda>i lm. lm)\<rparr>"

definition mem_settings :: "libm \<Rightarrow> mem external_core \<Rightarrow> (mem, unit) settings" where
  "mem_settings lm X =
     \<lparr>pe_core = mem_db demo_key (\<lambda>t. None), pe_libm = lm, pe_external = X,
      pe_options = \<lparr>eo_buffers = 8, eo_page_size = 4096, eo_temp_dir = None\<rparr>,
      pe_row_fuel = 100, pe_timeout = default_lock_timeout, pe_fuel = 9,
      pe_lock_env = (\<lambda>k. lone_env), pe_meanwhile = (\<lambda>k m. m)\<rparr>"

definition pair_target :: load_target where
  "pair_target =
     \<lparr>ld_table = ''t'', ld_schema = pair_schema ''t'' ''k'' ''v'', ld_refs = demo_ixs ''t'',
      ld_header = \<lparr>ch_fields = [''k'', ''v''], ch_delimiter = CHR '','', ch_line = 1\<rparr>, ld_mapping = [0, 1]\<rparr>"

definition load_tx :: transaction where
  "load_tx = (new_transaction 4)\<lparr>tx_locked := [(''t'', LM_EXCLUSIVE)]\<rparr>"

definition load_session :: "mem session" where
  "load_session =
     \<lparr>ss_tx = None, ss_locks = [''t'' \<mapsto> \<lparr>tl_mode = Some LM_EXCLUSIVE, tl_owners = {4}\<rparr>],
      ss_core = demo_mem, ss_owner = 3, ss_fresh = 5, ss_waits = 1\<rparr>"

definition repeated_file :: "csv_line list" where
  "repeated_file = map CsvText [''3,30'' @ [CHR 0x0A], '' 2 ,99'' @ [CHR 0x0A], ''4,40'']"


end
