(* ===== verification/Bulk_Load_Spec.thy ===== *)
theory Bulk_Load_Spec
  imports Bulk_Load
begin

text \<open>
  The encoding of a file does not depend on how it is read: the decoder keeps the bytes of a sequence
  that a chunk cuts, the search for a sequence of several bytes keeps the last byte, and the line of
  an error counts the lines of the chunks before.
\<close>

section \<open>The decoder by parts\<close>

declare utf8_decode.simps [simp del]

lemma utf8_size_le: "utf8_size a \<le> 4"
  by (simp add: utf8_size_def)

lemma utf8_prefix_take: "utf8_prefix bs \<Longrightarrow> utf8_prefix (take k bs)"
proof (cases bs)
  case (Cons a r)
  assume p: "utf8_prefix bs"
  show ?thesis
  proof (cases k)
    case (Suc j)
    then show ?thesis
      using p Cons by (cases r; cases j) (auto simp: utf8_prefix_def dest: in_set_takeD simp: list_all_iff)
  qed (simp add: utf8_prefix_def)
qed simp

lemma utf8_prefix_high: "utf8_prefix (a # r) \<Longrightarrow> r \<noteq> [] \<Longrightarrow> \<forall>b \<in> set (a # r). 128 \<le> b"
  by (cases r) (auto simp: utf8_prefix_def utf8_size_def utf8_second_def utf8_tail_def list_all_iff
      split: if_splits)

text \<open>Decoding two parts: the second one starts with the bytes that the first one left.\<close>

lemma utf8_decode_append:
  "utf8_decode i (xs @ ys) =
     (case utf8_decode i xs of
        InvalidAt p \<Rightarrow> InvalidAt p
      | Pending kept \<Rightarrow> utf8_decode (i + length xs - length kept) (kept @ ys))"
proof (induction i xs rule: utf8_decode.induct)
  case (1 i)
  then show ?case by (simp add: utf8_decode.simps)
next
  case (2 i a r)
  let ?n = "utf8_size a"
  show ?case
  proof (cases "?n = 0 \<or> \<not> utf8_prefix (take ?n (a # r))")
    case True
    have "\<not> utf8_prefix (take ?n ((a # r) @ ys))" if "\<not> utf8_prefix (take ?n (a # r))"
      using that utf8_prefix_take [of "take ?n ((a # r) @ ys)" "length (take ?n (a # r))"]
      by (auto simp: min_def take_Cons' split: if_splits)
    then show ?thesis
      using True by (auto simp: utf8_decode.simps(2) [of i a r] utf8_decode.simps(2) [of i a "r @ ys"] Let_def)
  next
    case False
    show ?thesis
    proof (cases "length (a # r) < ?n")
      case True
      then show ?thesis using False by (simp add: utf8_decode.simps(2) [of i a r] Let_def)
    next
      case long: False
      have IH: "utf8_decode (i + ?n) (drop ?n (a # r) @ ys) =
          (case utf8_decode (i + ?n) (drop ?n (a # r)) of
             InvalidAt p \<Rightarrow> InvalidAt p
           | Pending kept \<Rightarrow> utf8_decode (i + ?n + length (drop ?n (a # r)) - length kept) (kept @ ys))"
        using "2.IH" [OF refl] False long by simp
      have eq: "take ?n ((a # r) @ ys) = take ?n (a # r)" "drop ?n ((a # r) @ ys) = drop ?n (a # r) @ ys"
        "i + ?n + length (drop ?n (a # r)) = i + length (a # r)"
        using long by (simp_all only: take_append drop_append not_less diff_is_0_eq take_0 drop_0 append_Nil2) auto
      have "utf8_decode i ((a # r) @ ys) = utf8_decode (i + ?n) (drop ?n (a # r) @ ys)"
        using False long eq(1,2) by (simp add: utf8_decode.simps(2) [of i a "r @ ys"] Let_def)
      moreover have "utf8_decode i (a # r) = utf8_decode (i + ?n) (drop ?n (a # r))"
        using False long by (simp add: utf8_decode.simps(2) [of i a r] Let_def)
      ultimately show ?thesis unfolding IH eq(3) append_Cons by (simp only: eq(3))
    qed
  qed
qed

lemma utf8_pending:
  "utf8_decode i xs = Pending kept \<Longrightarrow> (\<exists>done. xs = done @ kept) \<and> newlines kept = 0"
proof (induction i xs rule: utf8_decode.induct)
  case (2 i a r)
  let ?n = "utf8_size a"
  show ?case
  proof (cases "length (a # r) < ?n")
    case True
    then have kept: "kept = a # r" and p: "utf8_prefix (a # r)"
      using "2.prems" by (auto simp: utf8_decode.simps(2) Let_def split: if_splits)
    have "a \<noteq> 10" using True by (auto simp: utf8_size_def)
    then have "10 \<notin> set (a # r)" using utf8_prefix_high [OF p] by fastforce
    then show ?thesis by (simp add: kept newlines_def count_list_0_iff)
  next
    case False
    then have "?n \<noteq> 0" "utf8_decode (i + ?n) (drop ?n (a # r)) = Pending kept"
      "\<not> (?n = 0 \<or> \<not> utf8_prefix (take ?n (a # r)))"
      using "2.prems" by (auto simp: utf8_decode.simps(2) [of i a r] Let_def split: if_splits)
    then obtain d where "drop ?n (a # r) = d @ kept" "newlines kept = 0"
      using "2.IH" [OF refl] False by auto
    then have "a # r = (take ?n (a # r) @ d) @ kept" by (metis append.assoc append_take_drop_id)
    then show ?thesis using \<open>newlines kept = 0\<close> by blast
  qed
qed (simp add: utf8_decode.simps newlines_def)

lemma utf8_decode_shift:
  "utf8_decode (i + k) xs = (case utf8_decode i xs of InvalidAt p \<Rightarrow> InvalidAt (p + k) | Pending kept \<Rightarrow> Pending kept)"
proof (induction i xs rule: utf8_decode.induct)
  case (2 i a r)
  then show ?case
    by (cases "utf8_size a = 0 \<or> \<not> utf8_prefix (take (utf8_size a) (a # r)) \<or> length (a # r) < utf8_size a")
      (auto simp: utf8_decode.simps(2) [of _ a r] Let_def ac_simps)
qed (simp add: utf8_decode.simps)

section \<open>The whole file\<close>

definition utf8_error :: "bytes \<Rightarrow> exn + unit" where
  "utf8_error file =
     (case utf8_decode 0 file of
        InvalidAt p \<Rightarrow>
          let here = 1 + newlines (take p file) in
          csv_load_error (''el archivo no es UTF-8 valido (linea '' @ show_int (int here)
            @ ''); guardalo como UTF-8 y vuelve a subirlo'') (Some (int here))
      | Pending kept \<Rightarrow>
          if kept \<noteq> [] then
            csv_load_error ''el archivo termina a mitad de un caracter UTF-8''
              (Some (int (1 + newlines file)))
          else Inr ())"

definition encoding_of :: "bytes \<Rightarrow> exn + string" where
  "encoding_of file =
     (case utf8_error file of
        Inr _ \<Rightarrow> Inr ''utf-8''
      | Inl e \<Rightarrow> if has_multibyte file \<or> \<not> list_all cp1252_ok file then Inl e else Inr ''cp1252'')"

lemma newlines_append [simp]: "newlines (xs @ ys) = newlines xs + newlines ys"
  by (simp add: newlines_def)

lemma utf8_invalid_within: "utf8_decode i xs = InvalidAt p \<Longrightarrow> i \<le> p \<and> p < i + length xs"
proof (induction i xs rule: utf8_decode.induct)
  case (2 i a r)
  let ?n = "utf8_size a"
  show ?case
  proof (cases "?n = 0 \<or> \<not> utf8_prefix (take ?n (a # r))")
    case True
    then show ?thesis using "2.prems" by (auto simp: utf8_decode.simps(2) Let_def)
  next
    case False
    then have long: "\<not> length (a # r) < ?n" and d: "utf8_decode (i + ?n) (drop ?n (a # r)) = InvalidAt p"
      using "2.prems" by (auto simp: utf8_decode.simps(2) [of i a r] Let_def split: if_splits)
    from "2.IH" [OF refl False long d] show ?thesis using False long by auto
  qed
qed (simp add: utf8_decode.simps)

text \<open>
  The chunks read so far leave the pending bytes, and the line is that of the first byte after them:
  from there on the check says what it says of the whole file.
\<close>

lemma check_chunks_whole:
  assumes "utf8_decode 0 seen = Pending kept"
  shows "check_chunks cs (1 + newlines seen) kept = utf8_error (seen @ concat cs)"
  using assms
proof (induction cs arbitrary: seen kept)
  case Nil
  then show ?case by (simp add: utf8_error_def)
next
  case (Cons chunk cs)
  obtain before where seen: "seen = before @ kept" and none: "newlines kept = 0"
    using utf8_pending [OF Cons.prems] by blast
  have all: "utf8_decode 0 (seen @ ys) =
      (case utf8_decode 0 (kept @ ys) of InvalidAt p \<Rightarrow> InvalidAt (p + length before) | Pending k \<Rightarrow> Pending k)"
    for ys
  proof -
    have "utf8_decode 0 (seen @ ys) = utf8_decode (0 + length before) (kept @ ys)"
      using utf8_decode_append [of 0 seen ys] Cons.prems by (simp add: seen)
    then show ?thesis using utf8_decode_shift [of 0 "length before" "kept @ ys"] by simp
  qed
  show ?case
  proof (cases "utf8_decode 0 (kept @ chunk)")
    case (InvalidAt p)
    have "utf8_decode 0 (kept @ chunk @ concat cs) = InvalidAt p"
      using utf8_decode_append [of 0 "kept @ chunk" "concat cs"] by (simp add: InvalidAt)
    then have whole: "utf8_decode 0 (seen @ chunk @ concat cs) = InvalidAt (p + length before)"
      by (simp add: all)
    have inside: "p - (length kept + length chunk) = 0" using utf8_invalid_within [OF InvalidAt] by simp
    then have "take (p + length before) (seen @ chunk @ concat cs)
        = before @ take p kept @ take (p - length kept) chunk"
      by (simp add: seen inside)
    moreover have "newlines (take p kept) = 0"
      using none newlines_append [of "take p kept" "drop p kept"] by (simp del: newlines_append)
    ultimately have "newlines (take (p + length before) (seen @ chunk @ concat cs))
        = newlines seen + newlines (take (p - length kept) chunk)"
      using none by (simp only: newlines_append seen)
    then show ?thesis by (simp add: InvalidAt utf8_error_def whole ac_simps)
  next
    case (Pending k)
    then have "utf8_decode 0 (seen @ chunk) = Pending k" by (simp add: all)
    from Cons.IH [OF this] show ?thesis by (simp add: Pending ac_simps)
  qed
qed

lemma concat_chunks: "0 < n \<Longrightarrow> concat (chunks_of n bs) = bs \<and> [] \<notin> set (chunks_of n bs)"
proof (induction n bs rule: chunks_of.induct)
  case (1 n bs)
  then show ?case by (cases "bs = []") (simp_all add: chunks_of.simps [of n bs] chunks_of.simps [of n "[]"])
qed

lemma check_utf8_whole: "0 < n \<Longrightarrow> check_utf8 file n = utf8_error file"
  using check_chunks_whole [of "[]" "[]" "chunks_of n file"]
  by (simp add: check_utf8_def concat_chunks utf8_decode.simps newlines_def)

lemma has_multibyte_append:
  "xs \<noteq> [] \<Longrightarrow> has_multibyte (xs @ ys) \<longleftrightarrow> has_multibyte xs \<or> has_multibyte (last xs # ys)"
  by (induction xs rule: has_multibyte.induct) auto

lemma multibyte_chunks_whole:
  "[] \<notin> set cs \<Longrightarrow> length left_over \<le> 1 \<Longrightarrow> multibyte_chunks cs left_over = has_multibyte (left_over @ concat cs)"
proof (induction cs arbitrary: left_over)
  case Nil
  then show ?case by (cases left_over) auto
next
  case (Cons chunk cs)
  then have "last (left_over @ chunk) = last chunk" "left_over @ chunk \<noteq> []" by auto
  then show ?case
    using Cons has_multibyte_append [of "left_over @ chunk" "concat cs"] by (simp del: last_append)
qed

text \<open>
  Claim C15. The encoding found does not depend on the size of the chunks the file is read in: it is
  UTF-8 when the whole file decodes; when it does not, it is cp1252 when the file has no sequence of
  several bytes and no byte that cp1252 leaves out, and otherwise the error, with the line of the
  first byte that is wrong counted over the whole file.
\<close>

theorem detect_encoding_whole:
  assumes "0 < n"
  shows "detect_encoding file n = encoding_of file"
proof -
  let ?cs = "chunks_of n file"
  have whole: "concat ?cs = file" "[] \<notin> set ?cs" using concat_chunks [OF assms] by simp_all
  have "list_all (list_all cp1252_ok) ?cs \<longleftrightarrow> list_all cp1252_ok (concat ?cs)"
    by (auto simp: list_all_iff)
  then show ?thesis
    using multibyte_chunks_whole [of ?cs "[]"]
    by (simp add: detect_encoding_def encoding_of_def check_utf8_whole [OF assms] whole split: sum.split)
qed

text \<open>Two lines in cp1252, then one in UTF-8 whose letter falls on two chunks, and a broken one.\<close>

lemma detect_encoding_whole_witness:
  "detect_encoding [97, 10, 241, 98] 2 = encoding_of [97, 10, 241, 98]
   \<and> encoding_of [97, 10, 241, 98] = Inr ''cp1252''
   \<and> detect_encoding [97, 195, 177, 10] 2 = encoding_of [97, 195, 177, 10]
   \<and> encoding_of [97, 195, 177, 10] = Inr ''utf-8''
   \<and> detect_encoding [97, 195, 177, 10, 98, 241] 2 = encoding_of [97, 195, 177, 10, 98, 241]
   \<and> encoding_of [97, 195, 177, 10, 98, 241]
      = csv_load_error ''el archivo termina a mitad de un caracter UTF-8'' (Some 2)"
proof -
  have "encoding_of [97, 10, 241, 98] = Inr ''cp1252''" "encoding_of [97, 195, 177, 10] = Inr ''utf-8''"
    "encoding_of [97, 195, 177, 10, 98, 241]
      = csv_load_error ''el archivo termina a mitad de un caracter UTF-8'' (Some 2)"
    by code_simp+
  then show ?thesis by (simp add: detect_encoding_whole)
qed

end
