(* ===== verification/Spec2Isabelle.thy ===== *)
theory Spec2Isabelle
  imports Sql_Semantic_Spec Planner_Optimizer_Spec Planner_Explain Processor Heap_Session Bulk_Load_Spec
begin

text \<open>
  QuipuDB: a verification library of the Python engine (\<open>src/engine/\<close>), a small relational database
  whose storage and indexes are a C++ library.

  \<^bold>\<open>The program.\<close> A script goes through \<open>QueryProcessor.execute\<close> (\<open>executor/processor.py\<close>): the lexer
  and the parser give statements, the semantic analysis binds each to the schemas of the catalog, the
  optimizer chooses a physical route, and an executor runs it on the native core: \<open>dml.py\<close> for INSERT
  and DELETE, \<open>operators.py\<close> for SELECT, \<open>external.py\<close> for a SELECT with a sort or a group,
  \<open>bulk_load.py\<close> and \<open>media_load.py\<close> for loads of files. Each statement takes table locks for a
  transaction, whose undo log gives back the rows when a script or a load is rolled back.

  \<^bold>\<open>Conventions\<close> (\<open>Quipu_Prelude\<close>, \<open>Sql_Span\<close>). Every Python exception the code raises, or lets through
  from the standard library or the core, is a constructor of \<open>exn\<close>, and a function that may raise
  returns \<open>exn + 'a\<close>, with \<open>ebind\<close>, \<open>emap\<close> and \<open>ecase\<close> for sequences and \<open>try\<close>. Python integers are
  \<open>int\<close>, with the ranges the code tests written out; a text is a \<open>string\<close>, whose characters are the
  code points 0 to 255. A computation with the core is a function \<open>('s, 'a) io\<close> from a state to a result
  and a state: a call that raises still leaves a state. Messages of the engine are written in Spanish, as in the
  source. The Python library the engine uses is modelled where it matters: doubles as exact rationals
  rounded to 53 bits (\<open>Py_Float\<close>), their \<open>repr\<close> (\<open>Py_Float_Text\<close>), dates (\<open>Py_Date\<close>), JSON values
  (\<open>Py_Json\<close>), the reader of \<open>csv\<close> (\<open>Csv_Reader\<close>) and the decoder of UTF-8 (\<open>Bulk_Load\<close>).

  \<^bold>\<open>The text of a query.\<close>
  \<^item> \<open>Sql_Span\<close>: \<open>parser/span.py\<close> and \<open>errors.py\<close>, spans and the message of a located error.
    \<open>Sql_Tokens\<close>, \<open>Sql_Lexer\<close>: \<open>tokens.py\<close> and \<open>lexer.py\<close>; the record \<open>lex\<close> is the state of \<open>_Lexer\<close>.
    \<open>Sql_Lexer_Spec\<close>: the invariant of that state, that the tokens cut the text exactly, round trips.
  \<^item> \<open>Sql_Ast\<close>, \<open>Sql_Parser\<close>: \<open>ast.py\<close> and \<open>parser.py\<close>; a parser function takes the state of \<open>_Parser\<close>
    and returns a result and the state. \<open>Sql_Parser_Spec\<close>: the contract of a parser of items as a
    locale, trees that respect the grammar, located errors, loops that end.
  \<^item> \<open>Bound_Ast\<close>, \<open>Sql_Semantic\<close>: \<open>bound_ast.py\<close> and \<open>semantic.py\<close>; an AST object compared by identity
    is its span. \<open>Sql_Semantic_Spec\<close>: validity of schemas and bound statements, and that binding a
    parsed statement never fails inside.

  \<^bold>\<open>The plan.\<close>
  \<^item> \<open>Planner_Plan\<close>: \<open>planner/plan.py\<close>, the tree of executed steps and its JSON form.
  \<^item> \<open>Planner_Optimizer\<close>: \<open>optimizer.py\<close> and \<open>native_catalog.py\<close>; a leaf of the FROM is its number, where
    the code compares objects. \<open>Planner_Optimizer_Spec\<close>: an index choice that does not depend on the
    order of the catalog, plans for every bound statement, the predicate on the leaf of its column.
  \<^item> \<open>Planner_Explain\<close>: \<open>explain.py\<close>.

  \<^bold>\<open>Execution.\<close>
  \<^item> \<open>Core_Interface\<close>, \<open>Query_Core\<close>, \<open>Session\<close>: the core as the records \<open>core\<close>, \<open>query_core\<close> and
    \<open>db_core\<close> of its operations, each extending the one before, over an abstract state.
  \<^item> \<open>Native_Values\<close>: \<open>executor/native.py\<close>; \<open>Native_Values_Spec\<close>: no value is lost, and the closed
    bounds built for an open range enclose every value of the column.
  \<^item> \<open>Executor_Predicates\<close>: \<open>predicates.py\<close> and \<open>spatial.py\<close>, with the functions of the C mathematical
    library as the parameter \<open>libm\<close>.
  \<^item> \<open>Dml\<close>: \<open>dml.py\<close>. \<open>Core_Contract\<close>: what the headers of the core promise of a change, as the locale
    \<open>dml_core\<close> over a view \<open>db\<close> (rows by RID and a multiset of entries for each index). \<open>Dml_Spec\<close>: INSERT and
    DELETE refine operations on that view and fail without a trace.
  \<^item> \<open>Transaction_Locks\<close>, \<open>Transaction\<close>: \<open>transactions/locks.py\<close> and \<open>transaction.py\<close>; an attempt to
    take a lock and a release are one step each, as the monitor makes them. \<open>Transaction_Spec\<close>: the
    relation \<open>lock_step\<close> of the threads with its invariant, the runs \<open>tx_run\<close> of a transaction, and
    what a rollback gives back.
  \<^item> \<open>Select_Executor\<close>: \<open>operators.py\<close> and \<open>instrumentation.py\<close>. \<open>Query_Contract\<close>: what the headers
    promise of a read, the locale \<open>query_db\<close>, which extends \<open>dml_core\<close>, and the rules \<open>reads_...\<close> for
    computations that only read. \<open>Query_Values\<close>: what a comparison means. \<open>Select_Routes\<close>: every route reads
    rows that answer the predicate. \<open>Select_Spec\<close>: a SELECT answers its query, whatever the plan.
  \<^item> \<open>External_Executor\<close>: \<open>external.py\<close>, and the candidates of \<open>vector_search.py\<close>.
  \<^item> \<open>Session\<close>, \<open>Processor\<close>: \<open>processor.py\<close> and \<open>result.py\<close>; the record \<open>session\<close> is the state of a
    processor (its transaction, the shared lock manager, the core), and \<open>settings\<close> its parameters.
  \<^item> \<open>Bulk_Load\<close>, \<open>Csv_Load\<close>: \<open>bulk_load.py\<close>, \<open>media_load.py\<close> and the loads of the processor.
    \<open>Csv_Load_Spec\<close>: an atomic load is all or nothing. \<open>Bulk_Load_Spec\<close>: the encoding of a file does not
    depend on its chunks.
  \<^item> \<open>Heap_Core\<close>, \<open>Heap_Query\<close>: a core in memory that keeps both contracts (the interpretations \<open>heap\<close>,
    \<open>heap_query\<close>). \<open>Transaction_Heap\<close>, \<open>Heap_Session\<close>: runs on it, which show that the hypotheses of the
    properties can hold, and a transaction that its rollback does not undo.

  \<^bold>\<open>Bounds and fuel.\<close> The loops of the parser take one more turn than there are tokens, which suffices
  because every turn consumes one (\<open>Sql_Parser_Spec\<close> proves that \<open>OutOfFuel\<close> is never returned). The
  wait for a lock has no bound in the source: it takes the number of attempts \<open>pe_fuel\<close>, and
  \<open>acquire_ends\<close> shows that it ends when that number covers the readings of the clock up to the
  deadline. A pipeline of \<open>external.py\<close> pulls at most \<open>pe_row_fuel\<close> rows for each row it gives. Every other
  function is total without fuel.

  \<^bold>\<open>Not modelled.\<close>
  \<^item> The C++ core and its bindings: the records of operations above are arguments of every definition
    that calls them, and the properties that need laws of theirs name them as hypotheses.
  \<^item> \<open>VectorSearch\<close> of \<open>vector_search.py\<close> and \<open>engine/multimedia\<close>: numeric code over numpy, OpenCV and
    librosa; the processor takes the extraction of features and the training of centroids as parameters.
  \<^item> \<open>media_path\<close> of \<open>media_load.py\<close>: symbolic links of the file system.
  \<^item> \<open>engine/api\<close>: HTTP endpoints and validation schemas. \<open>quipucamayoc/\<close>: a client application (PDF,
    downloads, language models). \<open>benchmarks/\<close>: scripts that measure. Frontends in TypeScript.
  \<^item> \<open>subtree_time_ms\<close> of \<open>plan.py\<close>: the rounding of Python's \<open>sum\<close> of doubles differs between versions.
\<close>

end
